(* ===== verification/Prelude.thy ===== *)
theory Prelude
  imports Main "HOL-Library.Word"
begin

text \<open>
  Shared ground of the development.

  A Go function with effects is a function from the state it works on to an \<open>outcome\<close>: it
  returns a value and a new state, it panics (with the state at that moment), or it never returns.
  \<open>go_bind\<close> is sequencing, \<open>go_defer\<close> is Go's \<^verbatim>\<open>defer\<close>, \<open>go_check\<close> is the idiom
  \<^verbatim>\<open>x, err := f(); if err != nil { ... }\<close>, and \<open>go_for\<close> is a \<^verbatim>\<open>for ... range\<close> loop whose body may
  return an error early. A call into code that is not part of the repository is a plain function
  \<open>'s \<Rightarrow> 'a \<times> 's\<close>; \<open>go_call\<close> turns it into a program that returns.

  The second half is the calculus the proofs use: \<open>wpp\<close> is the weakest precondition of a program
  for a postcondition on returning, one on panicking, and a flag saying whether not returning is
  acceptable. Its equations for the combinators are collected in \<open>wp_simps\<close>. \<open>stable\<close> is the special case
  of a property that a program keeps, with introduction rules instead of equations (\<open>stable_rules\<close>).
\<close>

named_theorems wp_simps \<open>weakest preconditions of the program combinators\<close>
named_theorems stable_rules \<open>programs that never break a property, one rule per combinator\<close>
named_theorems fmt_simps \<open>evaluation of the formatting functions\<close>

section \<open>Programs with effects\<close>

datatype ('s, 'a) outcome = Ret 'a 's | Panic string 's | Hang

type_synonym ('s, 'a) go = "'s \<Rightarrow> ('s, 'a) outcome"
type_synonym ('s, 'a) call = "'s \<Rightarrow> 'a \<times> 's"

definition go_return :: "'a \<Rightarrow> ('s, 'a) go" where
  "go_return a = (\<lambda>s. Ret a s)"

definition go_panic :: "string \<Rightarrow> ('s, 'a) go" where
  "go_panic p = (\<lambda>s. Panic p s)"

definition go_bind :: "('s, 'a) go \<Rightarrow> ('a \<Rightarrow> ('s, 'b) go) \<Rightarrow> ('s, 'b) go" where
  "go_bind m f = (\<lambda>s. case m s of Ret a s' \<Rightarrow> f a s' | Panic p s' \<Rightarrow> Panic p s' | Hang \<Rightarrow> Hang)"

definition go_call :: "('s, 'a) call \<Rightarrow> ('s, 'a) go" where
  "go_call m = (\<lambda>s. case m s of (a, s') \<Rightarrow> Ret a s')"

definition go_gets :: "('s \<Rightarrow> 'a) \<Rightarrow> ('s, 'a) go" where
  "go_gets f = (\<lambda>s. Ret (f s) s)"

definition go_modify :: "('s \<Rightarrow> 's) \<Rightarrow> ('s, unit) go" where
  "go_modify f = (\<lambda>s. Ret () (f s))"

text \<open>The error idiom: \<open>h\<close> is the branch taken when the call returned an error.\<close>

definition go_check ::
  "('s, 'e + 'a) go \<Rightarrow> ('e \<Rightarrow> ('s, 'b) go) \<Rightarrow> ('a \<Rightarrow> ('s, 'b) go) \<Rightarrow> ('s, 'b) go" where
  "go_check m h f = go_bind m (\<lambda>r. case r of Inl e \<Rightarrow> h e | Inr a \<Rightarrow> f a)"

text \<open>
  A deferred call runs when the function returns and also when it panics; its own result is
  dropped, its own panic replaces the outcome.
\<close>

definition go_defer :: "('s, 'b) go \<Rightarrow> ('s, 'a) go \<Rightarrow> ('s, 'a) go" where
  "go_defer d m = (\<lambda>s. case m s of
       Ret a s' \<Rightarrow> (case d s' of Ret _ t \<Rightarrow> Ret a t | Panic q t \<Rightarrow> Panic q t | Hang \<Rightarrow> Hang)
     | Panic p s' \<Rightarrow> (case d s' of Ret _ t \<Rightarrow> Panic p t | Panic q t \<Rightarrow> Panic q t | Hang \<Rightarrow> Hang)
     | Hang \<Rightarrow> Hang)"

text \<open>A loop over a slice whose body may leave the function with an error.\<close>

primrec go_for :: "'x list \<Rightarrow> ('x \<Rightarrow> ('s, 'e + unit) go) \<Rightarrow> ('s, 'e + unit) go" where
  "go_for [] body = go_return (Inr ())"
| "go_for (x # xs) body = go_check (body x) (\<lambda>e. go_return (Inl e)) (\<lambda>_. go_for xs body)"

text \<open>Following a pointer: nil panics.\<close>

definition go_deref :: "'a option \<Rightarrow> ('s, 'a) go" where
  "go_deref p = (case p of
       None \<Rightarrow> go_panic ''invalid memory address or nil pointer dereference''
     | Some a \<Rightarrow> go_return a)"

text \<open>Running a program on one component of a larger state.\<close>

definition go_zoom :: "('s \<Rightarrow> 't) \<Rightarrow> ('t \<Rightarrow> 's \<Rightarrow> 's) \<Rightarrow> ('t, 'a) go \<Rightarrow> ('s, 'a) go" where
  "go_zoom prj put m = (\<lambda>s. case m (prj s) of
       Ret a t \<Rightarrow> Ret a (put t s) | Panic p t \<Rightarrow> Panic p (put t s) | Hang \<Rightarrow> Hang)"

lemmas go_defs = go_return_def go_panic_def go_bind_def go_call_def go_gets_def go_modify_def
  go_check_def go_defer_def go_zoom_def

text \<open>Inverting a run that returned.\<close>

lemma go_bind_Ret_iff:
  "go_bind m f s = Ret b t \<longleftrightarrow> (\<exists>a s'. m s = Ret a s' \<and> f a s' = Ret b t)"
  by (simp add: go_bind_def split: outcome.splits)

lemma go_check_Ret_iff:
  "go_check m h f s = Ret b t \<longleftrightarrow>
     (\<exists>e s'. m s = Ret (Inl e) s' \<and> h e s' = Ret b t) \<or>
     (\<exists>a s'. m s = Ret (Inr a) s' \<and> f a s' = Ret b t)"
  by (cases "m s") (auto simp: go_check_def go_bind_def split: sum.splits)

lemma go_return_Ret_iff: "go_return a s = Ret b t \<longleftrightarrow> a = b \<and> s = t"
  by (simp add: go_return_def)

lemma go_call_Ret_iff: "go_call m s = Ret b t \<longleftrightarrow> m s = (b, t)"
  by (simp add: go_call_def split: prod.splits)

lemmas go_Ret_iffs = go_bind_Ret_iff go_check_Ret_iff go_return_Ret_iff go_call_Ret_iff

section \<open>Weakest preconditions\<close>

definition wpp ::
  "('s, 'a) go \<Rightarrow> ('a \<Rightarrow> 's \<Rightarrow> bool) \<Rightarrow> (string \<Rightarrow> 's \<Rightarrow> bool) \<Rightarrow> bool \<Rightarrow> 's \<Rightarrow> bool" where
  "wpp m Q R h s = (case m s of Ret a s' \<Rightarrow> Q a s' | Panic p s' \<Rightarrow> R p s' | Hang \<Rightarrow> h)"

text \<open>Total: the program returns. Partial: nothing is said when it does not.\<close>

abbreviation wp :: "('s, 'a) go \<Rightarrow> ('a \<Rightarrow> 's \<Rightarrow> bool) \<Rightarrow> 's \<Rightarrow> bool" where
  "wp m Q s \<equiv> wpp m Q (\<lambda>_ _. False) False s"

abbreviation wlp :: "('s, 'a) go \<Rightarrow> ('a \<Rightarrow> 's \<Rightarrow> bool) \<Rightarrow> 's \<Rightarrow> bool" where
  "wlp m Q s \<equiv> wpp m Q (\<lambda>_ _. True) True s"

text \<open>Every state in which the program stops, by returning or by panicking.\<close>

abbreviation always :: "('s, 'a) go \<Rightarrow> ('s \<Rightarrow> bool) \<Rightarrow> 's \<Rightarrow> bool" where
  "always m I s \<equiv> wpp m (\<lambda>_. I) (\<lambda>_. I) True s"

text \<open>The program does not panic.\<close>

abbreviation panic_free :: "('s, 'a) go \<Rightarrow> 's \<Rightarrow> bool" where
  "panic_free m s \<equiv> wpp m (\<lambda>_ _. True) (\<lambda>_ _. False) True s"

lemma wpp_return [wp_simps]: "wpp (go_return a) Q R h s = Q a s"
  by (simp add: wpp_def go_return_def)

lemma wpp_panic [wp_simps]: "wpp (go_panic p) Q R h s = R p s"
  by (simp add: wpp_def go_panic_def)

lemma wpp_bind [wp_simps]:
  "wpp (go_bind m f) Q R h s = wpp m (\<lambda>a. wpp (f a) Q R h) R h s"
  by (simp add: wpp_def go_bind_def split: outcome.splits)

lemma wpp_check [wp_simps]:
  "wpp (go_check m g f) Q R h s =
   wpp m (\<lambda>r s'. case r of Inl e \<Rightarrow> wpp (g e) Q R h s' | Inr a \<Rightarrow> wpp (f a) Q R h s') R h s"
  by (simp add: wpp_def go_check_def go_bind_def split: outcome.splits sum.splits)

lemma wpp_call [wp_simps]:
  "wpp (go_call m) Q R h s = (case m s of (a, s') \<Rightarrow> Q a s')"
  by (simp add: wpp_def go_call_def split: prod.splits)

lemma wpp_gets [wp_simps]: "wpp (go_gets f) Q R h s = Q (f s) s"
  by (simp add: wpp_def go_gets_def)

lemma wpp_modify [wp_simps]: "wpp (go_modify f) Q R h s = Q () (f s)"
  by (simp add: wpp_def go_modify_def)

lemma wpp_defer [wp_simps]:
  "wpp (go_defer d m) Q R h s =
   wpp m (\<lambda>a. wpp d (\<lambda>_. Q a) R h) (\<lambda>p. wpp d (\<lambda>_. R p) R h) h s"
  by (simp add: wpp_def go_defer_def split: outcome.splits)

lemma wpp_zoom [wp_simps]:
  "wpp (go_zoom prj put m) Q R h s =
   wpp m (\<lambda>a t. Q a (put t s)) (\<lambda>p t. R p (put t s)) h (prj s)"
  by (simp add: wpp_def go_zoom_def split: outcome.splits)

lemma wpp_deref [wp_simps]:
  "wpp (go_deref p) Q R h s = (case p of
       None \<Rightarrow> R ''invalid memory address or nil pointer dereference'' s | Some a \<Rightarrow> Q a s)"
  by (simp add: go_deref_def wpp_return wpp_panic split: option.splits)

lemma wpp_if [wp_simps]:
  "wpp (if b then m else m') Q R h s = (if b then wpp m Q R h s else wpp m' Q R h s)"
  by simp

lemma wpp_mono:
  assumes "wpp m Q R h s"
    and "\<And>a t. Q a t \<Longrightarrow> Q' a t" and "\<And>p t. R p t \<Longrightarrow> R' p t" and "h \<Longrightarrow> h'"
  shows "wpp m Q' R' h' s"
  using assms by (auto simp: wpp_def split: outcome.splits)

lemma wpp_any: "(\<And>a t. Q a t) \<Longrightarrow> (\<And>p t. R p t) \<Longrightarrow> h \<Longrightarrow> wpp m Q R h s"
  by (simp add: wpp_def split: outcome.splits)

lemma wpp_conj:
  "wpp m Q R h s \<Longrightarrow> wpp m Q' R' h' s \<Longrightarrow>
   wpp m (\<lambda>a t. Q a t \<and> Q' a t) (\<lambda>p t. R p t \<and> R' p t) (h \<and> h') s"
  by (auto simp: wpp_def split: outcome.splits)

lemma wp_returns: "wp m Q s \<Longrightarrow> \<exists>a t. m s = Ret a t \<and> Q a t"
  by (auto simp: wpp_def split: outcome.splits)

lemma wp_RetD: "wp m Q s \<Longrightarrow> m s = Ret a t \<Longrightarrow> Q a t"
  by (simp add: wpp_def)

lemma wlp_RetI: "(\<And>a t. m s = Ret a t \<Longrightarrow> Q a t) \<Longrightarrow> wlp m Q s"
  by (simp add: wpp_def split: outcome.splits)

lemma wlp_RetD: "wlp m Q s \<Longrightarrow> m s = Ret a t \<Longrightarrow> Q a t"
  by (simp add: wpp_def)

text \<open>Nothing need be known of the first part of a program when the rest does not depend on it.\<close>

lemma wlp_bind_any: "(\<And>a t. wlp (f a) Q t) \<Longrightarrow> wlp (go_bind m f) Q s"
  by (simp add: wpp_bind wpp_any)

lemma wlp_check_any: "(\<And>e t. wlp (h e) Q t) \<Longrightarrow> (\<And>a t. wlp (f a) Q t) \<Longrightarrow> wlp (go_check m h f) Q s"
  by (auto simp: wpp_check intro!: wpp_any split: sum.split)

text \<open>
  The loop rule: an invariant indexed by the elements handled so far. The body keeps it while it
  continues and establishes the postcondition when it leaves with an error.
\<close>

lemma wpp_for:
  assumes step: "\<And>pre x post t. xs = pre @ x # post \<Longrightarrow> I pre t \<Longrightarrow>
      wpp (body x) (\<lambda>r t'. case r of Inl e \<Rightarrow> Q (Inl e) t' | Inr _ \<Rightarrow> I (pre @ [x]) t') R h t"
    and fin: "\<And>t. I xs t \<Longrightarrow> Q (Inr ()) t"
    and start: "I [] s"
  shows "wpp (go_for xs body) Q R h s"
proof -
  have "wpp (go_for ys body) Q R h t" if "xs = pre @ ys" "I pre t" for pre ys t
    using that
  proof (induction ys arbitrary: pre t)
    case Nil
    then show ?case by (simp add: wp_simps fin)
  next
    case (Cons y ys)
    from Cons.prems have body: "wpp (body y)
        (\<lambda>r t'. case r of Inl e \<Rightarrow> Q (Inl e) t' | Inr _ \<Rightarrow> I (pre @ [y]) t') R h t"
      by (intro step) auto
    have "wpp (go_for ys body) Q R h t'" if "I (pre @ [y]) t'" for t'
      using Cons.IH [of "pre @ [y]" t'] Cons.prems that by simp
    with body show ?case
      by (auto simp: wp_simps elim!: wpp_mono split: sum.splits)
  qed
  from this [of "[]" xs s] start show ?thesis by simp
qed

text \<open>A loop whose body keeps a property whatever it returns keeps it too.\<close>

lemma wpp_for_inv:
  assumes "\<And>x t. x \<in> set xs \<Longrightarrow> I t \<Longrightarrow> wpp (body x) (\<lambda>_. I) R h t" and "I s"
  shows "wpp (go_for xs body) (\<lambda>_. I) R h s"
proof (rule wpp_for [where I = "\<lambda>_. I"])
  fix pre x post t
  assume "xs = pre @ x # post" and "I t"
  then have "wpp (body x) (\<lambda>_. I) R h t" by (intro assms(1)) auto
  then show "wpp (body x) (\<lambda>r t'. case r of Inl e \<Rightarrow> I t' | Inr _ \<Rightarrow> I t') R h t"
    by (rule wpp_mono) (auto split: sum.splits)
qed (use assms in auto)

section \<open>Properties a program never breaks\<close>

text \<open>
  \<open>stable I m\<close>: whenever \<open>I\<close> holds before \<open>m\<close>, it holds wherever \<open>m\<close> stops. The rules, one per combinator,
  are collected in \<open>stable_rules\<close>, so that the proof for a program is \<open>intro stable_rules\<close>.
\<close>

definition stable :: "('s \<Rightarrow> bool) \<Rightarrow> ('s, 'a) go \<Rightarrow> bool" where
  "stable I m \<longleftrightarrow> (\<forall>s. I s \<longrightarrow> always m I s)"

lemma stableD: "stable I m \<Longrightarrow> I s \<Longrightarrow> always m I s"
  by (simp add: stable_def)

lemma stable_return [stable_rules]: "stable I (go_return a)"
  by (simp add: stable_def wp_simps)

lemma stable_panic [stable_rules]: "stable I (go_panic p)"
  by (simp add: stable_def wp_simps)

lemma stable_deref [stable_rules]: "stable I (go_deref p)"
  by (simp add: stable_def wp_simps split: option.splits)

lemma stable_gets [stable_rules]: "stable I (go_gets f)"
  by (simp add: stable_def wp_simps)

lemma stable_call: "(\<And>s a s'. m s = (a, s') \<Longrightarrow> I s \<Longrightarrow> I s') \<Longrightarrow> stable I (go_call m)"
  by (auto simp: stable_def wp_simps split: prod.splits)

lemma stable_modify: "(\<And>s. I s \<Longrightarrow> I (f s)) \<Longrightarrow> stable I (go_modify f)"
  by (simp add: stable_def wp_simps)

lemma stable_bind [stable_rules]:
  assumes "stable I m" and "\<And>a. stable I (f a)"
  shows "stable I (go_bind m f)"
  unfolding stable_def wpp_bind
  by (auto intro!: wpp_mono [OF stableD [OF assms(1)]] stableD [OF assms(2)])

lemma stable_check [stable_rules]:
  "stable I m \<Longrightarrow> (\<And>e. stable I (h e)) \<Longrightarrow> (\<And>a. stable I (f a)) \<Longrightarrow> stable I (go_check m h f)"
  unfolding go_check_def by (intro stable_bind) (simp_all split: sum.split)

lemma stable_for [stable_rules]: "(\<And>x. stable I (body x)) \<Longrightarrow> stable I (go_for xs body)"
  by (induction xs) (auto intro!: stable_rules)

lemma stable_defer [stable_rules]:
  assumes "stable I d" and "stable I m"
  shows "stable I (go_defer d m)"
  unfolding stable_def wpp_defer
  by (auto intro!: wpp_mono [OF stableD [OF assms(2)]] stableD [OF assms(1)])

lemma stable_cases [stable_rules]:
  "(\<And>e. x = Inl e \<Longrightarrow> stable I (f e)) \<Longrightarrow> (\<And>a. x = Inr a \<Longrightarrow> stable I (g a)) \<Longrightarrow>
     stable I (case x of Inl e \<Rightarrow> f e | Inr a \<Rightarrow> g a)"
  "(y = None \<Longrightarrow> stable I m) \<Longrightarrow> (\<And>a. y = Some a \<Longrightarrow> stable I (g' a)) \<Longrightarrow>
     stable I (case y of None \<Rightarrow> m | Some a \<Rightarrow> g' a)"
  "(\<And>a b. p = (a, b) \<Longrightarrow> stable I (h a b)) \<Longrightarrow> stable I (case p of (a, b) \<Rightarrow> h a b)"
  "(q \<Longrightarrow> stable I m') \<Longrightarrow> (\<not> q \<Longrightarrow> stable I n) \<Longrightarrow> stable I (if q then m' else n)"
  by (auto split: sum.splits option.splits prod.splits)

section \<open>Formatting and encoding (packages fmt and encoding/hex)\<close>

text \<open>
  \<open>sprintf\<close> is \<^verbatim>\<open>fmt.Sprintf\<close> for the verbs the source uses (\<^verbatim>\<open>%s\<close>, \<^verbatim>\<open>%d\<close>, \<^verbatim>\<open>%v\<close>, \<^verbatim>\<open>%w\<close> and \<^verbatim>\<open>%%\<close>), with each
  operand already rendered as text. A verb without an operand prints \<^verbatim>\<open>%!s(MISSING)\<close>; every format
  of the source has as many operands as verbs, so surplus operands are not rendered.
\<close>

fun sprintf :: "string \<Rightarrow> string list \<Rightarrow> string" where
  "sprintf [] args = []"
| "sprintf [c] args = [c]"
| "sprintf (c # d # cs) args =
     (if c = CHR ''%'' then
        if d = CHR ''%'' then c # sprintf cs args
        else (case args of
                [] \<Rightarrow> ''%!'' @ [d] @ ''(MISSING)'' @ sprintf cs []
              | a # as \<Rightarrow> a @ sprintf cs as)
      else c # sprintf (d # cs) args)"

fun show_nat :: "nat \<Rightarrow> string" where
  "show_nat n =
     (if n < 10 then [char_of (48 + n)] else show_nat (n div 10) @ [char_of (48 + n mod 10)])"

declare show_nat.simps [simp del]

lemmas show_nat_simps [fmt_simps] = show_nat.simps

definition show_int :: "int \<Rightarrow> string" where
  "show_int i = (if i < 0 then ''-'' @ show_nat (nat (- i)) else show_nat (nat i))"

text \<open>A list of strings under \<^verbatim>\<open>%v\<close>: the elements in brackets, separated by blanks.\<close>

fun join_blank :: "string list \<Rightarrow> string" where
  "join_blank [] = []"
| "join_blank [x] = x"
| "join_blank (x # y # ys) = x @ '' '' @ join_blank (y # ys)"

definition show_strings :: "string list \<Rightarrow> string" where
  "show_strings xs = ''['' @ join_blank xs @ '']''"

definition hex_digits :: string where
  "hex_digits = ''0123456789abcdef''"

definition hex_byte :: "8 word \<Rightarrow> string" where
  "hex_byte b = [hex_digits ! (unat b div 16), hex_digits ! (unat b mod 16)]"

definition hex_EncodeToString :: "8 word list \<Rightarrow> string" where
  "hex_EncodeToString bs = concat (map hex_byte bs)"

lemma length_hex [simp]: "length (hex_EncodeToString bs) = 2 * length bs"
  by (induction bs) (auto simp: hex_EncodeToString_def hex_byte_def)

lemma hex_digits_distinct: "distinct hex_digits"
  by (simp add: hex_digits_def)

lemma length_hex_digits [simp]: "length hex_digits = 16"
  by (simp add: hex_digits_def)

lemma unat_byte_less [simp]: "unat (b :: 8 word) < 256"
  using unsigned_less [of b] by simp

lemma hex_byte_inj: "hex_byte a = hex_byte b \<longleftrightarrow> a = b"
proof
  assume eq: "hex_byte a = hex_byte b"
  have less: "unat (x :: 8 word) div 16 < 16" "unat x mod 16 < 16" for x
    using unat_byte_less [of x] by (auto simp: less_mult_imp_div_less)
  from eq have "unat a div 16 = unat b div 16" and "unat a mod 16 = unat b mod 16"
    using less [of a] less [of b]
    by (simp_all add: hex_byte_def nth_eq_iff_index_eq [OF hex_digits_distinct])
  then have "unat a = unat b" by (metis div_mult_mod_eq)
  then show "a = b" by (simp add: word_unat_eq_iff)
qed simp

lemma hex_inj: "hex_EncodeToString as = hex_EncodeToString bs \<longleftrightarrow> as = bs"
proof (induction as arbitrary: bs)
  case Nil
  then show ?case by (cases bs) (simp_all add: hex_EncodeToString_def hex_byte_def)
next
  case (Cons a as)
  show ?case
  proof (cases bs)
    case Nil
    then show ?thesis by (simp add: hex_EncodeToString_def hex_byte_def)
  next
    case (Cons b bs')
    have "hex_EncodeToString (a # as) = hex_EncodeToString (b # bs') \<longleftrightarrow>
        hex_byte a = hex_byte b \<and> hex_EncodeToString as = hex_EncodeToString bs'"
      by (simp add: hex_EncodeToString_def hex_byte_def)
    with Cons.IH [of bs'] Cons show ?thesis by (simp add: hex_byte_inj)
  qed
qed

lemma set_hex: "set (hex_EncodeToString bs) \<subseteq> set hex_digits"
proof -
  have "unat (b :: 8 word) div 16 < 16" "unat b mod 16 < 16" for b
    using unat_byte_less [of b] by (auto simp: less_mult_imp_div_less)
  then have "set (hex_byte b) \<subseteq> set hex_digits" for b
    by (auto simp: hex_byte_def)
  then show ?thesis by (auto simp: hex_EncodeToString_def)
qed

section \<open>Sets of strings\<close>

text \<open>
  A set of the set library, or the keys of a Go map, as a list without repetitions. The order in
  which Go goes through it is left open; programs that do so take the order as a parameter.
\<close>

definition set_Add :: "string \<Rightarrow> string list \<Rightarrow> string list" where
  "set_Add x xs = (if x \<in> set xs then xs else xs @ [x])"

definition set_of :: "string list \<Rightarrow> string list" where
  "set_of xs = fold set_Add xs []"

definition set_Difference :: "string list \<Rightarrow> string list \<Rightarrow> string list" where
  "set_Difference xs ys = filter (\<lambda>x. x \<notin> set ys) xs"

lemma set_Add_simps [simp]:
  "set (set_Add x xs) = insert x (set xs)" "distinct (set_Add x xs) = distinct xs"
  by (auto simp: set_Add_def)

lemma fold_set_Add:
  "set (fold set_Add xs ys) = set ys \<union> set xs" "distinct (fold set_Add xs ys) = distinct ys"
  by (induction xs arbitrary: ys) auto

lemma set_of_simps [simp]: "set (set_of xs) = set xs" "distinct (set_of xs)"
  by (simp_all add: set_of_def fold_set_Add)

lemma set_Difference_simps [simp]:
  "set (set_Difference xs ys) = set xs - set ys"
  "distinct xs \<Longrightarrow> distinct (set_Difference xs ys)"
  by (auto simp: set_Difference_def)

lemma set_Difference_Nil [simp]: "set_Difference xs ys = [] \<longleftrightarrow> set xs \<subseteq> set ys"
  by (auto simp: set_Difference_def filter_empty_conv)

end
