(* ===== verification/GoErrors.thy ===== *)
theory GoErrors
  imports Prelude
begin

text \<open>
  Error values and their classification: \<^verbatim>\<open>pkg/xerrors/errors.go\<close> (temporary errors),
  \<^verbatim>\<open>pkg/dbadmin/mysqladmin/errors.go\<close> (which MySQL errors are worth a retry) and
  \<^verbatim>\<open>controllers/errors.go\<close> (errors that name the migration that caused them).

  A Go \<^verbatim>\<open>error\<close> is a value of \<open>go_error\<close>: the three error types the repository declares, the values
  \<^verbatim>\<open>errors.New\<close> and \<^verbatim>\<open>fmt.Errorf\<close> build, and the errors libraries hand to it. A library error carries
  its own text; where the code asks more of it, it carries that too (the number of a
  \<^verbatim>\<open>*mysql.MySQLError\<close>, the reason of an API status, whether its type has a \<^verbatim>\<open>Temporary\<close> method and
  what it returns, what it unwraps to). \<open>errors_As\<close> is \<^verbatim>\<open>errors.As\<close>: the first error of the chain
  that fits the target.
\<close>

record NamespacedName =
  nn_Namespace :: string
  nn_Name :: string

datatype mysql_sentinel =
    ErrInvalidConn | ErrMalformPkt | ErrPktSync | ErrPktSyncMul | ErrBusyBuffer
  | OtherDriverError

datatype StatusReason = StatusReasonNotFound | StatusReasonOther string

datatype go_error =
    errorString string
  | wrapError string go_error
  | temporaryError string
  | wrappedMySQLError go_error
  | migrationErrorStruct go_error NamespacedName
  | MySQLError "16 word" string
  | DriverError mysql_sentinel string
  | ErrNoRows
  | StatusError StatusReason string
  | ForeignError string "bool option" "go_error option"

text \<open>The text of an error: \<^verbatim>\<open>Error()\<close>. The two embedding types delegate to what they wrap.\<close>

primrec Error :: "go_error \<Rightarrow> string" where
  "Error (errorString m) = m"
| "Error (wrapError m e) = m"
| "Error (temporaryError m) = m"
| "Error (wrappedMySQLError e) = Error e"
| "Error (migrationErrorStruct e n) = Error e"
| "Error (MySQLError n m) = m"
| "Error (DriverError d m) = m"
| "Error ErrNoRows = ''sql: no rows in result set''"
| "Error (StatusError r m) = m"
| "Error (ForeignError m t u) = m"

fun Unwrap :: "go_error \<Rightarrow> go_error option" where
  "Unwrap (wrapError m e) = Some e"
| "Unwrap (wrappedMySQLError e) = Some e"
| "Unwrap (migrationErrorStruct e n) = Some e"
| "Unwrap (ForeignError m t u) = u"
| "Unwrap e = None"

lemma Unwrap_size: "Unwrap e = Some e' \<Longrightarrow> size e' < size e"
  by (cases e) auto

function errors_As :: "(go_error \<Rightarrow> 't option) \<Rightarrow> go_error \<Rightarrow> 't option" where
  "errors_As target e =
     (case target e of
        Some t \<Rightarrow> Some t
      | None \<Rightarrow> (case Unwrap e of None \<Rightarrow> None | Some e' \<Rightarrow> errors_As target e'))"
  by pat_completeness auto
termination
  by (relation "measure (\<lambda>(target, e). size e)") (auto dest: Unwrap_size)

declare errors_As.simps [simp del]

section \<open>Searching a chain of errors\<close>

text \<open>
  What \<^verbatim>\<open>errors.As\<close> promises, for any type of errors with an \<^verbatim>\<open>Unwrap\<close> that makes chains finite.
\<close>

locale error_chain =
  fixes unwrap :: "'e \<Rightarrow> 'e option"
    and depth :: "'e \<Rightarrow> nat"
    and as_target :: "('e \<Rightarrow> 't option) \<Rightarrow> 'e \<Rightarrow> 't option"
  assumes unwrap_depth: "unwrap e = Some e' \<Longrightarrow> depth e' < depth e"
    and as_unfold: "as_target p e =
      (case p e of Some t \<Rightarrow> Some t
       | None \<Rightarrow> (case unwrap e of None \<Rightarrow> None | Some e' \<Rightarrow> as_target p e'))"
begin

lemma as_hit: "p e = Some t \<Longrightarrow> as_target p e = Some t"
  by (simp add: as_unfold [of p e])

lemma as_skip: "p e = None \<Longrightarrow> unwrap e = Some e' \<Longrightarrow> as_target p e = as_target p e'"
  by (simp add: as_unfold [of p e])

lemma as_end: "p e = None \<Longrightarrow> unwrap e = None \<Longrightarrow> as_target p e = None"
  by (simp add: as_unfold [of p e])

text \<open>A target is found exactly when some error of the chain fits it.\<close>

lemma as_None_iff:
  "as_target p e = None \<longleftrightarrow> (\<forall>e'. (\<lambda>a b. unwrap a = Some b)\<^sup>*\<^sup>* e e' \<longrightarrow> p e' = None)"
proof (induction "depth e" arbitrary: e rule: less_induct)
  case less
  show ?case
  proof (cases "p e")
    case (Some t)
    then show ?thesis by (auto simp: as_hit)
  next
    case here: None
    show ?thesis
    proof (cases "unwrap e")
      case None
      then have "e' = e" if "(\<lambda>a b. unwrap a = Some b)\<^sup>*\<^sup>* e e'" for e'
        using that by (auto elim: converse_rtranclpE)
      with here None show ?thesis by (auto simp: as_end)
    next
      case (Some e1)
      then have "(\<lambda>a b. unwrap a = Some b)\<^sup>*\<^sup>* e e' \<longleftrightarrow>
          e' = e \<or> (\<lambda>a b. unwrap a = Some b)\<^sup>*\<^sup>* e1 e'" for e'
        by (auto elim: converse_rtranclpE intro: converse_rtranclp_into_rtranclp)
      with here less [OF unwrap_depth [OF Some]] show ?thesis
        by (auto simp: as_skip [of p e e1] Some)
    qed
  qed
qed

end

interpretation go_chain: error_chain Unwrap size errors_As
  by unfold_locales (auto dest: Unwrap_size simp: errors_As.simps)

text \<open>The same search, one constructor at a time, for evaluation.\<close>

lemma errors_As_eval [simp]:
  "errors_As p (errorString m) = p (errorString m)"
  "errors_As p (temporaryError m) = p (temporaryError m)"
  "errors_As p (MySQLError k m) = p (MySQLError k m)"
  "errors_As p (DriverError d m) = p (DriverError d m)"
  "errors_As p ErrNoRows = p ErrNoRows"
  "errors_As p (StatusError r m) = p (StatusError r m)"
  "errors_As p (wrapError m e) =
     (case p (wrapError m e) of None \<Rightarrow> errors_As p e | Some t \<Rightarrow> Some t)"
  "errors_As p (wrappedMySQLError e) =
     (case p (wrappedMySQLError e) of None \<Rightarrow> errors_As p e | Some t \<Rightarrow> Some t)"
  "errors_As p (migrationErrorStruct e n) =
     (case p (migrationErrorStruct e n) of None \<Rightarrow> errors_As p e | Some t \<Rightarrow> Some t)"
  by (subst errors_As.simps, simp split: option.splits)+

section \<open>Temporary errors\<close>

text \<open>\<^verbatim>\<open>xerrors.NewTempErrorf\<close>.\<close>

definition NewTempErrorf :: "string \<Rightarrow> string list \<Rightarrow> go_error" where
  "NewTempErrorf fmt arguments = temporaryError (sprintf fmt arguments)"

text \<open>\<^verbatim>\<open>fmt.Errorf\<close> without and with a final \<^verbatim>\<open>%w\<close>.\<close>

definition Errorf :: "string \<Rightarrow> string list \<Rightarrow> go_error" where
  "Errorf fmt arguments = errorString (sprintf fmt arguments)"

definition Errorf_w :: "string \<Rightarrow> string list \<Rightarrow> go_error \<Rightarrow> go_error" where
  "Errorf_w fmt arguments e = wrapError (sprintf fmt (arguments @ [Error e])) e"

definition retryableErrors :: "16 word list" where
  "retryableErrors =
    [1020, 1036, 1040, 1043, 1053, 1105, 1129, 1180, 1181, 1182, 1188, 1202, 1203, 1205, 1206,
     1218, 1220, 1290, 1297, 1317, 1637, 1836, 1874, 3019, 3032, 3168, 3169, 3186, 3572]"

fun as_MySQLError :: "go_error \<Rightarrow> 16 word option" where
  "as_MySQLError (MySQLError n m) = Some n"
| "as_MySQLError e = None"

fun retryableSentinel :: "go_error \<Rightarrow> bool" where
  "retryableSentinel (DriverError d m) =
     (d \<in> {ErrInvalidConn, ErrMalformPkt, ErrPktSync, ErrPktSyncMul, ErrBusyBuffer})"
| "retryableSentinel e = False"

text \<open>\<^verbatim>\<open>wrappedMySQLError.Temporary\<close>, for the error that is wrapped.\<close>

definition wrappedMySQLError_Temporary :: "go_error \<Rightarrow> bool" where
  "wrappedMySQLError_Temporary err =
     (if retryableSentinel err then True
      else (case errors_As as_MySQLError err of
              Some number \<Rightarrow> number \<in> set retryableErrors
            | None \<Rightarrow> False))"

text \<open>\<^verbatim>\<open>wrap\<close>: nil stays nil.\<close>

definition wrap :: "go_error option \<Rightarrow> go_error option" where
  "wrap err = (case err of Some e \<Rightarrow> Some (wrappedMySQLError e) | None \<Rightarrow> None)"

text \<open>
  The interface \<^verbatim>\<open>xerrors.EnhancedError\<close> as a target of \<^verbatim>\<open>errors.As\<close>: an error fits it when its type
  has a \<^verbatim>\<open>Temporary\<close> method, and what is found is what that method returns.
\<close>

fun as_EnhancedError :: "go_error \<Rightarrow> bool option" where
  "as_EnhancedError (temporaryError m) = Some True"
| "as_EnhancedError (wrappedMySQLError e) = Some (wrappedMySQLError_Temporary e)"
| "as_EnhancedError (ForeignError m t u) = t"
| "as_EnhancedError e = None"

section \<open>Errors that name a migration\<close>

definition newMigrationErrorf ::
  "NamespacedName \<Rightarrow> string \<Rightarrow> string list \<Rightarrow> go_error \<Rightarrow> go_error" where
  "newMigrationErrorf migrationName fmt arguments wrapped =
     migrationErrorStruct (Errorf_w fmt arguments wrapped) migrationName"

fun as_migrationError :: "go_error \<Rightarrow> NamespacedName option" where
  "as_migrationError (migrationErrorStruct e n) = Some n"
| "as_migrationError e = None"

section \<open>Classification\<close>

definition is_temporary :: "go_error \<Rightarrow> bool" where
  "is_temporary err = (case errors_As as_EnhancedError err of Some b \<Rightarrow> b | None \<Rightarrow> False)"

definition blocking_migration :: "go_error \<Rightarrow> NamespacedName option" where
  "blocking_migration err = errors_As as_migrationError err"

text \<open>Adding context with \<^verbatim>\<open>%w\<close> any number of times does not change how an error is classified.\<close>

primrec with_context :: "string list \<Rightarrow> go_error \<Rightarrow> go_error" where
  "with_context [] e = e"
| "with_context (m # ms) e = wrapError m (with_context ms e)"

lemma errors_As_context:
  assumes "\<And>m e. p (wrapError m e) = None"
  shows "errors_As p (with_context ms e) = errors_As p e"
  by (induction ms) (simp_all add: assms)

lemma is_temporary_simps [simp]:
  "is_temporary (errorString m) = False"
  "is_temporary (wrapError m e) = is_temporary e"
  "is_temporary (temporaryError m) = True"
  "is_temporary (wrappedMySQLError e) = wrappedMySQLError_Temporary e"
  "is_temporary (migrationErrorStruct e n) = is_temporary e"
  "is_temporary (MySQLError k m) = False"
  "is_temporary (StatusError r m) = False"
  "is_temporary (Errorf_w f as e) = is_temporary e"
  "is_temporary (Errorf f as) = False"
  "is_temporary (newMigrationErrorf n f as e) = is_temporary e"
  by (simp_all add: is_temporary_def Errorf_w_def Errorf_def newMigrationErrorf_def)

lemma blocking_migration_simps [simp]:
  "blocking_migration (errorString m) = None"
  "blocking_migration (wrapError m e) = blocking_migration e"
  "blocking_migration (temporaryError m) = None"
  "blocking_migration (wrappedMySQLError e) = blocking_migration e"
  "blocking_migration (migrationErrorStruct e n) = Some n"
  "blocking_migration (StatusError r m) = None"
  "blocking_migration (MySQLError k m) = None"
  "blocking_migration (Errorf_w f as e) = blocking_migration e"
  "blocking_migration (Errorf f as) = None"
  "blocking_migration (newMigrationErrorf n f as e) = Some n"
  by (simp_all add: blocking_migration_def Errorf_w_def Errorf_def newMigrationErrorf_def)

lemma is_temporary_context [simp]: "is_temporary (with_context ms e) = is_temporary e"
  by (induction ms) simp_all

lemma blocking_migration_context [simp]:
  "blocking_migration (with_context ms e) = blocking_migration e"
  by (induction ms) simp_all

text \<open>
  No library builds a \<^verbatim>\<open>migrationErrorStruct\<close>: the type is private to the controllers package. The
  proofs that need it carry this as the hypothesis \<open>foreign\<close> on the errors libraries return.
\<close>

definition foreign :: "go_error \<Rightarrow> bool" where
  "foreign e = (blocking_migration e = None)"

lemma foreign_wrapped [simp]:
  "foreign (wrappedMySQLError e) = foreign e" "foreign (Errorf_w f as e) = foreign e"
  "foreign (NewTempErrorf f as)" "foreign (Errorf f as)"
  by (simp_all add: foreign_def NewTempErrorf_def)

end
