(* ===== verification/ApiTypes.thy ===== *)
theory ApiTypes
  imports GoErrors
begin

text \<open>
  The data the operator reads and writes.

  The custom resources are \<^verbatim>\<open>api/v1alpha1/manageddatabase_types.go\<close> and
  \<^verbatim>\<open>api/v1alpha1/databasemigration_types.go\<close>, field by field. Where a Go struct embeds another
  (\<^verbatim>\<open>metav1.ObjectMeta\<close>, \<^verbatim>\<open>TableReference\<close>), the record extends the embedded record, so promoted
  fields keep their names. A pointer field is an option; a Go map that the code distinguishes from
  nil (\<^verbatim>\<open>ObjectMeta.Labels\<close>) is an option of a map; a slice that the code compares with nil
  (\<^verbatim>\<open>JobStatus.Conditions\<close>) is an option of a list. Of the Kubernetes types (object metadata, pods,
  jobs, secrets) the records have the fields the operator uses; \<^verbatim>\<open>TypeMeta\<close> is left out everywhere.
\<close>

section \<open>Kubernetes objects\<close>

record ObjectMeta =
  Name :: string
  Namespace :: string
  UID :: string
  SelfLink :: string
  Labels :: "(string \<rightharpoonup> string) option"
  OwnerReferences :: "string list"

record SecretKeySelector =
  sk_Name :: string
  sk_Key :: string
  sk_Optional :: "bool option"

record EnvVarSource =
  SecretKeyRef :: "SecretKeySelector option"

record EnvVar =
  e_Name :: string
  e_Value :: string
  e_ValueFrom :: "EnvVarSource option"

record EnvFromSource =
  SecretRef :: "string option"

record VolumeMount =
  vm_Name :: string
  vm_MountPath :: string
  vm_ReadOnly :: bool

record SecretVolumeSource =
  sv_SecretName :: string
  sv_Optional :: "bool option"

record Volume =
  v_Name :: string
  v_Secret :: "SecretVolumeSource option"

record Container =
  c_Name :: string
  c_Image :: string
  c_Command :: "string list"
  c_Env :: "EnvVar list"
  c_EnvFrom :: "EnvFromSource list"
  c_VolumeMounts :: "VolumeMount list"
  c_ImagePullPolicy :: string

record PodSpec =
  p_Volumes :: "Volume list"
  p_InitContainers :: "Container list"
  p_Containers :: "Container list"
  p_RestartPolicy :: string

record Pod = ObjectMeta +
  pod_Spec :: PodSpec

record JobCondition =
  jc_Type :: string
  jc_Status :: string

record JobStatus =
  Active :: int
  Succeeded :: int
  Conditions :: "JobCondition list option"

record Job = ObjectMeta +
  job_Template :: PodSpec
  job_BackoffLimit :: "int option"
  job_Status :: JobStatus

record Secret = ObjectMeta +
  Data :: "string \<rightharpoonup> string"
  StringData :: "string \<rightharpoonup> string"

section \<open>ManagedDatabase\<close>

record HintsEngineConfig =
  Enabled :: bool
  LargeTableRowsThreshold :: "64 word"

record TableReference =
  TableName :: string

record PrometheusMetricExporter =
  ValueType :: string
  pm_Name :: string
  HelpString :: string
  ExtraLabels :: "string \<rightharpoonup> string"

record SQLQueryMetric =
  Query :: string
  PrometheusMetric :: PrometheusMetricExporter

record DataMetrics =
  TableEstimatedSize :: "TableReference list option"
  TableNextID :: "TableReference list option"
  SQLQuery :: "SQLQueryMetric list option"

record DatabaseConnectionInfo =
  DSNSecret :: string

record MigrationContainerConfig =
  mcc_Secret :: string
  mcc_VolumeMount :: VolumeMount

record ManagedDatabaseSpec =
  DesiredSchemaVersion :: string
  Connection :: DatabaseConnectionInfo
  MigrationEngine :: string
  spec_MigrationContainerConfig :: "MigrationContainerConfig option"
  ExportDataMetrics :: "DataMetrics option"
  HintsEngine :: "HintsEngineConfig option"
  ReadOnly :: bool

record ManagedDatabaseError =
  Message :: string
  Temporary :: bool

record ManagedDatabaseStatus =
  CurrentVersion :: string
  Errors :: "ManagedDatabaseError list"

record ManagedDatabase = ObjectMeta +
  Spec :: ManagedDatabaseSpec
  Status :: ManagedDatabaseStatus

text \<open>The zero value: what \<^verbatim>\<open>var db dba.ManagedDatabase\<close> holds.\<close>

definition zero_ObjectMeta :: ObjectMeta where
  "zero_ObjectMeta = \<lparr>Name = [], Namespace = [], UID = [], SelfLink = [], Labels = None,
     OwnerReferences = []\<rparr>"

definition zero_ManagedDatabase :: ManagedDatabase where
  "zero_ManagedDatabase = \<lparr>Name = [], Namespace = [], UID = [], SelfLink = [], Labels = None,
     OwnerReferences = [],
     Spec = \<lparr>DesiredSchemaVersion = [], Connection = \<lparr>DSNSecret = []\<rparr>, MigrationEngine = [],
       spec_MigrationContainerConfig = None, ExportDataMetrics = None, HintsEngine = None,
       ReadOnly = False\<rparr>,
     Status = \<lparr>CurrentVersion = [], Errors = []\<rparr>\<rparr>"

section \<open>DatabaseMigration\<close>

record DatabaseMigrationSchemaHintColumn =
  col_Name :: string
  NotNullable :: bool
  HasServerDefault :: bool

record DatabaseMigrationSchemaHint = TableReference +
  Operation :: string
  Columns :: "DatabaseMigrationSchemaHintColumn list"
  hint_IndexType :: string

record DatabaseMigrationSpec =
  Previous :: string
  MigrationContainerSpec :: Container
  Scalable :: bool
  SchemaHints :: "DatabaseMigrationSchemaHint list"

record DatabaseMigration = ObjectMeta +
  mig_Spec :: DatabaseMigrationSpec

end
