(* ===== verification/Kube.thy ===== *)
theory Kube
  imports ApiTypes
begin

text \<open>
  The Kubernetes client the operator is given (\<^verbatim>\<open>client.Client\<close> of controller-runtime) and the library
  functions it calls on Kubernetes objects. None of it is part of the repository: the record
  \<open>Client\<close> is a parameter of every definition that talks to the API server, and \<open>'k\<close> is the state of
  the cluster. A read that fails may still have touched the object it was given, so reading a
  ManagedDatabase takes the object and returns it; an update returns the object as the server sent
  it back. Object labels are passed to a list call as the selector's key and value pairs.
\<close>

record 'k Client =
  Get_ManagedDatabase ::
    "NamespacedName \<Rightarrow> ManagedDatabase \<Rightarrow> ('k, go_error option \<times> ManagedDatabase) call"
  Get_DatabaseMigration :: "NamespacedName \<Rightarrow> ('k, go_error + DatabaseMigration) call"
  Get_Secret :: "NamespacedName \<Rightarrow> ('k, go_error + Secret) call"
  List_Secrets :: "string \<Rightarrow> (string \<times> string) list \<Rightarrow> ('k, go_error + Secret list) call"
  List_Jobs :: "string \<Rightarrow> (string \<times> string) list \<Rightarrow> ('k, go_error + Job list) call"
  List_Pods :: "string \<Rightarrow> ('k, go_error + Pod list) call"
  List_ManagedDatabases ::
    "string \<Rightarrow> (string \<times> string) list \<Rightarrow> ('k, go_error option \<times> ManagedDatabase list) call"
  Create_Job :: "Job \<Rightarrow> ('k, go_error + unit) call"
  Create_Secret :: "Secret \<Rightarrow> ('k, go_error + unit) call"
  Delete_Job :: "Job \<Rightarrow> ('k, go_error + unit) call"
  Delete_Secret :: "Secret \<Rightarrow> ('k, go_error + unit) call"
  Update_ManagedDatabase :: "ManagedDatabase \<Rightarrow> ('k, go_error option \<times> ManagedDatabase) call"
  UpdateStatus_ManagedDatabase :: "ManagedDatabase \<Rightarrow> ('k, go_error option \<times> ManagedDatabase) call"
  SetControllerReference_Job :: "ManagedDatabase \<Rightarrow> Job \<Rightarrow> go_error + Job"
  SetControllerReference_Secret :: "ManagedDatabase \<Rightarrow> Secret \<Rightarrow> go_error option \<times> Secret"
  NamespacedName_String :: "NamespacedName \<Rightarrow> string"
  Pod_String :: "Pod \<Rightarrow> string"

text \<open>\<^verbatim>\<open>apierrs.IsNotFound\<close>.\<close>

fun IsNotFound :: "go_error \<Rightarrow> bool" where
  "IsNotFound (StatusError StatusReasonNotFound m) = True"
| "IsNotFound e = False"

text \<open>\<^verbatim>\<open>ctrl.Result\<close>; the delay is a \<^verbatim>\<open>time.Duration\<close>, in nanoseconds.\<close>

record Result =
  Requeue :: bool
  RequeueAfter :: int

definition zero_Result :: Result where
  "zero_Result = \<lparr>Requeue = False, RequeueAfter = 0\<rparr>"

text \<open>The key of a namespaced object.\<close>

abbreviation name_of :: "string \<Rightarrow> string \<Rightarrow> NamespacedName" where
  "name_of ns n \<equiv> \<lparr>nn_Namespace = ns, nn_Name = n\<rparr>"

end
