(* ===== verification/DbAdmin.thy ===== *)
theory DbAdmin
  imports ApiTypes "HOL-Library.Sublist"
begin

text \<open>
  The database administration interface (\<^verbatim>\<open>pkg/dbadmin/dbadmin.go\<close>), opening a connection
  (\<^verbatim>\<open>pkg/dbadmin/connection.go\<close>) and the Alembic migration engine
  (\<^verbatim>\<open>pkg/dbadmin/alembic/version.go\<close>).

  A Go interface value is a record of its methods. \<open>'d\<close> is the state of the database servers: every
  method may change it. The migration engine of an admin is an option, because the interface value
  the controller passes may be nil. What the controller relies on when it manages credentials is the
  locale \<open>credential_admin\<close> at the end; the MySQL implementation interprets it.
\<close>

type_synonym u64 = "64 word"

text \<open>\<^verbatim>\<open>ConstraintType\<close> and \<^verbatim>\<open>IndexType\<close> are Go ints with named values.\<close>

type_synonym ConstraintType = int
type_synonym IndexType = int

definition NotNullConstraint :: ConstraintType where "NotNullConstraint = 0"
definition UniqueConstraint :: ConstraintType where "UniqueConstraint = 1"

definition Index :: IndexType where "Index = 0"
definition PrimaryKeyIndex :: IndexType where "PrimaryKeyIndex = 1"
definition UniqueIndex :: IndexType where "UniqueIndex = 2"
definition FulltextIndex :: IndexType where "FulltextIndex = 3"
definition SpatialIndex :: IndexType where "SpatialIndex = 4"

text \<open>A \<^verbatim>\<open>float64\<close> that the code only passes on: the bits a query returned, or a converted \<^verbatim>\<open>uint64\<close>.\<close>

datatype float64 = FloatBits u64 | FloatOfUint64 u64

record 'd DbAdmin =
  WriteCredentials :: "string \<Rightarrow> string \<Rightarrow> ('d, go_error + unit) go"
  ListUsernames :: "string \<Rightarrow> ('d, go_error + string list) go"
  VerifyUnusedAndDeleteCredentials :: "string \<Rightarrow> ('d, go_error + unit) go"
  GetSchemaVersion :: "('d, go_error + string) go"
  GetTableSizeEstimates :: "string list \<Rightarrow> ('d, go_error + (string \<rightharpoonup> u64)) go"
  GetNextIDs :: "string list \<Rightarrow> ('d, go_error + (string \<rightharpoonup> u64)) go"
  SelectFloat :: "string \<Rightarrow> ('d, go_error + float64) go"
  IsBlockingIndexCreation :: "string \<Rightarrow> IndexType \<Rightarrow> string list \<Rightarrow> ('d, go_error + bool) go"
  ConstraintWillFail :: "string \<Rightarrow> ConstraintType \<Rightarrow> string list \<Rightarrow> ('d, go_error + bool) go"
  Close :: "('d, go_error + unit) go"

record MigrationEngineI =
  GetVersionQuery :: string

section \<open>Alembic\<close>

definition alembic_GetVersionQuery :: string where
  "alembic_GetVersionQuery = ''SELECT version_num FROM alembic_version LIMIT 1''"

definition alembic_CreateMigrationEngine :: MigrationEngineI where
  "alembic_CreateMigrationEngine = \<lparr>GetVersionQuery = alembic_GetVersionQuery\<rparr>"

section \<open>Opening a connection\<close>

text \<open>
  What package dburl returns for a DSN. A URL without user information reports an empty user name
  and no password. \<open>'h\<close> is the type of database handles.
\<close>

record ParsedURL =
  url_Username :: string
  url_Password :: "string option"
  url_Path :: string
  url_Driver :: string

record ('d, 'h) dburl =
  dburl_Parse :: "string \<Rightarrow> go_error + ParsedURL"
  dburl_Open :: "string \<Rightarrow> ('d, go_error + 'h) call"

type_synonym ('d, 'h) engineInit =
  "'h \<Rightarrow> string \<Rightarrow> MigrationEngineI option \<Rightarrow> ('d, go_error + 'd DbAdmin) go"

type_synonym ('d, 'h) engines = "string \<rightharpoonup> ('d, 'h) engineInit"

definition Register :: "('d, 'h) engines \<Rightarrow> string \<Rightarrow> ('d, 'h) engineInit \<Rightarrow> ('d, 'h) engines" where
  "Register engines driverName initFunc = engines(driverName \<mapsto> initFunc)"

definition Open ::
  "('d, 'h) dburl \<Rightarrow> ('d, 'h) engines \<Rightarrow> string \<Rightarrow> MigrationEngineI option
   \<Rightarrow> ('d, go_error + 'd DbAdmin) go" where
  "Open lib engines dsn migrationEngine =
     (case dburl_Parse lib dsn of
        Inl err \<Rightarrow> go_return (Inl (Errorf_w ''Unable to parse connection dsn: %w'' [] err))
      | Inr parsed \<Rightarrow>
        if url_Username parsed = [] then
          go_return (Inl (errorString ''Must provide username in the connection DSN''))
        else if url_Password parsed = None then
          go_return (Inl (errorString ''Must provide password in the connection DSN''))
        else if length (url_Path parsed) \<le> 1 then
          go_return (Inl (errorString ''Must provide specific database name in the connection DSN''))
        else
          let dbName = drop 1 (url_Path parsed) in
          go_check (go_call (dburl_Open lib dsn))
            (\<lambda>err. go_return (Inl (Errorf_w ''Unable to instantiate engine: %w'' [] err)))
            (\<lambda>handle. case engines (url_Driver parsed) of
                None \<Rightarrow> go_return (Inl (Errorf
                  ''Driver (%s) is not registered, please import conforming driver''
                  [url_Driver parsed]))
              | Some initFunc \<Rightarrow> initFunc handle dbName migrationEngine))"

text \<open>
  The DSN a connection is opened with is complete: an admin is only ever built for a DSN that
  parses, names a user, carries a password and a non-empty database name, and whose driver is
  registered; the admin is then the driver's, for the path without its first character.
\<close>

lemma Open_Inr:
  assumes "Open lib engines dsn eng d = Ret (Inr adm) d'"
  shows "\<exists>parsed handle d1 initFunc.
     dburl_Parse lib dsn = Inr parsed \<and> url_Username parsed \<noteq> [] \<and> url_Password parsed \<noteq> None \<and>
     1 < length (url_Path parsed) \<and> dburl_Open lib dsn d = (Inr handle, d1) \<and>
     engines (url_Driver parsed) = Some initFunc \<and>
     initFunc handle (drop 1 (url_Path parsed)) eng d1 = Ret (Inr adm) d'"
  using assms
  by (auto simp: Open_def go_defs Let_def split: sum.splits if_splits option.splits prod.splits)

section \<open>What the controller relies on to manage credentials\<close>

text \<open>
  \<open>users\<close> are the accounts of the database, \<open>sessions\<close> its active connections per user, \<open>pfx\<close> the prefix
  the client lists accounts with, \<open>listed u\<close> says that such a listing reports an account \<open>u\<close>, and \<open>ok\<close>
  is what the provider needs of the state.
  A call that reports an error may or may not have taken effect; it never does anything else.
\<close>

locale credential_admin =
  fixes adm :: "'d DbAdmin"
    and users :: "'d \<Rightarrow> string set"
    and sessions :: "'d \<Rightarrow> string \<Rightarrow> nat"
    and pfx :: string
    and listed :: "string \<Rightarrow> bool"
    and ok :: "'d \<Rightarrow> bool"
  assumes prefix_listed: "prefix pfx u \<Longrightarrow> listed u"
    and list_spec: "ok d \<Longrightarrow> wp (ListUsernames adm pfx) (\<lambda>r d'. ok d' \<and> users d' = users d \<and>
          (case r of Inl e \<Rightarrow> foreign e | Inr xs \<Rightarrow> set xs = {u \<in> users d. listed u})) d"
    and write_spec: "ok d \<Longrightarrow> wp (WriteCredentials adm u pw) (\<lambda>r d'. ok d' \<and>
          users d \<subseteq> users d' \<and> users d' \<subseteq> insert u (users d) \<and>
          (case r of Inl e \<Rightarrow> foreign e | Inr _ \<Rightarrow> u \<in> users d')) d"
    and delete_spec: "ok d \<Longrightarrow> wp (VerifyUnusedAndDeleteCredentials adm u) (\<lambda>r d'. ok d' \<and>
          users d' \<subseteq> users d \<and> users d - {u} \<subseteq> users d' \<and>
          (0 < sessions d u \<longrightarrow> users d \<subseteq> users d') \<and>
          (case r of Inl e \<Rightarrow> foreign e | Inr _ \<Rightarrow> u \<notin> users d')) d"
begin

text \<open>Accounts are only ever taken away by deleting them, and only when nothing is connected.\<close>

lemma write_keeps: "ok d \<Longrightarrow> wp (WriteCredentials adm u pw) (\<lambda>_ d'. ok d' \<and> users d \<subseteq> users d') d"
  by (rule wpp_mono [OF write_spec]) (auto split: sum.splits)

lemma delete_keeps_others:
  "ok d \<Longrightarrow> wp (VerifyUnusedAndDeleteCredentials adm u)
     (\<lambda>_ d'. ok d' \<and> (\<forall>v \<in> users d. v \<noteq> u \<or> 0 < sessions d u \<longrightarrow> v \<in> users d')) d"
  by (rule wpp_mono [OF delete_spec]) auto

end

end
