(* ===== verification/Metrics.thy ===== *)
theory Metrics
  imports DbAdmin
begin

text \<open>
  \<^verbatim>\<open>controllers/metrics.go\<close>: the collector that exports metrics from one managed database.

  Prometheus descriptors are data (name, help, constant labels). A Go map from table references to
  descriptors is an association list with one entry per key; \<open>visit\<close> gives the order in which Go
  visits a map, which the language leaves open. \<open>Collect\<close> returns what it sends to the channel and
  the histogram observations it makes, in order. \<open>bad\<close> says for which arguments the library's
  \<^verbatim>\<open>MustNewConstMetric\<close> panics.
\<close>

record Desc =
  fqName :: string
  help_text :: string
  constLabels :: "string \<rightharpoonup> string"

record sqlQueryExporter =
  qe_spec :: SQLQueryMetric
  qe_desc :: Desc
  qe_timing :: Desc

record 'd databaseMetricsCollector =
  dmc_db :: "'d DbAdmin"
  rowEstimateMetrics :: "(TableReference \<times> Desc) list"
  rowEstimateFilter :: "string list"
  nextIDMetrics :: "(TableReference \<times> Desc) list"
  nextIDFilter :: "string list"
  sqlQueryMetrics :: "sqlQueryExporter list"

text \<open>Storing into a Go map.\<close>

fun map_store :: "'k \<Rightarrow> 'v \<Rightarrow> ('k \<times> 'v) list \<Rightarrow> ('k \<times> 'v) list" where
  "map_store k v [] = [(k, v)]"
| "map_store k v ((k', v') # m) = (if k = k' then (k, v) # m else (k', v') # map_store k v m)"

definition tableDesc :: "string \<Rightarrow> string \<Rightarrow> string \<Rightarrow> TableReference \<Rightarrow> Desc" where
  "tableDesc name hlp dbName tableRef =
     \<lparr>fqName = name, help_text = hlp,
      constLabels = [''database'' \<mapsto> dbName, ''table'' \<mapsto> TableName tableRef]\<rparr>"

fun tableMetrics ::
  "string \<Rightarrow> string \<Rightarrow> string \<Rightarrow> TableReference list \<Rightarrow> (TableReference \<times> Desc) list \<Rightarrow> string list
   \<Rightarrow> (TableReference \<times> Desc) list \<times> string list" where
  "tableMetrics name hlp dbName [] metrics filt = (metrics, filt)"
| "tableMetrics name hlp dbName (tableRef # refs) metrics filt =
     tableMetrics name hlp dbName refs
       (map_store tableRef (tableDesc name hlp dbName tableRef) metrics)
       (filt @ [TableName tableRef])"

definition queryExporter :: "string \<Rightarrow> SQLQueryMetric \<Rightarrow> sqlQueryExporter" where
  "queryExporter dbName sqlQuery =
     (let metric = PrometheusMetric sqlQuery in
      \<lparr>qe_spec = sqlQuery,
       qe_desc = \<lparr>fqName = pm_Name metric, help_text = HelpString metric,
         constLabels = [''database'' \<mapsto> dbName] ++ ExtraLabels metric\<rparr>,
       qe_timing = \<lparr>fqName = ''database_query_duration_seconds'',
         help_text = ''Histogram of database query durations'',
         constLabels = [''database'' \<mapsto> dbName, ''verb'' \<mapsto> ''SELECT'',
           ''query_for_metric'' \<mapsto> pm_Name metric]\<rparr>\<rparr>)"

definition opt_list :: "'a list option \<Rightarrow> 'a list" where
  "opt_list xs = (case xs of None \<Rightarrow> [] | Some ys \<Rightarrow> ys)"

definition NewDatabaseMetricsCollector ::
  "'d DbAdmin \<Rightarrow> string \<Rightarrow> DataMetrics option \<Rightarrow> 'd databaseMetricsCollector" where
  "NewDatabaseMetricsCollector db dbName metrics =
     (case metrics of
        None \<Rightarrow> \<lparr>dmc_db = db, rowEstimateMetrics = [], rowEstimateFilter = [],
                 nextIDMetrics = [], nextIDFilter = [], sqlQueryMetrics = []\<rparr>
      | Some ms \<Rightarrow>
          let (rows, rowFilter) = tableMetrics ''database_table_rows_estimate''
                ''Estimate of the number of rows in the specified table'' dbName
                (opt_list (TableEstimatedSize ms)) [] [];
              (ids, idFilter) = tableMetrics ''database_table_next_id''
                ''The next id which will be assigned to a new row in the table'' dbName
                (opt_list (TableNextID ms)) [] []
          in \<lparr>dmc_db = db, rowEstimateMetrics = rows, rowEstimateFilter = rowFilter,
              nextIDMetrics = ids, nextIDFilter = idFilter,
              sqlQueryMetrics = map (queryExporter dbName) (opt_list (SQLQuery ms))\<rparr>)"

section \<open>Collecting\<close>

type_synonym range_order = "(TableReference \<times> Desc) list \<Rightarrow> (TableReference \<times> Desc) list"

definition Describe :: "range_order \<Rightarrow> 'd databaseMetricsCollector \<Rightarrow> Desc list" where
  "Describe visit dmc =
     map snd (visit (rowEstimateMetrics dmc)) @ map snd (visit (nextIDMetrics dmc)) @
     concat (map (\<lambda>exporter. [qe_desc exporter, qe_timing exporter]) (sqlQueryMetrics dmc))"

datatype valueType = zeroValueType | CounterValue | GaugeValue

datatype collect_event =
    SendConst Desc valueType float64
  | Observe Desc
  | SendTiming Desc

definition MustNewConstMetric ::
  "(Desc \<Rightarrow> valueType \<Rightarrow> bool) \<Rightarrow> Desc \<Rightarrow> valueType \<Rightarrow> float64 \<Rightarrow> ('d, collect_event) go" where
  "MustNewConstMetric bad desc vt v =
     (if bad desc vt then go_panic ''MustNewConstMetric'' else go_return (SendConst desc vt v))"

primrec sendTables ::
  "(Desc \<Rightarrow> valueType \<Rightarrow> bool) \<Rightarrow> (string \<rightharpoonup> u64) \<Rightarrow> (TableReference \<times> Desc) list
   \<Rightarrow> ('d, collect_event list) go" where
  "sendTables bad values [] = go_return []"
| "sendTables bad values (entry # rest) =
     (let v = (case values (TableName (fst entry)) of None \<Rightarrow> 0 | Some n \<Rightarrow> n) in
      go_bind (MustNewConstMetric bad (snd entry) GaugeValue (FloatOfUint64 v)) (\<lambda>ev.
      go_bind (sendTables bad values rest) (\<lambda>evs. go_return (ev # evs))))"

text \<open>A query for table values that fails is logged and sends nothing.\<close>

definition sendResult ::
  "(Desc \<Rightarrow> valueType \<Rightarrow> bool) \<Rightarrow> (TableReference \<times> Desc) list \<Rightarrow> go_error + (string \<rightharpoonup> u64)
   \<Rightarrow> ('d, collect_event list) go" where
  "sendResult bad entries r =
     (case r of Inl err \<Rightarrow> go_return [] | Inr values \<Rightarrow> sendTables bad values entries)"

definition exporterValueType :: "sqlQueryExporter \<Rightarrow> valueType" where
  "exporterValueType exporter =
     (let t = ValueType (PrometheusMetric (qe_spec exporter)) in
      if t = ''counter'' then CounterValue
      else if t = ''gauge'' then GaugeValue
      else zeroValueType)"

primrec sendQueries ::
  "(Desc \<Rightarrow> valueType \<Rightarrow> bool) \<Rightarrow> 'd DbAdmin \<Rightarrow> sqlQueryExporter list \<Rightarrow> ('d, collect_event list) go" where
  "sendQueries bad db [] = go_return []"
| "sendQueries bad db (exporter # rest) =
     go_bind (SelectFloat db (Query (qe_spec exporter))) (\<lambda>r. case r of
         Inl err \<Rightarrow> sendQueries bad db rest
       | Inr metricValue \<Rightarrow>
           go_bind (MustNewConstMetric bad (qe_desc exporter) (exporterValueType exporter) metricValue)
             (\<lambda>ev. go_bind (sendQueries bad db rest)
             (\<lambda>evs. go_return (Observe (qe_timing exporter) # ev # SendTiming (qe_timing exporter) # evs))))"

definition Collect ::
  "range_order \<Rightarrow> (Desc \<Rightarrow> valueType \<Rightarrow> bool) \<Rightarrow> 'd databaseMetricsCollector \<Rightarrow> ('d, collect_event list) go" where
  "Collect visit bad dmc =
     go_bind (GetTableSizeEstimates (dmc_db dmc) (rowEstimateFilter dmc)) (\<lambda>r1.
     go_bind (sendResult bad (visit (rowEstimateMetrics dmc)) r1) (\<lambda>evs1.
     go_bind (GetNextIDs (dmc_db dmc) (nextIDFilter dmc)) (\<lambda>r2.
     go_bind (sendResult bad (visit (nextIDMetrics dmc)) r2) (\<lambda>evs2.
     go_bind (sendQueries bad (dmc_db dmc) (sqlQueryMetrics dmc)) (\<lambda>evs3.
     go_return (evs1 @ evs2 @ evs3))))))"

definition collector_Close :: "'d databaseMetricsCollector \<Rightarrow> ('d, go_error + unit) go" where
  "collector_Close dmc = Close (dmc_db dmc)"

section \<open>What is collected is what is described\<close>

text \<open>The descriptor an event belongs to.\<close>

primrec event_desc :: "collect_event \<Rightarrow> Desc" where
  "event_desc (SendConst d t v) = d"
| "event_desc (Observe d) = d"
| "event_desc (SendTiming d) = d"

lemma sendTables_events:
  "sendTables bad values es d = Ret evs d' \<Longrightarrow> d' = d \<and> map event_desc evs = map snd es"
  by (induction es arbitrary: evs)
     (auto simp: go_defs MustNewConstMetric_def Let_def split: outcome.splits if_splits)

lemma sendResult_events:
  assumes "sendResult bad es r d = Ret evs d'"
  shows "event_desc ` set evs \<subseteq> snd ` set es"
proof (cases r)
  case (Inr m)
  with assms have "map event_desc evs = map snd es"
    by (simp add: sendResult_def sendTables_events)
  then show ?thesis by (metis list.set_map order_refl)
qed (use assms in \<open>simp add: sendResult_def go_return_def\<close>)

lemma sendQueries_events:
  "sendQueries bad db es d = Ret evs d' \<Longrightarrow> ev \<in> set evs \<Longrightarrow>
   event_desc ev \<in> qe_desc ` set es \<union> qe_timing ` set es"
proof (induction es arbitrary: evs d)
  case Nil
  then show ?case by (simp add: go_defs)
next
  case (Cons e es)
  from Cons.prems show ?case
    by (auto simp: go_defs MustNewConstMetric_def
        split: outcome.splits if_splits sum.splits dest: Cons.IH)
qed

lemma Collect_described:
  fixes dmc :: "'d databaseMetricsCollector"
  assumes "Collect visit bad dmc d = Ret evs d'"
  shows "event_desc ` set evs \<subseteq> set (Describe visit dmc)"
proof -
  from assms obtain r1 r2 evs1 evs2 evs3 and d1 d2 d3 d4 :: 'd where
        1: "sendResult bad (visit (rowEstimateMetrics dmc)) r1 d1 = Ret evs1 d2"
    and 2: "sendResult bad (visit (nextIDMetrics dmc)) r2 d3 = Ret evs2 d4"
    and 3: "sendQueries bad (dmc_db dmc) (sqlQueryMetrics dmc) d4 = Ret evs3 d'"
    and evs: "evs = evs1 @ evs2 @ evs3"
    by (auto simp: Collect_def go_Ret_iffs)
  note sendResult_events [OF 1] sendResult_events [OF 2]
  moreover
  from sendQueries_events [OF 3] have "event_desc ` set evs3 \<subseteq>
      qe_desc ` set (sqlQueryMetrics dmc) \<union> qe_timing ` set (sqlQueryMetrics dmc)" by auto
  ultimately show ?thesis using evs by (auto simp: Describe_def)
qed

section \<open>Which tables are asked for\<close>

lemma map_store_keys: "fst ` set (map_store k v m) = insert k (fst ` set m)"
  by (induction k v m rule: map_store.induct) auto

lemma map_store_distinct: "distinct (map fst m) \<Longrightarrow> distinct (map fst (map_store k v m))"
proof (induction k v m rule: map_store.induct)
  case (2 k v k' v' m)
  have "k' \<in> fst ` set (map_store k v m) \<Longrightarrow> k' \<noteq> k \<Longrightarrow> k' \<in> fst ` set m"
    by (auto simp: map_store_keys)
  with 2 show ?case by (auto simp del: map_store.simps simp: map_store.simps(2))
qed simp

lemma tableMetrics_filter [simp]:
  "snd (tableMetrics n hlp dbn refs ms filt) = filt @ map TableName refs"
  by (induction n hlp dbn refs ms filt rule: tableMetrics.induct) auto

lemma tableMetrics_keys [simp]:
  "fst ` set (fst (tableMetrics n hlp dbn refs ms filt)) = fst ` set ms \<union> set refs"
  by (induction n hlp dbn refs ms filt rule: tableMetrics.induct) (auto simp: map_store_keys)

lemma tableMetrics_distinct:
  "distinct (map fst ms) \<Longrightarrow> distinct (map fst (fst (tableMetrics n hlp dbn refs ms filt)))"
  by (induction n hlp dbn refs ms filt rule: tableMetrics.induct) (auto simp: map_store_distinct)

text \<open>Every table reference has the descriptor made for it, and there is no other descriptor.\<close>

lemma map_of_map_store: "map_of (map_store k v m) = (map_of m)(k \<mapsto> v)"
  by (induction k v m rule: map_store.induct) (auto simp: fun_eq_iff)

lemma tableMetrics_map_of:
  "map_of (fst (tableMetrics n hlp dbn refs ms filt)) r =
     (if r \<in> set refs then Some (tableDesc n hlp dbn r) else map_of ms r)"
  by (induction n hlp dbn refs ms filt rule: tableMetrics.induct) (auto simp: map_of_map_store)

lemma tableMetrics_entries:
  "(r, desc) \<in> set (fst (tableMetrics n hlp dbn refs [] filt)) \<longleftrightarrow> r \<in> set refs \<and> desc = tableDesc n hlp dbn r"
proof -
  have "distinct (map fst (fst (tableMetrics n hlp dbn refs [] filt)))" by (simp add: tableMetrics_distinct)
  from map_of_eq_Some_iff [OF this, of r desc] show ?thesis by (auto simp: tableMetrics_map_of split: if_splits)
qed

text \<open>What is sent for the tables: one gauge per entry, with the value found for the table of the entry.\<close>

lemma sendTables_values:
  "sendTables bad values es d = Ret evs d' \<Longrightarrow> evs = map (\<lambda>(r, desc). SendConst desc GaugeValue
     (FloatOfUint64 (case values (TableName r) of None \<Rightarrow> 0 | Some n \<Rightarrow> n))) es"
  by (induction es arbitrary: evs)
     (auto simp: go_defs MustNewConstMetric_def Let_def split: outcome.splits if_splits)

section \<open>The table metrics of a collection\<close>

text \<open>
  The gauge that reports the value \<open>n\<close> for a table, and what a collection has to send for the configured
  tables \<open>refs\<close>, given the answer to its question: nothing after an error, otherwise one gauge for each
  table, with the number found for that table, or zero.
\<close>

definition gauge_of :: "string \<Rightarrow> string \<Rightarrow> string \<Rightarrow> string \<Rightarrow> u64 \<Rightarrow> collect_event" where
  "gauge_of name hlp dbName table n = SendConst \<lparr>fqName = name, help_text = hlp,
     constLabels = [''database'' \<mapsto> dbName, ''table'' \<mapsto> table]\<rparr> GaugeValue (FloatOfUint64 n)"

definition sent_for :: "string \<Rightarrow> string \<Rightarrow> string \<Rightarrow> TableReference list \<Rightarrow> go_error + (string \<rightharpoonup> u64)
   \<Rightarrow> collect_event list \<Rightarrow> bool" where
  "sent_for name hlp dbName refs r evs \<longleftrightarrow> (case r of
       Inl _ \<Rightarrow> evs = []
     | Inr values \<Rightarrow> length evs = card (set refs) \<and> set evs = (\<lambda>ref. gauge_of name hlp dbName (TableName ref)
         (case values (TableName ref) of None \<Rightarrow> 0 | Some n \<Rightarrow> n)) ` set refs)"

definition fair_visit :: "range_order \<Rightarrow> bool" where
  "fair_visit visit \<longleftrightarrow> (\<forall>m. distinct (map fst m) \<longrightarrow> length (visit m) = length m \<and> set (visit m) = set m)"

lemma sendResult_sent:
  fixes refs :: "TableReference list"
  assumes "fair_visit visit" and "sendResult bad (visit (fst (tableMetrics name hlp dbName refs [] []))) r d = Ret evs d'"
  shows "d' = d \<and> sent_for name hlp dbName refs r evs"
proof (cases r)
  case (Inl e)
  with assms(2) show ?thesis by (simp add: sendResult_def sent_for_def go_return_def)
next
  case (Inr found)
  let ?m = "fst (tableMetrics name hlp dbName refs [] [])"
  have keys: "distinct (map fst ?m)" by (simp add: tableMetrics_distinct)
  with assms(1) have fair: "length (visit ?m) = length ?m" "set (visit ?m) = set ?m" by (auto simp: fair_visit_def)
  from Inr assms(2) have run: "sendTables bad found (visit ?m) d = Ret evs d'" by (simp add: sendResult_def)
  from distinct_card [OF keys] have "length ?m = card (set refs)" by simp
  with sendTables_values [OF run] fair have "length evs = card (set refs)" by simp
  moreover have "set evs = (\<lambda>ref. gauge_of name hlp dbName (TableName ref)
      (case found (TableName ref) of None \<Rightarrow> 0 | Some n \<Rightarrow> n)) ` set refs"
    using fair(2) sendTables_values [OF run]
    by (force simp: tableMetrics_entries gauge_of_def tableDesc_def image_iff)
  ultimately show ?thesis using Inr sendTables_events [OF run] by (simp add: sent_for_def)
qed

lemma Collect_tables:
  fixes d :: 'd
  assumes "fair_visit visit"
    and "Collect visit bad (NewDatabaseMetricsCollector db dbName (Some ms)) d = Ret evs d'"
  shows "\<exists>r1 r2 d1 d2 rows ids queries.
    GetTableSizeEstimates db (map TableName (opt_list (TableEstimatedSize ms))) d = Ret r1 d1 \<and>
    GetNextIDs db (map TableName (opt_list (TableNextID ms))) d1 = Ret r2 d2 \<and>
    evs = rows @ ids @ queries \<and>
    sent_for ''database_table_rows_estimate'' ''Estimate of the number of rows in the specified table''
      dbName (opt_list (TableEstimatedSize ms)) r1 rows \<and>
    sent_for ''database_table_next_id'' ''The next id which will be assigned to a new row in the table''
      dbName (opt_list (TableNextID ms)) r2 ids"
proof -
  define rows where "rows = tableMetrics ''database_table_rows_estimate''
    ''Estimate of the number of rows in the specified table'' dbName (opt_list (TableEstimatedSize ms)) [] []"
  define ids where "ids = tableMetrics ''database_table_next_id''
    ''The next id which will be assigned to a new row in the table'' dbName (opt_list (TableNextID ms)) [] []"
  have new: "NewDatabaseMetricsCollector db dbName (Some ms) = \<lparr>dmc_db = db, rowEstimateMetrics = fst rows,
      rowEstimateFilter = map TableName (opt_list (TableEstimatedSize ms)), nextIDMetrics = fst ids,
      nextIDFilter = map TableName (opt_list (TableNextID ms)),
      sqlQueryMetrics = map (queryExporter dbName) (opt_list (SQLQuery ms))\<rparr>"
    by (simp add: NewDatabaseMetricsCollector_def rows_def ids_def split_beta Let_def)
  from assms(2) obtain r1 r2 evs1 evs2 evs3 and d1 d2 d3 d4 :: 'd where
        ask1: "GetTableSizeEstimates db (map TableName (opt_list (TableEstimatedSize ms))) d = Ret r1 d1"
    and send1: "sendResult bad (visit (fst rows)) r1 d1 = Ret evs1 d2"
    and ask2: "GetNextIDs db (map TableName (opt_list (TableNextID ms))) d2 = Ret r2 d3"
    and send2: "sendResult bad (visit (fst ids)) r2 d3 = Ret evs2 d4"
    and evs: "evs = evs1 @ evs2 @ evs3"
    by (auto simp: Collect_def new go_Ret_iffs)
  from sendResult_sent [OF assms(1) send1 [unfolded rows_def]] sendResult_sent [OF assms(1) send2 [unfolded ids_def]]
    ask1 ask2 evs show ?thesis by blast
qed

end
