(* ===== verification/Jobs.thy ===== *)
theory Jobs
  imports Kube
begin

text \<open>
  \<^verbatim>\<open>controllers/jobs.go\<close>: the Kubernetes job that runs a migration container, with the naming and
  labelling helpers of \<^verbatim>\<open>controllers/manageddatabase_controller.go\<close> it uses.
\<close>

definition DBUsernamePrefix :: string where
  "DBUsernamePrefix = ''dba_''"

definition migrationName :: "string \<Rightarrow> string \<Rightarrow> string" where
  "migrationName dbName migName = sprintf ''%s-%s'' [dbName, migName]"

definition migrationDBUsername :: "string \<Rightarrow> string" where
  "migrationDBUsername migName = sprintf ''%s%s'' [DBUsernamePrefix, migName]"

definition migrationLabelValue :: "NamespacedName \<Rightarrow> string" where
  "migrationLabelValue n = sprintf ''%s.%s'' [nn_Namespace n, nn_Name n]"

definition getStandardLabels :: "ManagedDatabase \<Rightarrow> DatabaseMigration \<Rightarrow> (string \<rightharpoonup> string)" where
  "getStandardLabels db migration =
     [''migration'' \<mapsto> Name migration, ''migration-uid'' \<mapsto> UID migration,
      ''database'' \<mapsto> Name db, ''database-uid'' \<mapsto> UID db]"

definition env_value :: "string \<Rightarrow> string \<Rightarrow> EnvVar" where
  "env_value n v = \<lparr>e_Name = n, e_Value = v, e_ValueFrom = None\<rparr>"

definition constructJobForMigration :: "ManagedDatabase \<Rightarrow> DatabaseMigration \<Rightarrow> Job" where
  "constructJobForMigration managedDatabase migration =
     (let name = migrationName (Name managedDatabase) (Name migration);
          containerSpec = MigrationContainerSpec (mig_Spec migration);
          csSource = \<lparr>SecretKeyRef = Some \<lparr>sk_Name = DSNSecret (Connection (Spec managedDatabase)),
              sk_Key = ''dsn'', sk_Optional = Some False\<rparr>\<rparr>;
          containerSpec = containerSpec\<lparr>c_Env := c_Env containerSpec @
            [\<lparr>e_Name = ''DBA_OP_CONNECTION_STRING'', e_Value = [], e_ValueFrom = Some csSource\<rparr>,
             env_value ''DBA_OP_JOB_ID'' name,
             env_value ''DBA_OP_PROMETHEUS_PUSH_GATEWAY_ADDR'' ''prom-pushgateway:9091'',
             env_value ''DBA_OP_LABEL_DATABASE'' (Name managedDatabase),
             env_value ''DBA_OP_LABEL_MIGRATION'' (Name migration)]\<rparr>;
          containerSpec = containerSpec\<lparr>c_ImagePullPolicy := ''IfNotPresent''\<rparr>;
          volumes = (case spec_MigrationContainerConfig (Spec managedDatabase) of
              None \<Rightarrow> []
            | Some migrationConfig \<Rightarrow>
                [\<lparr>v_Name = vm_Name (mcc_VolumeMount migrationConfig),
                  v_Secret = Some \<lparr>sv_SecretName = mcc_Secret migrationConfig,
                                   sv_Optional = Some False\<rparr>\<rparr>]);
          containerSpec = (case spec_MigrationContainerConfig (Spec managedDatabase) of
              None \<Rightarrow> containerSpec
            | Some migrationConfig \<Rightarrow> containerSpec\<lparr>c_VolumeMounts :=
                c_VolumeMounts containerSpec @ [mcc_VolumeMount migrationConfig]\<rparr>)
      in \<lparr>Name = name, Namespace = Namespace managedDatabase, UID = [], SelfLink = [],
          Labels = Some (getStandardLabels managedDatabase migration), OwnerReferences = [],
          job_Template = \<lparr>p_Volumes = volumes, p_InitContainers = [],
            p_Containers = [containerSpec], p_RestartPolicy = ''Never''\<rparr>,
          job_BackoffLimit = Some 0,
          job_Status = \<lparr>Active = 0, Succeeded = 0, Conditions = None\<rparr>\<rparr>)"

section \<open>Names\<close>

lemma migrationName_eq [simp]: "migrationName d m = d @ ''-'' @ m"
  by (simp add: migrationName_def)

lemma migrationDBUsername_eq [simp]: "migrationDBUsername m = ''dba_'' @ m"
  by (simp add: migrationDBUsername_def DBUsernamePrefix_def)

lemma migrationLabelValue_eq: "migrationLabelValue n = nn_Namespace n @ ''.'' @ nn_Name n"
  by (simp add: migrationLabelValue_def)

lemma getStandardLabels_simps [simp]:
  "getStandardLabels db m ''migration'' = Some (Name m)"
  "getStandardLabels db m ''migration-uid'' = Some (UID m)"
  "getStandardLabels db m ''database'' = Some (Name db)"
  "getStandardLabels db m ''database-uid'' = Some (UID db)"
  by (simp_all add: getStandardLabels_def)

text \<open>
  A label value tells which migration it names, because a namespace has no dot in it (it is a DNS
  label): the value splits at its first dot.
\<close>

definition parse_label :: "string \<Rightarrow> NamespacedName" where
  "parse_label v = name_of (takeWhile (\<lambda>c. c \<noteq> CHR ''.'') v) (drop 1 (dropWhile (\<lambda>c. c \<noteq> CHR ''.'') v))"

lemma parse_label_roundtrip:
  assumes "CHR ''.'' \<notin> set (nn_Namespace n)"
  shows "parse_label (migrationLabelValue n) = n"
proof -
  from assms have "\<forall>c \<in> set (nn_Namespace n). c \<noteq> CHR ''.''" by auto
  then show ?thesis
    by (simp add: parse_label_def migrationLabelValue_eq takeWhile_append2 dropWhile_append2)
qed

section \<open>The migration container protocol\<close>

definition job_container :: "Job \<Rightarrow> Container" where
  "job_container job = hd (p_Containers (job_Template job))"

lemma constructJob_labels [simp]:
  "Labels (constructJobForMigration db m) = Some (getStandardLabels db m)"
  "Namespace (constructJobForMigration db m) = Namespace db"
  "Name (constructJobForMigration db m) = Name db @ ''-'' @ Name m"
  by (simp_all add: constructJobForMigration_def Let_def)

lemma constructJob_env:
  "c_Env (job_container (constructJobForMigration db m)) =
     c_Env (MigrationContainerSpec (mig_Spec m)) @
     [\<lparr>e_Name = ''DBA_OP_CONNECTION_STRING'', e_Value = [],
       e_ValueFrom = Some \<lparr>SecretKeyRef = Some \<lparr>sk_Name = DSNSecret (Connection (Spec db)),
         sk_Key = ''dsn'', sk_Optional = Some False\<rparr>\<rparr>\<rparr>,
      env_value ''DBA_OP_JOB_ID'' (Name db @ ''-'' @ Name m),
      env_value ''DBA_OP_PROMETHEUS_PUSH_GATEWAY_ADDR'' ''prom-pushgateway:9091'',
      env_value ''DBA_OP_LABEL_DATABASE'' (Name db),
      env_value ''DBA_OP_LABEL_MIGRATION'' (Name m)]"
  by (simp add: constructJobForMigration_def Let_def job_container_def split: option.splits)

lemma constructJob_frame:
  "\<exists>c. p_Containers (job_Template (constructJobForMigration db m)) = [c] \<and>
       c_Name c = c_Name (MigrationContainerSpec (mig_Spec m)) \<and>
       c_Image c = c_Image (MigrationContainerSpec (mig_Spec m)) \<and>
       c_Command c = c_Command (MigrationContainerSpec (mig_Spec m))"
  by (simp add: constructJobForMigration_def Let_def split: option.splits)

lemma constructJob_once:
  "p_RestartPolicy (job_Template (constructJobForMigration db m)) = ''Never''"
  "job_BackoffLimit (constructJobForMigration db m) = Some 0"
  by (simp_all add: constructJobForMigration_def Let_def)

text \<open>
  Every mounted configuration volume is declared by the pod, so that the container can start: the
  mount the configuration adds names a volume of the job.
\<close>

lemma constructJob_mounts:
  assumes "spec_MigrationContainerConfig (Spec db) = Some cfg"
  shows "c_VolumeMounts (job_container (constructJobForMigration db m)) =
      c_VolumeMounts (MigrationContainerSpec (mig_Spec m)) @ [mcc_VolumeMount cfg]"
    and "p_Volumes (job_Template (constructJobForMigration db m)) =
      [\<lparr>v_Name = vm_Name (mcc_VolumeMount cfg),
        v_Secret = Some \<lparr>sv_SecretName = mcc_Secret cfg, sv_Optional = Some False\<rparr>\<rparr>]"
  using assms by (simp_all add: constructJobForMigration_def Let_def job_container_def)

end
