(* ===== verification/Controller.thy ===== *)
theory Controller
  imports Kube Metrics Jobs
begin

text \<open>
  The controller object (\<^verbatim>\<open>ManagedDatabaseController\<close>) and its surroundings, for the handlers in
  \<^verbatim>\<open>controllers/manageddatabase_controller.go\<close>.

  \<open>Controller\<close> holds what never changes: the Kubernetes client, the Prometheus registry's two
  operations, the system's source of random bytes, the function that opens a database connection,
  the order in which Go's sets and maps are iterated (which Go leaves open), and the library
  function that converts names to lower camel case.
  \<open>sys\<close> is the whole state a handler works on: the cluster, the database servers, the process
  environment (registry and random source), and the controller's own mutable fields and metrics.
  A counter or gauge is its current value.
\<close>

record ('k, 'd, 'h) Controller =
  Client :: "'k Client"
  registry_Register :: "'d databaseMetricsCollector \<Rightarrow> ('h, go_error + unit) call"
  registry_Unregister :: "'d databaseMetricsCollector \<Rightarrow> ('h, bool) call"
  rand_Read :: "nat \<Rightarrow> ('h, go_error + 8 word list) call"
  initializeAdminConnection :: "string \<Rightarrow> string \<Rightarrow> ('d, go_error + 'd DbAdmin) go"
  iterate :: "string list \<Rightarrow> string list"
  strcase_ToLowerCamel :: "string \<Rightarrow> string"

record ('k, 'd, 'h) sys =
  kube :: 'k
  dbs :: 'd
  host :: 'h
  databaseLinks :: "string set"
  databaseMetricsCollectors :: "string \<rightharpoonup> 'd databaseMetricsCollector"
  MigrationJobsSpawned :: nat
  CredentialsCreated :: nat
  CredentialsRevoked :: nat
  RegisteredMigrations :: nat
  ManagedDatabases :: nat

definition on_kube :: "('k, 'a) go \<Rightarrow> (('k, 'd, 'h) sys, 'a) go" where
  "on_kube m = go_zoom kube (\<lambda>k s. s\<lparr>kube := k\<rparr>) m"

definition on_dbs :: "('d, 'a) go \<Rightarrow> (('k, 'd, 'h) sys, 'a) go" where
  "on_dbs m = go_zoom dbs (\<lambda>d s. s\<lparr>dbs := d\<rparr>) m"

definition on_host :: "('h, 'a) go \<Rightarrow> (('k, 'd, 'h) sys, 'a) go" where
  "on_host m = go_zoom host (\<lambda>h s. s\<lparr>host := h\<rparr>) m"

lemma wpp_on_kube [wp_simps]:
  "wpp (on_kube m) Q R h s =
   wpp m (\<lambda>a k. Q a (s\<lparr>kube := k\<rparr>)) (\<lambda>p k. R p (s\<lparr>kube := k\<rparr>)) h (kube s)"
  by (simp add: on_kube_def wpp_zoom)

lemma wpp_on_dbs [wp_simps]:
  "wpp (on_dbs m) Q R h s =
   wpp m (\<lambda>a d. Q a (s\<lparr>dbs := d\<rparr>)) (\<lambda>p d. R p (s\<lparr>dbs := d\<rparr>)) h (dbs s)"
  by (simp add: on_dbs_def wpp_zoom)

lemma wpp_on_host [wp_simps]:
  "wpp (on_host m) Q R h s =
   wpp m (\<lambda>a x. Q a (s\<lparr>host := x\<rparr>)) (\<lambda>p x. R p (s\<lparr>host := x\<rparr>)) h (host s)"
  by (simp add: on_host_def wpp_zoom)

text \<open>A call to the database leaves the rest of the state alone, however it ends.\<close>

lemma always_on_dbs: "(\<And>d. I (s\<lparr>dbs := d\<rparr>)) \<Longrightarrow> always (on_dbs m) I s"
  unfolding wpp_on_dbs by (simp add: wpp_def split: outcome.splits)

text \<open>A property of the cluster alone, and a property that does not look at a part of the state.\<close>

lemma stable_on_kube: "stable I m \<Longrightarrow> stable (\<lambda>s. I (kube s)) (on_kube m)"
  by (auto simp: stable_def wpp_on_kube)

lemma stable_on_dbs: "(\<And>s d. I s \<Longrightarrow> I (s\<lparr>dbs := d\<rparr>)) \<Longrightarrow> stable I (on_dbs m)"
  by (auto simp: stable_def intro!: always_on_dbs)

lemma stable_on_host: "(\<And>s h. I s \<Longrightarrow> I (s\<lparr>host := h\<rparr>)) \<Longrightarrow> stable I (on_host m)"
  by (auto simp: stable_def wpp_on_host intro!: wpp_any)

text \<open>Every set is iterated completely, each element once.\<close>

definition fair_iteration :: "('k, 'd, 'h) Controller \<Rightarrow> bool" where
  "fair_iteration c = (\<forall>xs. distinct xs \<longrightarrow> distinct (iterate c xs) \<and> set (iterate c xs) = set xs)"

lemma fair_iteration_set [simp]: "fair_iteration c \<Longrightarrow> distinct xs \<Longrightarrow> set (iterate c xs) = set xs"
  and fair_iteration_distinct [simp]: "fair_iteration c \<Longrightarrow> distinct xs \<Longrightarrow> distinct (iterate c xs)"
  by (simp_all add: fair_iteration_def)

definition BlockedByMigrationLabelKey :: string where
  "BlockedByMigrationLabelKey = ''blocked-by-migration''"

definition requeueAfterDelay :: Result where
  "requeueAfterDelay = \<lparr>Requeue = True, RequeueAfter = 60 * 1000000000\<rparr>"

text \<open>What one reconciliation works on (\<^verbatim>\<open>migrationContext\<close>, without the logger and the context).\<close>

record migrationContext =
  mc_db :: ManagedDatabase
  activeVersion :: "DatabaseMigration option"
  nextVersion :: "DatabaseMigration option"

section \<open>Random passwords\<close>

definition randPassword :: "('k, 'd, 'h) Controller \<Rightarrow> (('k, 'd, 'h) sys, go_error + string) go" where
  "randPassword c =
     go_check (on_host (go_call (rand_Read c 16)))
       (\<lambda>err. go_return (Inl err))
       (\<lambda>identBytes. go_return (Inr (hex_EncodeToString identBytes)))"

section \<open>Reporting an error\<close>

text \<open>
  \<^verbatim>\<open>handleError\<close>: classify the error, append it to the status, label the object when a migration
  blocks it, write the object and the status. \<open>set_label\<close> is the assignment to the label map, which
  panics when the map is nil. The object written to the status is the one the first update returned.
\<close>

definition set_label :: "string \<Rightarrow> string \<Rightarrow> ManagedDatabase \<Rightarrow> ('s, ManagedDatabase) go" where
  "set_label key val db =
     (case Labels db of
        None \<Rightarrow> go_panic ''assignment to entry in nil map''
      | Some m \<Rightarrow> go_return (db\<lparr>Labels := Some (m(key \<mapsto> val))\<rparr>))"

definition append_error :: "ManagedDatabaseError list \<Rightarrow> ManagedDatabase \<Rightarrow> ManagedDatabase" where
  "append_error es db = db\<lparr>Status := (Status db)\<lparr>Errors := Errors (Status db) @ es\<rparr>\<rparr>"

definition writeStatus :: "'k Client \<Rightarrow> ManagedDatabase \<Rightarrow> Result \<times> go_error option
   \<Rightarrow> ('k, Result \<times> go_error option) go" where
  "writeStatus apiClient db final =
     go_bind (go_call (UpdateStatus_ManagedDatabase apiClient db)) (\<lambda>(err, db').
       case err of Some e \<Rightarrow> go_return (zero_Result, Some e) | None \<Rightarrow> go_return final)"

definition handleError ::
  "'k Client \<Rightarrow> ManagedDatabase \<Rightarrow> go_error \<Rightarrow> ('k, Result \<times> go_error option) go" where
  "handleError apiClient db err =
     (if is_temporary err then
        writeStatus apiClient (append_error [\<lparr>Message = Error err, Temporary = True\<rparr>] db)
          (requeueAfterDelay, Some err)
      else (case blocking_migration err of
        Some blockingMigrationName \<Rightarrow>
          go_bind (set_label BlockedByMigrationLabelKey (migrationLabelValue blockingMigrationName) db) (\<lambda>db.
          go_bind (go_call (Update_ManagedDatabase apiClient
              (append_error [\<lparr>Message = Error err, Temporary = False\<rparr>] db))) (\<lambda>(uerr, db').
          case uerr of
            Some e \<Rightarrow> go_return (zero_Result, Some e)
          | None \<Rightarrow> writeStatus apiClient db' (zero_Result, None)))
      | None \<Rightarrow>
          writeStatus apiClient (append_error [\<lparr>Message = Error err, Temporary = False\<rparr>] db)
            (zero_Result, None)))"

section \<open>What reporting guarantees\<close>

lemma append_error_simps [simp]:
  "Labels (append_error es db) = Labels db"
  "Name (append_error es db) = Name db"
  "Namespace (append_error es db) = Namespace db"
  "Spec (append_error es db) = Spec db"
  "Errors (Status (append_error es db)) = Errors (Status db) @ es"
  "CurrentVersion (Status (append_error es db)) = CurrentVersion (Status db)"
  by (simp_all add: append_error_def)

text \<open>Reporting never panics on an object whose label map exists.\<close>

lemma handleError_returns:
  assumes "Labels db \<noteq> None"
  shows "wp (handleError cl db err) (\<lambda>_ _. True) k"
  using assms
  by (auto simp: handleError_def writeStatus_def set_label_def wp_simps
      split: option.splits prod.splits)

lemma handleError_foreign_returns:
  assumes "foreign err"
  shows "wp (handleError cl db err) (\<lambda>_ _. True) k"
  using assms
  by (auto simp: handleError_def writeStatus_def foreign_def wp_simps
      split: option.splits prod.splits)

section \<open>What the API server promises about ManagedDatabases\<close>

text \<open>
  \<open>view\<close> are the stored objects by key. An update stores the labels it is given and hands back the object
  under the same key. Writing the status, which is a subresource of ManagedDatabase, stores the status and
  leaves the labels of the stored object as they are. Both fail when the object is not there.
\<close>

abbreviation db_key :: "ManagedDatabase \<Rightarrow> NamespacedName" where
  "db_key db \<equiv> name_of (Namespace db) (Name db)"

definition has_label :: "string \<Rightarrow> string \<Rightarrow> ManagedDatabase \<Rightarrow> bool" where
  "has_label l v db = (case Labels db of None \<Rightarrow> False | Some m \<Rightarrow> m l = Some v)"

definition same_labels :: "ManagedDatabase \<Rightarrow> ManagedDatabase \<Rightarrow> bool" where
  "same_labels x y \<longleftrightarrow> (\<forall>l v. has_label l v x \<longleftrightarrow> has_label l v y)"

definition update_law :: "'k Client \<Rightarrow> ('k \<Rightarrow> NamespacedName \<rightharpoonup> ManagedDatabase) \<Rightarrow> bool" where
  "update_law cl view \<longleftrightarrow> (\<forall>x k x' k'. Update_ManagedDatabase cl x k = ((None, x'), k') \<longrightarrow>
     db_key x' = db_key x \<and> (\<exists>y. view k' = (view k)(db_key x \<mapsto> y) \<and> same_labels x y))"

definition status_law :: "'k Client \<Rightarrow> ('k \<Rightarrow> NamespacedName \<rightharpoonup> ManagedDatabase) \<Rightarrow> bool" where
  "status_law cl view \<longleftrightarrow> (\<forall>x k x' k'. UpdateStatus_ManagedDatabase cl x k = ((None, x'), k') \<longrightarrow>
     (\<exists>old y. view k (db_key x) = Some old \<and> view k' = (view k)(db_key x \<mapsto> y) \<and>
        same_labels old y \<and> Status y = Status x))"

definition db_api :: "'k Client \<Rightarrow> ('k \<Rightarrow> NamespacedName \<rightharpoonup> ManagedDatabase) \<Rightarrow> bool" where
  "db_api cl view \<longleftrightarrow>
     (\<forall>k n db. view k n = Some db \<longrightarrow> db_key db = n) \<and>
     (\<forall>ns l v k items k'. List_ManagedDatabases cl ns [(l, v)] k = ((None, items), k') \<longrightarrow>
        view k' = view k \<and>
        set items = {db. view k (db_key db) = Some db \<and> Namespace db = ns \<and> has_label l v db}) \<and>
     update_law cl view"

section \<open>What a reported error leaves behind\<close>

text \<open>
  \<open>refused\<close>: an error with which a write was answered. \<open>echoes\<close>: the object an update hands back still has
  the errors it was given (the response is decoded into that object, and a field the response leaves out
  keeps its value). \<open>recorded\<close>: the error is in the status, after the errors that were there.
\<close>

definition refused :: "'k Client \<Rightarrow> go_error \<Rightarrow> bool" where
  "refused cl e \<longleftrightarrow> (\<exists>x k. fst (fst (Update_ManagedDatabase cl x k)) = Some e \<or>
     fst (fst (UpdateStatus_ManagedDatabase cl x k)) = Some e)"

definition echoes :: "'k Client \<Rightarrow> bool" where
  "echoes cl \<longleftrightarrow> (\<forall>x k x' k'. Update_ManagedDatabase cl x k = ((None, x'), k') \<longrightarrow>
     Errors (Status x') = Errors (Status x))"

definition recorded :: "ManagedDatabase \<Rightarrow> go_error \<Rightarrow> ManagedDatabase \<Rightarrow> bool" where
  "recorded db err y \<longleftrightarrow>
     Errors (Status y) = Errors (Status db) @ [\<lparr>Message = Error err, Temporary = is_temporary err\<rparr>]"

definition blocks :: "go_error \<Rightarrow> NamespacedName option" where
  "blocks err = (if is_temporary err then None else blocking_migration err)"

text \<open>
  The specification of \<^verbatim>\<open>handleError\<close>. Either a write was refused, and its error is returned. Or the
  handler's own error, and with it the delayed retry, is returned exactly for temporary errors; the object
  carries the label of the migration that blocks it, if one does; and the error is in its status.
\<close>

definition reported ::
  "'k Client \<Rightarrow> ('k \<Rightarrow> NamespacedName \<rightharpoonup> ManagedDatabase) \<Rightarrow> ManagedDatabase \<Rightarrow> go_error
   \<Rightarrow> Result \<times> go_error option \<Rightarrow> 'k \<Rightarrow> bool" where
  "reported cl view db err r k \<longleftrightarrow>
     (\<exists>e. r = (zero_Result, Some e) \<and> refused cl e) \<or>
     (r = (if is_temporary err then (requeueAfterDelay, Some err) else (zero_Result, None)) \<and>
      (\<exists>y. view k (db_key db) = Some y \<and>
         (\<forall>n. blocks err = Some n \<longrightarrow> has_label BlockedByMigrationLabelKey (migrationLabelValue n) y) \<and>
         (blocks err = None \<or> echoes cl \<longrightarrow> recorded db err y)))"

lemma writeStatus_stored:
  assumes "status_law cl view"
  shows "wp (writeStatus cl x final) (\<lambda>r k'. (\<exists>e. r = (zero_Result, Some e) \<and> refused cl e) \<or>
     (r = final \<and> (\<exists>old y. view k (db_key x) = Some old \<and> view k' (db_key x) = Some y \<and>
        same_labels old y \<and> Status y = Status x))) k"
proof -
  obtain e x' k' where run: "UpdateStatus_ManagedDatabase cl x k = ((e, x'), k')" by (metis prod.collapse)
  show ?thesis
  proof (cases e)
    case None
    with assms run obtain old y where "view k (db_key x) = Some old" "view k' = (view k)(db_key x \<mapsto> y)"
      "same_labels old y" "Status y = Status x" unfolding status_law_def by blast
    with None run show ?thesis by (simp add: writeStatus_def wp_simps)
  next
    case (Some w)
    with run have "refused cl w" unfolding refused_def by (metis fst_conv)
    with Some run show ?thesis by (simp add: writeStatus_def wp_simps)
  qed
qed

lemma handleError_plain:
  assumes "status_law cl view" and "blocks err = None"
  shows "wp (handleError cl db err) (reported cl view db err) k"
proof -
  have "handleError cl db err = writeStatus cl (append_error [\<lparr>Message = Error err, Temporary = is_temporary err\<rparr>] db)
      (if is_temporary err then (requeueAfterDelay, Some err) else (zero_Result, None))"
    using assms(2) by (simp add: handleError_def blocks_def split: if_splits)
  then show ?thesis
    using assms(2)
    by (auto simp: reported_def recorded_def intro!: wpp_mono [OF writeStatus_stored [OF assms(1)]])
qed

lemma handleError_blocking:
  assumes laws: "status_law cl view" "update_law cl view" and err: "blocks err = Some n" "Labels db = Some m"
  shows "wp (handleError cl db err) (reported cl view db err) k"
proof -
  let ?x = "append_error [\<lparr>Message = Error err, Temporary = False\<rparr>]
    (db\<lparr>Labels := Some (m(BlockedByMigrationLabelKey \<mapsto> migrationLabelValue n))\<rparr>)"
  from err(1) have cls: "\<not> is_temporary err" "blocking_migration err = Some n"
    by (simp_all add: blocks_def split: if_splits)
  obtain e x' k' where run: "Update_ManagedDatabase cl ?x k = ((e, x'), k')" by (metis prod.collapse)
  show ?thesis
  proof (cases e)
    case None
    with laws(2) run obtain y where key: "db_key x' = db_key ?x"
      and y: "view k' = (view k)(db_key ?x \<mapsto> y)" "same_labels ?x y" unfolding update_law_def by blast
    have "has_label BlockedByMigrationLabelKey (migrationLabelValue n) ?x" by (simp add: has_label_def)
    with y have label: "\<exists>o1. view k' (db_key x') = Some o1 \<and> has_label BlockedByMigrationLabelKey (migrationLabelValue n) o1"
      using key by (auto simp: same_labels_def)
    have "wp (writeStatus cl x' (zero_Result, None)) (reported cl view db err) k'"
    proof (rule wpp_mono [OF writeStatus_stored [OF laws(1)]], goal_cases)
      case (1 r k2)
      then show ?case
      proof (elim disjE exE conjE)
        fix old z
        assume r: "r = (zero_Result, None)" and z: "view k' (db_key x') = Some old" "view k2 (db_key x') = Some z"
          "same_labels old z" "Status z = Status x'"
        from label z(1,3) have "has_label BlockedByMigrationLabelKey (migrationLabelValue n) z"
          by (auto simp: same_labels_def)
        moreover have "Errors (Status x') = Errors (Status ?x)" if "echoes cl"
          using that run None unfolding echoes_def by blast
        then have "recorded db err z" if "echoes cl"
          using that z(4) cls(1) by (simp add: recorded_def)
        moreover have "view k2 (db_key db) = Some z" using z(2) key by simp
        ultimately show ?thesis using r cls(1) err(1) by (auto simp: reported_def)
      qed (simp add: reported_def)
    qed auto
    with None run cls err(2) show ?thesis by (simp add: handleError_def set_label_def wp_simps)
  next
    case (Some w)
    with run have "refused cl w" unfolding refused_def by (metis fst_conv)
    with Some run cls err(2) show ?thesis by (simp add: handleError_def set_label_def wp_simps reported_def)
  qed
qed

lemma handleError_reported:
  assumes "status_law cl view" and "update_law cl view" and "Labels db \<noteq> None"
  shows "wp (handleError cl db err) (reported cl view db err) k"
proof (cases "blocks err")
  case None
  then show ?thesis by (rule handleError_plain [OF assms(1)])
next
  case (Some n)
  with assms(3) show ?thesis by (auto intro: handleError_blocking [OF assms(1,2)])
qed

text \<open>
  A run without complaints: it succeeded, and the stored object has neither errors nor the label of a
  blocking migration. A reported error always shows.
\<close>

definition clean_run ::
  "('k \<Rightarrow> NamespacedName \<rightharpoonup> ManagedDatabase) \<Rightarrow> NamespacedName \<Rightarrow> Result \<times> go_error option \<Rightarrow> 'k \<Rightarrow> bool" where
  "clean_run view n r k \<longleftrightarrow> r = (zero_Result, None) \<and> (\<exists>y. view k n = Some y \<and> Errors (Status y) = [] \<and>
     (\<forall>v. \<not> has_label BlockedByMigrationLabelKey v y))"

lemma reported_not_clean: "reported cl view db err r k \<Longrightarrow> \<not> clean_run view (db_key db) r k"
  by (cases "blocks err") (auto simp: reported_def clean_run_def recorded_def split: if_splits)

end
