(* ===== verification/Secrets.thy ===== *)
theory Secrets
  imports Kube
begin

text \<open>
  \<^verbatim>\<open>controllers/secrets.go\<close>: finding out whether a secret is in use by a pod, deleting it only when it
  is not, listing the secrets of a database, and writing a credentials secret.
\<close>

definition volume_uses :: "string \<Rightarrow> Volume \<Rightarrow> bool" where
  "volume_uses secretName volume =
     (case v_Secret volume of None \<Rightarrow> False | Some src \<Rightarrow> sv_SecretName src = secretName)"

definition envFrom_uses :: "string \<Rightarrow> EnvFromSource \<Rightarrow> bool" where
  "envFrom_uses secretName source =
     (case SecretRef source of None \<Rightarrow> False | Some n \<Rightarrow> n = secretName)"

definition envVar_uses :: "string \<Rightarrow> EnvVar \<Rightarrow> bool" where
  "envVar_uses secretName envVar =
     (case e_ValueFrom envVar of None \<Rightarrow> False
      | Some src \<Rightarrow> (case SecretKeyRef src of None \<Rightarrow> False | Some k \<Rightarrow> sk_Name k = secretName))"

definition container_uses :: "string \<Rightarrow> Container \<Rightarrow> bool" where
  "container_uses secretName container =
     (list_ex (envFrom_uses secretName) (c_EnvFrom container) \<or>
      list_ex (envVar_uses secretName) (c_Env container))"

fun secretUsedInPod :: "string \<Rightarrow> Pod list \<Rightarrow> Pod option" where
  "secretUsedInPod secretName [] = None"
| "secretUsedInPod secretName (pod # pods) =
     (if list_ex (volume_uses secretName) (p_Volumes (pod_Spec pod)) then Some pod
      else if list_ex (container_uses secretName) (p_Containers (pod_Spec pod)) then Some pod
      else secretUsedInPod secretName pods)"

definition deleteSecretIfUnused ::
  "'k Client \<Rightarrow> string \<Rightarrow> string \<Rightarrow> ('k, go_error + unit) go" where
  "deleteSecretIfUnused apiClient namespace secretName =
     go_check (go_call (List_Pods apiClient namespace))
       (\<lambda>err. go_return (Inl err))
       (\<lambda>allPods. case secretUsedInPod secretName allPods of
           Some usedBy \<Rightarrow> go_return (Inl (Errorf ''Secret %s is used in pod %s''
             [secretName, Pod_String apiClient usedBy]))
         | None \<Rightarrow>
             go_check (go_call (Get_Secret apiClient (name_of namespace secretName)))
               (\<lambda>err. go_return (Inl err))
               (\<lambda>secret. go_call (Delete_Secret apiClient secret)))"

definition listSecretsForDatabase ::
  "'k Client \<Rightarrow> ManagedDatabase \<Rightarrow> ('k, go_error + Secret list) go" where
  "listSecretsForDatabase apiClient owningDb =
     go_call (List_Secrets apiClient (Namespace owningDb) [(''database-uid'', UID owningDb)])"

definition writeCredentialsSecret ::
  "'k Client \<Rightarrow> string \<Rightarrow> string \<Rightarrow> string \<Rightarrow> string \<Rightarrow> (string \<rightharpoonup> string) \<Rightarrow> ManagedDatabase
   \<Rightarrow> ('k, go_error + unit) go" where
  "writeCredentialsSecret apiClient namespace secretName username password labels owner =
     (let newSecret = \<lparr>Name = secretName, Namespace = namespace, UID = [], SelfLink = [],
            Labels = Some labels, OwnerReferences = [], Data = Map.empty,
            StringData = [''username'' \<mapsto> username, ''password'' \<mapsto> password]\<rparr>
      in go_call (Create_Secret apiClient (snd (SetControllerReference_Secret apiClient owner newSecret))))"

section \<open>A secret that a pod uses is never deleted\<close>

text \<open>
  The places the code looks at, as a relation: a secret volume of the pod, or an environment entry
  or environment source of one of its (regular) containers.
\<close>

inductive references :: "Pod \<Rightarrow> string \<Rightarrow> bool" where
  by_volume: "\<lbrakk>v \<in> set (p_Volumes (pod_Spec pod)); v_Secret v = Some src; sv_SecretName src = s\<rbrakk>
    \<Longrightarrow> references pod s"
| by_envFrom: "\<lbrakk>c \<in> set (p_Containers (pod_Spec pod)); f \<in> set (c_EnvFrom c); SecretRef f = Some s\<rbrakk>
    \<Longrightarrow> references pod s"
| by_envVar: "\<lbrakk>c \<in> set (p_Containers (pod_Spec pod)); e \<in> set (c_Env c); e_ValueFrom e = Some src;
     SecretKeyRef src = Some k; sk_Name k = s\<rbrakk> \<Longrightarrow> references pod s"

inductive_simps references_iff: "references pod s"

lemma references_code:
  "references pod s \<longleftrightarrow> list_ex (volume_uses s) (p_Volumes (pod_Spec pod)) \<or>
     list_ex (container_uses s) (p_Containers (pod_Spec pod))"
  unfolding references_iff volume_uses_def container_uses_def envFrom_uses_def envVar_uses_def
  by (fastforce simp: list_ex_iff split: option.splits)

lemma secretUsedInPod_find: "secretUsedInPod s pods = List.find (\<lambda>pod. references pod s) pods"
  by (induction pods) (simp_all add: references_code)

lemma secretUsedInPod_None: "secretUsedInPod s pods = None \<longleftrightarrow> (\<forall>pod \<in> set pods. \<not> references pod s)"
  by (auto simp: secretUsedInPod_find find_None_iff)

lemma secretUsedInPod_Some:
  "secretUsedInPod s pods = Some pod \<Longrightarrow> pod \<in> set pods \<and> references pod s"
  by (auto simp: secretUsedInPod_find find_Some_iff)

lemma deleteSecretIfUnused_used:
  assumes "List_Pods cl ns k = (Inr pods, k')" and "pod \<in> set pods" and "references pod s"
  shows "\<exists>user \<in> set pods. references user s \<and>
     deleteSecretIfUnused cl ns s k =
       Ret (Inl (Errorf ''Secret %s is used in pod %s'' [s, Pod_String cl user])) k'"
proof -
  from assms(2,3) obtain user where user: "secretUsedInPod s pods = Some user"
    using secretUsedInPod_None by fastforce
  with assms(1) have "deleteSecretIfUnused cl ns s k =
      Ret (Inl (Errorf ''Secret %s is used in pod %s'' [s, Pod_String cl user])) k'"
    by (simp add: deleteSecretIfUnused_def go_defs)
  with secretUsedInPod_Some [OF user] show ?thesis by blast
qed

lemma deleteSecretIfUnused_unused:
  assumes "List_Pods cl ns k = (Inr pods, k1)" and "\<forall>pod \<in> set pods. \<not> references pod s"
    and "Get_Secret cl (name_of ns s) k1 = (Inr secret, k2)"
    and "Delete_Secret cl secret k2 = (r, k3)"
  shows "deleteSecretIfUnused cl ns s k = Ret r k3"
  using assms secretUsedInPod_None [of s pods]
  by (simp add: deleteSecretIfUnused_def go_defs)

end
