(* ===== verification/Credentials.thy ===== *)
theory Credentials
  imports Controller Secrets
begin

text \<open>
  \<^verbatim>\<open>reconcileCredentialsForVersion\<close> of \<^verbatim>\<open>controllers/manageddatabase_controller.go\<close>: which database users and
  which secrets must exist for the version a database is at, and the steps that make it so.

  A set of the set library is a list without repetitions; iterating it goes through
  \<open>iterate\<close>. The loops are \<open>removeUnneededSecrets\<close>, \<open>removeUsers\<close> and \<open>addUsers\<close>. The lemmas about the
  database are proved once, in the locale \<open>operator_admin\<close>, for any administration interface that
  keeps the contract \<open>credential_admin\<close> of \<^verbatim>\<open>DbAdmin\<close>.
\<close>

section \<open>The operation\<close>

definition desiredVersionNames :: "migrationContext \<Rightarrow> string list" where
  "desiredVersionNames ctx =
     (case activeVersion ctx of
        None \<Rightarrow> []
      | Some m \<Rightarrow> Name m #
          (if Previous (mig_Spec m) \<noteq> [] \<and> nextVersion ctx = None
           then [Previous (mig_Spec m)] else []))"

definition desiredSecretNames :: "migrationContext \<Rightarrow> string list" where
  "desiredSecretNames ctx = set_of (map (migrationName (Name (mc_db ctx))) (desiredVersionNames ctx))"

definition desiredUsernames :: "migrationContext \<Rightarrow> string list" where
  "desiredUsernames ctx = set_of (map migrationDBUsername (desiredVersionNames ctx))"

definition secretNameForUsername :: "migrationContext \<Rightarrow> string \<rightharpoonup> string" where
  "secretNameForUsername ctx =
     fold (\<lambda>v m. m(migrationDBUsername v \<mapsto> migrationName (Name (mc_db ctx)) v))
       (desiredVersionNames ctx) Map.empty"

definition removeUnneededSecrets ::
  "('k, 'd, 'h) Controller \<Rightarrow> string \<Rightarrow> string list \<Rightarrow> (('k, 'd, 'h) sys, go_error + unit) go" where
  "removeUnneededSecrets c namespace secretsToRemove =
     go_for (iterate c secretsToRemove) (\<lambda>secretToRemove.
       go_check (on_kube (deleteSecretIfUnused (Client c) namespace secretToRemove))
         (\<lambda>err. go_return (Inl (Errorf_w ''Unable to delete secret: %w'' [] err)))
         (\<lambda>_. go_return (Inr ())))"

definition removeUser :: "'d DbAdmin \<Rightarrow> string \<Rightarrow> (('k, 'd, 'h) sys, go_error + unit) go" where
  "removeUser admin dbUserToRemove =
     go_check (on_dbs (VerifyUnusedAndDeleteCredentials admin dbUserToRemove))
       (\<lambda>err. go_return (Inl (Errorf_w ''Unable to delete user (%s) from db: %w'' [dbUserToRemove] err)))
       (\<lambda>_. go_bind (go_modify (\<lambda>s. s\<lparr>CredentialsRevoked := CredentialsRevoked s + 1\<rparr>))
       (\<lambda>_. go_return (Inr ())))"

definition removeUsers ::
  "('k, 'd, 'h) Controller \<Rightarrow> 'd DbAdmin \<Rightarrow> string list \<Rightarrow> (('k, 'd, 'h) sys, go_error + unit) go" where
  "removeUsers c admin dbUsersToRemove = go_for (iterate c dbUsersToRemove) (removeUser admin)"

definition addUser ::
  "('k, 'd, 'h) Controller \<Rightarrow> migrationContext \<Rightarrow> 'd DbAdmin \<Rightarrow> string
   \<Rightarrow> (('k, 'd, 'h) sys, go_error + unit) go" where
  "addUser c ctx admin dbUserToAdd =
     go_check (randPassword c)
       (\<lambda>err. go_return (Inl (Errorf_w ''Unable to add user (%s) to db: %w'' [dbUserToAdd] err)))
       (\<lambda>newPassword.
     go_check (on_dbs (WriteCredentials admin dbUserToAdd newPassword))
       (\<lambda>err. go_return (Inl (Errorf_w ''Unable to create new db user (%s): %w'' [dbUserToAdd] err)))
       (\<lambda>_.
     go_bind (go_deref (activeVersion ctx)) (\<lambda>active.
     let secretLabels = getStandardLabels (mc_db ctx) active;
         newSecretName = (case secretNameForUsername ctx dbUserToAdd of Some n \<Rightarrow> n | None \<Rightarrow> [])
     in go_check (on_kube (writeCredentialsSecret (Client c) (Namespace (mc_db ctx)) newSecretName
            dbUserToAdd newPassword secretLabels (mc_db ctx)))
          (\<lambda>err. go_return (Inl (Errorf_w ''Unable to write secret (%s) to cluster: %w'' [newSecretName] err)))
          (\<lambda>_. go_bind (go_modify (\<lambda>s. s\<lparr>CredentialsCreated := CredentialsCreated s + 1\<rparr>))
          (\<lambda>_. go_return (Inr ()))))))"

definition addUsers ::
  "('k, 'd, 'h) Controller \<Rightarrow> migrationContext \<Rightarrow> 'd DbAdmin \<Rightarrow> string list
   \<Rightarrow> (('k, 'd, 'h) sys, go_error + unit) go" where
  "addUsers c ctx admin dbUsersToAdd = go_for (iterate c dbUsersToAdd) (addUser c ctx admin)"

text \<open>
  The second half: list the users, compare, then refuse (read-only), or remove and add.
\<close>

definition reconcileUsers ::
  "('k, 'd, 'h) Controller \<Rightarrow> migrationContext \<Rightarrow> 'd DbAdmin \<Rightarrow> string list \<Rightarrow> string list
   \<Rightarrow> (('k, 'd, 'h) sys, go_error + unit) go" where
  "reconcileUsers c ctx admin existingSecretSet existingDbUsernames =
     (let existingDbUsernamesSet = set_of existingDbUsernames;
          dbUsersToRemove = set_Difference existingDbUsernamesSet (desiredUsernames ctx);
          dbUsersToAdd = set_Difference (desiredUsernames ctx) existingDbUsernamesSet;
          secretsToAdd = set_Difference (desiredSecretNames ctx) existingSecretSet
      in if ReadOnly (Spec (mc_db ctx)) then
           let numMutationsRequired = length dbUsersToAdd + length dbUsersToRemove + length secretsToAdd
           in if numMutationsRequired > 0
              then go_return (Inl (Errorf
                ''DB user reconciliation requires %d mutations on a readonly database''
                [show_nat numMutationsRequired]))
              else go_return (Inr ())
         else
           go_check (removeUsers c admin dbUsersToRemove)
             (\<lambda>err. go_return (Inl err))
             (\<lambda>_. addUsers c ctx admin dbUsersToAdd))"

definition listAndReconcileUsers ::
  "('k, 'd, 'h) Controller \<Rightarrow> migrationContext \<Rightarrow> 'd DbAdmin \<Rightarrow> string list
   \<Rightarrow> (('k, 'd, 'h) sys, go_error + unit) go" where
  "listAndReconcileUsers c ctx admin existingSecretSet =
     go_check (on_dbs (ListUsernames admin DBUsernamePrefix))
       (\<lambda>err. go_return (Inl (Errorf_w ''Unable to list existing db usernames: %w'' [] err)))
       (\<lambda>existingDbUsernames. reconcileUsers c ctx admin existingSecretSet existingDbUsernames)"

definition reconcileCredentialsForVersion ::
  "('k, 'd, 'h) Controller \<Rightarrow> migrationContext \<Rightarrow> 'd DbAdmin \<Rightarrow> (('k, 'd, 'h) sys, go_error + unit) go" where
  "reconcileCredentialsForVersion c ctx admin =
     go_check (on_kube (listSecretsForDatabase (Client c) (mc_db ctx)))
       (\<lambda>err. go_return (Inl (Errorf_w ''Unable to list existing cluster secrets: %w'' [] err)))
       (\<lambda>secretList.
     let existingSecretSet = set_of (map Name secretList) in
     go_check (removeUnneededSecrets c (Namespace (mc_db ctx))
         (set_Difference existingSecretSet (desiredSecretNames ctx)))
       (\<lambda>err. go_return (Inl err))
       (\<lambda>_.
     listAndReconcileUsers c ctx admin existingSecretSet))"

section \<open>Which credentials are desired\<close>

lemma desiredUsernames_prefix: "u \<in> set (desiredUsernames ctx) \<Longrightarrow> prefix DBUsernamePrefix u"
  by (auto simp: desiredUsernames_def DBUsernamePrefix_def)

lemma desired_needs_active: "desiredUsernames ctx \<noteq> [] \<Longrightarrow> activeVersion ctx \<noteq> None"
  by (cases "activeVersion ctx") (auto simp: desiredUsernames_def desiredVersionNames_def set_of_def)

lemma desired_active:
  "activeVersion ctx = Some m \<Longrightarrow> migrationDBUsername (Name m) \<in> set (desiredUsernames ctx) \<and>
     migrationName (Name (mc_db ctx)) (Name m) \<in> set (desiredSecretNames ctx)"
  by (simp add: desiredUsernames_def desiredSecretNames_def desiredVersionNames_def)

lemma secretNameForUsername_desired:
  assumes "v \<in> set (desiredVersionNames ctx)"
  shows "secretNameForUsername ctx (migrationDBUsername v) = Some (migrationName (Name (mc_db ctx)) v)"
proof -
  have "fold (\<lambda>v m. m(migrationDBUsername v \<mapsto> migrationName n v)) vs m0 (migrationDBUsername v) =
      (if v \<in> set vs then Some (migrationName n v) else m0 (migrationDBUsername v))" for n vs m0
    by (induction vs arbitrary: m0) auto
  with assms show ?thesis by (simp add: secretNameForUsername_def)
qed

lemma desired_distinct [simp]: "distinct (desiredUsernames ctx)"
  by (simp add: desiredUsernames_def)

section \<open>What one run may do to the accounts of the database\<close>

text \<open>
  The abstract specification. \<open>managed\<close> are the account names the operator considers its own. Accounts
  that are not managed, and managed ones that are desired, survive; nothing but desired accounts
  appears; a read-only database is not touched; and when the run succeeds, the managed accounts are
  exactly the desired ones.
\<close>

definition credentials_post ::
  "(string \<Rightarrow> bool) \<Rightarrow> migrationContext \<Rightarrow> string set \<Rightarrow> go_error + unit \<Rightarrow> string set \<Rightarrow> bool" where
  "credentials_post managed ctx before r after \<longleftrightarrow>
     before - {u. managed u \<and> u \<notin> set (desiredUsernames ctx)} \<subseteq> after \<and>
     after \<subseteq> before \<union> set (desiredUsernames ctx) \<and>
     (ReadOnly (Spec (mc_db ctx)) \<longrightarrow> after = before) \<and>
     (r = Inr () \<longrightarrow> {u \<in> after. managed u} = {u \<in> set (desiredUsernames ctx). managed u})"

lemma credentials_post_unchanged: "credentials_post managed ctx U (Inl e) U"
  by (auto simp: credentials_post_def)

text \<open>Removing the surplus and adding the missing accounts meets the specification.\<close>

lemma credentials_post_intro:
  assumes "\<not> ReadOnly (Spec (mc_db ctx))"
    and "rem = {u \<in> U. managed u} - set (desiredUsernames ctx)"
    and "add = set (desiredUsernames ctx) - {u \<in> U. managed u}"
    and "U - rem \<subseteq> T" "T \<subseteq> U" "T \<subseteq> V" "V \<subseteq> T \<union> add"
    and "r = Inr () \<Longrightarrow> T \<inter> rem = {} \<and> add \<subseteq> V"
  shows "credentials_post managed ctx U r V"
  unfolding credentials_post_def
proof (intro conjI impI)
  show "U - {u. managed u \<and> u \<notin> set (desiredUsernames ctx)} \<subseteq> V"
    and "V \<subseteq> U \<union> set (desiredUsernames ctx)" using assms(2-7) by auto
  show "{u \<in> V. managed u} = {u \<in> set (desiredUsernames ctx). managed u}" if "r = Inr ()"
    using assms(4-7) assms(8) [OF that] unfolding assms(2,3) by blast
qed (use assms(1) in simp)

section \<open>The effect on the database\<close>

lemma removeUnneededSecrets_dbs:
  "wp (removeUnneededSecrets c ns xs) (\<lambda>r s'. dbs s' = dbs s) s"
  unfolding removeUnneededSecrets_def
  by (rule wpp_for_inv)
     (auto simp: wp_simps deleteSecretIfUnused_def split: sum.splits option.splits prod.splits)

text \<open>The contract at the prefix the controller uses.\<close>

locale operator_admin = credential_admin adm users sessions DBUsernamePrefix listed ok
  for adm :: "'d DbAdmin" and users sessions listed ok
begin

lemma removeUser_spec:
  fixes t :: "('k, 'd, 'h) sys"
  assumes "ok (dbs t)"
  shows "wp (removeUser adm x) (\<lambda>r t'. ok (dbs t') \<and> users (dbs t) - {x} \<subseteq> users (dbs t') \<and>
     users (dbs t') \<subseteq> users (dbs t) \<and> (r = Inr () \<longrightarrow> x \<notin> users (dbs t'))) t"
  using delete_spec [OF assms, of x]
  by (auto simp: removeUser_def wp_simps elim!: wpp_mono split: sum.splits)

lemma removeUsers_spec:
  fixes s :: "('k, 'd, 'h) sys"
  assumes "fair_iteration c" and "distinct us" and "ok (dbs s)"
  shows "wp (removeUsers c adm us) (\<lambda>r s'. ok (dbs s') \<and> users (dbs s) - set us \<subseteq> users (dbs s') \<and>
     users (dbs s') \<subseteq> users (dbs s) \<and> (r = Inr () \<longrightarrow> users (dbs s') \<inter> set us = {})) s"
  unfolding removeUsers_def
proof (rule wpp_for [where I = "\<lambda>pre t. ok (dbs t) \<and> users (dbs s) - set us \<subseteq> users (dbs t) \<and>
     users (dbs t) \<subseteq> users (dbs s) \<and> users (dbs t) \<inter> set pre = {}"], goal_cases)
  case (1 pre x post t)
  then have "x \<in> set us" using fair_iteration_set [OF assms(1,2)] by auto
  with 1 show ?case
    by (intro wpp_mono [OF removeUser_spec]) (auto split: sum.splits)
qed (use assms fair_iteration_set [OF assms(1,2)] in auto)

lemma addUser_spec:
  fixes t :: "('k, 'd, 'h) sys"
  assumes "ok (dbs t)" and "activeVersion ctx \<noteq> None"
  shows "wp (addUser c ctx adm x) (\<lambda>r t'. ok (dbs t') \<and> users (dbs t) \<subseteq> users (dbs t') \<and>
     users (dbs t') \<subseteq> insert x (users (dbs t)) \<and> (r = Inr () \<longrightarrow> x \<in> users (dbs t'))) t"
  using assms
  by (auto simp: addUser_def randPassword_def writeCredentialsSecret_def Let_def wp_simps
      intro!: wpp_mono [OF write_spec] split: sum.splits prod.splits option.splits)

lemma addUsers_spec:
  fixes s :: "('k, 'd, 'h) sys"
  assumes "fair_iteration c" and "distinct us" and "ok (dbs s)" and "us \<noteq> [] \<Longrightarrow> activeVersion ctx \<noteq> None"
  shows "wp (addUsers c ctx adm us) (\<lambda>r s'. ok (dbs s') \<and> users (dbs s) \<subseteq> users (dbs s') \<and>
     users (dbs s') \<subseteq> users (dbs s) \<union> set us \<and> (r = Inr () \<longrightarrow> set us \<subseteq> users (dbs s'))) s"
  unfolding addUsers_def
proof (rule wpp_for [where I = "\<lambda>pre t. ok (dbs t) \<and> users (dbs s) \<subseteq> users (dbs t) \<and>
     users (dbs t) \<subseteq> users (dbs s) \<union> set us \<and> set pre \<subseteq> users (dbs t)"], goal_cases)
  case (1 pre x post t)
  then have "x \<in> set us" using fair_iteration_set [OF assms(1,2)] by auto
  moreover from this assms(4) have "activeVersion ctx \<noteq> None" by (cases us) auto
  ultimately show ?case using 1
    by (intro wpp_mono [OF addUser_spec]) (auto split: sum.splits)
qed (use assms fair_iteration_set [OF assms(1,2)] in auto)

lemma desired_listed: "u \<in> set (desiredUsernames ctx) \<Longrightarrow> listed u"
  by (rule prefix_listed) (rule desiredUsernames_prefix)

abbreviation users_post ::
  "migrationContext \<Rightarrow> string set \<Rightarrow> go_error + unit \<Rightarrow> ('k, 'd, 'h) sys \<Rightarrow> bool" where
  "users_post ctx before r t \<equiv> ok (dbs t) \<and> credentials_post listed ctx before r (users (dbs t))"

lemma addUsers_post:
  fixes t :: "('k, 'd, 'h) sys"
  assumes "fair_iteration c" and "ok (dbs t)" and "set existing = {u \<in> U. listed u}"
    and "\<not> ReadOnly (Spec (mc_db ctx))"
    and "U - set (set_Difference (set_of existing) (desiredUsernames ctx)) \<subseteq> users (dbs t)"
    and "users (dbs t) \<subseteq> U"
    and "users (dbs t) \<inter> set (set_Difference (set_of existing) (desiredUsernames ctx)) = {}"
  shows "wp (addUsers c ctx adm (set_Difference (desiredUsernames ctx) (set_of existing)))
     (users_post ctx U) t"
proof (rule wpp_mono [OF addUsers_spec [OF assms(1)]], goal_cases)
  case 3
  then show ?case by (intro desired_needs_active) (auto simp: set_Difference_def)
next
  case (4 r t')
  with assms(3-7) show ?case
    by (auto intro!: credentials_post_intro [OF assms(4) refl refl, of _ _ "users (dbs t)"])
qed (use assms(2) in simp_all)

lemma reconcileUsers_spec:
  fixes s :: "('k, 'd, 'h) sys"
  assumes "fair_iteration c" and "ok (dbs s)" and "set existing = {u \<in> users (dbs s). listed u}"
  shows "wp (reconcileUsers c ctx adm secs existing) (users_post ctx (users (dbs s))) s"
proof (cases "ReadOnly (Spec (mc_db ctx))")
  case True
  have "credentials_post listed ctx (users (dbs s)) (Inr ()) (users (dbs s))"
    if "set existing \<subseteq> set (desiredUsernames ctx)" "set (desiredUsernames ctx) \<subseteq> set existing"
    using that assms(3) True unfolding credentials_post_def by blast
  with True assms(2) show ?thesis
    by (simp add: reconcileUsers_def Let_def wp_simps credentials_post_unchanged)
next
  case False
  let ?rem = "set_Difference (set_of existing) (desiredUsernames ctx)"
  have "wp (removeUsers c adm ?rem) (\<lambda>r t. ok (dbs t) \<and> users (dbs s) - set ?rem \<subseteq> users (dbs t) \<and>
     users (dbs t) \<subseteq> users (dbs s) \<and> (r = Inr () \<longrightarrow> users (dbs t) \<inter> set ?rem = {})) s"
    by (rule removeUsers_spec [OF assms(1) _ assms(2)]) simp
  then have "wp (removeUsers c adm ?rem) (\<lambda>r t. case r of
       Inl e \<Rightarrow> users_post ctx (users (dbs s)) (Inl e) t
     | Inr _ \<Rightarrow> wp (addUsers c ctx adm (set_Difference (desiredUsernames ctx) (set_of existing)))
         (users_post ctx (users (dbs s))) t) s"
  proof (rule wpp_mono, goal_cases)
    case (1 r t)
    then show ?case
    proof (cases r)
      case (Inl e)
      with 1 False assms(3) show ?thesis
        by (auto intro!: credentials_post_intro [OF False refl refl, of _ _ "users (dbs t)"])
    next
      case (Inr x)
      with 1 show ?thesis by (simp add: addUsers_post [OF assms(1) _ assms(3) False])
    qed
  qed auto
  with False show ?thesis
    by (simp add: reconcileUsers_def Let_def wp_simps cong: sum.case_cong)
qed

lemma reconcileCredentials_spec:
  fixes s :: "('k, 'd, 'h) sys"
  assumes "fair_iteration c" and "ok (dbs s)"
  shows "wp (reconcileCredentialsForVersion c ctx adm) (users_post ctx (users (dbs s))) s"
proof -
  have users: "wp (reconcileUsers c ctx adm secs xs) (users_post ctx (users (dbs s))) t"
    if "ok (dbs t)" "users (dbs t) = users (dbs s)" "set xs = {u \<in> users (dbs s). listed u}"
    for t :: "('k, 'd, 'h) sys" and secs xs
    using reconcileUsers_spec [OF assms(1), of t xs ctx secs] that by simp
  have tail: "wp (listAndReconcileUsers c ctx adm secs) (users_post ctx (users (dbs s))) t"
    if "dbs t = dbs s" for t :: "('k, 'd, 'h) sys" and secs
    unfolding listAndReconcileUsers_def wpp_check wpp_on_dbs that
    by (rule wpp_mono [OF list_spec [OF assms(2)]])
       (auto simp: wpp_return credentials_post_unchanged split: sum.splits intro!: users)
  show ?thesis
    unfolding reconcileCredentialsForVersion_def listSecretsForDatabase_def Let_def wpp_check
      wpp_on_kube wpp_call
    using assms(2)
    by (auto simp: wpp_return credentials_post_unchanged split: prod.splits sum.splits intro!: tail
        wpp_mono [OF removeUnneededSecrets_dbs])
qed

end

section \<open>The effect on the secrets\<close>

text \<open>
  What the API server promises about the secrets of one namespace; \<open>secrets\<close> are their names.
\<close>

definition secret_api :: "'k Client \<Rightarrow> string \<Rightarrow> ('k \<Rightarrow> string set) \<Rightarrow> bool" where
  "secret_api cl ns secrets \<longleftrightarrow>
     (\<forall>k. secrets (snd (List_Pods cl ns k)) = secrets k) \<and>
     (\<forall>sel k. secrets (snd (List_Secrets cl ns sel k)) = secrets k) \<and>
     (\<forall>n k r k'. Get_Secret cl (name_of ns n) k = (r, k') \<longrightarrow> secrets k' = secrets k \<and>
        (\<forall>sec. r = Inr sec \<longrightarrow> Name sec = n)) \<and>
     (\<forall>sec k. secrets k - {Name sec} \<subseteq> secrets (snd (Delete_Secret cl sec k))) \<and>
     (\<forall>sec k. secrets k \<subseteq> secrets (snd (Create_Secret cl sec k)))"

lemma deleteSecretIfUnused_secrets:
  assumes "secret_api cl ns secrets"
  shows "wp (deleteSecretIfUnused cl ns x) (\<lambda>_ k'. secrets k - {x} \<subseteq> secrets k') k"
proof -
  obtain r1 k1 where pods: "List_Pods cl ns k = (r1, k1)" by force
  obtain r2 k2 where get: "Get_Secret cl (name_of ns x) k1 = (r2, k2)" by force
  have "secrets k1 = secrets k" using assms pods unfolding secret_api_def by (metis snd_conv)
  moreover have "secrets k2 = secrets k1" "r2 = Inr sec \<Longrightarrow> Name sec = x" for sec
    using assms get unfolding secret_api_def by metis+
  moreover have "y \<in> secrets k3" if "Delete_Secret cl sec k2 = (r3, k3)" "y \<in> secrets k2" "y \<noteq> Name sec"
    for sec r3 k3 y
  proof -
    from assms have "secrets k2 - {Name sec} \<subseteq> secrets (snd (Delete_Secret cl sec k2))"
      unfolding secret_api_def by blast
    with that show ?thesis by auto
  qed
  ultimately show ?thesis using pods get
    by (fastforce simp: deleteSecretIfUnused_def wp_simps split: sum.splits option.splits prod.splits)
qed

lemma removeUnneededSecrets_secrets:
  fixes s :: "('k, 'd, 'h) sys"
  assumes "secret_api (Client c) ns secrets" and "fair_iteration c" and "distinct xs"
    and "K \<inter> set xs = {}" and "K \<subseteq> secrets (kube s)"
  shows "always (removeUnneededSecrets c ns xs) (\<lambda>t. K \<subseteq> secrets (kube t)) s"
  unfolding removeUnneededSecrets_def
proof (rule wpp_for_inv, goal_cases)
  case (1 x t)
  then have "x \<notin> K" using assms(2-4) by auto
  then have keep: "K \<subseteq> secrets k'" if "secrets (kube t) - {x} \<subseteq> secrets k'" for k'
    using 1(2) that by blast
  show ?case
    unfolding wpp_check wpp_on_kube
    by (rule wpp_mono [OF deleteSecretIfUnused_secrets [OF assms(1)]])
       (auto simp: wp_simps split: sum.splits dest!: keep)
qed (use assms in auto)

lemma addUser_secrets:
  fixes s :: "('k, 'd, 'h) sys"
  assumes "secret_api (Client c) (Namespace (mc_db ctx)) secrets" and "K \<subseteq> secrets (kube s)"
  shows "always (addUser c ctx admin u) (\<lambda>t. K \<subseteq> secrets (kube t)) s"
proof -
  have create: "K \<subseteq> secrets k'" if "Create_Secret (Client c) sec k = (r, k')" "K \<subseteq> secrets k" for sec k r k'
    using assms(1) that unfolding secret_api_def by (metis snd_conv order_trans)
  show ?thesis
    unfolding addUser_def randPassword_def writeCredentialsSecret_def Let_def wpp_check wpp_bind
      wpp_on_host wpp_call wpp_return
    using assms(2)
    by (auto simp: wp_simps split: prod.splits sum.splits option.splits intro!: wpp_any dest: create)
qed

text \<open>
  No run takes away the secret of a version that is still wanted, however the run ends: with an error,
  with a panic of the administration interface, or with success.
\<close>

lemma reconcileUsers_secrets:
  fixes s :: "('k, 'd, 'h) sys"
  assumes "secret_api (Client c) (Namespace (mc_db ctx)) secrets" and "K \<subseteq> secrets (kube s)"
  shows "always (reconcileUsers c ctx admin secs xs) (\<lambda>t. K \<subseteq> secrets (kube t)) s"
proof -
  have remove: "always (removeUsers c admin us) (\<lambda>t. K \<subseteq> secrets (kube t)) t"
    if "K \<subseteq> secrets (kube t)" for us and t :: "('k, 'd, 'h) sys"
    unfolding removeUsers_def
    by (rule wpp_for_inv)
       (use that in \<open>auto simp: removeUser_def wp_simps split: sum.splits intro!: wpp_any\<close>)
  have add: "always (addUsers c ctx admin us) (\<lambda>t. K \<subseteq> secrets (kube t)) t"
    if "K \<subseteq> secrets (kube t)" for us and t :: "('k, 'd, 'h) sys"
    unfolding addUsers_def by (rule wpp_for_inv [OF addUser_secrets [OF assms(1)] that])
  show ?thesis
    unfolding reconcileUsers_def Let_def wpp_if wpp_return wpp_check
    using assms(2) by (auto intro!: wpp_mono [OF remove] add split: sum.splits)
qed

lemma reconcileCredentials_secrets:
  fixes s :: "('k, 'd, 'h) sys"
  assumes "secret_api (Client c) (Namespace (mc_db ctx)) secrets" and "fair_iteration c"
  shows "always (reconcileCredentialsForVersion c ctx admin)
    (\<lambda>t. secrets (kube s) \<inter> set (desiredSecretNames ctx) \<subseteq> secrets (kube t)) s"
proof -
  let ?K = "secrets (kube s) \<inter> set (desiredSecretNames ctx)"
  have users: "always (listAndReconcileUsers c ctx admin secs) (\<lambda>t. ?K \<subseteq> secrets (kube t)) t"
    if "?K \<subseteq> secrets (kube t)" for secs and t :: "('k, 'd, 'h) sys"
    unfolding listAndReconcileUsers_def wpp_check
    by (rule wpp_mono [OF always_on_dbs [where I = "\<lambda>t. ?K \<subseteq> secrets (kube t)"]])
       (use that in \<open>auto simp: wpp_return split: sum.splits intro!: reconcileUsers_secrets [OF assms(1)]\<close>)
  have listed: "secrets k' = secrets (kube s)" if "List_Secrets (Client c) (Namespace (mc_db ctx)) sel (kube s) = (r, k')" for sel r k'
    using assms(1) that unfolding secret_api_def by (metis snd_conv)
  show ?thesis
    unfolding reconcileCredentialsForVersion_def listSecretsForDatabase_def Let_def wpp_check
      wpp_on_kube wpp_call
    by (auto simp: wpp_return split: prod.splits sum.splits dest: listed intro!: users
        wpp_mono [OF removeUnneededSecrets_secrets [OF assms(1,2), where K = ?K]])
qed

text \<open>
  A user that exists is never given a new secret: when the accounts are as desired, a run changes
  nothing, whether or not the secrets are there.
\<close>

lemma reconcileUsers_settled:
  assumes "set existing = set (desiredUsernames ctx)" and "\<not> ReadOnly (Spec (mc_db ctx))"
    and "fair_iteration c"
  shows "reconcileUsers c ctx admin secs existing s = Ret (Inr ()) s"
proof -
  have "set_Difference (set_of existing) (desiredUsernames ctx) = []"
    "set_Difference (desiredUsernames ctx) (set_of existing) = []" using assms(1) by simp_all
  moreover have "iterate c [] = []" using fair_iteration_set [OF assms(3), of "[]"] by simp
  ultimately show ?thesis using assms(2)
    by (simp add: reconcileUsers_def Let_def removeUsers_def addUsers_def go_defs
        del: set_Difference_Nil)
qed

end
