(* ===== verification/Versions.thy ===== *)
theory Versions
  imports Controller
begin

text \<open>
  Finding the migration to run (\<^verbatim>\<open>loadMigration\<close> and the version loop of \<^verbatim>\<open>ReconcileManagedDatabase\<close>).

  Every DatabaseMigration names the version before it. Starting from the desired version, the loop
  follows these names until it meets the version the database is at; the last migration it loaded is
  the one to run. The loop of the source has no bound, so \<open>findMigration\<close> is a partial function: \<open>None\<close>
  is "never returns", and \<open>migrationToRun\<close> turns it into the outcome \<open>Hang\<close>.
\<close>

definition loadMigration :: "'k Client \<Rightarrow> string \<Rightarrow> string \<Rightarrow> ('k, go_error + DatabaseMigration) call" where
  "loadMigration apiClient namespace versionName k =
     (let path = name_of namespace versionName in
      case Get_DatabaseMigration apiClient path k of
        (Inl err, k') \<Rightarrow> (Inl (newMigrationErrorf path ''Unable to fetch DatabaseMigration (%s): %w''
                           [NamespacedName_String apiClient path] err), k')
      | (Inr version, k') \<Rightarrow> (Inr version, k'))"

definition noPathErr :: "string \<Rightarrow> string \<Rightarrow> go_error" where
  "noPathErr desired currentDbVersion =
     Errorf ''Unable to find a path from the desired version (%s) to our current version (%s)''
       [desired, currentDbVersion]"

partial_function (option) findMigration ::
  "'k Client \<Rightarrow> string \<Rightarrow> string \<Rightarrow> string \<Rightarrow> string \<Rightarrow> DatabaseMigration option \<Rightarrow> 'k
   \<Rightarrow> ((go_error + DatabaseMigration option) \<times> 'k) option" where
  "findMigration cl ns desired currentDbVersion needVersion found k =
     (if needVersion = currentDbVersion then Some (Inr found, k)
      else if needVersion = [] then Some (Inl (noPathErr desired currentDbVersion), k)
      else (case loadMigration cl ns needVersion k of
              (Inl err, k') \<Rightarrow> Some (Inl err, k')
            | (Inr m, k') \<Rightarrow>
                findMigration cl ns desired currentDbVersion (Previous (mig_Spec m)) (Some m) k'))"

definition migrationToRun ::
  "'k Client \<Rightarrow> string \<Rightarrow> string \<Rightarrow> string \<Rightarrow> ('k, go_error + DatabaseMigration option) go" where
  "migrationToRun cl ns desired currentDbVersion k =
     (case findMigration cl ns desired currentDbVersion desired None k of
        None \<Rightarrow> Hang | Some (r, k') \<Rightarrow> Ret r k')"

section \<open>The chain of versions\<close>

text \<open>
  \<open>mig\<close> are the migrations of the namespace by name; \<open>serves\<close> is the hypothesis that reading a
  migration returns what is stored there, during the whole loop.
\<close>

definition serves :: "'k Client \<Rightarrow> string \<Rightarrow> (string \<rightharpoonup> DatabaseMigration) \<Rightarrow> bool" where
  "serves cl ns mig = (\<forall>v k. case mig v of
       Some m \<Rightarrow> fst (Get_DatabaseMigration cl (name_of ns v) k) = Inr m
     | None \<Rightarrow> (\<exists>e. fst (Get_DatabaseMigration cl (name_of ns v) k) = Inl e \<and> foreign e))"

abbreviation prev_of :: "DatabaseMigration \<Rightarrow> string" where
  "prev_of m \<equiv> Previous (mig_Spec m)"

inductive version_path :: "(string \<rightharpoonup> DatabaseMigration) \<Rightarrow> string \<Rightarrow> string \<Rightarrow> bool"
  for mig :: "string \<rightharpoonup> DatabaseMigration" and cur :: string where
  at_current: "version_path mig cur cur"
| one_back: "\<lbrakk>v \<noteq> cur; v \<noteq> []; mig v = Some m; version_path mig cur (prev_of m)\<rbrakk>
    \<Longrightarrow> version_path mig cur v"

text \<open>The chain from a version ends: at the current version, at the start, or at a missing migration.\<close>

inductive chain_ends :: "(string \<rightharpoonup> DatabaseMigration) \<Rightarrow> string \<Rightarrow> string \<Rightarrow> bool"
  for mig :: "string \<rightharpoonup> DatabaseMigration" and cur :: string where
  ends_current: "chain_ends mig cur cur"
| ends_start: "chain_ends mig cur []"
| ends_missing: "mig v = None \<Longrightarrow> chain_ends mig cur v"
| ends_step: "\<lbrakk>mig v = Some m; chain_ends mig cur (prev_of m)\<rbrakk> \<Longrightarrow> chain_ends mig cur v"

lemma version_path_ends: "version_path mig cur v \<Longrightarrow> chain_ends mig cur v"
  by (induction rule: version_path.induct) (auto intro: chain_ends.intros)

text \<open>
  \<open>runs_next mig cur v m\<close>: \<open>m\<close> is on the chain from \<open>v\<close> and its predecessor is the current version, so
  it is the next step towards \<open>v\<close>.
\<close>

inductive runs_next :: "(string \<rightharpoonup> DatabaseMigration) \<Rightarrow> string \<Rightarrow> string \<Rightarrow> DatabaseMigration \<Rightarrow> bool"
  for mig :: "string \<rightharpoonup> DatabaseMigration" and cur :: string where
  next_here: "\<lbrakk>v \<noteq> cur; v \<noteq> []; mig v = Some m; prev_of m = cur\<rbrakk> \<Longrightarrow> runs_next mig cur v m"
| next_later: "\<lbrakk>v \<noteq> cur; v \<noteq> []; mig v = Some m'; prev_of m' \<noteq> cur; runs_next mig cur (prev_of m') m\<rbrakk>
    \<Longrightarrow> runs_next mig cur v m"

lemma runs_next_prev: "runs_next mig cur v m \<Longrightarrow> prev_of m = cur \<and> (\<exists>u. mig u = Some m)"
  by (induction rule: runs_next.induct) auto

lemma version_path_next: "version_path mig cur v \<Longrightarrow> v \<noteq> cur \<Longrightarrow> \<exists>m. runs_next mig cur v m"
proof (induction rule: version_path.induct)
  case (one_back v m)
  then show ?case by (cases "prev_of m = cur") (auto intro: runs_next.intros)
qed simp

lemma runs_next_unique: "runs_next mig cur v m \<Longrightarrow> runs_next mig cur v m' \<Longrightarrow> m = m'"
proof (induction arbitrary: m' rule: runs_next.induct)
  case (next_here v m)
  then show ?case by (auto elim: runs_next.cases)
next
  case (next_later v m1 m)
  from next_later.prems next_later.hyps have "runs_next mig cur (prev_of m1) m'"
    by (auto elim: runs_next.cases)
  then show ?case by (rule next_later.IH)
qed

section \<open>The loop follows the chain\<close>

lemma loadMigration_serves:
  assumes "serves cl ns mig"
  shows "\<exists>k'. loadMigration cl ns v k = (case mig v of
       Some m \<Rightarrow> (Inr m, k')
     | None \<Rightarrow> (Inl (newMigrationErrorf (name_of ns v) ''Unable to fetch DatabaseMigration (%s): %w''
         [NamespacedName_String cl (name_of ns v)]
         (projl (fst (Get_DatabaseMigration cl (name_of ns v) k)))), k'))"
  using assms [unfolded serves_def, rule_format, of v k]
  by (auto simp: loadMigration_def Let_def split: option.splits prod.splits)

lemma findMigration_path:
  assumes "serves cl ns mig" and "version_path mig cur v" and "v \<noteq> cur"
  shows "\<exists>m k'. runs_next mig cur v m \<and> findMigration cl ns desired cur v found k = Some (Inr (Some m), k')"
  using assms(2,3)
proof (induction arbitrary: found k rule: version_path.induct)
  case (one_back v m)
  from loadMigration_serves [OF assms(1), of v k] one_back.hyps obtain k' where
    load: "loadMigration cl ns v k = (Inr m, k')" by auto
  show ?case
  proof (cases "prev_of m = cur")
    case True
    with one_back.hyps load show ?thesis
      by (auto simp: findMigration.simps intro: next_here)
  next
    case False
    from one_back.IH [OF False, of "Some m" k'] obtain m' k'' where
      "runs_next mig cur (prev_of m) m'"
      "findMigration cl ns desired cur (prev_of m) (Some m) k' = Some (Inr (Some m'), k'')"
      by blast
    moreover from this one_back.hyps False have "runs_next mig cur v m'"
      by (blast intro: next_later)
    ultimately show ?thesis using one_back.hyps load
      by (subst findMigration.simps) auto
  qed
qed simp

lemma findMigration_ends:
  assumes "serves cl ns mig" and "chain_ends mig cur v"
  shows "\<exists>r. findMigration cl ns desired cur v found k = Some r"
  using assms(2)
proof (induction arbitrary: found k rule: chain_ends.induct)
  case (ends_step v m)
  from loadMigration_serves [OF assms(1), of v k] ends_step.hyps obtain k' where
    "loadMigration cl ns v k = (Inr m, k')" by auto
  with ends_step.IH [of "Some m" k'] show ?case
    by (subst findMigration.simps) auto
next
  case (ends_missing v)
  with loadMigration_serves [OF assms(1), of v k] show ?case
    by (subst findMigration.simps) auto
qed (simp_all add: findMigration.simps)

lemma findMigration_returned_ends:
  assumes "findMigration cl ns desired cur v found k = Some r"
  shows "serves cl ns mig \<longrightarrow> chain_ends mig cur v"
proof (rule findMigration.raw_induct
    [where P = "\<lambda>cl ns desired cur v found k r. serves cl ns mig \<longrightarrow> chain_ends mig cur v",
      OF _ assms])
  fix f cl ns desired cur v found and k :: 'a and r
  assume IH: "\<And>cl ns desired cur v found k r. f cl ns desired cur v found k = Some r \<Longrightarrow>
      serves cl ns mig \<longrightarrow> chain_ends mig cur v"
    and run: "(if v = cur then Some (Inr found, k)
        else if v = [] then Some (Inl (noPathErr desired cur), k)
        else case loadMigration cl ns v k of
            (Inl err, k') \<Rightarrow> Some (Inl err, k')
          | (Inr m, k') \<Rightarrow> f cl ns desired cur (prev_of m) (Some m) k') = Some r"
  show "serves cl ns mig \<longrightarrow> chain_ends mig cur v"
  proof (intro impI, cases "mig v")
    fix m
    assume serves: "serves cl ns mig" and Some: "mig v = Some m"
    with loadMigration_serves [OF serves, of v k] obtain k' where
      "loadMigration cl ns v k = (Inr m, k')" by auto
    with run Some serves IH [of cl ns desired cur "prev_of m" "Some m" k' r]
    show "chain_ends mig cur v"
      by (auto split: if_splits intro: chain_ends.intros)
  qed (rule ends_missing)
qed

text \<open>
  A chain on which some rank decreases ends: this is the case when the migrations are numbered in
  the order they were written.
\<close>

lemma ranked_chain_ends:
  fixes rank :: "string \<Rightarrow> nat"
  assumes "\<And>u m. mig u = Some m \<Longrightarrow> rank (prev_of m) < rank u"
  shows "chain_ends mig cur v"
proof (induction "rank v" arbitrary: v rule: less_induct)
  case less
  then show ?case
    by (cases "mig v") (auto intro: chain_ends.intros dest: assms)
qed

text \<open>A set of versions closed under stepping back, without the current one, never ends.\<close>

lemma closed_chain_not_ends:
  assumes "\<And>u. u \<in> C \<Longrightarrow> u \<noteq> cur \<and> u \<noteq> [] \<and> (\<exists>m. mig u = Some m \<and> prev_of m \<in> C)" and "v \<in> C"
  shows "\<not> chain_ends mig cur v"
proof
  assume "chain_ends mig cur v"
  then have "v \<notin> C"
    by (induction rule: chain_ends.induct) (use assms(1) in force)+
  with assms(2) show False by simp
qed

end
