(* ===== verification/MigrationJobs.thy ===== *)
theory MigrationJobs
  imports Controller
begin

text \<open>
  \<^verbatim>\<open>reconcileMigrationJob\<close> of \<^verbatim>\<open>controllers/manageddatabase_controller.go\<close>: the jobs of a database are
  brought in line with the migration that has to run next. \<open>neededJobsRunning\<close> is the Go map from
  migration uids to migrations that have no job yet, as an association list.

  The lemmas rest on \<open>job_api\<close>, what the API server promises about jobs: listing by label, creating
  and deleting.
\<close>

definition migration_uid :: "Job \<Rightarrow> string" where
  "migration_uid job = (case Labels job of
       None \<Rightarrow> []
     | Some m \<Rightarrow> (case m ''migration-uid'' of None \<Rightarrow> [] | Some v \<Rightarrow> v))"

definition job_failed :: "Job \<Rightarrow> bool" where
  "job_failed job =
     (if Succeeded (job_Status job) > 0 then False
      else (case Conditions (job_Status job) of
          None \<Rightarrow> False
        | Some cs \<Rightarrow> Active (job_Status job) = 0 \<and>
            list_ex (\<lambda>condition. jc_Type condition = ''Failed'' \<and> jc_Status condition = ''True'') cs))"

type_synonym neededJobs = "(string \<times> DatabaseMigration) list"

definition needed_delete :: "string \<Rightarrow> neededJobs \<Rightarrow> neededJobs" where
  "needed_delete uid needed = filter (\<lambda>(u, m). u \<noteq> uid) needed"

primrec checkJobs ::
  "('k, 'd, 'h) Controller \<Rightarrow> Job list \<Rightarrow> neededJobs \<Rightarrow> (('k, 'd, 'h) sys, go_error + neededJobs) go" where
  "checkJobs c [] needed = go_return (Inr needed)"
| "checkJobs c (job # jobs) needed =
     (if migration_uid job \<in> fst ` set needed then
        if job_failed job then
          go_return (Inl (Errorf ''Migration job failed to complete (%s)'' [Name job]))
        else checkJobs c jobs (needed_delete (migration_uid job) needed)
      else
        go_check (on_kube (go_call (Delete_Job (Client c) job)))
          (\<lambda>err. go_return (Inl (Errorf_w ''Unable to delete migration job (%s): %w'' [Name job] err)))
          (\<lambda>_. checkJobs c jobs (needed_delete (migration_uid job) needed)))"

definition startMigration ::
  "('k, 'd, 'h) Controller \<Rightarrow> ManagedDatabase \<Rightarrow> DatabaseMigration \<Rightarrow> (('k, 'd, 'h) sys, go_error + unit) go" where
  "startMigration c db migration =
     (case SetControllerReference_Job (Client c) db (constructJobForMigration db migration) of
        Inl err \<Rightarrow> go_return (Inl (Errorf_w ''Unable to set owner for new job (%s): %w''
          [Name (constructJobForMigration db migration)] err))
      | Inr job \<Rightarrow>
          go_check (on_kube (go_call (Create_Job (Client c) job)))
            (\<lambda>err. go_return (Inl (Errorf_w ''Unable to create Job (%s) for migration: %w'' [Name job] err)))
            (\<lambda>_. go_bind (go_modify (\<lambda>s. s\<lparr>MigrationJobsSpawned := MigrationJobsSpawned s + 1\<rparr>))
            (\<lambda>_. go_return (Inr ()))))"

definition neededJobsRunning :: "migrationContext \<Rightarrow> neededJobs" where
  "neededJobsRunning ctx = (case nextVersion ctx of None \<Rightarrow> [] | Some m \<Rightarrow> [(UID m, m)])"

definition startNeeded ::
  "('k, 'd, 'h) Controller \<Rightarrow> ManagedDatabase \<Rightarrow> neededJobs \<Rightarrow> (('k, 'd, 'h) sys, go_error + unit) go" where
  "startNeeded c db needed =
     (if ReadOnly (Spec db) then
        if length needed > 0 then
          go_return (Inl (Errorf ''Need to create %d migration(s) against read only database''
            [show_nat (length needed)]))
        else go_return (Inr ())
      else go_for needed (\<lambda>(uid, migration). startMigration c db migration))"

definition reconcileMigrationJob ::
  "('k, 'd, 'h) Controller \<Rightarrow> migrationContext \<Rightarrow> (('k, 'd, 'h) sys, go_error + unit) go" where
  "reconcileMigrationJob c ctx =
     go_check (on_kube (go_call (List_Jobs (Client c) (Namespace (mc_db ctx))
         [(''database-uid'', UID (mc_db ctx))])))
       (\<lambda>err. go_return (Inl (Errorf_w ''Unable to list existing migration Job(s): %w'' [] err)))
       (\<lambda>jobsForDatabase.
     go_check (checkJobs c jobsForDatabase (neededJobsRunning ctx))
       (\<lambda>err. go_return (Inl err))
       (\<lambda>needed. startNeeded c (mc_db ctx) needed))"

section \<open>What the API server promises\<close>

text \<open>
  \<open>jobs\<close> are the jobs in the cluster. The server may fill in fields of a created job, but keeps its
  name, namespace and labels. A call that reports an error may or may not have taken effect.
\<close>

definition same_job :: "Job \<Rightarrow> Job \<Rightarrow> bool" where
  "same_job j j' \<longleftrightarrow> Name j' = Name j \<and> Namespace j' = Namespace j \<and> Labels j' = Labels j"

definition list_jobs_law :: "'k Client \<Rightarrow> ('k \<Rightarrow> Job set) \<Rightarrow> bool" where
  "list_jobs_law cl jobs \<longleftrightarrow> (\<forall>ns l v k r k'. List_Jobs cl ns [(l, v)] k = (r, k') \<longrightarrow> jobs k' = jobs k \<and>
     (case r of Inl e \<Rightarrow> foreign e
      | Inr js \<Rightarrow> distinct js \<and> set js = {j \<in> jobs k. Namespace j = ns \<and>
          (\<exists>m. Labels j = Some m \<and> m l = Some v)}))"

definition create_job_law :: "'k Client \<Rightarrow> ('k \<Rightarrow> Job set) \<Rightarrow> bool" where
  "create_job_law cl jobs \<longleftrightarrow> (\<forall>j k r k'. Create_Job cl j k = (r, k') \<longrightarrow> (\<exists>j'. same_job j j' \<and>
     (case r of Inl e \<Rightarrow> foreign e \<and> jobs k' \<in> {jobs k, insert j' (jobs k)}
      | Inr _ \<Rightarrow> jobs k' = insert j' (jobs k))))"

definition delete_job_law :: "'k Client \<Rightarrow> ('k \<Rightarrow> Job set) \<Rightarrow> bool" where
  "delete_job_law cl jobs \<longleftrightarrow> (\<forall>j k r k'. Delete_Job cl j k = (r, k') \<longrightarrow>
     (case r of Inl e \<Rightarrow> foreign e \<and> jobs k' \<in> {jobs k, jobs k - {j}}
      | Inr _ \<Rightarrow> jobs k' = jobs k - {j}))"

definition job_api :: "'k Client \<Rightarrow> ('k \<Rightarrow> Job set) \<Rightarrow> bool" where
  "job_api cl jobs \<longleftrightarrow> list_jobs_law cl jobs \<and> create_job_law cl jobs \<and> delete_job_law cl jobs \<and>
     (\<forall>db j. case SetControllerReference_Job cl db j of Inl e \<Rightarrow> foreign e | Inr j' \<Rightarrow> same_job j j')"

text \<open>The jobs that belong to a database.\<close>

definition jobs_of :: "ManagedDatabase \<Rightarrow> Job set \<Rightarrow> Job set" where
  "jobs_of db J = {j \<in> J. Namespace j = Namespace db \<and>
     (\<exists>m. Labels j = Some m \<and> m ''database-uid'' = Some (UID db))}"

text \<open>
  The specification. Jobs of other databases are left alone; nothing but a job for the next migration
  appears; and after success the database has exactly one job, for the next migration, or none when
  there is no next migration.
\<close>

definition jobs_post :: "migrationContext \<Rightarrow> Job set \<Rightarrow> go_error + unit \<Rightarrow> Job set \<Rightarrow> bool" where
  "jobs_post ctx J r J' \<longleftrightarrow>
     J - jobs_of (mc_db ctx) J \<subseteq> J' \<and>
     (\<forall>j \<in> J' - J. \<exists>m. nextVersion ctx = Some m \<and>
        Labels j = Some (getStandardLabels (mc_db ctx) m) \<and> Namespace j = Namespace (mc_db ctx)) \<and>
     (r = Inr () \<longrightarrow> (case nextVersion ctx of
         None \<Rightarrow> jobs_of (mc_db ctx) J' = {}
       | Some m \<Rightarrow> \<exists>j. jobs_of (mc_db ctx) J' = {j} \<and> migration_uid j = UID m))"

section \<open>The loop over the existing jobs\<close>

text \<open>
  What is left of the listed jobs \<open>js\<close> when the loop is done: nothing, when no migration was needed;
  otherwise the first job of the needed migration, if there is one.
\<close>

lemma checkJobs_none:
  assumes "job_api (Client c) jobs"
  shows "wp (checkJobs c js []) (\<lambda>r t. jobs (kube s) - set js \<subseteq> jobs (kube t) \<and>
    jobs (kube t) \<subseteq> jobs (kube s) \<and> MigrationJobsSpawned t = MigrationJobsSpawned s \<and>
    dbs t = dbs s \<and> (case r of Inl e \<Rightarrow> foreign e
      | Inr n \<Rightarrow> n = [] \<and> jobs (kube t) = jobs (kube s) - set js)) s"
proof (induction js arbitrary: s)
  case Nil
  then show ?case by (simp add: wp_simps)
next
  case (Cons j js)
  obtain r k' where run: "Delete_Job (Client c) j (kube s) = (r, k')" by force
  have law: "delete_job_law (Client c) jobs" using assms by (simp add: job_api_def)
  have del: "case r of Inl e \<Rightarrow> foreign e \<and> jobs k' \<in> {jobs (kube s), jobs (kube s) - {j}}
      | Inr _ \<Rightarrow> jobs k' = jobs (kube s) - {j}"
    by (rule law [unfolded delete_job_law_def, rule_format, OF run])
  show ?case
  proof (cases r)
    case (Inl e)
    with del have "foreign e" and "jobs (kube s) - {j} \<subseteq> jobs k'" "jobs k' \<subseteq> jobs (kube s)" by auto
    then have "jobs (kube s) - set (j # js) \<subseteq> jobs k'" "jobs k' \<subseteq> jobs (kube s)" "foreign e" by auto
    with run Inl show ?thesis by (simp add: wp_simps)
  next
    case (Inr u)
    let ?s = "s\<lparr>kube := k'\<rparr>"
    from Inr del have k': "jobs (kube ?s) = jobs (kube s) - {j}" by simp
    have "wp (checkJobs c js []) (\<lambda>r t. jobs (kube s) - set (j # js) \<subseteq> jobs (kube t) \<and>
        jobs (kube t) \<subseteq> jobs (kube s) \<and> MigrationJobsSpawned t = MigrationJobsSpawned s \<and>
        dbs t = dbs s \<and> (case r of Inl e \<Rightarrow> foreign e
          | Inr n \<Rightarrow> n = [] \<and> jobs (kube t) = jobs (kube s) - set (j # js))) ?s"
    proof (rule wpp_mono [OF Cons.IH [of ?s]], goal_cases)
      case (1 r t)
      then show ?case unfolding k' by (cases r) auto
    qed auto
    with Inr run show ?thesis
      by (simp add: wp_simps needed_delete_def)
  qed
qed

definition kept :: "Job list \<Rightarrow> string \<Rightarrow> DatabaseMigration \<Rightarrow> neededJobs \<Rightarrow> Job set \<Rightarrow> Job set \<Rightarrow> bool" where
  "kept js u m n J J' \<longleftrightarrow>
     (n = [] \<and> (\<exists>j \<in> set js. migration_uid j = u \<and> J' = J - (set js - {j}))) \<or>
     (n = [(u, m)] \<and> (\<forall>j \<in> set js. migration_uid j \<noteq> u) \<and> J' = J - set js)"

definition checked ::
  "('k \<Rightarrow> Job set) \<Rightarrow> Job set \<Rightarrow> Job list \<Rightarrow> string \<Rightarrow> DatabaseMigration \<Rightarrow> go_error + neededJobs \<Rightarrow> 'k \<Rightarrow> bool" where
  "checked jobs J js u m r k \<longleftrightarrow> J - set js \<subseteq> jobs k \<and> jobs k \<subseteq> J \<and>
     (case r of Inl e \<Rightarrow> foreign e | Inr n \<Rightarrow> kept js u m n J (jobs k))"

lemma checkJobs_one:
  assumes api: "job_api (Client c) jobs" and "distinct js"
  shows "wp (checkJobs c js [(u, m)]) (\<lambda>r t. checked jobs (jobs (kube s)) js u m r (kube t) \<and>
     MigrationJobsSpawned t = MigrationJobsSpawned s \<and> dbs t = dbs s) s"
  using assms(2)
proof (induction js arbitrary: s)
  case Nil
  then show ?case by (simp add: wp_simps checked_def kept_def)
next
  case (Cons j js)
  show ?case
  proof (cases "migration_uid j = u")
    case hit: True
    show ?thesis
    proof (cases "job_failed j")
      case True
      with hit show ?thesis by (auto simp: wp_simps checked_def)
    next
      case False
      have "wp (checkJobs c js []) (\<lambda>r t. checked jobs (jobs (kube s)) (j # js) u m r (kube t) \<and>
          MigrationJobsSpawned t = MigrationJobsSpawned s \<and> dbs t = dbs s) s"
      proof (rule wpp_mono [OF checkJobs_none [OF api, of js s]], goal_cases)
        case (1 r t)
        then show ?case using hit Cons.prems by (cases r) (auto simp: checked_def kept_def)
      qed auto
      with hit False show ?thesis by (simp add: needed_delete_def)
    qed
  next
    case miss: False
    obtain r k' where run: "Delete_Job (Client c) j (kube s) = (r, k')" by force
    have law: "delete_job_law (Client c) jobs" using api by (simp add: job_api_def)
    have del: "case r of Inl e \<Rightarrow> foreign e \<and> jobs k' \<in> {jobs (kube s), jobs (kube s) - {j}}
        | Inr _ \<Rightarrow> jobs k' = jobs (kube s) - {j}"
      by (rule law [unfolded delete_job_law_def, rule_format, OF run])
    show ?thesis
    proof (cases r)
      case (Inl e)
      with del have "checked jobs (jobs (kube s)) (j # js) u m (Inl e) k'" by (auto simp: checked_def)
      with run Inl miss show ?thesis by (simp add: wp_simps checked_def)
    next
      case (Inr x)
      let ?s = "s\<lparr>kube := k'\<rparr>"
      from Inr del have k': "jobs (kube ?s) = jobs (kube s) - {j}" by simp
      have "wp (checkJobs c js [(u, m)]) (\<lambda>r t. checked jobs (jobs (kube s)) (j # js) u m r (kube t) \<and>
          MigrationJobsSpawned t = MigrationJobsSpawned s \<and> dbs t = dbs s) ?s"
      proof (rule wpp_mono [OF Cons.IH [of ?s]], goal_cases)
        case (2 r t)
        then show ?case unfolding k' using Cons.prems miss
          by (cases r) (auto simp: checked_def kept_def)
      qed (use Cons.prems in auto)
      with Inr run miss show ?thesis
        by (simp add: wp_simps needed_delete_def)
    qed
  qed
qed

section \<open>The whole operation\<close>

lemma jobs_post_unchanged: "J - jobs_of (mc_db ctx) J \<subseteq> J' \<Longrightarrow> J' \<subseteq> J \<Longrightarrow> jobs_post ctx J (Inl e) J'"
  by (auto simp: jobs_post_def)

lemma standard_uid: "Labels j = Some (getStandardLabels db m) \<Longrightarrow> migration_uid j = UID m"
  by (simp add: migration_uid_def)

text \<open>Starting the migration when no job of the database is left.\<close>

lemma startMigration_spec:
  assumes "job_api (Client c) jobs" and "nextVersion ctx = Some m"
    and "jobs (kube t) = J - jobs_of (mc_db ctx) J"
  shows "wp (startMigration c (mc_db ctx) m) (\<lambda>r t'. jobs_post ctx J r (jobs (kube t')) \<and>
      (case r of Inl e \<Rightarrow> foreign e | Inr _ \<Rightarrow> True) \<and> dbs t' = dbs t \<and>
      MigrationJobsSpawned t' = MigrationJobsSpawned t + (case r of Inl _ \<Rightarrow> 0 | Inr _ \<Rightarrow> 1)) t"
proof -
  let ?db = "mc_db ctx" and ?job = "constructJobForMigration (mc_db ctx) m"
  have owner: "case SetControllerReference_Job (Client c) ?db ?job of Inl e \<Rightarrow> foreign e | Inr j \<Rightarrow> same_job ?job j"
    using assms(1) by (auto simp: job_api_def)
  have none: "jobs_post ctx J (Inl e) (J - jobs_of ?db J)" for e
    by (rule jobs_post_unchanged) auto
  show ?thesis
  proof (cases "SetControllerReference_Job (Client c) ?db ?job")
    case (Inl e)
    with owner none assms(3) show ?thesis by (simp add: startMigration_def wp_simps)
  next
    case (Inr job)
    with owner have job: "same_job ?job job" by simp
    obtain r k' where run: "Create_Job (Client c) job (kube t) = (r, k')" by force
    have law: "create_job_law (Client c) jobs" using assms(1) by (simp add: job_api_def)
    obtain j where j: "same_job job j" and eff: "case r of
        Inl e \<Rightarrow> foreign e \<and> jobs k' \<in> {jobs (kube t), insert j (jobs (kube t))}
      | Inr _ \<Rightarrow> jobs k' = insert j (jobs (kube t))"
      using law [unfolded create_job_law_def, rule_format, OF run] by blast
    from job j have labels: "Labels j = Some (getStandardLabels ?db m)" "Namespace j = Namespace ?db"
      by (auto simp: same_job_def)
    then have mine: "jobs_of ?db (insert j (J - jobs_of ?db J)) = {j}"
      by (auto simp: jobs_of_def)
    have new: "jobs_post ctx J q (insert j (J - jobs_of ?db J))" for q
      using assms(2) labels mine standard_uid [OF labels(1)] by (auto simp: jobs_post_def)
    show ?thesis
    proof (cases r)
      case (Inl e)
      with eff have "foreign e" and "jobs k' = J - jobs_of ?db J \<or> jobs k' = insert j (J - jobs_of ?db J)"
        using assms(3) by auto
      then have "foreign e" and "jobs_post ctx J (Inl e') (jobs k')" for e' using none new by auto
      with Inr run Inl show ?thesis by (simp add: startMigration_def wp_simps)
    next
      case r: (Inr x)
      with eff have "jobs k' = insert j (J - jobs_of ?db J)" using assms(3) by simp
      then have "jobs_post ctx J (Inr ()) (jobs k')" using new by simp
      with Inr run r show ?thesis by (simp add: startMigration_def wp_simps)
    qed
  qed
qed

text \<open>
  A job is spawned at most once, never for a read-only database, and never when the database already
  has a job for that migration.
\<close>

definition spawn_post :: "migrationContext \<Rightarrow> Job set \<Rightarrow> nat \<Rightarrow> nat \<Rightarrow> bool" where
  "spawn_post ctx J before after \<longleftrightarrow> after = before \<or>
     (after = before + 1 \<and> \<not> ReadOnly (Spec (mc_db ctx)) \<and>
      (\<exists>m. nextVersion ctx = Some m \<and> (\<forall>j \<in> jobs_of (mc_db ctx) J. migration_uid j \<noteq> UID m)))"

definition migration_job_post ::
  "('k \<Rightarrow> Job set) \<Rightarrow> migrationContext \<Rightarrow> ('k, 'd, 'h) sys \<Rightarrow> go_error + unit \<Rightarrow> ('k, 'd, 'h) sys \<Rightarrow> bool" where
  "migration_job_post jobs ctx s r t \<longleftrightarrow>
     jobs_post ctx (jobs (kube s)) r (jobs (kube t)) \<and>
     spawn_post ctx (jobs (kube s)) (MigrationJobsSpawned s) (MigrationJobsSpawned t) \<and>
     (\<forall>e. r = Inl e \<longrightarrow> foreign e) \<and> dbs t = dbs s"

lemma startNeeded_spec:
  fixes s t :: "('k, 'd, 'h) sys"
  assumes "job_api (Client c) jobs" and "nextVersion ctx = Some m"
    and "set js = jobs_of (mc_db ctx) (jobs (kube s))" and "kept js (UID m) m n (jobs (kube s)) (jobs (kube t))"
    and same: "MigrationJobsSpawned t = MigrationJobsSpawned s" "dbs t = dbs s"
  shows "wp (startNeeded c (mc_db ctx) n) (migration_job_post jobs ctx s) t"
proof (cases n)
  case Nil
  with assms(4) obtain j where "j \<in> set js" "migration_uid j = UID m"
    "jobs (kube t) = jobs (kube s) - (set js - {j})" by (auto simp: kept_def)
  with assms(2,3) have "jobs_post ctx (jobs (kube s)) (Inr ()) (jobs (kube t))"
    by (auto simp: jobs_post_def jobs_of_def)
  with Nil same show ?thesis
    by (simp add: startNeeded_def wp_simps migration_job_post_def spawn_post_def)
next
  case (Cons x xs)
  with assms(3,4) have n: "n = [(UID m, m)]" and left: "jobs (kube t) = jobs (kube s) - jobs_of (mc_db ctx) (jobs (kube s))"
    and new: "\<forall>j \<in> jobs_of (mc_db ctx) (jobs (kube s)). migration_uid j \<noteq> UID m"
    by (auto simp: kept_def)
  show ?thesis
  proof (cases "ReadOnly (Spec (mc_db ctx))")
    case True
    have "jobs_post ctx (jobs (kube s)) (Inl e) (jobs (kube t))" for e
      unfolding left by (rule jobs_post_unchanged) auto
    with True n same show ?thesis
      by (simp add: startNeeded_def wp_simps migration_job_post_def spawn_post_def)
  next
    case False
    have "wp (startMigration c (mc_db ctx) m) (migration_job_post jobs ctx s) t"
    proof (rule wpp_mono [OF startMigration_spec [OF assms(1,2) left]], goal_cases)
      case (1 r t')
      then show ?case using same False new assms(2)
        by (cases r) (auto simp: migration_job_post_def spawn_post_def)
    qed auto
    then have "wp (startMigration c (mc_db ctx) m) (\<lambda>r t'. case r of
        Inl e \<Rightarrow> migration_job_post jobs ctx s (Inl e) t'
      | Inr _ \<Rightarrow> migration_job_post jobs ctx s (Inr ()) t') t"
      by (rule wpp_mono) (auto split: sum.splits)
    with n False show ?thesis by (simp add: startNeeded_def wp_simps cong: sum.case_cong)
  qed
qed

lemma reconcileMigrationJob_spec:
  fixes s :: "('k, 'd, 'h) sys"
  assumes api: "job_api (Client c) jobs"
  shows "wp (reconcileMigrationJob c ctx) (migration_job_post jobs ctx s) s"
proof -
  let ?db = "mc_db ctx"
  obtain r k' where run: "List_Jobs (Client c) (Namespace ?db) [(''database-uid'', UID ?db)] (kube s) = (r, k')"
    by force
  have law: "list_jobs_law (Client c) jobs" using api by (simp add: job_api_def)
  from law [unfolded list_jobs_law_def, rule_format, OF run]
  have jobs: "jobs k' = jobs (kube s)" and res: "case r of Inl e \<Rightarrow> foreign e
      | Inr js \<Rightarrow> distinct js \<and> set js = jobs_of ?db (jobs (kube s))"
    by (simp_all add: jobs_of_def cong: sum.case_cong)
  have failed: "migration_job_post jobs ctx s (Inl e) t"
    if "jobs (kube s) - jobs_of ?db (jobs (kube s)) \<subseteq> jobs (kube t)" "jobs (kube t) \<subseteq> jobs (kube s)"
      "foreign e" "MigrationJobsSpawned t = MigrationJobsSpawned s" "dbs t = dbs s" for e t
    using that by (simp add: migration_job_post_def spawn_post_def jobs_post_unchanged)
  show ?thesis
  proof (cases r)
    case (Inl e)
    with res have "foreign e" by simp
    with Inl run jobs show ?thesis
      by (simp add: reconcileMigrationJob_def wp_simps failed)
  next
    case (Inr js)
    with res have js: "distinct js" "set js = jobs_of ?db (jobs (kube s))" by simp_all
    let ?s = "s\<lparr>kube := k'\<rparr>"
    have "wp (checkJobs c js (neededJobsRunning ctx)) (\<lambda>r t. case r of
        Inl e \<Rightarrow> migration_job_post jobs ctx s (Inl e) t
      | Inr n \<Rightarrow> wp (startNeeded c ?db n) (migration_job_post jobs ctx s) t) ?s"
    proof (cases "nextVersion ctx")
      case None
      have "migration_job_post jobs ctx s (Inr ()) t"
        if "jobs (kube t) = jobs (kube s) - set js" "MigrationJobsSpawned t = MigrationJobsSpawned s"
          "dbs t = dbs s" for t
        using that None js(2) by (auto simp: migration_job_post_def spawn_post_def jobs_post_def jobs_of_def)
      note finished = this
      have "wp (checkJobs c js []) (\<lambda>r t. case r of
          Inl e \<Rightarrow> migration_job_post jobs ctx s (Inl e) t
        | Inr n \<Rightarrow> wp (startNeeded c ?db n) (migration_job_post jobs ctx s) t) ?s"
      proof (rule wpp_mono [OF checkJobs_none [OF api, of js ?s]], goal_cases)
        case (1 r t)
        then show ?case
          by (cases r) (simp_all add: startNeeded_def wp_simps jobs js(2) failed finished)
      qed auto
      with None show ?thesis by (simp add: neededJobsRunning_def)
    next
      case (Some m)
      have "wp (checkJobs c js [(UID m, m)]) (\<lambda>r t. case r of
          Inl e \<Rightarrow> migration_job_post jobs ctx s (Inl e) t
        | Inr n \<Rightarrow> wp (startNeeded c ?db n) (migration_job_post jobs ctx s) t) ?s"
      proof (rule wpp_mono [OF checkJobs_one [OF api js(1), of "UID m" m ?s]], goal_cases)
        case (1 r t)
        then show ?case
          by (cases r) (auto simp: checked_def jobs js(2) intro!: failed startNeeded_spec [OF api Some js(2)])
      qed auto
      with Some show ?thesis by (simp add: neededJobsRunning_def)
    qed
    with Inr run show ?thesis
      by (simp add: reconcileMigrationJob_def wp_simps cong: sum.case_cong)
  qed
qed

end
