(* ===== verification/Hints.thy ===== *)
theory Hints
  imports DbAdmin
begin

text \<open>
  The hints engine (\<^verbatim>\<open>pkg/hints/hints.go\<close>): before a migration runs, the hints it carries about the
  schema changes it makes are checked against the database, and each change that would block or fail
  is reported as an error.

  The engine finds its processors by reflection over its own methods; \<open>processors\<close> lists the methods
  of the processor type in the order reflection reports them. The conversion of their names to lower
  camel case is a library function and a parameter. \<open>order\<close> is the order in which Go goes through the
  keys of a map.
\<close>

definition addColumnTableTooLarge :: string where
  "addColumnTableTooLarge = ''Attempting to add a column to a large table (%s)''"

definition addBlockingIndextableTooLarge :: string where
  "addBlockingIndextableTooLarge = ''Attempting to create an index (type=%s) to a large table (%s)''"

definition addNotNullableColumnNoDefault :: string where
  "addNotNullableColumnNoDefault = ''Attempting to add a NOT NULL column (%s) to an existing table (%s) without specifying a server default''"

definition addNotNullConstraintWillFail :: string where
  "addNotNullConstraintWillFail = ''Attempting to convert a column (%s) to NOT NULL on a table (%s) when null data is present''"

definition addUniqueIndexWillFail :: string where
  "addUniqueIndexWillFail = ''Attempting to add a unique index to a table (%s) which contains non-unique data over the specified columns (%v)''"

definition newMigrationErrorF :: "string \<Rightarrow> string list \<Rightarrow> ManagedDatabaseError" where
  "newMigrationErrorF message arguments = \<lparr>Message = sprintf message arguments, Temporary = False\<rparr>"

section \<open>The processors\<close>

type_synonym 'd processorFunc =
  "DatabaseMigrationSchemaHint \<Rightarrow> bool \<Rightarrow> ('d, go_error + ManagedDatabaseError list) go"

definition AddColumn :: "'d DbAdmin \<Rightarrow> 'd processorFunc" where
  "AddColumn admin hint largeTable =
     go_return (Inr (
       (if largeTable then [newMigrationErrorF addColumnTableTooLarge [TableName hint]] else []) @
       concat (map (\<lambda>column.
         if NotNullable column \<and> \<not> HasServerDefault column
         then [newMigrationErrorF addNotNullableColumnNoDefault [col_Name column, TableName hint]]
         else []) (Columns hint))))"

text \<open>
  The slice of column names is made with the length of the columns and then appended to, so it
  starts with as many empty names.
\<close>

definition CreateIndex :: "'d DbAdmin \<Rightarrow> 'd processorFunc" where
  "CreateIndex admin hint largeTable =
     (if hint_IndexType hint = ''unique'' then
        let columnNames = replicate (length (Columns hint)) [] @ map col_Name (Columns hint) in
        go_check (ConstraintWillFail admin (TableName hint) UniqueConstraint columnNames)
          (\<lambda>err. go_return (Inl err))
          (\<lambda>willFail. go_return (Inr (
             if willFail
             then [newMigrationErrorF addUniqueIndexWillFail [TableName hint, show_strings columnNames]]
             else [])))
      else if hint_IndexType hint = ''index'' then go_return (Inr [])
      else if hint_IndexType hint = ''fulltext'' then
        go_return (Inr (
          if largeTable
          then [newMigrationErrorF addBlockingIndextableTooLarge [hint_IndexType hint, TableName hint]]
          else []))
      else go_return (Inl (Errorf ''Unknown index type: %s'' [hint_IndexType hint])))"

definition CreateTable :: "'d DbAdmin \<Rightarrow> 'd processorFunc" where
  "CreateTable admin hint largeTable = go_return (Inr [])"

primrec alterColumns ::
  "'d DbAdmin \<Rightarrow> string \<Rightarrow> DatabaseMigrationSchemaHintColumn list \<Rightarrow> ManagedDatabaseError list
   \<Rightarrow> ('d, go_error + ManagedDatabaseError list) go" where
  "alterColumns admin tableName [] migrationErrors = go_return (Inr migrationErrors)"
| "alterColumns admin tableName (column # columns) migrationErrors =
     (if NotNullable column then
        go_check (ConstraintWillFail admin tableName NotNullConstraint [col_Name column])
          (\<lambda>err. go_return (Inl err))
          (\<lambda>willFail. alterColumns admin tableName columns
             (if willFail
              then migrationErrors @
                [newMigrationErrorF addNotNullConstraintWillFail [col_Name column, tableName]]
              else migrationErrors))
      else alterColumns admin tableName columns migrationErrors)"

definition AlterColumn :: "'d DbAdmin \<Rightarrow> 'd processorFunc" where
  "AlterColumn admin hint largeTable = alterColumns admin (TableName hint) (Columns hint) []"

section \<open>The engine\<close>

record 'd hintsEngine =
  he_handle :: "'d DbAdmin"
  largeTableThreshold :: u64
  operationToProcessor :: "string \<rightharpoonup> 'd processorFunc"

definition processors :: "'d DbAdmin \<Rightarrow> (string \<times> 'd processorFunc) list" where
  "processors admin =
     [(''AddColumn'', AddColumn admin), (''AlterColumn'', AlterColumn admin),
      (''CreateIndex'', CreateIndex admin), (''CreateTable'', CreateTable admin)]"

definition NewHintsEngine :: "(string \<Rightarrow> string) \<Rightarrow> 'd DbAdmin \<Rightarrow> u64 \<Rightarrow> 'd hintsEngine" where
  "NewHintsEngine ToLowerCamel admin threshold =
     \<lparr>he_handle = admin, largeTableThreshold = threshold,
      operationToProcessor =
        fold (\<lambda>(method, processor) m. m(ToLowerCamel method \<mapsto> processor)) (processors admin) Map.empty\<rparr>"

primrec processEach ::
  "'d hintsEngine \<Rightarrow> (string \<rightharpoonup> u64) \<Rightarrow> DatabaseMigrationSchemaHint list \<Rightarrow> ManagedDatabaseError list
   \<Rightarrow> ('d, go_error + ManagedDatabaseError list) go" where
  "processEach he estimates [] migrationErrors = go_return (Inr migrationErrors)"
| "processEach he estimates (hint # hints) migrationErrors =
     (case operationToProcessor he (Operation hint) of
        None \<Rightarrow> processEach he estimates hints
          (migrationErrors @ [newMigrationErrorF ''Unknown hint operation: %s'' [Operation hint]])
      | Some processor \<Rightarrow>
          let tableSize = (case estimates (TableName hint) of Some n \<Rightarrow> n | None \<Rightarrow> 0) in
          go_check (processor hint (tableSize > largeTableThreshold he))
            (\<lambda>err. go_return (Inl err))
            (\<lambda>processorErrors. processEach he estimates hints (migrationErrors @ processorErrors)))"

text \<open>The list of table names is built like the column names above.\<close>

definition tableNamesList ::
  "(string list \<Rightarrow> string list) \<Rightarrow> DatabaseMigrationSchemaHint list \<Rightarrow> string list" where
  "tableNamesList order hints =
     (let tablesReferenced = set_of (map TableName hints)
      in replicate (length tablesReferenced) [] @ order tablesReferenced)"

definition ProcessHints ::
  "(string list \<Rightarrow> string list) \<Rightarrow> 'd hintsEngine \<Rightarrow> DatabaseMigrationSchemaHint list
   \<Rightarrow> ('d, go_error + ManagedDatabaseError list) go" where
  "ProcessHints order he hints =
     go_check (GetTableSizeEstimates (he_handle he) (tableNamesList order hints))
       (\<lambda>err. go_return (Inl (Errorf_w ''Unable to load table names: %w'' [] err)))
       (\<lambda>estimates. processEach he estimates hints [])"

section \<open>What the engine reports\<close>

text \<open>
  The specification: when a hint is risky for a database, given the size of every table and which columns
  have null data. It is about hints that add or change columns, create tables or create indexes that are
  not unique; unique indexes are left out here, because the engine does not ask about the columns of the
  hint (see the note at \<open>CreateIndex\<close>). Index types outside the known three are an error of their own.
\<close>

definition checked_hint :: "DatabaseMigrationSchemaHint \<Rightarrow> bool" where
  "checked_hint h \<longleftrightarrow> Operation h = ''createIndex'' \<longrightarrow> hint_IndexType h \<in> {''index'', ''fulltext''}"

definition risky ::
  "u64 \<Rightarrow> (string \<Rightarrow> u64) \<Rightarrow> (string \<Rightarrow> string \<Rightarrow> bool) \<Rightarrow> DatabaseMigrationSchemaHint \<Rightarrow> bool" where
  "risky threshold sizes nulls h =
     (if Operation h = ''addColumn'' then
        threshold < sizes (TableName h) \<or> (\<exists>c \<in> set (Columns h). NotNullable c \<and> \<not> HasServerDefault c)
      else if Operation h = ''alterColumn'' then
        (\<exists>c \<in> set (Columns h). NotNullable c \<and> nulls (TableName h) (col_Name c))
      else if Operation h = ''createIndex'' then
        hint_IndexType h = ''fulltext'' \<and> threshold < sizes (TableName h)
      else Operation h \<noteq> ''createTable'')"

text \<open>
  The names of the operations, and what the administration interface answers in a state: the size of every
  table it is asked about, possibly among others, and whether a column can be made non-nullable. Asking
  changes nothing.
\<close>

definition lower_camel :: "(string \<Rightarrow> string) \<Rightarrow> bool" where
  "lower_camel f \<longleftrightarrow> f ''AddColumn'' = ''addColumn'' \<and> f ''AlterColumn'' = ''alterColumn'' \<and>
     f ''CreateIndex'' = ''createIndex'' \<and> f ''CreateTable'' = ''createTable''"

definition answers ::
  "'d DbAdmin \<Rightarrow> 'd \<Rightarrow> (string \<Rightarrow> u64) \<Rightarrow> (string \<Rightarrow> string \<Rightarrow> bool) \<Rightarrow> bool" where
  "answers admin d sizes nulls \<longleftrightarrow>
     (\<forall>ts. \<exists>est. GetTableSizeEstimates admin ts d = Ret (Inr est) d \<and> (\<forall>t \<in> set ts. est t = Some (sizes t))) \<and>
     (\<forall>t col. ConstraintWillFail admin t NotNullConstraint [col] d = Ret (Inr (nulls t col)) d)"

lemma dispatch:
  assumes "lower_camel f"
  shows "operationToProcessor (NewHintsEngine f admin thr) =
    [''addColumn'' \<mapsto> AddColumn admin, ''alterColumn'' \<mapsto> AlterColumn admin,
     ''createIndex'' \<mapsto> CreateIndex admin, ''createTable'' \<mapsto> CreateTable admin]"
  using assms by (simp add: NewHintsEngine_def processors_def lower_camel_def)

lemma alterColumns_answers:
  assumes "answers admin d sizes nulls"
  shows "alterColumns admin t cs es d = Ret (Inr (es @ concat (map (\<lambda>c.
    if NotNullable c \<and> nulls t (col_Name c)
    then [newMigrationErrorF addNotNullConstraintWillFail [col_Name c, t]] else []) cs))) d"
  using assms by (induction cs arbitrary: es) (auto simp: answers_def go_defs)

text \<open>Each hint is answered with errors exactly when it is risky.\<close>

lemma processEach_step:
  assumes "lower_camel f" and "answers admin d sizes nulls" and "checked_hint h"
    and est: "est (TableName h) = Some (sizes (TableName h))"
  shows "\<exists>es. (es = [] \<longleftrightarrow> \<not> risky thr sizes nulls h) \<and>
    processEach (NewHintsEngine f admin thr) est (h # hs) acc d =
    processEach (NewHintsEngine f admin thr) est hs (acc @ es) d"
proof -
  have [simp]: "largeTableThreshold (NewHintsEngine f admin thr) = thr"
    by (simp add: NewHintsEngine_def)
  note step = dispatch [OF assms(1)] go_defs Let_def checked_hint_def risky_def est
  consider "Operation h = ''addColumn''" | "Operation h = ''alterColumn''"
    | "Operation h = ''createIndex''" | "Operation h = ''createTable''"
    | "Operation h \<notin> {''addColumn'', ''alterColumn'', ''createIndex'', ''createTable''}" by blast
  then show ?thesis
  proof cases
    case 1
    let ?cols = "concat (map (\<lambda>c. if NotNullable c \<and> \<not> HasServerDefault c
       then [newMigrationErrorF addNotNullableColumnNoDefault [col_Name c, TableName h]] else []) (Columns h))"
    have "?cols = [] \<longleftrightarrow> \<not> (\<exists>c \<in> set (Columns h). NotNullable c \<and> \<not> HasServerDefault c)"
      by (auto split: if_splits)
    with 1 show ?thesis
      by (intro exI [of _ "(if thr < sizes (TableName h)
         then [newMigrationErrorF addColumnTableTooLarge [TableName h]] else []) @ ?cols"])
         (simp add: step AddColumn_def)
  next
    case 2
    let ?cols = "concat (map (\<lambda>c. if NotNullable c \<and> nulls (TableName h) (col_Name c)
       then [newMigrationErrorF addNotNullConstraintWillFail [col_Name c, TableName h]] else []) (Columns h))"
    have "?cols = [] \<longleftrightarrow> \<not> risky thr sizes nulls h"
      using 2 by (auto simp: risky_def split: if_splits)
    with 2 show ?thesis
      by (intro exI [of _ ?cols]) (simp add: step AlterColumn_def alterColumns_answers [OF assms(2)])
  next
    case 3
    with assms(3) show ?thesis by (auto simp: step CreateIndex_def)
  next
    case 4
    then show ?thesis by (auto simp: step CreateTable_def)
  next
    case 5
    then show ?thesis by (auto simp: step)
  qed
qed

lemma processEach_answers:
  assumes "lower_camel f" and "answers admin d sizes nulls" and "list_all checked_hint hs"
    and "\<forall>h \<in> set hs. est (TableName h) = Some (sizes (TableName h))"
  shows "\<exists>es. (es = [] \<longleftrightarrow> \<not> list_ex (risky thr sizes nulls) hs) \<and>
    processEach (NewHintsEngine f admin thr) est hs acc d = Ret (Inr (acc @ es)) d"
  using assms(3,4)
proof (induction hs arbitrary: acc)
  case Nil
  then show ?case by (simp add: go_return_def)
next
  case (Cons h hs)
  then obtain es where es: "es = [] \<longleftrightarrow> \<not> risky thr sizes nulls h"
    "processEach (NewHintsEngine f admin thr) est (h # hs) acc d =
     processEach (NewHintsEngine f admin thr) est hs (acc @ es) d"
    using processEach_step [OF assms(1,2), of h est thr hs acc] by auto
  from Cons obtain fs where "fs = [] \<longleftrightarrow> \<not> list_ex (risky thr sizes nulls) hs"
    "processEach (NewHintsEngine f admin thr) est hs (acc @ es) d = Ret (Inr (acc @ es @ fs)) d"
    by force
  with es show ?case by (intro exI [of _ "es @ fs"]) auto
qed

text \<open>The engine asks for the size of every table of a hint.\<close>

lemma tableNamesList_covers:
  assumes "\<And>xs. distinct xs \<Longrightarrow> set (order xs) = set xs" and "h \<in> set hs"
  shows "TableName h \<in> set (tableNamesList order hs)"
  using assms(1) [of "set_of (map TableName hs)"] assms(2) by (simp add: tableNamesList_def Let_def)

text \<open>A migration is held back exactly when one of its hints is risky.\<close>

lemma ProcessHints_risky:
  assumes "\<And>xs. distinct xs \<Longrightarrow> set (order xs) = set xs"
    and "lower_camel f" and "answers admin d sizes nulls" and "list_all checked_hint hs"
  shows "\<exists>es. ProcessHints order (NewHintsEngine f admin thr) hs d = Ret (Inr es) d \<and>
    (es = [] \<longleftrightarrow> \<not> list_ex (risky thr sizes nulls) hs)"
proof -
  from assms(3) obtain est where est: "GetTableSizeEstimates admin (tableNamesList order hs) d = Ret (Inr est) d"
    and "\<forall>t \<in> set (tableNamesList order hs). est t = Some (sizes t)"
    unfolding answers_def by blast
  then have "\<forall>h \<in> set hs. est (TableName h) = Some (sizes (TableName h))"
    using tableNamesList_covers [OF assms(1)] by blast
  from processEach_answers [OF assms(2-4) this, of thr "[]"] est show ?thesis
    by (auto simp: ProcessHints_def go_check_def go_bind_def NewHintsEngine_def)
qed

end
