(* ===== verification/Reconcile.thy ===== *)
theory Reconcile
  imports Credentials Versions MigrationJobs Hints
begin

text \<open>
  The two handlers of \<^verbatim>\<open>controllers/manageddatabase_controller.go\<close>, \<^verbatim>\<open>ReconcileManagedDatabase\<close> and
  \<^verbatim>\<open>ReconcileDatabaseMigration\<close>, with the metrics collectors they manage and the construction of the
  controller. A handler works on the whole state \<open>sys\<close> and returns what it hands back to the work
  queue: a result and an error or nil. The long handler is cut into named parts at the points where
  the source has its comments; each part ends the handler.
\<close>

section \<open>Construction of the controller\<close>

definition dbInitializer ::
  "('d, 'x) dburl \<Rightarrow> ('d, 'x) engines \<Rightarrow> string \<Rightarrow> string \<Rightarrow> ('d, go_error + 'd DbAdmin) go" where
  "dbInitializer lib engines dsn migrationEngineType =
     (let migrationEngine =
        (if migrationEngineType = ''alembic'' then Some alembic_CreateMigrationEngine else None)
      in Open lib engines dsn migrationEngine)"

definition NewManagedDatabaseController ::
  "'k Client \<Rightarrow> ('d databaseMetricsCollector \<Rightarrow> ('h, go_error + unit) call)
   \<Rightarrow> ('d databaseMetricsCollector \<Rightarrow> ('h, bool) call) \<Rightarrow> (nat \<Rightarrow> ('h, go_error + 8 word list) call)
   \<Rightarrow> (string list \<Rightarrow> string list) \<Rightarrow> (string \<Rightarrow> string) \<Rightarrow> ('d, 'x) dburl \<Rightarrow> ('d, 'x) engines
   \<Rightarrow> ('k, 'd, 'h) Controller" where
  "NewManagedDatabaseController cl register unregister rnd order camel lib engines =
     \<lparr>Client = cl, registry_Register = register, registry_Unregister = unregister, rand_Read = rnd,
      initializeAdminConnection = dbInitializer lib engines, iterate = order,
      strcase_ToLowerCamel = camel\<rparr>"

text \<open>The state of a controller that has handled nothing yet.\<close>

definition initial_sys :: "'k \<Rightarrow> 'd \<Rightarrow> 'h \<Rightarrow> ('k, 'd, 'h) sys" where
  "initial_sys k d h = \<lparr>kube = k, dbs = d, host = h, databaseLinks = {},
     databaseMetricsCollectors = Map.empty, MigrationJobsSpawned = 0, CredentialsCreated = 0,
     CredentialsRevoked = 0, RegisteredMigrations = 0, ManagedDatabases = 0\<rparr>"

section \<open>Metrics collectors\<close>

definition dropCollector :: "('k, 'd, 'h) Controller \<Rightarrow> string \<Rightarrow> (('k, 'd, 'h) sys, unit) go" where
  "dropCollector c link =
     go_bind (go_gets (\<lambda>s. databaseMetricsCollectors s link)) (\<lambda>found. case found of
         None \<Rightarrow> go_return ()
       | Some collector \<Rightarrow>
           go_bind (on_host (go_call (registry_Unregister c collector))) (\<lambda>_.
           go_bind (on_dbs (collector_Close collector)) (\<lambda>_.
           go_modify (\<lambda>s. s\<lparr>databaseMetricsCollectors := (databaseMetricsCollectors s)(link := None)\<rparr>))))"

definition reconcileMetricsCollectors ::
  "('k, 'd, 'h) Controller \<Rightarrow> 'd DbAdmin \<Rightarrow> ManagedDatabase \<Rightarrow> (('k, 'd, 'h) sys, go_error + unit) go" where
  "reconcileMetricsCollectors c admin db =
     go_bind (dropCollector c (SelfLink db)) (\<lambda>_.
     let newCollector = NewDatabaseMetricsCollector admin (Name db) (ExportDataMetrics (Spec db)) in
     go_check (on_host (go_call (registry_Register c newCollector)))
       (\<lambda>err. go_return (Inl (Errorf_w ''Unable to register database metrics collector: %w'' [] err)))
       (\<lambda>_. go_bind (go_modify (\<lambda>s. s\<lparr>databaseMetricsCollectors :=
               (databaseMetricsCollectors s)(SelfLink db \<mapsto> newCollector)\<rparr>))
            (\<lambda>_. go_return (Inr ()))))"

section \<open>ReconcileManagedDatabase\<close>

type_synonym ('k, 'd, 'h) handler = "(('k, 'd, 'h) sys, Result \<times> go_error option) go"

definition fail :: "('k, 'd, 'h) Controller \<Rightarrow> ManagedDatabase \<Rightarrow> go_error \<Rightarrow> ('k, 'd, 'h) handler" where
  "fail c db err = on_kube (handleError (Client c) db err)"

definition finish :: "('k, 'd, 'h) Controller \<Rightarrow> ManagedDatabase \<Rightarrow> ('k, 'd, 'h) handler" where
  "finish c db = on_kube (writeStatus (Client c) db (zero_Result, None))"

text \<open>The ManagedDatabase is gone. The link used here is that of the object the read filled in.\<close>

definition databaseNotFound :: "('k, 'd, 'h) Controller \<Rightarrow> ManagedDatabase \<Rightarrow> ('k, 'd, 'h) handler" where
  "databaseNotFound c db =
     go_bind (go_modify (\<lambda>s. s\<lparr>databaseLinks := databaseLinks s - {SelfLink db}\<rparr>)) (\<lambda>_.
     go_bind (dropCollector c (SelfLink db)) (\<lambda>_.
     go_bind (go_modify (\<lambda>s. s\<lparr>ManagedDatabases := card (databaseLinks s)\<rparr>)) (\<lambda>_.
     go_return (zero_Result, None))))"

definition normalize :: "ManagedDatabase \<Rightarrow> ManagedDatabase" where
  "normalize db =
     (let labels = (case Labels db of None \<Rightarrow> Map.empty | Some m \<Rightarrow> m) in
      db\<lparr>Status := (Status db)\<lparr>Errors := []\<rparr>,
         Labels := Some (labels(BlockedByMigrationLabelKey := None))\<rparr>)"

text \<open>The last part: bring the migration job in line and write the status.\<close>

definition runMigrationJob ::
  "('k, 'd, 'h) Controller \<Rightarrow> migrationContext \<Rightarrow> ('k, 'd, 'h) handler" where
  "runMigrationJob c ctx =
     go_check (reconcileMigrationJob c ctx)
       (\<lambda>err. fail c (mc_db ctx) err)
       (\<lambda>_. finish c (mc_db ctx))"

text \<open>Check the hints of the next migration, when the hints engine is enabled.\<close>

definition hintsEnabled :: "migrationContext \<Rightarrow> (DatabaseMigration \<times> u64) option" where
  "hintsEnabled ctx =
     (case (nextVersion ctx, HintsEngine (Spec (mc_db ctx))) of
        (Some m, Some cfg) \<Rightarrow> if Enabled cfg then Some (m, LargeTableRowsThreshold cfg) else None
      | _ \<Rightarrow> None)"

definition checkHints ::
  "('k, 'd, 'h) Controller \<Rightarrow> migrationContext \<Rightarrow> 'd DbAdmin \<Rightarrow> ('k, 'd, 'h) handler" where
  "checkHints c ctx admin =
     (case hintsEnabled ctx of
        None \<Rightarrow> runMigrationJob c ctx
      | Some (next, threshold) \<Rightarrow>
          go_check (on_dbs (ProcessHints (iterate c)
              (NewHintsEngine (strcase_ToLowerCamel c) admin threshold) (SchemaHints (mig_Spec next))))
            (\<lambda>err. fail c (mc_db ctx) (newMigrationErrorf
               (name_of (Namespace next) (Name (mc_db ctx))) ''Migration contains an error: %w'' [] err))
            (\<lambda>migrationErrors.
               if length migrationErrors > 0
               then finish c (append_error migrationErrors (mc_db ctx))
               else runMigrationJob c ctx))"

definition reconcileContext ::
  "('k, 'd, 'h) Controller \<Rightarrow> 'd DbAdmin \<Rightarrow> migrationContext \<Rightarrow> ('k, 'd, 'h) handler" where
  "reconcileContext c admin ctx =
     go_check (reconcileCredentialsForVersion c ctx admin)
       (\<lambda>err. fail c (mc_db ctx) err)
       (\<lambda>_. checkHints c ctx admin)"

text \<open>Load the migration for where the database is; an empty database has none.\<close>

definition currentVersionMigration ::
  "('k, 'd, 'h) Controller \<Rightarrow> ManagedDatabase \<Rightarrow> string
   \<Rightarrow> (('k, 'd, 'h) sys, go_error + DatabaseMigration option) go" where
  "currentVersionMigration c db currentDbVersion =
     (if currentDbVersion \<noteq> [] then
        go_check (on_kube (go_call (loadMigration (Client c) (Namespace db) currentDbVersion)))
          (\<lambda>err. go_return (Inl err))
          (\<lambda>m. go_return (Inr (Some m)))
      else go_return (Inr None))"

definition reconcileVersion ::
  "('k, 'd, 'h) Controller \<Rightarrow> 'd DbAdmin \<Rightarrow> ManagedDatabase \<Rightarrow> string \<Rightarrow> ('k, 'd, 'h) handler" where
  "reconcileVersion c admin db currentDbVersion =
     go_check (on_kube (migrationToRun (Client c) (Namespace db)
         (DesiredSchemaVersion (Spec db)) currentDbVersion))
       (\<lambda>err. fail c db err)
       (\<lambda>toRun.
     go_check (currentVersionMigration c db currentDbVersion)
       (\<lambda>err. fail c db err)
       (\<lambda>active. reconcileContext c admin
          \<lparr>mc_db = db, activeVersion = active, nextVersion = toRun\<rparr>))"

text \<open>What runs while the administration connection is open; it is closed in any case.\<close>

definition reconcileWithAdmin ::
  "('k, 'd, 'h) Controller \<Rightarrow> 'd DbAdmin \<Rightarrow> ManagedDatabase \<Rightarrow> ('k, 'd, 'h) handler" where
  "reconcileWithAdmin c admin db =
     go_defer (on_dbs (Close admin))
       (go_check (on_dbs (GetSchemaVersion admin))
          (\<lambda>err. fail c db err)
          (\<lambda>currentDbVersion. reconcileVersion c admin
             (db\<lparr>Status := (Status db)\<lparr>CurrentVersion := currentDbVersion\<rparr>\<rparr>) currentDbVersion))"

text \<open>After the secret has been read: open, renew the collector, open again, reconcile.\<close>

definition connectAndReconcile ::
  "('k, 'd, 'h) Controller \<Rightarrow> ManagedDatabase \<Rightarrow> string \<Rightarrow> ('k, 'd, 'h) handler" where
  "connectAndReconcile c db dsn =
     go_check (on_dbs (initializeAdminConnection c dsn (MigrationEngine (Spec db))))
       (\<lambda>err. fail c db err)
       (\<lambda>metricsAdmin.
     go_check (reconcileMetricsCollectors c metricsAdmin db)
       (\<lambda>err. fail c db err)
       (\<lambda>_.
     go_check (on_dbs (initializeAdminConnection c dsn (MigrationEngine (Spec db))))
       (\<lambda>err. fail c db err)
       (\<lambda>admin. reconcileWithAdmin c admin db)))"

definition reconcileFound ::
  "('k, 'd, 'h) Controller \<Rightarrow> ManagedDatabase \<Rightarrow> ('k, 'd, 'h) handler" where
  "reconcileFound c db =
     go_bind (go_modify (\<lambda>s. s\<lparr>databaseLinks := insert (SelfLink db) (databaseLinks s)\<rparr>)) (\<lambda>_.
     go_bind (go_modify (\<lambda>s. s\<lparr>ManagedDatabases := card (databaseLinks s)\<rparr>)) (\<lambda>_.
     go_check (on_kube (go_call (Get_Secret (Client c)
         (name_of (Namespace db) (DSNSecret (Connection (Spec db)))))))
       (\<lambda>err. fail c db err)
       (\<lambda>credsSecret.
     let dsn = (case Data credsSecret ''dsn'' of None \<Rightarrow> [] | Some v \<Rightarrow> v) in
     connectAndReconcile c db dsn)))"

definition ReconcileManagedDatabase ::
  "('k, 'd, 'h) Controller \<Rightarrow> NamespacedName \<Rightarrow> ('k, 'd, 'h) handler" where
  "ReconcileManagedDatabase c req =
     go_bind (on_kube (go_call (Get_ManagedDatabase (Client c) req zero_ManagedDatabase))) (\<lambda>(err, db).
       case err of
         Some e \<Rightarrow> if IsNotFound e then databaseNotFound c db else fail c db e
       | None \<Rightarrow> reconcileFound c (normalize db))"

section \<open>ReconcileDatabaseMigration\<close>

definition unblock :: "ManagedDatabase \<Rightarrow> ManagedDatabase" where
  "unblock db = db\<lparr>Labels := map_option (\<lambda>m. m(BlockedByMigrationLabelKey := None)) (Labels db)\<rparr>"

primrec unblockAll ::
  "('k, 'd, 'h) Controller \<Rightarrow> ManagedDatabase list \<Rightarrow> ('k, 'd, 'h) handler" where
  "unblockAll c [] = go_return (zero_Result, None)"
| "unblockAll c (db # items) =
     go_bind (on_kube (go_call (Update_ManagedDatabase (Client c) (unblock db)))) (\<lambda>(err, db').
       case err of
         Some e \<Rightarrow> go_return (requeueAfterDelay, Some e)
       | None \<Rightarrow> unblockAll c items)"

definition ReconcileDatabaseMigration ::
  "('k, 'd, 'h) Controller \<Rightarrow> NamespacedName \<Rightarrow> ('k, 'd, 'h) handler" where
  "ReconcileDatabaseMigration c req =
     go_bind (on_kube (go_call (List_ManagedDatabases (Client c) (nn_Namespace req)
         [(BlockedByMigrationLabelKey, migrationLabelValue req)])))
       (\<lambda>(err, items). unblockAll c items)"

section \<open>One reconciliation, from end to end\<close>

text \<open>
  What happens to the accounts of a database when the whole handler runs: accounts the operator does
  not see as its own are still there, and only accounts named after a version are new.
\<close>

definition accounts_safe :: "(string \<Rightarrow> bool) \<Rightarrow> string set \<Rightarrow> string set \<Rightarrow> bool" where
  "accounts_safe own before after \<longleftrightarrow>
     {u \<in> before. \<not> own u} \<subseteq> after \<and> after \<subseteq> before \<union> range migrationDBUsername"

lemma accounts_safe_refl: "accounts_safe own U U"
  by (auto simp: accounts_safe_def)

lemma desired_range: "set (desiredUsernames ctx) \<subseteq> range migrationDBUsername"
  by (auto simp: desiredUsernames_def)

lemma accounts_safe_credentials:
  assumes "accounts_safe own U0 U" and "credentials_post own ctx U r U'"
  shows "accounts_safe own U0 U'"
proof -
  from assms(2) have "{u \<in> U. \<not> own u} \<subseteq> U'" and "U' \<subseteq> U \<union> set (desiredUsernames ctx)"
    unfolding credentials_post_def by blast+
  with assms(1) desired_range [of ctx] show ?thesis unfolding accounts_safe_def by blast
qed

text \<open>
  The surroundings of a run. \<open>unusable\<close>: an interface without a migration engine, on which asking for the
  schema version panics. \<open>connected\<close>: what the handler opens for the DSN \<open>dsn\<close> and the migration engine
  \<open>eng\<close> is \<open>adm\<close> or, when \<open>b\<close> allows it, unusable. \<open>collectors_framed\<close>: closing a collector returns and
  leaves the accounts alone. \<open>reads_dsn\<close>: the object and the DSN the handler reads. \<open>chain_known\<close>: the
  migrations of the namespace can be read, and the chain from the desired version ends. \<open>can_return\<close>: what
  a run needs to come back: the object names the one engine the operator knows, and its chain ends.
\<close>

definition unusable :: "('d \<Rightarrow> bool) \<Rightarrow> ('d \<Rightarrow> string set) \<Rightarrow> 'd DbAdmin \<Rightarrow> bool" where
  "unusable ok users a \<longleftrightarrow> (\<forall>d. ok d \<longrightarrow> (\<exists>p. GetSchemaVersion a d = Panic p d) \<and>
     wp (Close a) (\<lambda>_ d'. ok d' \<and> users d' = users d) d)"

definition connected ::
  "bool \<Rightarrow> ('d \<Rightarrow> bool) \<Rightarrow> ('d \<Rightarrow> string set) \<Rightarrow> 'd DbAdmin \<Rightarrow> ('k, 'd, 'h) Controller \<Rightarrow> string \<Rightarrow> string \<Rightarrow> bool" where
  "connected b ok users adm c dsn eng \<longleftrightarrow> (\<forall>d. ok d \<longrightarrow>
     wp (initializeAdminConnection c dsn eng)
       (\<lambda>r d'. ok d' \<and> users d' = users d \<and> (\<forall>a. r = Inr a \<longrightarrow> a = adm \<or> b \<and> unusable ok users a)) d)"

definition collectors_framed :: "('d \<Rightarrow> bool) \<Rightarrow> ('d \<Rightarrow> string set) \<Rightarrow> ('k, 'd, 'h) sys \<Rightarrow> bool" where
  "collectors_framed ok users s \<longleftrightarrow> (\<forall>link col d. databaseMetricsCollectors s link = Some col \<longrightarrow> ok d \<longrightarrow>
     wp (collector_Close col) (\<lambda>_ d'. ok d' \<and> users d' = users d) d)"

definition reads_dsn :: "('k, 'd, 'h) Controller \<Rightarrow> NamespacedName \<Rightarrow> 'k \<Rightarrow> ManagedDatabase \<Rightarrow> string \<Rightarrow> bool" where
  "reads_dsn c req k db dsn \<longleftrightarrow> (\<exists>k1 k2 secret.
     Get_ManagedDatabase (Client c) req zero_ManagedDatabase k = ((None, db), k1) \<and>
     Get_Secret (Client c) (name_of (Namespace db) (DSNSecret (Connection (Spec db)))) k1 = (Inr secret, k2) \<and>
     dsn = (case Data secret ''dsn'' of None \<Rightarrow> [] | Some v \<Rightarrow> v))"

definition chain_known :: "('k, 'd, 'h) Controller \<Rightarrow> ManagedDatabase \<Rightarrow> bool" where
  "chain_known c db \<longleftrightarrow> (\<exists>mig. serves (Client c) (Namespace db) mig \<and>
     (\<forall>cur. chain_ends mig cur (DesiredSchemaVersion (Spec db))))"

definition can_return :: "('k, 'd, 'h) Controller \<Rightarrow> NamespacedName \<Rightarrow> 'k \<Rightarrow> bool" where
  "can_return c req k \<longleftrightarrow> (\<forall>r db k'. Get_ManagedDatabase (Client c) req zero_ManagedDatabase k = ((r, db), k') \<longrightarrow>
     (case r of Some e \<Rightarrow> foreign e
      | None \<Rightarrow> MigrationEngine (Spec db) = ''alembic'' \<and> chain_known c db))"

text \<open>A property of the set of accounts that bringing the credentials in line does not break.\<close>

definition respected :: "(string \<Rightarrow> bool) \<Rightarrow> ManagedDatabaseSpec \<Rightarrow> (string set \<Rightarrow> bool) \<Rightarrow> bool" where
  "respected own spec P \<longleftrightarrow> (\<forall>ctx U r U'. Spec (mc_db ctx) = spec \<longrightarrow> P U \<longrightarrow>
     credentials_post own ctx U r U' \<longrightarrow> P U')"

lemma accounts_safe_respected: "respected own spec (accounts_safe own U)"
  by (auto simp: respected_def intro: accounts_safe_credentials)

lemma read_only_respected: "ReadOnly spec \<Longrightarrow> respected own spec (\<lambda>U'. U' = U)"
  by (auto simp: respected_def credentials_post_def)

text \<open>
  The contract of the administration interface, with its other methods: they return, and they leave
  the accounts alone.
\<close>

locale operator_db = operator_admin adm users sessions listed ok
  for adm :: "'d DbAdmin" and users sessions listed ok +
  assumes version_frame: "ok d \<Longrightarrow> wp (GetSchemaVersion adm) (\<lambda>_ d'. ok d' \<and> users d' = users d) d"
    and sizes_frame: "ok d \<Longrightarrow> wp (GetTableSizeEstimates adm ts) (\<lambda>_ d'. ok d' \<and> users d' = users d) d"
    and constraint_frame: "ok d \<Longrightarrow> wp (ConstraintWillFail adm t k cs) (\<lambda>_ d'. ok d' \<and> users d' = users d) d"
    and close_frame: "ok d \<Longrightarrow> wp (Close adm) (\<lambda>_ d'. ok d' \<and> users d' = users d) d"
begin

abbreviation framed :: "'d \<Rightarrow> 'd \<Rightarrow> bool" where
  "framed d d' \<equiv> ok d' \<and> users d' = users d"

lemma framed_mono:
  assumes "wp m (\<lambda>_. framed d) d" and "\<And>r d'. framed d d' \<Longrightarrow> Q r d'"
  shows "wp m Q d"
  by (rule wpp_mono [OF assms(1)]) (auto intro: assms(2))

text \<open>The hints engine only asks.\<close>

lemma alterColumns_frame: "ok d \<Longrightarrow> wp (alterColumns adm t cs es) (\<lambda>_. framed d) d"
proof (induction cs arbitrary: es d)
  case Nil
  then show ?case by (simp add: wp_simps)
next
  case (Cons c cs)
  have "wp (alterColumns adm t cs es') (\<lambda>_. framed d) d'" if "framed d d'" for es' d'
    using Cons.IH [of d' es'] that by simp
  with Cons.prems show ?case
    by (auto simp: wp_simps split: sum.splits intro!: framed_mono [OF constraint_frame])
qed

lemma processor_frame:
  assumes "ok d" and "p \<in> snd ` set (processors adm)"
  shows "wp (p h large) (\<lambda>_. framed d) d"
  using assms
  by (auto simp: processors_def AddColumn_def AlterColumn_def CreateIndex_def CreateTable_def Let_def
      wp_simps alterColumns_frame split: sum.splits intro!: framed_mono [OF constraint_frame])

lemma dispatch_processor:
  "operationToProcessor (NewHintsEngine f adm thr) op = Some p \<Longrightarrow> p \<in> snd ` set (processors adm)"
  by (auto simp: NewHintsEngine_def processors_def split: if_splits)

lemma processEach_frame:
  "ok d \<Longrightarrow> wp (processEach (NewHintsEngine f adm thr) sizes hs es) (\<lambda>_. framed d) d"
proof (induction hs arbitrary: es d)
  case Nil
  then show ?case by (simp add: wp_simps)
next
  case (Cons h hs)
  have rest: "wp (processEach (NewHintsEngine f adm thr) sizes hs es') (\<lambda>_. framed d) d'"
    if "framed d d'" for es' d'
    using Cons.IH [of d' es'] that by simp
  show ?case
  proof (cases "operationToProcessor (NewHintsEngine f adm thr) (Operation h)")
    case None
    with Cons.prems rest show ?thesis by simp
  next
    case (Some p)
    with Cons.prems rest show ?thesis
      by (auto simp: Let_def wp_simps split: sum.splits
          intro!: framed_mono [OF processor_frame [OF Cons.prems dispatch_processor [OF Some]]])
  qed
qed

lemma ProcessHints_frame:
  assumes "ok d"
  shows "wp (ProcessHints order (NewHintsEngine f adm thr) hs) (\<lambda>_. framed d) d"
proof -
  have "wp (processEach (NewHintsEngine f adm thr) sizes hs es) (\<lambda>_. framed d) d'"
    if "framed d d'" for sizes es d'
    using processEach_frame [of d'] that by simp
  moreover have "he_handle (NewHintsEngine f adm thr) = adm" by (simp add: NewHintsEngine_def)
  ultimately show ?thesis using assms
    by (auto simp: ProcessHints_def wp_simps split: sum.splits intro!: framed_mono [OF sizes_frame])
qed

text \<open>
  The invariant of the handler, for a property \<open>P\<close> of the accounts. \<open>safe b P m s\<close>: the invariant holds
  wherever \<open>m\<close> stops, and when \<open>b\<close> is false it returns.
\<close>

abbreviation handler_inv :: "(string set \<Rightarrow> bool) \<Rightarrow> ('k, 'd, 'h) sys \<Rightarrow> bool" where
  "handler_inv P t \<equiv> ok (dbs t) \<and> P (users (dbs t))"

abbreviation safe :: "bool \<Rightarrow> (string set \<Rightarrow> bool) \<Rightarrow> (('k, 'd, 'h) sys, 'r) go \<Rightarrow> ('k, 'd, 'h) sys \<Rightarrow> bool" where
  "safe b P m s \<equiv> wpp m (\<lambda>_. handler_inv P) (\<lambda>_ t. b \<and> handler_inv P t) b s"

lemma wp_safe: "wp m (\<lambda>_. handler_inv P) s \<Longrightarrow> safe b P m s"
  by (erule wpp_mono) auto

lemma on_dbs_frame:
  fixes s :: "('k, 'd, 'h) sys"
  assumes "\<And>d. ok d \<Longrightarrow> wp m (\<lambda>_. framed d) d" and "handler_inv P s"
  shows "wp (on_dbs m) (\<lambda>_. handler_inv P) s"
  unfolding wpp_on_dbs by (rule framed_mono [OF assms(1)]) (use assms(2) in auto)

lemma fail_inv:
  fixes s :: "('k, 'd, 'h) sys"
  assumes "handler_inv P s" and "Labels db \<noteq> None"
  shows "wp (fail c db err) (\<lambda>_. handler_inv P) s"
  unfolding fail_def wpp_on_kube
  by (rule wpp_mono [OF handleError_returns [OF assms(2)]]) (use assms(1) in auto)

lemma finish_inv:
  fixes s :: "('k, 'd, 'h) sys"
  assumes "handler_inv P s"
  shows "wp (finish c db) (\<lambda>_. handler_inv P) s"
  using assms by (auto simp: finish_def writeStatus_def wp_simps split: option.splits prod.splits)

lemma checkJobs_inv:
  fixes s :: "('k, 'd, 'h) sys"
  assumes "handler_inv P s"
  shows "wp (checkJobs c js n) (\<lambda>_. handler_inv P) s"
  using assms
proof (induction js arbitrary: n s)
  case (Cons j js)
  then show ?case by (auto simp: wp_simps split: prod.splits sum.splits)
qed (simp add: wp_simps)

lemma startNeeded_inv:
  fixes s :: "('k, 'd, 'h) sys"
  assumes "handler_inv P s"
  shows "wp (startNeeded c db n) (\<lambda>_. handler_inv P) s"
proof -
  have "wp (go_for n (\<lambda>(uid, m). startMigration c db m)) (\<lambda>_. handler_inv P) s"
    by (rule wpp_for_inv)
       (use assms in \<open>auto simp: startMigration_def wp_simps split: prod.splits sum.splits\<close>)
  with assms show ?thesis by (simp add: startNeeded_def wp_simps)
qed

lemma runMigrationJob_inv:
  fixes s :: "('k, 'd, 'h) sys"
  assumes "handler_inv P s" and "Labels (mc_db ctx) \<noteq> None"
  shows "wp (runMigrationJob c ctx) (\<lambda>_. handler_inv P) s"
proof -
  have job: "wp (reconcileMigrationJob c ctx) (\<lambda>_. handler_inv P) s"
    unfolding reconcileMigrationJob_def wpp_check wpp_on_kube wpp_call wpp_return
    using assms(1)
    by (auto split: prod.splits sum.splits intro!: wpp_mono [OF checkJobs_inv [where P = P]] startNeeded_inv)
  show ?thesis
    unfolding runMigrationJob_def wpp_check
    by (rule wpp_mono [OF job]) (auto split: sum.splits intro!: fail_inv finish_inv assms(2))
qed

lemma checkHints_inv:
  fixes s :: "('k, 'd, 'h) sys"
  assumes "handler_inv P s" and "Labels (mc_db ctx) \<noteq> None"
  shows "wp (checkHints c ctx adm) (\<lambda>_. handler_inv P) s"
proof (cases "hintsEnabled ctx")
  case None
  with assms show ?thesis by (simp add: checkHints_def runMigrationJob_inv)
next
  case (Some x)
  obtain m thr where x: "x = (m, thr)" by force
  have "wp (on_dbs (ProcessHints (iterate c) (NewHintsEngine (strcase_ToLowerCamel c) adm thr)
      (SchemaHints (mig_Spec m)))) (\<lambda>_. handler_inv P) s"
    by (rule on_dbs_frame [where P = P, OF ProcessHints_frame assms(1)])
  with Some x assms(2) show ?thesis
    by (auto simp: checkHints_def wpp_check wpp_if elim!: wpp_mono split: sum.splits
        intro!: fail_inv finish_inv runMigrationJob_inv)
qed

lemma reconcileContext_inv:
  fixes s :: "('k, 'd, 'h) sys"
  assumes "handler_inv P s" and "Labels (mc_db ctx) \<noteq> None" and "fair_iteration c"
    and "respected listed (Spec (mc_db ctx)) P"
  shows "wp (reconcileContext c adm ctx) (\<lambda>_. handler_inv P) s"
proof -
  have "P U'" if "P U" "credentials_post listed ctx U r U'" for U r U'
    using assms(4) that by (auto simp: respected_def)
  then have "wp (reconcileCredentialsForVersion c ctx adm) (\<lambda>_. handler_inv P) s"
    by (intro wpp_mono [OF reconcileCredentials_spec [OF assms(3)]]) (use assms(1) in auto)
  then show ?thesis
    unfolding reconcileContext_def wpp_check
    by (rule wpp_mono) (auto split: sum.splits intro!: fail_inv checkHints_inv assms(2))
qed

text \<open>The version loop and the migration of the current version.\<close>

lemma versionLoop_inv:
  fixes s :: "('k, 'd, 'h) sys"
  assumes "handler_inv P s" and "b \<or> chain_known c db"
  shows "safe b P (on_kube (migrationToRun (Client c) (Namespace db) (DesiredSchemaVersion (Spec db)) cur)) s"
proof (cases "findMigration (Client c) (Namespace db) (DesiredSchemaVersion (Spec db)) cur
      (DesiredSchemaVersion (Spec db)) None (kube s)")
  case None
  then have "\<not> chain_known c db" unfolding chain_known_def using findMigration_ends by (metis option.distinct(1))
  with assms None show ?thesis by (simp add: wpp_on_kube) (simp add: wpp_def migrationToRun_def)
next
  case (Some x)
  with assms(1) show ?thesis
    by (cases x) (simp add: wpp_on_kube, simp add: wpp_def migrationToRun_def)
qed

lemma reconcileVersion_inv:
  fixes s :: "('k, 'd, 'h) sys"
  assumes "handler_inv P s" and "Labels db \<noteq> None" and "fair_iteration c"
    and "respected listed (Spec db) P" and "b \<or> chain_known c db"
  shows "safe b P (reconcileVersion c adm db cur) s"
proof -
  have current: "wp (currentVersionMigration c db cur) (\<lambda>_. handler_inv P) t"
    if "handler_inv P t" for t :: "('k, 'd, 'h) sys"
    using that by (auto simp: currentVersionMigration_def wp_simps split: prod.splits sum.splits)
  have rest: "safe b P (go_check (currentVersionMigration c db cur) (\<lambda>err. fail c db err)
      (\<lambda>active. reconcileContext c adm \<lparr>mc_db = db, activeVersion = active, nextVersion = toRun\<rparr>)) t"
    if "handler_inv P t" for t :: "('k, 'd, 'h) sys" and toRun
    unfolding wpp_check
    by (rule wpp_mono [OF current [OF that]])
       (use assms(2-4) in \<open>auto split: sum.splits intro!: wp_safe fail_inv reconcileContext_inv\<close>)
  show ?thesis
    unfolding reconcileVersion_def wpp_check [of "on_kube m" for m]
    by (rule wpp_mono [OF versionLoop_inv [where P = P, OF assms(1,5)]])
       (auto split: sum.splits intro!: wp_safe [where P = P, OF fail_inv] rest assms(2))
qed

lemma reconcileWithAdmin_inv:
  fixes s :: "('k, 'd, 'h) sys"
  assumes "handler_inv P s" and "Labels db \<noteq> None" and "fair_iteration c"
    and "respected listed (Spec db) P" and "b \<or> chain_known c db"
  shows "safe b P (reconcileWithAdmin c adm db) s"
proof -
  let ?db = "\<lambda>v. db\<lparr>Status := (Status db)\<lparr>CurrentVersion := v\<rparr>\<rparr>"
  have "b \<or> chain_known c (?db v)" for v using assms(5) by (simp add: chain_known_def)
  then have "safe b P (reconcileVersion c adm (?db v) v) t" if "handler_inv P t" for v and t :: "('k, 'd, 'h) sys"
    by (intro reconcileVersion_inv) (use that assms(2-4) in auto)
  then have "safe b P (go_check (on_dbs (GetSchemaVersion adm)) (\<lambda>err. fail c db err)
      (\<lambda>v. reconcileVersion c adm (?db v) v)) s"
    unfolding wpp_check
    by (intro wpp_mono [OF on_dbs_frame [where P = P, OF version_frame assms(1)]])
       (auto split: sum.splits intro!: wp_safe [where P = P, OF fail_inv] assms(2))
  then show ?thesis
    unfolding reconcileWithAdmin_def wpp_defer
    by (rule wpp_mono) (auto intro!: wpp_mono [OF on_dbs_frame [where P = P]] close_frame)
qed

text \<open>An interface without a migration engine: the handler panics before it does anything.\<close>

lemma unusable_inv:
  fixes s :: "('k, 'd, 'h) sys"
  assumes "handler_inv P s" and "unusable ok users a"
  shows "safe True P (reconcileWithAdmin c a db) s"
proof -
  from assms obtain p where p: "GetSchemaVersion a (dbs s) = Panic p (dbs s)"
    and close: "\<And>d. ok d \<Longrightarrow> wp (Close a) (\<lambda>_. framed d) d" by (auto simp: unusable_def)
  have "safe True P (on_dbs (Close a)) s" by (rule wp_safe [where P = P, OF on_dbs_frame [where P = P, OF close assms(1)]])
  with p show ?thesis
    unfolding reconcileWithAdmin_def wpp_defer wpp_check wpp_on_dbs [of "GetSchemaVersion a"]
    by (simp add: wpp_def [of "GetSchemaVersion a"])
qed

lemma dropCollector_inv:
  fixes s :: "('k, 'd, 'h) sys"
  assumes "handler_inv P s" and "collectors_framed ok users s"
  shows "wp (dropCollector c link) (\<lambda>_. handler_inv P) s"
proof (cases "databaseMetricsCollectors s link")
  case (Some col)
  with assms(2) have close: "ok d \<Longrightarrow> wp (collector_Close col) (\<lambda>_. framed d) d" for d
    by (auto simp: collectors_framed_def)
  have "wp (go_bind (on_dbs (collector_Close col)) (\<lambda>_. go_modify (\<lambda>s. s\<lparr>databaseMetricsCollectors :=
      (databaseMetricsCollectors s)(link := None)\<rparr>))) (\<lambda>_. handler_inv P) t" if "handler_inv P t"
    for t :: "('k, 'd, 'h) sys"
    unfolding wpp_bind wpp_modify
    by (rule wpp_mono [OF on_dbs_frame [where P = P, OF close that]]) auto
  with Some assms(1) show ?thesis
    by (simp add: dropCollector_def wpp_bind [of "go_gets f" for f] wpp_bind [of "on_host m" for m]
        wpp_gets wpp_on_host wpp_call split: prod.splits)
qed (use assms(1) in \<open>simp add: dropCollector_def wp_simps\<close>)

lemma reconcileMetrics_inv:
  fixes s :: "('k, 'd, 'h) sys"
  assumes "handler_inv P s" and "collectors_framed ok users s"
  shows "wp (reconcileMetricsCollectors c a db) (\<lambda>_. handler_inv P) s"
  unfolding reconcileMetricsCollectors_def wpp_bind [of "dropCollector c l" for l]
  by (rule wpp_mono [OF dropCollector_inv [where P = P, OF assms]])
     (auto simp: Let_def wp_simps split: prod.splits sum.splits)

lemma connect_inv:
  fixes s :: "('k, 'd, 'h) sys"
  assumes "handler_inv P s" and "connected b ok users adm c dsn eng"
  shows "wp (on_dbs (initializeAdminConnection c dsn eng))
    (\<lambda>r t. handler_inv P t \<and> (\<forall>a. r = Inr a \<longrightarrow> a = adm \<or> b \<and> unusable ok users a) \<and>
       databaseMetricsCollectors t = databaseMetricsCollectors s) s"
  unfolding wpp_on_dbs
  by (rule wpp_mono [OF assms(2) [unfolded connected_def, rule_format]]) (use assms(1) in auto)

lemma connectAndReconcile_inv:
  fixes s :: "('k, 'd, 'h) sys"
  assumes inv: "handler_inv P s" "collectors_framed ok users s" and labels: "Labels db \<noteq> None"
    and c: "fair_iteration c" "connected b ok users adm c dsn (MigrationEngine (Spec db))"
      "respected listed (Spec db) P" "b \<or> chain_known c db"
  shows "safe b P (connectAndReconcile c db dsn) s"
proof -
  have opened: "safe b P (reconcileWithAdmin c a db) t" if "handler_inv P t" "a = adm \<or> b \<and> unusable ok users a"
    for a and t :: "('k, 'd, 'h) sys"
    using that(2)
  proof
    assume "b \<and> unusable ok users a"
    with unusable_inv [where P = P, OF that(1), of a] show ?thesis by simp
  qed (use reconcileWithAdmin_inv [where P = P, OF that(1) labels c(1,3,4)] in simp)
  have third: "safe b P (go_check (on_dbs (initializeAdminConnection c dsn (MigrationEngine (Spec db))))
      (\<lambda>err. fail c db err) (\<lambda>admin. reconcileWithAdmin c admin db)) t"
    if "handler_inv P t" for t :: "('k, 'd, 'h) sys"
    unfolding wpp_check
    by (rule wpp_mono [OF connect_inv [where P = P, OF that c(2)]])
       (auto split: sum.splits intro!: wp_safe [where P = P, OF fail_inv] opened labels)
  have second: "safe b P (go_check (reconcileMetricsCollectors c a db) (\<lambda>err. fail c db err)
      (\<lambda>_. go_check (on_dbs (initializeAdminConnection c dsn (MigrationEngine (Spec db))))
      (\<lambda>err. fail c db err) (\<lambda>admin. reconcileWithAdmin c admin db))) t"
    if "handler_inv P t" "collectors_framed ok users t" for t :: "('k, 'd, 'h) sys" and a
    unfolding wpp_check [of "reconcileMetricsCollectors c a db"]
    by (rule wpp_mono [OF reconcileMetrics_inv [where P = P, OF that]])
       (auto split: sum.splits intro!: wp_safe [where P = P, OF fail_inv] third labels)
  show ?thesis
    unfolding connectAndReconcile_def
      wpp_check [of "on_dbs m" _ "\<lambda>a. go_check (reconcileMetricsCollectors c a db) f g" for m f g]
    by (rule wpp_mono [OF connect_inv [where P = P, OF inv(1) c(2)]])
       (use inv(2) in \<open>auto split: sum.splits intro!: wp_safe [where P = P, OF fail_inv] second labels
          simp: collectors_framed_def\<close>)
qed

lemma reconcileFound_inv:
  fixes s :: "('k, 'd, 'h) sys"
  assumes "handler_inv P s" "collectors_framed ok users s" "Labels db \<noteq> None" "fair_iteration c"
    and conn: "\<And>secret k'. Get_Secret (Client c) (name_of (Namespace db) (DSNSecret (Connection (Spec db)))) (kube s)
      = (Inr secret, k') \<Longrightarrow> connected b ok users adm c
        (case Data secret ''dsn'' of None \<Rightarrow> [] | Some v \<Rightarrow> v) (MigrationEngine (Spec db))"
    and "respected listed (Spec db) P" "b \<or> chain_known c db"
  shows "safe b P (reconcileFound c db) s"
  unfolding reconcileFound_def Let_def wpp_bind wpp_modify
    wpp_check [of "on_kube m" for m] wpp_on_kube wpp_call
  using assms
  by (auto split: prod.splits sum.splits intro!: wp_safe [where P = P, OF fail_inv] connectAndReconcile_inv
      simp: collectors_framed_def)

lemma ReconcileManagedDatabase_inv:
  fixes s :: "('k, 'd, 'h) sys"
  assumes inv: "handler_inv P s" "collectors_framed ok users s" and c: "fair_iteration c" "b \<or> can_return c req (kube s)"
    and conn: "\<And>db dsn. reads_dsn c req (kube s) db dsn \<Longrightarrow> connected b ok users adm c dsn (MigrationEngine (Spec db))"
    and resp: "\<And>db k'. Get_ManagedDatabase (Client c) req zero_ManagedDatabase (kube s) = ((None, db), k') \<Longrightarrow>
      respected listed (Spec db) P"
  shows "safe b P (ReconcileManagedDatabase c req) s"
proof -
  obtain r db k' where get: "Get_ManagedDatabase (Client c) req zero_ManagedDatabase (kube s) = ((r, db), k')"
    by (metis prod.collapse)
  let ?s = "s\<lparr>kube := k'\<rparr>"
  have inv': "handler_inv P ?s" "collectors_framed ok users ?s"
    using inv by (simp_all add: collectors_framed_def)
  have gone: "wp (databaseNotFound c db) (\<lambda>_. handler_inv P) ?s"
    unfolding databaseNotFound_def wpp_bind wpp_modify wpp_return
    by (rule wpp_mono [OF dropCollector_inv [where P = P]]) (use inv' in \<open>auto simp: collectors_framed_def\<close>)
  show ?thesis
  proof (cases r)
    case (Some e)
    have "safe b P (fail c db e) ?s"
    proof (cases "foreign e")
      case True
      then have "wp (fail c db e) (\<lambda>_. handler_inv P) ?s"
        unfolding fail_def wpp_on_kube
        by (rule wpp_mono [OF handleError_foreign_returns]) (use inv' in auto)
      then show ?thesis by (rule wp_safe)
    next
      case False
      with c(2) get Some have "b" by (force simp: can_return_def)
      with inv' show ?thesis by (auto simp: fail_def wpp_on_kube intro!: wpp_any)
    qed
    with gone get Some show ?thesis
      by (simp add: ReconcileManagedDatabase_def wpp_bind wpp_on_kube wpp_call wp_safe)
  next
    case None
    from c(2) get None have "b \<or> chain_known c (normalize db)"
      by (force simp: can_return_def chain_known_def normalize_def Let_def)
    moreover have "respected listed (Spec (normalize db)) P"
      using resp get None by (simp add: normalize_def Let_def)
    moreover have "connected b ok users adm c (case Data secret ''dsn'' of None \<Rightarrow> [] | Some v \<Rightarrow> v)
        (MigrationEngine (Spec (normalize db)))"
      if "Get_Secret (Client c) (name_of (Namespace (normalize db)) (DSNSecret (Connection (Spec (normalize db))))) (kube ?s)
        = (Inr secret, k2)" for secret k2
      using conn [of db] that get None by (force simp: reads_dsn_def normalize_def Let_def)
    ultimately have "safe b P (reconcileFound c (normalize db)) ?s"
      by (intro reconcileFound_inv inv' c(1)) (simp add: normalize_def Let_def)
    with get None show ?thesis
      by (simp add: ReconcileManagedDatabase_def wpp_bind wpp_on_kube wpp_call)
  qed
qed

end

section \<open>Waking up blocked databases\<close>

definition blocked_on :: "('k \<Rightarrow> NamespacedName \<rightharpoonup> ManagedDatabase) \<Rightarrow> NamespacedName \<Rightarrow> 'k \<Rightarrow> NamespacedName set" where
  "blocked_on view req k = {n. \<exists>db. view k n = Some db \<and> Namespace db = nn_Namespace req \<and>
     has_label BlockedByMigrationLabelKey (migrationLabelValue req) db}"

lemma unblock_simps [simp]:
  "Namespace (unblock db) = Namespace db" "Name (unblock db) = Name db"
  "\<not> has_label BlockedByMigrationLabelKey v (unblock db)"
  by (simp_all add: unblock_def has_label_def split: option.splits)

text \<open>
  The outcome of \<^verbatim>\<open>ReconcileDatabaseMigration\<close>: an error of the list call is only logged, and with the
  empty list it leaves behind nothing is woken up although the run succeeds.
\<close>

definition unblock_post ::
  "('k \<Rightarrow> NamespacedName \<rightharpoonup> ManagedDatabase) \<Rightarrow> NamespacedName \<Rightarrow> Result \<times> go_error option \<Rightarrow> 'k \<Rightarrow> bool" where
  "unblock_post view req r k \<longleftrightarrow>
     (if snd r = None then fst r = zero_Result \<and> blocked_on view req k = {} else fst r = requeueAfterDelay)"

lemma unblockAll_spec:
  assumes api: "db_api (Client c) view" and "blocked_on view req (kube s) \<subseteq> db_key ` set items"
  shows "wp (unblockAll c items) (\<lambda>r t. unblock_post view req r (kube t)) s"
  using assms(2)
proof (induction items arbitrary: s)
  case Nil
  then show ?case by (simp add: wp_simps unblock_post_def)
next
  case (Cons db items)
  obtain e x' k' where run: "Update_ManagedDatabase (Client c) (unblock db) (kube s) = ((e, x'), k')"
    by (metis prod.collapse)
  show ?case
  proof (cases e)
    case None
    with api run have "\<exists>y. view k' = (view (kube s))(db_key (unblock db) \<mapsto> y) \<and> same_labels (unblock db) y"
      unfolding db_api_def update_law_def by blast
    then obtain y where y: "view k' = (view (kube s))(db_key db \<mapsto> y)" "same_labels (unblock db) y" by auto
    then have "\<not> has_label BlockedByMigrationLabelKey v y" for v
      using unblock_simps(3) [of v db] by (auto simp: same_labels_def)
    with y(1) have "blocked_on view req k' \<subseteq> blocked_on view req (kube s) - {db_key db}"
      by (auto simp: blocked_on_def split: if_splits)
    with Cons.prems have "blocked_on view req (kube (s\<lparr>kube := k'\<rparr>)) \<subseteq> db_key ` set items" by auto
    from Cons.IH [OF this] None run show ?thesis by (simp add: wp_simps)
  next
    case (Some err)
    with run show ?thesis by (simp add: wp_simps unblock_post_def)
  qed
qed

lemma ReconcileDatabaseMigration_listed:
  assumes api: "db_api (Client c) view"
    and list: "List_ManagedDatabases (Client c) (nn_Namespace req)
      [(BlockedByMigrationLabelKey, migrationLabelValue req)] (kube s) = ((None, items), k')"
  shows "wp (ReconcileDatabaseMigration c req) (\<lambda>r t. unblock_post view req r (kube t)) s"
proof -
  let ?sel = "has_label BlockedByMigrationLabelKey (migrationLabelValue req)"
  have laws: "view k' = view (kube s) \<and>
      set items = {db. view (kube s) (db_key db) = Some db \<and> Namespace db = nn_Namespace req \<and> ?sel db}"
    using api list unfolding db_api_def by blast
  have keyed: "db_key db = n" if "view k n = Some db" for k n db
    using api that unfolding db_api_def by blast
  have "blocked_on view req k' \<subseteq> db_key ` set items"
  proof
    fix n assume "n \<in> blocked_on view req k'"
    then obtain db where db: "view (kube s) n = Some db" "Namespace db = nn_Namespace req" "?sel db"
      using laws by (auto simp: blocked_on_def)
    moreover from keyed [OF db(1)] have "n = db_key db" by (rule sym)
    ultimately show "n \<in> db_key ` set items" using laws by simp
  qed
  then have "wp (unblockAll c items) (\<lambda>r t. unblock_post view req r (kube t)) (s\<lparr>kube := k'\<rparr>)"
    by (intro unblockAll_spec [OF api]) simp
  with list show ?thesis by (simp add: ReconcileDatabaseMigration_def wp_simps)
qed

lemma ReconcileDatabaseMigration_unlisted:
  assumes "List_ManagedDatabases (Client c) (nn_Namespace req)
      [(BlockedByMigrationLabelKey, migrationLabelValue req)] (kube s) = ((Some e, []), k')"
  shows "ReconcileDatabaseMigration c req s = Ret (zero_Result, None) (s\<lparr>kube := k'\<rparr>)"
  using assms by (simp add: ReconcileDatabaseMigration_def on_kube_def go_defs)

section \<open>A database that is gone\<close>

lemma databaseNotFound_stale:
  assumes "Get_ManagedDatabase (Client c) req zero_ManagedDatabase (kube s) = ((Some e, zero_ManagedDatabase), k')"
    and "IsNotFound e" and "[] \<notin> databaseLinks s" and "databaseMetricsCollectors s [] = None"
  shows "ReconcileManagedDatabase c req s = Ret (zero_Result, None)
    (s\<lparr>kube := k', ManagedDatabases := card (databaseLinks s)\<rparr>)"
  using assms
  by (simp add: ReconcileManagedDatabase_def databaseNotFound_def dropCollector_def zero_ManagedDatabase_def
      on_kube_def go_defs)

end
