(* ===== verification/Progress.thy ===== *)
theory Progress
  imports Reconcile
begin

text \<open>
  Two properties of whole runs of \<^verbatim>\<open>ReconcileManagedDatabase\<close> that are about the jobs in the cluster. For a
  read-only database a run never creates one. And a run that ends without complaints has left exactly the
  job that brings the database one step closer to its desired version, or none when it is there.

  Both rest on \<open>jobs_apart\<close>: of the calls the operator makes, only those that create and delete jobs change
  the jobs in the cluster.
\<close>

section \<open>Calls that leave the jobs alone\<close>

definition jobs_apart :: "'k Client \<Rightarrow> ('k \<Rightarrow> Job set) \<Rightarrow> bool" where
  "jobs_apart cl jobs \<longleftrightarrow>
     (\<forall>n x k. jobs (snd (Get_ManagedDatabase cl n x k)) = jobs k) \<and>
     (\<forall>n k. jobs (snd (Get_DatabaseMigration cl n k)) = jobs k) \<and>
     (\<forall>n k. jobs (snd (Get_Secret cl n k)) = jobs k) \<and>
     (\<forall>ns sel k. jobs (snd (List_Secrets cl ns sel k)) = jobs k) \<and>
     (\<forall>ns k. jobs (snd (List_Pods cl ns k)) = jobs k) \<and>
     (\<forall>x k. jobs (snd (Create_Secret cl x k)) = jobs k) \<and>
     (\<forall>x k. jobs (snd (Delete_Secret cl x k)) = jobs k) \<and>
     (\<forall>x k. jobs (snd (Update_ManagedDatabase cl x k)) = jobs k) \<and>
     (\<forall>x k. jobs (snd (UpdateStatus_ManagedDatabase cl x k)) = jobs k)"

definition few_jobs :: "('k \<Rightarrow> Job set) \<Rightarrow> Job set \<Rightarrow> 'k \<Rightarrow> bool" where
  "few_jobs jobs J k \<longleftrightarrow> jobs k \<subseteq> J"

abbreviation few_jobs_sys :: "('k \<Rightarrow> Job set) \<Rightarrow> Job set \<Rightarrow> ('k, 'd, 'h) sys \<Rightarrow> bool" where
  "few_jobs_sys jobs J s \<equiv> few_jobs jobs J (kube s)"

lemma few_jobs_call: "(\<And>k. jobs (snd (m k)) \<subseteq> jobs k) \<Longrightarrow> stable (few_jobs jobs J) (go_call m)"
  by (rule stable_call) (fastforce simp: few_jobs_def)

lemma few_jobs_calls:
  assumes "jobs_apart cl jobs"
  shows "stable (few_jobs jobs J) (go_call (Get_ManagedDatabase cl n x))"
    and "stable (few_jobs jobs J) (go_call (loadMigration cl ns v))"
    and "stable (few_jobs jobs J) (go_call (Get_Secret cl n))"
    and "stable (few_jobs jobs J) (go_call (List_Secrets cl ns sel))"
    and "stable (few_jobs jobs J) (go_call (List_Pods cl ns))"
    and "stable (few_jobs jobs J) (go_call (Create_Secret cl sec))"
    and "stable (few_jobs jobs J) (go_call (Delete_Secret cl sec))"
    and "stable (few_jobs jobs J) (go_call (Update_ManagedDatabase cl x))"
    and "stable (few_jobs jobs J) (go_call (UpdateStatus_ManagedDatabase cl x))"
  using assms
  by (auto intro!: few_jobs_call simp: jobs_apart_def loadMigration_def Let_def split: prod.splits sum.splits)
     (metis order_refl snd_conv subsetD)+

lemma few_jobs_on [stable_rules]:
  "stable (few_jobs jobs J) m \<Longrightarrow> stable (few_jobs_sys jobs J) (on_kube m)"
  "stable (few_jobs_sys jobs J) (on_dbs m1)" "stable (few_jobs_sys jobs J) (on_host m2)"
  by (simp_all add: stable_on_kube stable_on_dbs stable_on_host)

lemma few_jobs_fields [stable_rules]:
  "stable (few_jobs_sys jobs J) (go_modify (\<lambda>s. s\<lparr>CredentialsCreated := n1 s\<rparr>))"
  "stable (few_jobs_sys jobs J) (go_modify (\<lambda>s. s\<lparr>CredentialsRevoked := n2 s\<rparr>))"
  "stable (few_jobs_sys jobs J) (go_modify (\<lambda>s. s\<lparr>databaseLinks := ls s\<rparr>))"
  "stable (few_jobs_sys jobs J) (go_modify (\<lambda>s. s\<lparr>ManagedDatabases := n3 s\<rparr>))"
  "stable (few_jobs_sys jobs J) (go_modify (\<lambda>s. s\<lparr>databaseMetricsCollectors := ms s\<rparr>))"
  by (simp_all add: stable_modify)

lemma few_jobs_credentials:
  assumes "jobs_apart (Client c) jobs"
  shows "stable (few_jobs_sys jobs J) (reconcileCredentialsForVersion c ctx admin)"
  unfolding reconcileCredentialsForVersion_def listAndReconcileUsers_def reconcileUsers_def
    removeUnneededSecrets_def removeUsers_def removeUser_def addUsers_def addUser_def randPassword_def Let_def
    listSecretsForDatabase_def deleteSecretIfUnused_def writeCredentialsSecret_def
  by (intro stable_rules few_jobs_calls [OF assms])

lemma few_jobs_ends:
  assumes "jobs_apart (Client c) jobs"
  shows "stable (few_jobs_sys jobs J) (fail c db err)" and "stable (few_jobs_sys jobs J) (finish c db)"
  unfolding fail_def finish_def handleError_def writeStatus_def set_label_def
  by (intro stable_rules few_jobs_calls [OF assms])+

lemma few_jobs_search:
  assumes "jobs_apart cl jobs"
  shows "stable (few_jobs jobs J) (migrationToRun cl ns desired cur)"
proof -
  have "few_jobs jobs J k \<longrightarrow> few_jobs jobs J (snd r)"
    if "findMigration cl ns desired cur v found k = Some r" for v found k r
  proof -
    have "jobs_apart cl jobs \<longrightarrow> few_jobs jobs J k \<longrightarrow> few_jobs jobs J (snd r)"
    proof (rule findMigration.raw_induct [where P = "\<lambda>cl ns desired cur v found k r.
        jobs_apart cl jobs \<longrightarrow> few_jobs jobs J k \<longrightarrow> few_jobs jobs J (snd r)", OF _ that])
      fix f cl ns desired cur v found and k :: 'a and r
      assume IH: "\<And>cl ns desired cur v found k r. f cl ns desired cur v found k = Some r \<Longrightarrow>
          jobs_apart cl jobs \<longrightarrow> few_jobs jobs J k \<longrightarrow> few_jobs jobs J (snd r)"
        and run: "(if v = cur then Some (Inr found, k)
            else if v = [] then Some (Inl (noPathErr desired cur), k)
            else case loadMigration cl ns v k of
                (Inl err, k') \<Rightarrow> Some (Inl err, k')
              | (Inr m, k') \<Rightarrow> f cl ns desired cur (prev_of m) (Some m) k') = Some r"
      have load: "few_jobs jobs J k'" if "jobs_apart cl jobs" "few_jobs jobs J k" "loadMigration cl ns v k = (x, k')" for x k'
        using stableD [OF few_jobs_calls(2) [OF that(1)] that(2), of ns v] that(3) by (simp add: wp_simps)
      show "jobs_apart cl jobs \<longrightarrow> few_jobs jobs J k \<longrightarrow> few_jobs jobs J (snd r)"
        using run IH load by (auto split: if_splits prod.splits sum.splits)
    qed
    with assms show ?thesis by blast
  qed
  then show ?thesis
    by (fastforce simp: stable_def wpp_def migrationToRun_def split: option.splits outcome.splits)
qed

section \<open>A read-only database gets no job\<close>

lemma few_jobs_migration:
  assumes "jobs_apart (Client c) jobs" and "job_api (Client c) jobs" and "ReadOnly (Spec (mc_db ctx))"
  shows "stable (few_jobs_sys jobs J) (reconcileMigrationJob c ctx)"
proof -
  from assms(2) have laws: "list_jobs_law (Client c) jobs" "delete_job_law (Client c) jobs"
    by (simp_all add: job_api_def)
  have list: "stable (few_jobs jobs J) (go_call (List_Jobs (Client c) ns [(l, v)]))" for ns l v
  proof (rule few_jobs_call)
    fix k
    obtain r k' where run: "List_Jobs (Client c) ns [(l, v)] k = (r, k')" by force
    from laws(1) [unfolded list_jobs_law_def, rule_format, OF run]
    show "jobs (snd (List_Jobs (Client c) ns [(l, v)] k)) \<subseteq> jobs k" using run by simp
  qed
  have delete: "stable (few_jobs jobs J) (go_call (Delete_Job (Client c) j))" for j
  proof (rule few_jobs_call)
    fix k
    obtain r k' where run: "Delete_Job (Client c) j k = (r, k')" by force
    from laws(2) [unfolded delete_job_law_def, rule_format, OF run]
    show "jobs (snd (Delete_Job (Client c) j k)) \<subseteq> jobs k" using run by (cases r) auto
  qed
  have check: "stable (few_jobs_sys jobs J) (checkJobs c js needed)" for js needed
    by (induction js arbitrary: needed) (auto intro!: stable_rules delete)
  have start: "stable (few_jobs_sys jobs J) (startNeeded c (mc_db ctx) needed)" for needed
    using assms(3) by (auto simp: startNeeded_def intro!: stable_rules)
  show ?thesis unfolding reconcileMigrationJob_def by (intro stable_rules list check start)
qed

lemma few_jobs_version:
  assumes "jobs_apart (Client c) jobs" and "job_api (Client c) jobs" and "ReadOnly (Spec db)"
  shows "stable (few_jobs_sys jobs J) (reconcileVersion c admin db cur)"
  unfolding reconcileVersion_def currentVersionMigration_def reconcileContext_def checkHints_def runMigrationJob_def
  by (intro stable_rules few_jobs_calls few_jobs_search few_jobs_ends few_jobs_credentials few_jobs_migration assms)
     (simp add: assms(3))+

lemma few_jobs_found:
  assumes "jobs_apart (Client c) jobs" and "job_api (Client c) jobs" and "ReadOnly (Spec db)"
  shows "stable (few_jobs_sys jobs J) (reconcileFound c db)"
  unfolding reconcileFound_def connectAndReconcile_def reconcileWithAdmin_def reconcileMetricsCollectors_def
    dropCollector_def Let_def
  by (intro stable_rules few_jobs_calls few_jobs_ends few_jobs_version assms) (simp add: assms(3))+

lemma read_only_jobs:
  fixes s :: "('k, 'd, 'h) sys"
  assumes "jobs_apart (Client c) jobs" and "job_api (Client c) jobs"
    and "\<And>db k'. Get_ManagedDatabase (Client c) req zero_ManagedDatabase (kube s) = ((None, db), k') \<Longrightarrow> ReadOnly (Spec db)"
  shows "always (ReconcileManagedDatabase c req) (\<lambda>t. jobs (kube t) \<subseteq> jobs (kube s)) s"
proof -
  let ?I = "few_jobs_sys jobs (jobs (kube s)) :: ('k, 'd, 'h) sys \<Rightarrow> bool"
  obtain r db k' where get: "Get_ManagedDatabase (Client c) req zero_ManagedDatabase (kube s) = ((r, db), k')"
    by (metis prod.collapse)
  have start: "?I (s\<lparr>kube := k'\<rparr>)"
    using assms(1) get by (auto simp: jobs_apart_def few_jobs_def) (metis snd_conv)
  have gone: "stable ?I (databaseNotFound c db)"
    unfolding databaseNotFound_def dropCollector_def by (intro stable_rules)
  have found: "stable ?I (reconcileFound c (normalize db))" if "r = None"
    by (rule few_jobs_found [OF assms(1,2)]) (use assms(3) get that in \<open>simp add: normalize_def Let_def\<close>)
  have "always (ReconcileManagedDatabase c req) ?I s"
    using get stableD [OF gone start] stableD [OF few_jobs_ends(1) [OF assms(1)] start] stableD [OF found start]
    by (auto simp: ReconcileManagedDatabase_def wpp_bind wpp_on_kube wpp_call split: option.splits)
  then show ?thesis by (simp add: few_jobs_def)
qed

section \<open>How far a version is from the desired one\<close>

inductive version_dist :: "(string \<rightharpoonup> DatabaseMigration) \<Rightarrow> string \<Rightarrow> string \<Rightarrow> nat \<Rightarrow> bool"
  for mig :: "string \<rightharpoonup> DatabaseMigration" and cur :: string where
  dist_here: "version_dist mig cur cur 0"
| dist_back: "\<lbrakk>v \<noteq> cur; v \<noteq> []; mig v = Some m; version_dist mig cur (prev_of m) n\<rbrakk>
    \<Longrightarrow> version_dist mig cur v (Suc n)"

inductive_cases version_dist_SucE: "version_dist mig cur v (Suc n)"

lemma version_path_dist: "version_path mig cur v \<Longrightarrow> \<exists>n. version_dist mig cur v n"
  by (induction rule: version_path.induct) (auto intro: version_dist.intros)

text \<open>The next migration is one step closer.\<close>

lemma version_dist_next:
  assumes "\<And>v m. mig v = Some m \<Longrightarrow> Name m = v" and "version_dist mig cur v (Suc n)"
  shows "\<exists>m. runs_next mig cur v m \<and> version_dist mig (Name m) v n"
  using assms(2)
proof (induction n arbitrary: v)
  case (0 v)
  then obtain m where "v \<noteq> cur" "v \<noteq> []" "mig v = Some m" and "version_dist mig cur (prev_of m) 0"
    by (auto elim: version_dist_SucE)
  moreover from this(4) have "prev_of m = cur" by (auto elim: version_dist.cases)
  ultimately have "runs_next mig cur v m" and "Name m = v" using assms(1) by (auto intro: next_here)
  then show ?case by (metis dist_here)
next
  case (Suc n v)
  then obtain m' where v: "v \<noteq> cur" "v \<noteq> []" "mig v = Some m'" and far_back: "version_dist mig cur (prev_of m') (Suc n)"
    by (auto elim: version_dist_SucE)
  from Suc.IH [OF far_back] obtain m where m: "runs_next mig cur (prev_of m') m" "version_dist mig (Name m) (prev_of m') n"
    by blast
  have far: "prev_of m' \<noteq> cur" using far_back by (auto elim: version_dist.cases)
  from runs_next_prev [OF m(1)] assms(1) have "mig (Name m) = Some m" and "prev_of m = cur" by auto
  with far v(3) have "v \<noteq> Name m" by auto
  with v far m show ?case by (blast intro: next_later dist_back)
qed

text \<open>When the search returns without an error, the current version lies on the chain.\<close>

lemma findMigration_found:
  assumes "findMigration cl ns desired cur v found k = Some r"
  shows "serves cl ns mig \<longrightarrow> (\<forall>x. fst r = Inr x \<longrightarrow> version_path mig cur v)"
proof (rule findMigration.raw_induct [where P = "\<lambda>cl ns desired cur v found k r.
    serves cl ns mig \<longrightarrow> (\<forall>x. fst r = Inr x \<longrightarrow> version_path mig cur v)", OF _ assms])
  fix f cl ns desired cur v found and k :: 'a and r
  assume IH: "\<And>cl ns desired cur v found k r. f cl ns desired cur v found k = Some r \<Longrightarrow>
      serves cl ns mig \<longrightarrow> (\<forall>x. fst r = Inr x \<longrightarrow> version_path mig cur v)"
    and run: "(if v = cur then Some (Inr found, k)
        else if v = [] then Some (Inl (noPathErr desired cur), k)
        else case loadMigration cl ns v k of
            (Inl err, k') \<Rightarrow> Some (Inl err, k')
          | (Inr m, k') \<Rightarrow> f cl ns desired cur (prev_of m) (Some m) k') = Some r"
  show "serves cl ns mig \<longrightarrow> (\<forall>x. fst r = Inr x \<longrightarrow> version_path mig cur v)"
  proof (intro impI allI)
    fix x
    assume serves: "serves cl ns mig" and x: "fst r = Inr x"
    from loadMigration_serves [OF serves, of v k] obtain k' where load: "loadMigration cl ns v k = (case mig v of
         Some m \<Rightarrow> (Inr m, k')
       | None \<Rightarrow> (Inl (newMigrationErrorf (name_of ns v) ''Unable to fetch DatabaseMigration (%s): %w''
           [NamespacedName_String cl (name_of ns v)]
           (projl (fst (Get_DatabaseMigration cl (name_of ns v) k)))), k'))" by blast
    show "version_path mig cur v"
    proof (cases "v = cur")
      case True
      then show ?thesis by (simp add: at_current)
    next
      case False
      with run x have "v \<noteq> []" by auto
      with False run x load obtain m where m: "mig v = Some m" "f cl ns desired cur (prev_of m) (Some m) k' = Some r"
        by (auto split: option.splits)
      with IH serves x have "version_path mig cur (prev_of m)" by blast
      with False \<open>v \<noteq> []\<close> m(1) show ?thesis by (blast intro: one_back)
    qed
  qed
qed

text \<open>
  The migration the search hands on: none at the desired version, otherwise the next one, with one step
  less to go after it.
\<close>

definition chosen :: "(string \<rightharpoonup> DatabaseMigration) \<Rightarrow> string \<Rightarrow> string \<Rightarrow> DatabaseMigration option \<Rightarrow> bool" where
  "chosen mig cur desired nxt \<longleftrightarrow> (case nxt of
       None \<Rightarrow> cur = desired
     | Some m \<Rightarrow> \<exists>n. version_dist mig cur desired (Suc n) \<and> runs_next mig cur desired m \<and>
         version_dist mig (Name m) desired n)"

lemma migrationToRun_chosen:
  assumes "serves cl ns mig" and "\<And>v m. mig v = Some m \<Longrightarrow> Name m = v"
  shows "wlp (migrationToRun cl ns desired cur) (\<lambda>r _. \<forall>nxt. r = Inr nxt \<longrightarrow> chosen mig cur desired nxt) k"
proof (rule wlp_RetI, intro allI impI)
  fix r k' nxt
  assume "migrationToRun cl ns desired cur k = Ret r k'" and "r = Inr nxt"
  then have run: "findMigration cl ns desired cur desired None k = Some (Inr nxt, k')"
    by (auto simp: migrationToRun_def split: option.splits)
  from findMigration_found [OF this, of mig] assms(1) have path: "version_path mig cur desired" by simp
  show "chosen mig cur desired nxt"
  proof (cases "desired = cur")
    case True
    with run show ?thesis by (auto simp: chosen_def findMigration.simps [of cl ns])
  next
    case False
    from findMigration_path [OF assms(1) path False, of desired None k] run obtain m where
      nxt: "nxt = Some m" and m: "runs_next mig cur desired m" by auto
    from version_path_dist [OF path] obtain N where "version_dist mig cur desired N" ..
    with False obtain n where n: "version_dist mig cur desired (Suc n)"
      by (cases N) (auto elim: version_dist.cases)
    from version_dist_next [OF assms(2) n] runs_next_unique [OF m] have "version_dist mig (Name m) desired n" by blast
    with nxt m n show ?thesis by (auto simp: chosen_def)
  qed
qed

section \<open>What a run without complaints has done\<close>

text \<open>
  The jobs of the database \<open>db\<close> are in line with the choice of the next migration from the version that is
  stored in the status.
\<close>

definition jobs_for :: "ManagedDatabase \<Rightarrow> Job set \<Rightarrow> DatabaseMigration option \<Rightarrow> bool" where
  "jobs_for db J nxt \<longleftrightarrow> (case nxt of None \<Rightarrow> jobs_of db J = {}
     | Some m \<Rightarrow> \<exists>j. jobs_of db J = {j} \<and> migration_uid j = UID m)"

definition in_step ::
  "('k \<Rightarrow> NamespacedName \<rightharpoonup> ManagedDatabase) \<Rightarrow> ('k \<Rightarrow> Job set) \<Rightarrow> (string \<rightharpoonup> DatabaseMigration)
   \<Rightarrow> ManagedDatabase \<Rightarrow> 'k \<Rightarrow> bool" where
  "in_step view jobs mig db k \<longleftrightarrow> (\<exists>y nxt. view k (db_key db) = Some y \<and>
     chosen mig (CurrentVersion (Status y)) (DesiredSchemaVersion (Spec db)) nxt \<and>
     jobs_for db (jobs k) nxt)"

lemma in_step_cong:
  "db_key db' = db_key db \<Longrightarrow> UID db' = UID db \<Longrightarrow> Spec db' = Spec db \<Longrightarrow>
     in_step view jobs mig db' k \<longleftrightarrow> in_step view jobs mig db k"
  by (simp add: in_step_def jobs_for_def jobs_of_def cong: option.case_cong)

lemma fail_complains:
  assumes "status_law (Client c) view" and "update_law (Client c) view" and "Labels db \<noteq> None"
  shows "wlp (fail c db err) (\<lambda>r t. clean_run view (db_key db) r (kube t) \<longrightarrow> Q t) s"
  unfolding fail_def wpp_on_kube
  by (rule wpp_mono [OF handleError_reported [OF assms]]) (auto dest: reported_not_clean)

text \<open>The last write leaves the jobs alone and stores the status.\<close>

lemma finish_in_step:
  assumes "status_law (Client c) view" and "jobs_apart (Client c) jobs"
    and "chosen mig (CurrentVersion (Status db)) (DesiredSchemaVersion (Spec db)) nxt"
    and "jobs_for db (jobs (kube s)) nxt"
  shows "wlp (finish c db) (\<lambda>r t. clean_run view (db_key db) r (kube t) \<longrightarrow> in_step view jobs mig db (kube t)) s"
proof -
  have same: "wlp (writeStatus (Client c) db f) (\<lambda>_ k'. jobs k' = jobs (kube s)) (kube s)" for f
    using assms(2) by (auto simp: writeStatus_def wp_simps jobs_apart_def split: prod.splits option.splits) (metis snd_conv)+
  have stored: "wlp (writeStatus (Client c) db (zero_Result, None)) (\<lambda>r k'. clean_run view (db_key db) r k' \<longrightarrow>
      (\<exists>y. view k' (db_key db) = Some y \<and> Status y = Status db)) (kube s)"
    by (rule wpp_mono [OF writeStatus_stored [OF assms(1)]]) (auto simp: clean_run_def)
  show ?thesis
    unfolding finish_def wpp_on_kube
  proof (rule wpp_mono [OF wpp_conj [OF same stored]], goal_cases)
    case (1 r k')
    show ?case
    proof
      assume "clean_run view (db_key db) r (kube (s\<lparr>kube := k'\<rparr>))"
      with 1 obtain y where "view k' (db_key db) = Some y" "Status y = Status db" by auto
      with 1 assms(3,4) show "in_step view jobs mig db (kube (s\<lparr>kube := k'\<rparr>))"
        unfolding in_step_def by auto
    qed
  qed auto
qed

lemma runMigrationJob_in_step:
  assumes "job_api (Client c) jobs" and laws: "status_law (Client c) view" "update_law (Client c) view"
    and "jobs_apart (Client c) jobs" and "Labels (mc_db ctx) \<noteq> None"
    and "chosen mig (CurrentVersion (Status (mc_db ctx))) (DesiredSchemaVersion (Spec (mc_db ctx))) (nextVersion ctx)"
  shows "wlp (runMigrationJob c ctx) (\<lambda>r t. clean_run view (db_key (mc_db ctx)) r (kube t) \<longrightarrow>
    in_step view jobs mig (mc_db ctx) (kube t)) s"
  unfolding runMigrationJob_def wpp_check
proof (rule wpp_mono [OF reconcileMigrationJob_spec [OF assms(1)]], goal_cases)
  case (1 r t)
  show ?case
  proof (cases r)
    case (Inl e)
    then show ?thesis by (simp add: fail_complains [OF laws assms(5)])
  next
    case (Inr u)
    with 1 have "jobs_for (mc_db ctx) (jobs (kube t)) (nextVersion ctx)"
      by (simp add: migration_job_post_def jobs_post_def jobs_for_def)
    from finish_in_step [OF laws(1) assms(4,6) this] Inr show ?thesis by simp
  qed
qed auto

lemma checkHints_in_step:
  assumes "job_api (Client c) jobs" and laws: "status_law (Client c) view" "update_law (Client c) view"
    and "jobs_apart (Client c) jobs" and labels: "Labels (mc_db ctx) \<noteq> None"
    and "chosen mig (CurrentVersion (Status (mc_db ctx))) (DesiredSchemaVersion (Spec (mc_db ctx))) (nextVersion ctx)"
  shows "wlp (checkHints c ctx admin) (\<lambda>r t. clean_run view (db_key (mc_db ctx)) r (kube t) \<longrightarrow>
    in_step view jobs mig (mc_db ctx) (kube t)) s"
proof -
  have held: "wlp (finish c (append_error es (mc_db ctx))) (\<lambda>r t. clean_run view (db_key (mc_db ctx)) r (kube t) \<longrightarrow>
      in_step view jobs mig (mc_db ctx) (kube t)) t" if "es \<noteq> []" for es t
    unfolding finish_def wpp_on_kube
    by (rule wpp_mono [OF writeStatus_stored [OF laws(1)]]) (use that in \<open>auto simp: clean_run_def\<close>)
  show ?thesis
  proof (cases "hintsEnabled ctx")
    case None
    with runMigrationJob_in_step [OF assms] show ?thesis by (simp add: checkHints_def)
  next
    case (Some x)
    then show ?thesis
      by (cases x) (auto simp: checkHints_def intro!: wlp_check_any fail_complains [OF laws labels] held
          runMigrationJob_in_step [OF assms])
  qed
qed

lemma reconcileVersion_in_step:
  assumes "job_api (Client c) jobs" and laws: "status_law (Client c) view" "update_law (Client c) view"
    and "jobs_apart (Client c) jobs" and labels: "Labels db \<noteq> None"
    and mig: "serves (Client c) (Namespace db) mig" "\<And>v m. mig v = Some m \<Longrightarrow> Name m = v"
    and cur: "CurrentVersion (Status db) = cur"
  shows "wlp (reconcileVersion c admin db cur) (\<lambda>r t. clean_run view (db_key db) r (kube t) \<longrightarrow>
    in_step view jobs mig db (kube t)) s"
proof -
  have rest: "wlp (go_check (currentVersionMigration c db cur) (\<lambda>err. fail c db err)
      (\<lambda>active. reconcileContext c admin \<lparr>mc_db = db, activeVersion = active, nextVersion = nxt\<rparr>))
      (\<lambda>r t. clean_run view (db_key db) r (kube t) \<longrightarrow> in_step view jobs mig db (kube t)) t"
    if "chosen mig cur (DesiredSchemaVersion (Spec db)) nxt" for nxt t
  proof -
    have "wlp (checkHints c \<lparr>mc_db = db, activeVersion = active, nextVersion = nxt\<rparr> admin)
        (\<lambda>r t. clean_run view (db_key db) r (kube t) \<longrightarrow> in_step view jobs mig db (kube t)) u" for active u
      using checkHints_in_step [OF assms(1) laws assms(4), of "\<lparr>mc_db = db, activeVersion = active, nextVersion = nxt\<rparr>"]
        labels that cur by simp
    then show ?thesis unfolding reconcileContext_def
      by (auto intro!: wlp_check_any fail_complains [OF laws labels])
  qed
  show ?thesis
    unfolding reconcileVersion_def wpp_check [of "on_kube m" for m] wpp_on_kube
    by (rule wpp_mono [OF migrationToRun_chosen [OF mig]])
       (auto split: sum.splits intro!: fail_complains [OF laws labels] rest)
qed

lemma reconcileWithAdmin_in_step:
  assumes "job_api (Client c) jobs" and laws: "status_law (Client c) view" "update_law (Client c) view"
    and "jobs_apart (Client c) jobs" and labels: "Labels db \<noteq> None"
    and mig: "serves (Client c) (Namespace db) mig" "\<And>v m. mig v = Some m \<Longrightarrow> Name m = v"
  shows "wlp (reconcileWithAdmin c admin db) (\<lambda>r t. clean_run view (db_key db) r (kube t) \<longrightarrow>
    in_step view jobs mig db (kube t)) s"
proof -
  let ?db = "\<lambda>v. db\<lparr>Status := (Status db)\<lparr>CurrentVersion := v\<rparr>\<rparr>"
  let ?Q = "\<lambda>r k. clean_run view (db_key db) r k \<longrightarrow> in_step view jobs mig db k"
  have "wlp (reconcileVersion c admin (?db v) v) (\<lambda>r t. ?Q r (kube t)) t" for v t
    using reconcileVersion_in_step [OF assms(1) laws assms(4), of "?db v" mig v admin t] labels mig
    by (simp add: in_step_cong [of "?db v" db])
  then have "wlp (go_check (on_dbs (GetSchemaVersion admin)) (\<lambda>err. fail c db err)
      (\<lambda>v. reconcileVersion c admin (?db v) v)) (\<lambda>r t. ?Q r (kube t)) s"
    by (intro wlp_check_any fail_complains [OF laws labels])
  then show ?thesis
    unfolding reconcileWithAdmin_def wpp_defer
    by (rule wpp_mono) (auto simp: wpp_on_dbs intro!: wpp_any)
qed

lemma clean_run_in_step:
  fixes s :: "('k, 'd, 'h) sys"
  assumes "job_api (Client c) jobs" and laws: "status_law (Client c) view" "update_law (Client c) view"
    and "jobs_apart (Client c) jobs"
    and get: "Get_ManagedDatabase (Client c) req zero_ManagedDatabase (kube s) = ((None, db), k')" and "db_key db = req"
    and mig: "serves (Client c) (Namespace db) mig" "\<And>v m. mig v = Some m \<Longrightarrow> Name m = v"
  shows "wlp (ReconcileManagedDatabase c req) (\<lambda>r t. clean_run view req r (kube t) \<longrightarrow>
    in_step view jobs mig db (kube t)) s"
proof -
  let ?db = "normalize db"
  let ?Q = "\<lambda>r (t :: ('k, 'd, 'h) sys). clean_run view req r (kube t) \<longrightarrow> in_step view jobs mig db (kube t)"
  have db: "Labels ?db \<noteq> None" "db_key ?db = req" "UID ?db = UID db" "Spec ?db = Spec db" "Namespace ?db = Namespace db"
    using assms(6) by (simp_all add: normalize_def Let_def)
  have fails: "wlp (fail c ?db err) ?Q t" for err t
    using fail_complains [OF laws db(1), of err "\<lambda>t. in_step view jobs mig db (kube t)" t] db(2) by simp
  have "wlp (reconcileWithAdmin c admin ?db) ?Q t" for admin t
    using reconcileWithAdmin_in_step [OF assms(1) laws assms(4) db(1), of mig admin t] mig db
    by (simp add: in_step_cong [of ?db db] assms(6))
  then have "wlp (reconcileFound c ?db) ?Q t" for t
    unfolding reconcileFound_def connectAndReconcile_def Let_def
    by (intro wlp_bind_any wlp_check_any fails)
  with get show ?thesis by (simp add: ReconcileManagedDatabase_def wpp_bind wpp_on_kube wpp_call)
qed

section \<open>The accounts after a run without complaints\<close>

text \<open>
  The versions that must have an account when the database is at version \<open>cur\<close>: this version, and the one
  before it when no migration is to run.
\<close>

definition wanted_versions :: "(string \<rightharpoonup> DatabaseMigration) \<Rightarrow> string \<Rightarrow> string \<Rightarrow> string set" where
  "wanted_versions mig cur desired = (if cur = [] then {} else insert cur
     (if cur = desired then (case mig cur of Some m \<Rightarrow> {prev_of m} - {[]} | None \<Rightarrow> {}) else {}))"

lemma desiredUsernames_wanted:
  assumes "chosen mig cur desired nxt" and "\<And>v m. mig v = Some m \<Longrightarrow> Name m = v"
    and "if cur = [] then active = None else active = mig cur \<and> active \<noteq> None"
  shows "set (desiredUsernames \<lparr>mc_db = db, activeVersion = active, nextVersion = nxt\<rparr>) =
    migrationDBUsername ` wanted_versions mig cur desired"
proof -
  have next_iff: "nxt = None \<longleftrightarrow> cur = desired"
    using assms(1) by (cases nxt) (auto simp: chosen_def elim: version_dist_SucE)
  show ?thesis
  proof (cases "cur = []")
    case True
    with assms(3) show ?thesis by (simp add: desiredUsernames_def desiredVersionNames_def wanted_versions_def)
  next
    case False
    with assms(3) obtain m where "active = Some m" "mig cur = Some m" by auto
    with False assms(2) next_iff show ?thesis
      by (auto simp: desiredUsernames_def desiredVersionNames_def wanted_versions_def)
  qed
qed

text \<open>The status that a run without complaints stores is the one it worked out.\<close>

lemma checkHints_stored:
  assumes laws: "status_law (Client c) view" "update_law (Client c) view" and labels: "Labels (mc_db ctx) \<noteq> None"
  shows "wlp (checkHints c ctx admin) (\<lambda>r t. clean_run view (db_key (mc_db ctx)) r (kube t) \<longrightarrow>
    (\<exists>y. view (kube t) (db_key (mc_db ctx)) = Some y \<and> Status y = Status (mc_db ctx))) s"
proof -
  let ?Q = "\<lambda>r t. clean_run view (db_key (mc_db ctx)) r (kube t) \<longrightarrow>
    (\<exists>y. view (kube t) (db_key (mc_db ctx)) = Some y \<and> Status y = Status (mc_db ctx))"
  have finished: "wlp (finish c (append_error es (mc_db ctx))) ?Q t" for es t
  proof -
    have "clean_run view (db_key (mc_db ctx)) r k \<longrightarrow> es = []"
      if "view k (db_key (mc_db ctx)) = Some y" "Status y = Status (append_error es (mc_db ctx))" for r k y
      using that by (auto simp: clean_run_def)
    then show ?thesis unfolding finish_def wpp_on_kube
      by (intro wpp_mono [OF writeStatus_stored [OF laws(1)]]) (auto simp: clean_run_def append_error_def)
  qed
  have plain: "wlp (finish c (mc_db ctx)) ?Q t" for t using finished [of "[]" t] by (simp add: append_error_def)
  have job: "wlp (runMigrationJob c ctx) ?Q t" for t
    unfolding runMigrationJob_def by (intro wlp_check_any fail_complains [OF laws labels] plain)
  show ?thesis unfolding checkHints_def
    by (auto intro!: wlp_check_any fail_complains [OF laws labels] finished job split: option.split)
qed

text \<open>Which migration is taken for the current one.\<close>

lemma currentVersionMigration_active:
  assumes "serves (Client c) (Namespace db) mig"
  shows "wlp (currentVersionMigration c db cur) (\<lambda>r t. dbs t = dbs s \<and> (\<forall>active. r = Inr active \<longrightarrow>
    (if cur = [] then active = None else active = mig cur \<and> active \<noteq> None))) s"
  using loadMigration_serves [OF assms, of cur "kube s"]
  by (auto simp: currentVersionMigration_def wp_simps split: option.splits prod.splits sum.splits)

text \<open>
  After a run without complaints the operator's own accounts are exactly those of the versions wanted at the
  version that is stored.
\<close>

definition owned ::
  "('d \<Rightarrow> string set) \<Rightarrow> (string \<Rightarrow> bool) \<Rightarrow> ('k \<Rightarrow> NamespacedName \<rightharpoonup> ManagedDatabase)
   \<Rightarrow> (string \<rightharpoonup> DatabaseMigration) \<Rightarrow> NamespacedName \<Rightarrow> string \<Rightarrow> Result \<times> go_error option
   \<Rightarrow> ('k, 'd, 'h) sys \<Rightarrow> bool" where
  "owned users own view mig n desired r t \<longleftrightarrow> (clean_run view n r (kube t) \<longrightarrow> (\<exists>y. view (kube t) n = Some y \<and>
     {u \<in> users (dbs t). own u} =
     {u \<in> migrationDBUsername ` wanted_versions mig (CurrentVersion (Status y)) desired. own u}))"

context operator_db
begin

lemma fail_owned:
  fixes s :: "('k, 'd, 'h) sys"
  assumes "status_law (Client c) view" and "update_law (Client c) view" and "Labels db \<noteq> None" and "ok (dbs s)"
  shows "wlp (fail c db e) (\<lambda>r t. ok (dbs t) \<and> owned users listed view mig (db_key db) desired r t) s"
  unfolding owned_def
  by (rule wpp_mono [OF wpp_conj [OF fail_inv [where P = "\<lambda>_. True"] fail_complains [OF assms(1-3)]]])
     (use assms(3,4) in auto)

lemma reconcileContext_owned:
  fixes s :: "('k, 'd, 'h) sys"
  assumes "ok (dbs s)" and laws: "status_law (Client c) view" "update_law (Client c) view"
    and labels: "Labels (mc_db ctx) \<noteq> None" and "fair_iteration c"
    and wanted: "set (desiredUsernames ctx) = migrationDBUsername ` wanted_versions mig (CurrentVersion (Status (mc_db ctx))) desired"
  shows "wlp (reconcileContext c adm ctx) (\<lambda>r t. ok (dbs t) \<and> owned users listed view mig (db_key (mc_db ctx)) desired r t) s"
proof -
  let ?P = "\<lambda>U. {u \<in> U. listed u} = {u \<in> set (desiredUsernames ctx). listed u}"
  have checked: "wlp (checkHints c ctx adm) (\<lambda>r t. ok (dbs t) \<and> owned users listed view mig (db_key (mc_db ctx)) desired r t) t"
    if "handler_inv ?P t" for t :: "('k, 'd, 'h) sys"
  proof (rule wpp_mono [OF wpp_conj [OF checkHints_inv [where P = ?P, OF that labels] checkHints_stored [OF laws labels]]], goal_cases)
    case (1 r t)
    then show ?case unfolding owned_def wanted by force
  qed auto
  note failed = fail_owned [OF laws labels]
  show ?thesis unfolding reconcileContext_def wpp_check
  proof (rule wpp_mono [OF reconcileCredentials_spec [OF assms(5,1)]], goal_cases)
    case (1 r t)
    then show ?case by (cases r) (auto intro!: checked failed simp: credentials_post_def)
  qed auto
qed

lemma reconcileVersion_owned:
  fixes s :: "('k, 'd, 'h) sys"
  assumes "ok (dbs s)" and laws: "status_law (Client c) view" "update_law (Client c) view"
    and labels: "Labels db \<noteq> None" and fair: "fair_iteration c" and cur: "CurrentVersion (Status db) = cur"
    and mig: "serves (Client c) (Namespace db) mig" "\<And>v m. mig v = Some m \<Longrightarrow> Name m = v"
  shows "wlp (reconcileVersion c adm db cur) (\<lambda>r t. ok (dbs t) \<and>
    owned users listed view mig (db_key db) (DesiredSchemaVersion (Spec db)) r t) s"
proof -
  let ?Q = "\<lambda>r (t :: ('k, 'd, 'h) sys). ok (dbs t) \<and> owned users listed view mig (db_key db) (DesiredSchemaVersion (Spec db)) r t"
  note failed = fail_owned [OF laws labels]
  have rest: "wlp (go_check (currentVersionMigration c db cur) (\<lambda>err. fail c db err)
      (\<lambda>active. reconcileContext c adm \<lparr>mc_db = db, activeVersion = active, nextVersion = nxt\<rparr>)) ?Q t"
    if "ok (dbs t)" "chosen mig cur (DesiredSchemaVersion (Spec db)) nxt" for nxt and t :: "('k, 'd, 'h) sys"
    unfolding wpp_check
  proof (rule wpp_mono [OF currentVersionMigration_active [OF mig(1)]], goal_cases)
    case (1 r u)
    show ?case
    proof (cases r)
      case (Inl e)
      with 1 that(1) failed show ?thesis by simp
    next
      case (Inr active)
      let ?ctx = "\<lparr>mc_db = db, activeVersion = active, nextVersion = nxt\<rparr>"
      from Inr 1 have active: "if cur = [] then active = None else active = mig cur \<and> active \<noteq> None" by blast
      have "set (desiredUsernames ?ctx) = migrationDBUsername ` wanted_versions mig cur (DesiredSchemaVersion (Spec db))"
        by (rule desiredUsernames_wanted [OF that(2) mig(2) active])
      with reconcileContext_owned [of u c view ?ctx mig] 1 that(1) laws labels fair cur Inr show ?thesis by simp
    qed
  qed auto
  show ?thesis
    unfolding reconcileVersion_def wpp_check [of "on_kube m" for m] wpp_on_kube
    by (rule wpp_mono [OF migrationToRun_chosen [OF mig]])
       (use assms(1) in \<open>auto split: sum.splits intro!: failed rest\<close>)
qed

lemma reconcileWithAdmin_owned:
  fixes s :: "('k, 'd, 'h) sys"
  assumes "ok (dbs s)" and laws: "status_law (Client c) view" "update_law (Client c) view"
    and labels: "Labels db \<noteq> None" and fair: "fair_iteration c"
    and mig: "serves (Client c) (Namespace db) mig" "\<And>v m. mig v = Some m \<Longrightarrow> Name m = v"
  shows "wlp (reconcileWithAdmin c adm db) (\<lambda>r t.
    owned users listed view mig (db_key db) (DesiredSchemaVersion (Spec db)) r t) s"
proof -
  let ?Q = "\<lambda>r (t :: ('k, 'd, 'h) sys). ok (dbs t) \<and> owned users listed view mig (db_key db) (DesiredSchemaVersion (Spec db)) r t"
  let ?db = "\<lambda>v. db\<lparr>Status := (Status db)\<lparr>CurrentVersion := v\<rparr>\<rparr>"
  note failed = fail_owned [OF laws labels]
  have versions: "wlp (reconcileVersion c adm (?db v) v) ?Q t" if "ok (dbs t)" for v and t :: "('k, 'd, 'h) sys"
    using reconcileVersion_owned [OF that laws, of "?db v" v mig] labels fair mig by simp
  have "wlp (go_check (on_dbs (GetSchemaVersion adm)) (\<lambda>err. fail c db err)
      (\<lambda>v. reconcileVersion c adm (?db v) v)) ?Q s"
    unfolding wpp_check
    by (rule wpp_mono [OF on_dbs_frame [where P = "\<lambda>_. True", OF version_frame]])
       (use assms(1) in \<open>auto split: sum.splits intro!: failed versions\<close>)
  moreover have "wlp (on_dbs (Close adm)) (\<lambda>_. owned users listed view mig (db_key db) (DesiredSchemaVersion (Spec db)) r) t"
    if "?Q r t" for r and t :: "('k, 'd, 'h) sys"
    unfolding wpp_on_dbs
    by (rule wpp_mono [OF close_frame]) (use that in \<open>auto simp: owned_def\<close>)
  ultimately show ?thesis
    unfolding reconcileWithAdmin_def wpp_defer by (elim wpp_mono) (auto intro!: wpp_any)
qed

lemma ReconcileManagedDatabase_owned:
  fixes s :: "('k, 'd, 'h) sys"
  assumes inv: "ok (dbs s)" "collectors_framed ok users s" and laws: "status_law (Client c) view" "update_law (Client c) view"
    and fair: "fair_iteration c"
    and get: "Get_ManagedDatabase (Client c) req zero_ManagedDatabase (kube s) = ((None, db), k')" and "db_key db = req"
    and mig: "serves (Client c) (Namespace db) mig" "\<And>v m. mig v = Some m \<Longrightarrow> Name m = v"
    and conn: "\<And>dsn. reads_dsn c req (kube s) db dsn \<Longrightarrow> connected False ok users adm c dsn (MigrationEngine (Spec db))"
  shows "wlp (ReconcileManagedDatabase c req) (owned users listed view mig req (DesiredSchemaVersion (Spec db))) s"
proof -
  let ?db = "normalize db"
  let ?Q = "owned users listed view mig req (DesiredSchemaVersion (Spec db)) :: _ \<Rightarrow> ('k, 'd, 'h) sys \<Rightarrow> bool"
  have db: "Labels ?db \<noteq> None" "db_key ?db = req" "Spec ?db = Spec db" "Namespace ?db = Namespace db"
    using assms(7) by (simp_all add: normalize_def Let_def)
  have failed: "wlp (fail c ?db e) ?Q t" for t :: "('k, 'd, 'h) sys" and e
    unfolding owned_def using fail_complains [OF laws db(1), of e _ t] db(2) by simp
  have opened: "wlp (reconcileWithAdmin c adm ?db) ?Q t" if "ok (dbs t)" for t :: "('k, 'd, 'h) sys"
    using reconcileWithAdmin_owned [OF that laws db(1) fair, of mig] mig db by simp
  have connected: "wlp (connectAndReconcile c ?db dsn) ?Q t"
    if "reads_dsn c req (kube s) db dsn" "ok (dbs t)" "collectors_framed ok users t" for dsn and t :: "('k, 'd, 'h) sys"
  proof -
    note conn' = conn [OF that(1)]
    have third: "wlp (go_check (on_dbs (initializeAdminConnection c dsn (MigrationEngine (Spec db))))
        (\<lambda>err. fail c ?db err) (\<lambda>admin. reconcileWithAdmin c admin ?db)) ?Q u"
      if "ok (dbs u)" for u :: "('k, 'd, 'h) sys"
      unfolding wpp_check
      by (rule wpp_mono [OF connect_inv [where P = "\<lambda>_. True", OF _ conn']])
         (use that in \<open>auto split: sum.splits intro!: failed opened\<close>)
    have second: "wlp (go_check (reconcileMetricsCollectors c a ?db) (\<lambda>err. fail c ?db err)
        (\<lambda>_. go_check (on_dbs (initializeAdminConnection c dsn (MigrationEngine (Spec db))))
        (\<lambda>err. fail c ?db err) (\<lambda>admin. reconcileWithAdmin c admin ?db))) ?Q u"
      if "ok (dbs u)" "collectors_framed ok users u" for u :: "('k, 'd, 'h) sys" and a
      unfolding wpp_check [of "reconcileMetricsCollectors c a ?db"]
      by (rule wpp_mono [OF reconcileMetrics_inv [where P = "\<lambda>_. True"]])
         (use that in \<open>auto split: sum.splits intro!: failed third\<close>)
    show ?thesis
      unfolding connectAndReconcile_def db(3)
        wpp_check [of "on_dbs m" _ "\<lambda>a. go_check (reconcileMetricsCollectors c a ?db) f g" for m f g]
      by (rule wpp_mono [OF connect_inv [where P = "\<lambda>_. True", OF _ conn']])
         (use that in \<open>auto split: sum.splits intro!: failed second simp: collectors_framed_def\<close>)
  qed
  have "wlp (reconcileFound c ?db) ?Q (s\<lparr>kube := k'\<rparr>)"
    unfolding reconcileFound_def Let_def wpp_bind wpp_modify wpp_check [of "on_kube m" for m] wpp_on_kube wpp_call
    using inv get
    by (auto split: prod.splits sum.splits intro!: failed connected simp: collectors_framed_def reads_dsn_def db(3,4))
  with get show ?thesis by (simp add: ReconcileManagedDatabase_def wpp_bind wpp_on_kube wpp_call)
qed

end

end
