(* ===== verification/MySQLAdmin.thy ===== *)
theory MySQLAdmin
  imports DbAdmin
begin

text \<open>
  The MySQL administration interface: \<^verbatim>\<open>pkg/dbadmin/mysqladmin/admin.go\<close>.

  \<open>sqlDB\<close> is the handle of package sqlx with the calls the code makes on it, one per Go type a
  result is scanned into. Every call works on the state \<open>'d\<close> of the database servers. Statements are
  texts, sent exactly as the code builds them; what a server does with them is stated as hypotheses
  in \<^verbatim>\<open>SqlServer\<close>, where the contract \<open>credential_admin\<close> is established for this implementation.
  Where a Go method returns a value beside a non-nil error, the callers read the error only and the
  model keeps only the error.
\<close>

section \<open>The handle\<close>

type_synonym tx = nat

datatype sqlArg = Scalar string | Slice "string list"

record fieldDefinition =
  fd_Field :: string
  fd_Type :: string
  fd_Null :: string

record uniqueIndexRow =
  KeyName :: string
  ColumnName :: string

record tableResult =
  tr_TableName :: string
  tr_Value :: u64

record 'd sqlDB =
  db_Begin :: "('d, go_error + tx) call"
  tx_Exec :: "tx \<Rightarrow> string \<Rightarrow> string list \<Rightarrow> ('d, go_error + unit) call"
  tx_Commit :: "tx \<Rightarrow> ('d, go_error + unit) call"
  tx_Rollback :: "tx \<Rightarrow> ('d, go_error + unit) call"
  db_Select_strings :: "string \<Rightarrow> string list \<Rightarrow> ('d, go_error + string list) call"
  db_Select_tables :: "string \<Rightarrow> string list \<Rightarrow> ('d, go_error + tableResult list) call"
  db_Select_fields :: "string \<Rightarrow> string list \<Rightarrow> ('d, go_error + fieldDefinition list) call"
  db_Select_indexes :: "string \<Rightarrow> string list \<Rightarrow> ('d, go_error + uniqueIndexRow list) call"
  db_Get_int :: "string \<Rightarrow> string list \<Rightarrow> ('d, go_error + nat) call"
  db_Get_string :: "string \<Rightarrow> ('d, go_error + string) call"
  db_Get_float :: "string \<Rightarrow> ('d, go_error + float64) call"
  db_SliceScan :: "string \<Rightarrow> string list \<Rightarrow> ('d, go_error option) call"
  db_Rebind :: "string \<Rightarrow> string"
  sqlx_In :: "string \<Rightarrow> sqlArg list \<Rightarrow> go_error + string \<times> string list"
  db_Close :: "('d, go_error + unit) call"
  math_rand_Read :: "nat \<Rightarrow> ('d, 8 word list) call"

record 'd MySQLDbAdmin =
  handle :: "'d sqlDB"
  database :: string
  engine :: "MigrationEngineI option"

definition driverName :: string where
  "driverName = ''mysql''"

section \<open>Indirect substitution\<close>

record sqlValue =
  sv_value :: string
  sv_quoted :: bool

definition quoted :: "string \<Rightarrow> sqlValue" where
  "quoted needsToBeQuoted = \<lparr>sv_value = needsToBeQuoted, sv_quoted = True\<rparr>"

definition noquote :: "string \<Rightarrow> sqlValue" where
  "noquote cantBeQuoted = \<lparr>sv_value = cantBeQuoted, sv_quoted = False\<rparr>"

definition randIdentifier :: "'d sqlDB \<Rightarrow> nat \<Rightarrow> ('d, string) go" where
  "randIdentifier h randomBytes =
     go_bind (go_call (math_rand_Read h randomBytes)) (\<lambda>identBytes.
       go_return (''var'' @ hex_EncodeToString identBytes))"

text \<open>
  \<^verbatim>\<open>tx.Exec\<close> inside the method: an error is wrapped and returned.
\<close>

definition exec_or_wrap :: "'d sqlDB \<Rightarrow> tx \<Rightarrow> string \<Rightarrow> string list \<Rightarrow> ('d, go_error + unit) go" where
  "exec_or_wrap h t query args =
     go_check (go_call (tx_Exec h t query args))
       (\<lambda>err. go_return (Inl (wrappedMySQLError err)))
       (\<lambda>_. go_return (Inr ()))"

definition finalArg :: "sqlValue \<Rightarrow> string \<Rightarrow> string" where
  "finalArg arg newIdent =
     (if sv_quoted arg then sprintf ''\", QUOTE(@%s), \"'' [newIdent]
      else sprintf ''\", @%s, \"'' [newIdent])"

text \<open>The loop over the arguments: one user variable each.\<close>

primrec substituteArgs ::
  "'d sqlDB \<Rightarrow> tx \<Rightarrow> sqlValue list \<Rightarrow> string list \<Rightarrow> ('d, go_error + string list) go" where
  "substituteArgs h t [] finalArgs = go_return (Inr finalArgs)"
| "substituteArgs h t (arg # args) finalArgs =
     go_bind (randIdentifier h 16) (\<lambda>newIdent.
     go_check (exec_or_wrap h t (sprintf ''SET @%s := ?'' [newIdent]) [sv_value arg])
       (\<lambda>err. go_return (Inl err))
       (\<lambda>_. substituteArgs h t args (finalArgs @ [finalArg arg newIdent])))"

text \<open>Building the statement on the server, preparing it, executing it, committing.\<close>

definition runStatement :: "'d sqlDB \<Rightarrow> tx \<Rightarrow> string \<Rightarrow> ('d, go_error + unit) go" where
  "runStatement h t rawSQLStmt =
     go_bind (randIdentifier h 16) (\<lambda>stmtStringName.
     go_check (exec_or_wrap h t (sprintf ''SET @%s := CONCAT(\"%s\")'' [stmtStringName, rawSQLStmt]) [])
       (\<lambda>err. go_return (Inl err)) (\<lambda>_.
     go_bind (randIdentifier h 16) (\<lambda>stmtName.
     go_check (exec_or_wrap h t (sprintf ''PREPARE %s FROM @%s'' [stmtName, stmtStringName]) [])
       (\<lambda>err. go_return (Inl err)) (\<lambda>_.
     go_check (exec_or_wrap h t (sprintf ''EXECUTE %s'' [stmtName]) [])
       (\<lambda>err. go_return (Inl err)) (\<lambda>_.
     go_check (go_call (tx_Commit h t))
       (\<lambda>err. go_return (Inl (wrappedMySQLError err)))
       (\<lambda>_. go_return (Inr ())))))))"

definition indirectSubstitute ::
  "'d MySQLDbAdmin \<Rightarrow> string \<Rightarrow> sqlValue list \<Rightarrow> ('d, go_error + unit) go" where
  "indirectSubstitute mdba format args =
     go_check (go_call (db_Begin (handle mdba)))
       (\<lambda>err. go_return (Inl (wrappedMySQLError err)))
       (\<lambda>t. go_defer (go_call (tx_Rollback (handle mdba) t))
         (go_check (substituteArgs (handle mdba) t args [])
            (\<lambda>err. go_return (Inl err))
            (\<lambda>finalArgs. runStatement (handle mdba) t (sprintf format finalArgs))))"

section \<open>Credentials\<close>

definition mysql_WriteCredentials ::
  "'d MySQLDbAdmin \<Rightarrow> string \<Rightarrow> string \<Rightarrow> ('d, go_error + unit) go" where
  "mysql_WriteCredentials mdba username password =
     go_check (indirectSubstitute mdba ''CREATE USER %s@'%%' IDENTIFIED BY %s''
         [quoted username, quoted password])
       (\<lambda>err. go_return (Inl (Errorf_w ''Unable to create new user %s: %w'' [username] err)))
       (\<lambda>_.
     go_check (indirectSubstitute mdba ''GRANT SELECT, INSERT, UPDATE, DELETE ON %s.* TO %s''
         [noquote (database mdba), quoted username])
       (\<lambda>err. go_return (Inl (Errorf_w ''Unable to grant permission to new user %s: %w'' [username] err)))
       (\<lambda>_. go_return (Inr ())))"

definition mysql_ListUsernames :: "'d MySQLDbAdmin \<Rightarrow> string \<Rightarrow> ('d, go_error + string list) go" where
  "mysql_ListUsernames mdba usernamePrefix =
     go_check (go_call (db_Select_strings (handle mdba)
         ''SELECT user FROM mysql.user WHERE user LIKE ?'' [usernamePrefix @ ''%'']))
       (\<lambda>err. go_return (Inl (Errorf_w ''Unable to list existing usernames: %w'' [] (wrappedMySQLError err))))
       (\<lambda>usernames. go_return (Inr usernames))"

definition mysql_VerifyUnusedAndDeleteCredentials ::
  "'d MySQLDbAdmin \<Rightarrow> string \<Rightarrow> ('d, go_error + unit) go" where
  "mysql_VerifyUnusedAndDeleteCredentials mdba username =
     go_check (go_call (db_Get_int (handle mdba)
         ''SELECT COUNT(*) FROM information_schema.processlist WHERE user = ?'' [username]))
       (\<lambda>err. go_return (Inl (Errorf_w
          ''Unable to query or parse session count for user %s: %w'' [username] (wrappedMySQLError err))))
       (\<lambda>sessionCount.
     if sessionCount > 0 then
       go_return (Inl (NewTempErrorf ''Unable to remove user %s, %d active sessions remaining''
         [username, show_nat sessionCount]))
     else
     go_check (indirectSubstitute mdba ''DROP USER %s'' [quoted username])
       (\<lambda>err. go_return (Inl (Errorf_w ''Unable to remove user %s from the database: %w'' [username] err)))
       (\<lambda>_. go_return (Inr ())))"

section \<open>Schema version\<close>

definition mysql_GetSchemaVersion :: "'d MySQLDbAdmin \<Rightarrow> ('d, go_error + string) go" where
  "mysql_GetSchemaVersion mdba =
     go_bind (go_deref (engine mdba)) (\<lambda>eng.
     go_check (go_call (db_Get_string (handle mdba) (GetVersionQuery eng)))
       (\<lambda>err. case err of
           MySQLError number msg \<Rightarrow>
             if number = 1146 then go_return (Inr []) else go_return (Inl (wrappedMySQLError err))
         | _ \<Rightarrow> go_return (Inl (wrappedMySQLError err)))
       (\<lambda>version. go_return (Inr version)))"

section \<open>Table statistics\<close>

definition update_results :: "(string \<rightharpoonup> u64) \<Rightarrow> tableResult list \<Rightarrow> (string \<rightharpoonup> u64)" where
  "update_results m results = fold (\<lambda>r m. m(tr_TableName r \<mapsto> tr_Value r)) results m"

definition mysql_GetTableSizeEstimates ::
  "'d MySQLDbAdmin \<Rightarrow> string list \<Rightarrow> ('d, go_error + (string \<rightharpoonup> u64)) go" where
  "mysql_GetTableSizeEstimates mdba tableNames =
     (let estimates = fold (\<lambda>tableName m. m(tableName \<mapsto> 0)) tableNames Map.empty in
      if length tableNames = 0 then go_return (Inr estimates)
      else (case sqlx_In (handle mdba)
          ''SELECT TABLE_NAME, TABLE_ROWS FROM INFORMATION_SCHEMA.TABLES WHERE TABLE_NAME IN (?);''
          [Slice tableNames] of
        Inl err \<Rightarrow> go_return (Inl (Errorf_w
          ''Unable to prepare query to load table size estimates: %w'' [] err))
      | Inr (query, args) \<Rightarrow>
          go_check (go_call (db_Select_tables (handle mdba) (db_Rebind (handle mdba) query) args))
            (\<lambda>err. go_return (Inl (wrappedMySQLError err)))
            (\<lambda>results. go_return (Inr (update_results estimates results)))))"

definition mysql_GetNextIDs ::
  "'d MySQLDbAdmin \<Rightarrow> string list \<Rightarrow> ('d, go_error + (string \<rightharpoonup> u64)) go" where
  "mysql_GetNextIDs mdba tableNames =
     (if length tableNames = 0 then go_return (Inr Map.empty)
      else (case sqlx_In (handle mdba)
          ''SELECT TABLE_NAME, AUTO_INCREMENT FROM INFORMATION_SCHEMA.TABLES WHERE TABLE_NAME IN (?);''
          [Slice tableNames] of
        Inl err \<Rightarrow> go_return (Inl (Errorf_w
          ''Unable to prepare query to load table size nextIDs: %w'' [] err))
      | Inr (query, args) \<Rightarrow>
          go_check (go_call (db_Select_tables (handle mdba) (db_Rebind (handle mdba) query) args))
            (\<lambda>err. go_return (Inl (wrappedMySQLError err)))
            (\<lambda>results.
               if length tableNames \<noteq> length results then
                 go_return (Inl (Errorf
                   ''Unable to load table nextIDs for all tables, expected %d, got %d''
                   [show_nat (length tableNames), show_nat (length results)]))
               else go_return (Inr (update_results Map.empty results)))))"

definition mysql_SelectFloat :: "'d MySQLDbAdmin \<Rightarrow> string \<Rightarrow> ('d, go_error + float64) go" where
  "mysql_SelectFloat mdba selectQuery =
     go_check (go_call (db_Get_float (handle mdba) selectQuery))
       (\<lambda>err. go_return (Inl (wrappedMySQLError err)))
       (\<lambda>result. go_return (Inr result))"

section \<open>Schema checks\<close>

definition mysql_IsBlockingIndexCreation ::
  "'d MySQLDbAdmin \<Rightarrow> string \<Rightarrow> IndexType \<Rightarrow> string list \<Rightarrow> ('d, go_error + bool) go" where
  "mysql_IsBlockingIndexCreation mdba tableName indexType columns =
     go_return (Inl (Errorf ''Not implemented'' []))"

definition fieldNullableMap :: "fieldDefinition list \<Rightarrow> (string \<rightharpoonup> string)" where
  "fieldNullableMap fds = fold (\<lambda>fd m. m(fd_Field fd \<mapsto> fd_Null fd)) fds Map.empty"

text \<open>
  \<open>row_exists\<close> is the pair of tests on the error of \<^verbatim>\<open>SliceScan\<close>: no rows, another error, a row.
\<close>

definition row_exists :: "'d MySQLDbAdmin \<Rightarrow> string \<Rightarrow> string list \<Rightarrow> ('d, go_error + bool) go" where
  "row_exists mdba query args =
     go_bind (go_call (db_SliceScan (handle mdba) query args)) (\<lambda>err.
       if err \<noteq> Some ErrNoRows then
         (case err of
            Some e \<Rightarrow> go_return (Inl (wrappedMySQLError e))
          | None \<Rightarrow> go_return (Inr True))
       else go_return (Inr False))"

primrec notNullWillFail ::
  "'d MySQLDbAdmin \<Rightarrow> string \<Rightarrow> (string \<rightharpoonup> string) \<Rightarrow> string list \<Rightarrow> ('d, go_error + bool) go" where
  "notNullWillFail mdba tableName nullable [] = go_return (Inr False)"
| "notNullWillFail mdba tableName nullable (columnToCheck # columns) =
     (case nullable columnToCheck of
        None \<Rightarrow> go_return (Inr True)
      | Some definition \<Rightarrow>
          if definition = ''YES'' then
            go_check (row_exists mdba ''SELECT * FROM `?` WHERE `?` NOT NULL LIMIT 1;''
                [tableName, columnToCheck])
              (\<lambda>err. go_return (Inl err))
              (\<lambda>found. if found then go_return (Inr True)
                else notNullWillFail mdba tableName nullable columns)
          else notNullWillFail mdba tableName nullable columns)"

text \<open>The columns of each unique index, in the order the indexes are first reported.\<close>

fun add_index_row :: "uniqueIndexRow \<Rightarrow> (string \<times> string set) list \<Rightarrow> (string \<times> string set) list" where
  "add_index_row r [] = [(KeyName r, {ColumnName r})]"
| "add_index_row r ((k, cols) # rest) =
     (if k = KeyName r then (k, insert (ColumnName r) cols) # rest
      else (k, cols) # add_index_row r rest)"

definition columnsByIndex :: "uniqueIndexRow list \<Rightarrow> (string \<times> string set) list" where
  "columnsByIndex rows = fold add_index_row rows []"

definition mysql_ConstraintWillFail ::
  "'d MySQLDbAdmin \<Rightarrow> string \<Rightarrow> ConstraintType \<Rightarrow> string list \<Rightarrow> ('d, go_error + bool) go" where
  "mysql_ConstraintWillFail mdba tableName constraintType columns =
     (if constraintType = NotNullConstraint then
        (case sqlx_In (handle mdba) ''SHOW COLUMNS FROM `?` WHERE Field IN (?);''
            [Scalar tableName, Slice columns] of
          Inl err \<Rightarrow> go_return (Inl (Errorf_w
            ''Unable to prepare query to read table definition: %w'' [] err))
        | Inr (query, args) \<Rightarrow>
            go_check (go_call (db_Select_fields (handle mdba) (db_Rebind (handle mdba) query) args))
              (\<lambda>err. go_return (Inl (wrappedMySQLError err)))
              (\<lambda>fieldDefinitions.
                 notNullWillFail mdba tableName (fieldNullableMap fieldDefinitions) columns))
      else if constraintType = UniqueConstraint then
        go_check (go_call (db_Select_indexes (handle mdba)
            ''SHOW INDEX FROM `?` WHERE Non_unique = 0;'' [tableName]))
          (\<lambda>err. go_return (Inl (wrappedMySQLError err)))
          (\<lambda>uniqueIndexRows.
             if list_ex (\<lambda>(key, existing). existing = set columns) (columnsByIndex uniqueIndexRows) then
               go_return (Inr False)
             else (case sqlx_In (handle mdba)
                 ''SELECT COUNT(*) FROM `?` GROUP BY ? HAVING COUNT(*) > 1 LIMIT 1;''
                 [Scalar tableName, Slice columns] of
               Inl err \<Rightarrow> go_return (Inl (Errorf_w
                 ''Unable to prepare query to search for duplicate data: %w'' [] err))
             | Inr (query, args) \<Rightarrow> row_exists mdba (db_Rebind (handle mdba) query) args))
      else go_return (Inl (Errorf ''Unknown constraint type: %d'' [show_int constraintType])))"

definition mysql_Close :: "'d MySQLDbAdmin \<Rightarrow> ('d, go_error + unit) go" where
  "mysql_Close mdba = go_call (db_Close (handle mdba))"

section \<open>The interface value\<close>

definition mysql_DbAdmin :: "'d MySQLDbAdmin \<Rightarrow> 'd DbAdmin" where
  "mysql_DbAdmin mdba = \<lparr>
     WriteCredentials = mysql_WriteCredentials mdba,
     ListUsernames = mysql_ListUsernames mdba,
     VerifyUnusedAndDeleteCredentials = mysql_VerifyUnusedAndDeleteCredentials mdba,
     GetSchemaVersion = mysql_GetSchemaVersion mdba,
     GetTableSizeEstimates = mysql_GetTableSizeEstimates mdba,
     GetNextIDs = mysql_GetNextIDs mdba,
     SelectFloat = mysql_SelectFloat mdba,
     IsBlockingIndexCreation = mysql_IsBlockingIndexCreation mdba,
     ConstraintWillFail = mysql_ConstraintWillFail mdba,
     Close = mysql_Close mdba\<rparr>"

definition CreateMySQLAdmin :: "('d, 'd sqlDB) engineInit" where
  "CreateMySQLAdmin db dbName migrationEngine =
     go_return (Inr (mysql_DbAdmin \<lparr>handle = db, database = dbName, engine = migrationEngine\<rparr>))"

text \<open>The registration the package performs when it is loaded.\<close>

definition mysql_init :: "('d, 'd sqlDB) engines \<Rightarrow> ('d, 'd sqlDB) engines" where
  "mysql_init engines = Register engines driverName CreateMySQLAdmin"

section \<open>Table statistics: what is reported\<close>

text \<open>The value of the last row for a table.\<close>

definition row_value :: "tableResult list \<Rightarrow> string \<Rightarrow> u64 option" where
  "row_value rows t = map_option tr_Value (List.find (\<lambda>r. tr_TableName r = t) (rev rows))"

lemma update_results_value:
  "update_results m rows t = (case row_value rows t of Some v \<Rightarrow> Some v | None \<Rightarrow> m t)"
  by (induction rows rule: rev_induct) (simp_all add: update_results_def row_value_def)

lemma update_results_empty: "update_results Map.empty rows = row_value rows"
  by (simp add: update_results_value fun_eq_iff split: option.splits)

lemma zero_estimates: "fold (\<lambda>t m. m(t \<mapsto> (0 :: u64))) ts m x = (if x \<in> set ts then Some 0 else m x)"
  by (induction ts arbitrary: m) auto

lemma mysql_sizes_result:
  assumes "ts \<noteq> []"
    and "sqlx_In (handle mdba)
      ''SELECT TABLE_NAME, TABLE_ROWS FROM INFORMATION_SCHEMA.TABLES WHERE TABLE_NAME IN (?);'' [Slice ts]
      = Inr (q, as)"
    and "db_Select_tables (handle mdba) (db_Rebind (handle mdba) q) as d = (Inr rows, d')"
  shows "mysql_GetTableSizeEstimates mdba ts d = Ret (Inr (\<lambda>t. case row_value rows t of
    Some v \<Rightarrow> Some v | None \<Rightarrow> if t \<in> set ts then Some 0 else None)) d'"
  using assms
  by (simp add: mysql_GetTableSizeEstimates_def Let_def go_defs update_results_value zero_estimates fun_eq_iff
      cong: option.case_cong)

lemma row_value_dom: "dom (row_value rows) = tr_TableName ` set rows"
  by (auto simp: row_value_def find_Some_iff find_None_iff dom_def image_iff)

text \<open>As many rows as tables, all for tables of the list: they cover the list when no table has two.\<close>

lemma row_value_complete:
  assumes "distinct ts" and "tr_TableName ` set rows \<subseteq> set ts" and "length rows = length ts"
  shows "dom (row_value rows) = set ts \<longleftrightarrow> distinct (map tr_TableName rows)"
proof -
  from assms(1,3) have size: "card (set ts) = length (map tr_TableName rows)" by (simp add: distinct_card)
  show ?thesis
  proof
    assume "dom (row_value rows) = set ts"
    with size show "distinct (map tr_TableName rows)" by (intro card_distinct) (simp add: row_value_dom)
  next
    assume "distinct (map tr_TableName rows)"
    with size have "card (tr_TableName ` set rows) = card (set ts)" using distinct_card by fastforce
    with assms(2) show "dom (row_value rows) = set ts" by (simp add: row_value_dom card_subset_eq)
  qed
qed

section \<open>Unique constraints\<close>

text \<open>The columns of an index are exactly those reported for it.\<close>

definition index_columns :: "uniqueIndexRow list \<Rightarrow> string \<Rightarrow> string set" where
  "index_columns rows k = ColumnName ` {r \<in> set rows. KeyName r = k}"

lemma add_index_row_keys: "fst ` set (add_index_row r ixs) = insert (KeyName r) (fst ` set ixs)"
  by (induction r ixs rule: add_index_row.induct) auto

lemma add_index_row_map:
  "map_of (add_index_row r ixs) = (map_of ixs)(KeyName r \<mapsto>
     insert (ColumnName r) (case map_of ixs (KeyName r) of None \<Rightarrow> {} | Some cs \<Rightarrow> cs))"
  by (induction r ixs rule: add_index_row.induct) (auto simp: fun_eq_iff)

lemma add_index_row_distinct: "distinct (map fst ixs) \<Longrightarrow> distinct (map fst (add_index_row r ixs))"
proof (induction r ixs rule: add_index_row.induct)
  case (2 r k cols rest)
  have "fst ` set (add_index_row r rest) = insert (KeyName r) (fst ` set rest)"
    by (rule add_index_row_keys)
  with 2 show ?case by auto
qed simp

lemma columnsByIndex_distinct: "distinct (map fst (columnsByIndex rows))"
  by (induction rows rule: rev_induct) (simp_all add: columnsByIndex_def add_index_row_distinct)

lemma columnsByIndex_map:
  "map_of (columnsByIndex rows) k =
     (if k \<in> KeyName ` set rows then Some (index_columns rows k) else None)"
proof (induction rows rule: rev_induct)
  case Nil
  then show ?case by (simp add: columnsByIndex_def)
next
  case (snoc r rows)
  have "columnsByIndex (rows @ [r]) = add_index_row r (columnsByIndex rows)"
    by (simp add: columnsByIndex_def)
  moreover have "index_columns (rows @ [r]) k =
      (if k = KeyName r then insert (ColumnName r) (index_columns rows k) else index_columns rows k)"
    by (auto simp: index_columns_def)
  moreover have "index_columns rows k = {}" if "k \<notin> KeyName ` set rows"
    using that by (auto simp: index_columns_def)
  ultimately show ?case using snoc by (cases "k = KeyName r") (simp_all add: add_index_row_map)
qed

lemma unique_shortcut_iff:
  "list_ex (\<lambda>(key, existing). existing = cols) (columnsByIndex rows) \<longleftrightarrow>
   (\<exists>k \<in> KeyName ` set rows. index_columns rows k = cols)"
proof -
  have "list_ex (\<lambda>(key, existing). existing = cols) (columnsByIndex rows) \<longleftrightarrow>
      (\<exists>k. map_of (columnsByIndex rows) k = Some cols)"
    using map_of_eq_Some_iff [OF columnsByIndex_distinct, of rows] by (auto simp: list_ex_iff)
  then show ?thesis by (auto simp: columnsByIndex_map)
qed

end
