(* ===== verification/SqlServer.thy ===== *)
theory SqlServer
  imports MySQLAdmin Credentials
begin

text \<open>
  What the MySQL administration interface relies on, and what it then guarantees.

  \<open>server\<close> is a view of the state of the database servers, and \<open>mysql_server\<close> lists the documented
  behaviour of a MySQL server and of the driver that the code uses: user variables, \<^verbatim>\<open>CONCAT\<close>,
  \<^verbatim>\<open>QUOTE\<close>, prepared statements, account management statements, \<^verbatim>\<open>LIKE\<close>. A statement that reports an
  error changes no account. The first half of the theory shows that \<open>indirectSubstitute\<close> executes
  exactly the statement obtained from its format by putting the quoted values in place; the second
  that the administration interface keeps the contract \<open>credential_admin\<close>.
\<close>

section \<open>Formats as literal parts\<close>

fun cons_first :: "char \<Rightarrow> string list \<Rightarrow> string list" where
  "cons_first c [] = [[c]]"
| "cons_first c (l # ls) = (c # l) # ls"

text \<open>The literal parts between the verbs of a format, with \<^verbatim>\<open>%%\<close> read as a percent sign.\<close>

fun split_format :: "string \<Rightarrow> string list" where
  "split_format [] = [[]]"
| "split_format [c] = [[c]]"
| "split_format (c # d # cs) =
     (if c = CHR ''%'' then
        if d = CHR ''%'' then cons_first c (split_format cs) else [] # split_format cs
      else cons_first c (split_format (d # cs)))"

fun interleave :: "string list \<Rightarrow> string list \<Rightarrow> string" where
  "interleave [] as = []"
| "interleave (l # ls) [] = l"
| "interleave (l # ls) (a # as) = l @ a @ interleave ls as"

lemma cons_first_simps [simp]:
  "length (cons_first c ls) = max 1 (length ls)"
  "ls \<noteq> [] \<Longrightarrow> interleave (cons_first c ls) as = c # interleave ls as"
  by (cases ls; cases as; simp)+

lemma split_format_nonempty [simp]: "split_format f \<noteq> []"
proof (induction f rule: split_format.induct)
  case (3 c d cs)
  have "cons_first x ls \<noteq> []" for x ls by (cases ls) auto
  then show ?case by simp
qed simp_all

lemma sprintf_split:
  "length (split_format f) = Suc (length as) \<Longrightarrow> sprintf f as = interleave (split_format f) as"
proof (induction f arbitrary: as rule: split_format.induct)
  case (3 c d cs)
  have "0 < length (split_format g)" for g by simp
  then have max: "max (Suc 0) (length (split_format g)) = length (split_format g)" for g
    by (metis One_nat_def Suc_leI max.absorb2)
  from 3 show ?case by (cases as) (auto simp: max)
qed simp_all

section \<open>The server\<close>

text \<open>Variable and statement names as the code generates them.\<close>

definition ident_chars :: string where
  "ident_chars = ''0123456789abcdefghijklmnopqrstuvwxyz''"

definition ident :: "string \<Rightarrow> bool" where
  "ident v = (v \<noteq> [] \<and> set v \<subseteq> set ident_chars)"

text \<open>Names a statement may contain without quotes.\<close>

definition unquoted_name :: "string \<Rightarrow> bool" where
  "unquoted_name n =
     (n \<noteq> [] \<and> set n \<subseteq> set (ident_chars @ ''$_ABCDEFGHIJKLMNOPQRSTUVWXYZ''))"

definition plain_literal :: "string \<Rightarrow> bool" where
  "plain_literal l = (CHR 0x22 \<notin> set l \<and> CHR 0x5C \<notin> set l)"

datatype sqlExpr = QuoteVar string | PlainVar string

fun render :: "sqlExpr \<Rightarrow> string" where
  "render (QuoteVar v) = ''QUOTE(@'' @ v @ '')''"
| "render (PlainVar v) = ''@'' @ v"

primrec expr_var :: "sqlExpr \<Rightarrow> string" where
  "expr_var (QuoteVar v) = v"
| "expr_var (PlainVar v) = v"

primrec eval :: "(string \<Rightarrow> string) \<Rightarrow> (string \<rightharpoonup> string) \<Rightarrow> sqlExpr \<Rightarrow> string option" where
  "eval quote env (QuoteVar v) = map_option quote (env v)"
| "eval quote env (PlainVar v) = env v"

text \<open>The arguments of a \<^verbatim>\<open>CONCAT\<close> that alternates double-quoted literals and expressions.\<close>

definition concat_args :: "string list \<Rightarrow> sqlExpr list \<Rightarrow> string" where
  "concat_args lits es =
     ''\"'' @ interleave lits (map (\<lambda>e. ''\", '' @ render e @ '', \"'') es) @ ''\"''"

text \<open>\<^verbatim>\<open>LIKE\<close> with its two wildcards and its escape character.\<close>

fun like_match :: "string \<Rightarrow> string \<Rightarrow> bool" where
  "like_match [] s = (s = [])"
| "like_match (c # p) [] = (c = CHR ''%'' \<and> like_match p [])"
| "like_match (c # p) (x # s) =
     (if c = CHR ''%'' then like_match p (x # s) \<or> like_match (c # p) s
      else if c = CHR ''_'' then like_match p s
      else if c = CHR 0x5C \<and> p \<noteq> [] then x = hd p \<and> like_match (tl p) s
      else x = c \<and> like_match p s)"

text \<open>
  \<open>accounts\<close> are pairs of user and host. \<open>effect\<close> is what a successful statement does to them.
  \<open>draws\<close> counts the blocks drawn from \<^verbatim>\<open>math/rand\<close>, and \<open>block\<close> is the sequence of blocks.
\<close>

record 'd server =
  accounts :: "'d \<Rightarrow> (string \<times> string) set"
  processes :: "'d \<Rightarrow> string \<Rightarrow> nat"
  var :: "'d \<Rightarrow> tx \<Rightarrow> (string \<rightharpoonup> string)"
  stmt :: "'d \<Rightarrow> tx \<Rightarrow> (string \<rightharpoonup> string)"
  draws :: "'d \<Rightarrow> nat"
  block :: "nat \<Rightarrow> 8 word list"
  QUOTE :: "string \<Rightarrow> string"
  effect :: "string \<Rightarrow> (string \<times> string) set \<Rightarrow> (string \<times> string) set"

definition quiet :: "'d server \<Rightarrow> 'd \<Rightarrow> 'd \<Rightarrow> go_error + 'a \<Rightarrow> bool" where
  "quiet V d d' r \<longleftrightarrow> accounts V d' = accounts V d \<and> draws V d' = draws V d \<and>
     (\<forall>e. r = Inl e \<longrightarrow> foreign e)"

text \<open>Transactions, and the source of identifiers: consecutive blocks differ.\<close>

definition tx_law :: "'d sqlDB \<Rightarrow> 'd server \<Rightarrow> bool" where
  "tx_law h V \<longleftrightarrow>
     (\<forall>d r d'. db_Begin h d = (r, d') \<longrightarrow> quiet V d d' r) \<and>
     (\<forall>t d r d'. tx_Commit h t d = (r, d') \<longrightarrow> quiet V d d' r) \<and>
     (\<forall>t d r d'. tx_Rollback h t d = (r, d') \<longrightarrow> quiet V d d' r) \<and>
     (\<forall>d bs d'. math_rand_Read h 16 d = (bs, d') \<longrightarrow> bs = block V (draws V d) \<and>
        draws V d' = Suc (draws V d) \<and> accounts V d' = accounts V d \<and> var V d' = var V d \<and>
        stmt V d' = stmt V d) \<and>
     (\<forall>i. block V i \<noteq> block V (Suc i))"

text \<open>Assigning a value, and a concatenation, to a user variable.\<close>

definition set_law :: "'d sqlDB \<Rightarrow> 'd server \<Rightarrow> bool" where
  "set_law h V \<longleftrightarrow>
     (\<forall>t v x d r d'. ident v \<longrightarrow> tx_Exec h t (''SET @'' @ v @ '' := ?'') [x] d = (r, d') \<longrightarrow>
        quiet V d d' r \<and> (r = Inr () \<longrightarrow> var V d' t = (var V d t)(v \<mapsto> x)))"

definition concat_law :: "'d sqlDB \<Rightarrow> 'd server \<Rightarrow> bool" where
  "concat_law h V \<longleftrightarrow>
     (\<forall>t v lits es d r d'. ident v \<longrightarrow> list_all plain_literal lits \<longrightarrow>
        length lits = Suc (length es) \<longrightarrow> list_all (\<lambda>e. ident (expr_var e)) es \<longrightarrow>
        list_all (\<lambda>e. eval (QUOTE V) (var V d t) e \<noteq> None) es \<longrightarrow>
        tx_Exec h t (''SET @'' @ v @ '' := CONCAT('' @ concat_args lits es @ '')'') [] d = (r, d') \<longrightarrow>
        quiet V d d' r \<and> (r = Inr () \<longrightarrow>
          var V d' t v = Some (interleave lits (map (\<lambda>e. the (eval (QUOTE V) (var V d t) e)) es))))"

text \<open>Prepared statements. A statement that fails changes no account.\<close>

definition prepare_law :: "'d sqlDB \<Rightarrow> 'd server \<Rightarrow> bool" where
  "prepare_law h V \<longleftrightarrow>
     (\<forall>t s v text d r d'. ident s \<longrightarrow> ident v \<longrightarrow> var V d t v = Some text \<longrightarrow>
        tx_Exec h t (''PREPARE '' @ s @ '' FROM @'' @ v) [] d = (r, d') \<longrightarrow>
        quiet V d d' r \<and> (r = Inr () \<longrightarrow> stmt V d' t s = Some text))"

definition execute_law :: "'d sqlDB \<Rightarrow> 'd server \<Rightarrow> bool" where
  "execute_law h V \<longleftrightarrow>
     (\<forall>t s text d r d'. ident s \<longrightarrow> stmt V d t s = Some text \<longrightarrow>
        tx_Exec h t (''EXECUTE '' @ s) [] d = (r, d') \<longrightarrow>
        (case r of Inl e \<Rightarrow> foreign e \<and> accounts V d' = accounts V d
         | Inr _ \<Rightarrow> accounts V d' = effect V text (accounts V d)))"

definition session_laws :: "'d sqlDB \<Rightarrow> 'd server \<Rightarrow> bool" where
  "session_laws h V \<longleftrightarrow> tx_law h V \<and> set_law h V \<and> concat_law h V \<and> prepare_law h V \<and> execute_law h V"

text \<open>Account management statements, and the two queries on accounts and sessions.\<close>

definition account_laws :: "'d server \<Rightarrow> bool" where
  "account_laws V \<longleftrightarrow>
     (\<forall>u pw A. effect V (''CREATE USER '' @ QUOTE V u @ ''@'%' IDENTIFIED BY '' @ QUOTE V pw) A =
        insert (u, ''%'') A) \<and>
     (\<forall>db u A. unquoted_name db \<longrightarrow> A \<subseteq> effect V (''GRANT SELECT, INSERT, UPDATE, DELETE ON '' @ db @ ''.* TO '' @ QUOTE V u) A \<and>
        effect V (''GRANT SELECT, INSERT, UPDATE, DELETE ON '' @ db @ ''.* TO '' @ QUOTE V u) A
          \<subseteq> insert (u, ''%'') A) \<and>
     (\<forall>u A. effect V (''DROP USER '' @ QUOTE V u) A = A - {(u, ''%'')})"

definition list_law :: "'d sqlDB \<Rightarrow> 'd server \<Rightarrow> bool" where
  "list_law h V \<longleftrightarrow>
     (\<forall>pat d r d'. db_Select_strings h ''SELECT user FROM mysql.user WHERE user LIKE ?'' [pat] d = (r, d') \<longrightarrow>
        quiet V d d' r \<and>
        (\<forall>us. r = Inr us \<longrightarrow> set us = {u. (\<exists>host. (u, host) \<in> accounts V d) \<and> like_match pat u}))"

definition count_law :: "'d sqlDB \<Rightarrow> 'd server \<Rightarrow> bool" where
  "count_law h V \<longleftrightarrow>
     (\<forall>u d r d'. db_Get_int h ''SELECT COUNT(*) FROM information_schema.processlist WHERE user = ?'' [u] d
          = (r, d') \<longrightarrow> quiet V d d' r \<and> (\<forall>n. r = Inr n \<longrightarrow> n = processes V d u))"

text \<open>Queries change no account, and neither does closing the connection.\<close>

definition query_law :: "'d sqlDB \<Rightarrow> 'd server \<Rightarrow> bool" where
  "query_law h V \<longleftrightarrow>
     (\<forall>q d. accounts V (snd (db_Get_string h q d)) = accounts V d) \<and>
     (\<forall>q as d. accounts V (snd (db_Select_tables h q as d)) = accounts V d) \<and>
     (\<forall>q as d. accounts V (snd (db_Select_fields h q as d)) = accounts V d) \<and>
     (\<forall>q as d. accounts V (snd (db_Select_indexes h q as d)) = accounts V d) \<and>
     (\<forall>q as d. accounts V (snd (db_SliceScan h q as d)) = accounts V d) \<and>
     (\<forall>d. accounts V (snd (db_Close h d)) = accounts V d)"

definition mysql_server :: "'d sqlDB \<Rightarrow> 'd server \<Rightarrow> bool" where
  "mysql_server h V \<longleftrightarrow> session_laws h V \<and> account_laws V \<and> list_law h V \<and> count_law h V \<and>
     query_law h V"

section \<open>The statement that is executed\<close>

lemma quiet_simps:
  "quiet V d d' (Inr a) \<longleftrightarrow> accounts V d' = accounts V d \<and> draws V d' = draws V d"
  "quiet V d d' (Inl e) \<longleftrightarrow> accounts V d' = accounts V d \<and> draws V d' = draws V d \<and> foreign e"
  by (auto simp: quiet_def)

lemma session_wp:
  assumes "session_laws h V"
  shows wp_Begin: "wp (go_call (db_Begin h)) (\<lambda>r d'. quiet V d d' r) d"
    and wp_Commit: "wp (go_call (tx_Commit h t)) (\<lambda>r d'. quiet V d d' r) d"
    and wp_Rollback: "wp (go_call (tx_Rollback h t)) (\<lambda>r d'. quiet V d d' r) d"
    and wp_rand: "wp (go_call (math_rand_Read h 16)) (\<lambda>bs d'. bs = block V (draws V d) \<and>
        draws V d' = Suc (draws V d) \<and> accounts V d' = accounts V d \<and> var V d' = var V d \<and>
        stmt V d' = stmt V d) d"
  using assms by (simp_all add: session_laws_def tx_law_def wpp_call split: prod.splits)

text \<open>The identifier made of the \<open>i\<close>-th block.\<close>

definition ident_at :: "'d server \<Rightarrow> nat \<Rightarrow> string" where
  "ident_at V i = ''var'' @ hex_EncodeToString (block V i)"

lemma ident_at_ident [simp]: "ident (ident_at V i)"
proof -
  have "set hex_digits \<subseteq> set ident_chars" and "set ''var'' \<subseteq> set ident_chars"
    by (simp_all add: hex_digits_def ident_chars_def)
  with subset_trans [OF set_hex [of "block V i"]] show ?thesis
    unfolding ident_def ident_at_def set_append by simp
qed

lemma ident_at_inj: "ident_at V i = ident_at V j \<longleftrightarrow> block V i = block V j"
  by (simp add: ident_at_def hex_inj)

lemma wp_randIdentifier:
  assumes "session_laws h V"
  shows "wp (randIdentifier h 16) (\<lambda>v d'. v = ident_at V (draws V d) \<and>
    draws V d' = Suc (draws V d) \<and> accounts V d' = accounts V d \<and> var V d' = var V d \<and>
    stmt V d' = stmt V d) d"
  unfolding randIdentifier_def wpp_bind
  by (rule wpp_mono [OF wp_rand [OF assms]]) (auto simp: wpp_return ident_at_def)

lemma wp_exec:
  "wp (exec_or_wrap h t q as) Q d \<longleftrightarrow> (case tx_Exec h t q as d of (r, d') \<Rightarrow>
     Q (case r of Inl e \<Rightarrow> Inl (wrappedMySQLError e) | Inr _ \<Rightarrow> Inr ()) d')"
  by (auto simp: exec_or_wrap_def wp_simps split: prod.splits sum.splits)

lemma wp_set_var:
  assumes "session_laws h V" and "ident v"
  shows "wp (exec_or_wrap h t (sprintf ''SET @%s := ?'' [v]) [x])
    (\<lambda>r d'. quiet V d d' r \<and> (r = Inr () \<longrightarrow> var V d' t = (var V d t)(v \<mapsto> x))) d"
proof -
  obtain r d' where run: "tx_Exec h t (''SET @'' @ v @ '' := ?'') [x] d = (r, d')" by force
  with assms have "quiet V d d' r \<and> (r = Inr () \<longrightarrow> var V d' t = (var V d t)(v \<mapsto> x))"
    unfolding session_laws_def set_law_def by blast
  with run show ?thesis by (cases r) (simp_all add: wp_exec quiet_simps)
qed

lemma wp_set_concat:
  assumes "session_laws h V" and "ident v" and "list_all plain_literal lits"
    and "length lits = Suc (length es)" and "list_all (\<lambda>e. ident (expr_var e)) es"
    and "list_all (\<lambda>e. eval (QUOTE V) (var V d t) e \<noteq> None) es"
  shows "wp (exec_or_wrap h t (''SET @'' @ v @ '' := CONCAT('' @ concat_args lits es @ '')'') [])
    (\<lambda>r d'. quiet V d d' r \<and> (r = Inr () \<longrightarrow>
       var V d' t v = Some (interleave lits (map (\<lambda>e. the (eval (QUOTE V) (var V d t) e)) es)))) d"
proof -
  let ?q = "''SET @'' @ v @ '' := CONCAT('' @ concat_args lits es @ '')''"
  obtain r d' where run: "tx_Exec h t ?q [] d = (r, d')" by force
  with assms have "quiet V d d' r \<and> (r = Inr () \<longrightarrow>
       var V d' t v = Some (interleave lits (map (\<lambda>e. the (eval (QUOTE V) (var V d t) e)) es)))"
    unfolding session_laws_def concat_law_def by blast
  with run show ?thesis by (cases r) (simp_all add: wp_exec quiet_simps)
qed

lemma wp_prepare:
  assumes "session_laws h V" and "ident s" and "ident v" and "var V d t v = Some text"
  shows "wp (exec_or_wrap h t (sprintf ''PREPARE %s FROM @%s'' [s, v]) [])
    (\<lambda>r d'. quiet V d d' r \<and> (r = Inr () \<longrightarrow> stmt V d' t s = Some text)) d"
proof -
  obtain r d' where run: "tx_Exec h t (''PREPARE '' @ s @ '' FROM @'' @ v) [] d = (r, d')" by force
  with assms have "quiet V d d' r \<and> (r = Inr () \<longrightarrow> stmt V d' t s = Some text)"
    unfolding session_laws_def prepare_law_def by blast
  with run show ?thesis by (cases r) (simp_all add: wp_exec quiet_simps)
qed

lemma wp_execute:
  assumes "session_laws h V" and "ident s" and "stmt V d t s = Some text"
  shows "wp (exec_or_wrap h t (sprintf ''EXECUTE %s'' [s]) []) (\<lambda>r d'. case r of
       Inl e \<Rightarrow> foreign e \<and> accounts V d' = accounts V d
     | Inr _ \<Rightarrow> accounts V d' = effect V text (accounts V d)) d"
proof -
  obtain r d' where run: "tx_Exec h t (''EXECUTE '' @ s) [] d = (r, d')" by force
  with assms have "case r of Inl e \<Rightarrow> foreign e \<and> accounts V d' = accounts V d
     | Inr _ \<Rightarrow> accounts V d' = effect V text (accounts V d)"
    unfolding session_laws_def execute_law_def by blast
  with run show ?thesis by (cases r) (simp_all add: wp_exec)
qed

text \<open>What an argument contributes to the statement, and the expression that fetches it.\<close>

definition sql_text :: "'d server \<Rightarrow> sqlValue \<Rightarrow> string" where
  "sql_text V arg = (if sv_quoted arg then QUOTE V (sv_value arg) else sv_value arg)"

definition arg_expr :: "sqlValue \<Rightarrow> string \<Rightarrow> sqlExpr" where
  "arg_expr arg v = (if sv_quoted arg then QuoteVar v else PlainVar v)"

lemma finalArg_expr: "finalArg arg v = ''\", '' @ render (arg_expr arg v) @ '', \"''"
  by (simp add: finalArg_def arg_expr_def)

lemma eval_arg_expr:
  "env v = Some (sv_value arg) \<Longrightarrow> eval (QUOTE V) env (arg_expr arg v) = Some (sql_text V arg)"
  by (simp add: arg_expr_def sql_text_def)

lemma expr_var_arg_expr [simp]: "expr_var (arg_expr arg v) = v"
  by (simp add: arg_expr_def)

text \<open>The identifiers of the next \<open>n\<close> draws.\<close>

primrec idents :: "'d server \<Rightarrow> nat \<Rightarrow> nat \<Rightarrow> string list" where
  "idents V i 0 = []"
| "idents V i (Suc n) = ident_at V i # idents V (Suc i) n"

lemma idents_map: "idents V i n = map (ident_at V) [i..<i + n]"
  by (induction n arbitrary: i) (simp_all add: upt_conv_Cons del: upt_Suc)

lemma idents_length [simp]: "length (idents V i n) = n"
  by (simp add: idents_map)

lemma idents_ident: "list_all ident (idents V i n)"
  by (auto simp: idents_map list_all_iff)

lemma distinct_idents: "distinct (idents V i n) \<longleftrightarrow> distinct (map (block V) [i..<i + n])"
  by (simp add: idents_map distinct_map inj_on_def ident_at_inj)

lemma substituteArgs_spec:
  assumes "session_laws h V" and "distinct (idents V (draws V d) (length args))"
  shows "wp (substituteArgs h t args fa) (\<lambda>r d'. accounts V d' = accounts V d \<and> (case r of
       Inl e \<Rightarrow> foreign e
     | Inr fs \<Rightarrow> fs = fa @ map2 finalArg args (idents V (draws V d) (length args)) \<and>
         list_all2 (\<lambda>v arg. var V d' t v = Some (sv_value arg)) (idents V (draws V d) (length args)) args \<and>
         (\<forall>v. v \<notin> set (idents V (draws V d) (length args)) \<longrightarrow> var V d' t v = var V d t v))) d"
  using assms(2)
proof (induction args arbitrary: d fa)
  case Nil
  then show ?case by (simp add: wp_simps)
next
  case (Cons arg args)
  let ?v = "ident_at V (draws V d)" and ?n = "length args"
  have rest: "wp (substituteArgs h t args (fa @ [finalArg arg ?v])) (\<lambda>r d'.
      accounts V d' = accounts V d \<and> (case r of Inl e \<Rightarrow> foreign e
      | Inr fs \<Rightarrow> fs = fa @ map2 finalArg (arg # args) (idents V (draws V d) (Suc ?n)) \<and>
         list_all2 (\<lambda>v arg. var V d' t v = Some (sv_value arg)) (idents V (draws V d) (Suc ?n)) (arg # args) \<and>
         (\<forall>v. v \<notin> set (idents V (draws V d) (Suc ?n)) \<longrightarrow> var V d' t v = var V d t v))) d2"
    if "draws V d2 = Suc (draws V d)" "accounts V d2 = accounts V d"
      "var V d2 t = (var V d t)(?v \<mapsto> sv_value arg)" for d2
  proof (rule wpp_mono [OF Cons.IH [of d2 "fa @ [finalArg arg ?v]"]], goal_cases)
    case (2 r d')
    then show ?case using Cons.prems that by (cases r) simp_all
  qed (use Cons.prems that(1) in simp_all)
  have step: "wp (exec_or_wrap h t (sprintf ''SET @%s := ?'' [?v]) [sv_value arg])
      (\<lambda>r d2. accounts V d2 = accounts V d \<and> draws V d2 = Suc (draws V d) \<and> (case r of
         Inl e \<Rightarrow> foreign e | Inr _ \<Rightarrow> var V d2 t = (var V d t)(?v \<mapsto> sv_value arg))) d1"
    if "draws V d1 = Suc (draws V d)" "accounts V d1 = accounts V d" "var V d1 = var V d" for d1
  proof (rule wpp_mono [OF wp_set_var [OF assms(1) ident_at_ident]], goal_cases)
    case (1 r d2)
    with that show ?case by (cases r) (simp_all add: quiet_simps)
  qed auto
  show ?case
    unfolding substituteArgs.simps wpp_bind wpp_check list.size add_Suc_right add_0_right
  proof (rule wpp_mono [OF wp_randIdentifier [OF assms(1)]], goal_cases)
    case (1 v d1)
    then have "v = ?v" and "draws V d1 = Suc (draws V d)" "accounts V d1 = accounts V d"
      "var V d1 = var V d" by auto
    then show ?case
    proof (simp only: , intro wpp_mono [OF step], goal_cases)
      case (4 r d2)
      then show ?case by (cases r) (simp_all add: wpp_return rest)
    qed auto
  qed auto
qed

text \<open>
  The result of running a statement: on success exactly its effect; after an error (the commit may
  fail when the statement has already been executed) either nothing or exactly its effect.
\<close>

definition ran :: "'d server \<Rightarrow> string \<Rightarrow> 'd \<Rightarrow> go_error + unit \<Rightarrow> 'd \<Rightarrow> bool" where
  "ran V text d r d' \<longleftrightarrow> (case r of
       Inl e \<Rightarrow> foreign e \<and> accounts V d' \<in> {accounts V d, effect V text (accounts V d)}
     | Inr _ \<Rightarrow> accounts V d' = effect V text (accounts V d))"

lemma ran_simps:
  "ran V text d (Inr u) d' \<longleftrightarrow> accounts V d' = effect V text (accounts V d)"
  "ran V text d (Inl e) d' \<longleftrightarrow> foreign e \<and>
     (accounts V d' = accounts V d \<or> accounts V d' = effect V text (accounts V d))"
  by (simp_all add: ran_def)

lemma ran_cong: "accounts V d1 = accounts V d \<Longrightarrow> ran V text d1 = ran V text d"
  by (intro ext) (simp add: ran_def cong: sum.case_cong)

definition executePrepared :: "'d sqlDB \<Rightarrow> tx \<Rightarrow> string \<Rightarrow> ('d, go_error + unit) go" where
  "executePrepared h t stmtName =
     go_check (exec_or_wrap h t (sprintf ''EXECUTE %s'' [stmtName]) [])
       (\<lambda>err. go_return (Inl err)) (\<lambda>_.
     go_check (go_call (tx_Commit h t))
       (\<lambda>err. go_return (Inl (wrappedMySQLError err)))
       (\<lambda>_. go_return (Inr ())))"

lemma executePrepared_spec:
  assumes "session_laws h V" and "ident s" and "stmt V d t s = Some text"
  shows "wp (executePrepared h t s) (\<lambda>r d'. ran V text d r d') d"
proof -
  have commit: "wp (go_check (go_call (tx_Commit h t)) (\<lambda>err. go_return (Inl (wrappedMySQLError err)))
      (\<lambda>_. go_return (Inr ()))) (\<lambda>r d'. ran V text d r d') d1"
    if "accounts V d1 = effect V text (accounts V d)" for d1
    unfolding wpp_check
  proof (rule wpp_mono [OF wp_Commit [OF assms(1)]], goal_cases)
    case (1 r d2)
    with that show ?case by (cases r) (simp_all add: wpp_return ran_simps quiet_simps)
  qed auto
  show ?thesis unfolding executePrepared_def wpp_check [of "exec_or_wrap _ _ _ _"]
  proof (rule wpp_mono [OF wp_execute [OF assms]], goal_cases)
    case (1 r d1)
    then show ?case by (cases r) (simp_all add: wpp_return ran_simps commit)
  qed auto
qed

lemma prepareAndExecute_spec:
  assumes "session_laws h V" and "ident v" and "var V d t v = Some text"
  shows "wp (go_bind (randIdentifier h 16) (\<lambda>stmtName.
     go_check (exec_or_wrap h t (sprintf ''PREPARE %s FROM @%s'' [stmtName, v]) [])
       (\<lambda>err. go_return (Inl err)) (\<lambda>_. executePrepared h t stmtName)))
     (\<lambda>r d'. ran V text d r d') d"
  unfolding wpp_bind wpp_check
proof (rule wpp_mono [OF wp_randIdentifier [OF assms(1)]], goal_cases)
  case (1 s d1)
  then have s: "ident s" and d1: "var V d1 t v = Some text" "accounts V d1 = accounts V d"
    using assms(3) by simp_all
  show ?case
  proof (rule wpp_mono [OF wp_prepare [OF assms(1) s assms(2) d1(1)]], goal_cases)
    case (1 r d2)
    show ?case
    proof (cases r)
      case (Inl e)
      with 1 d1(2) show ?thesis by (simp add: wpp_return ran_simps quiet_simps)
    next
      case (Inr u)
      with 1 have "stmt V d2 t s = Some text" and "accounts V d2 = accounts V d"
        using d1(2) by (simp_all add: quiet_simps)
      with executePrepared_spec [OF assms(1) s, of d2 t "text"] Inr show ?thesis
        by (simp add: ran_cong [of V d2 d])
    qed
  qed auto
qed auto

lemma runStatement_spec:
  assumes laws: "session_laws h V" and lits: "list_all plain_literal lits"
    and len: "length lits = Suc (length args)" "length vs = length args" and vs: "list_all ident vs"
    and vars: "list_all2 (\<lambda>v arg. var V d t v = Some (sv_value arg)) vs args"
  shows "wp (runStatement h t (interleave lits (map2 finalArg args vs)))
    (\<lambda>r d'. ran V (interleave lits (map (sql_text V) args)) d r d') d"
proof -
  let ?es = "map2 arg_expr args vs" and ?text = "interleave lits (map (sql_text V) args)"
  have raw: "''\"'' @ interleave lits (map2 finalArg args vs) @ ''\"'' = concat_args lits ?es"
    by (auto simp: concat_args_def finalArg_expr intro!: arg_cong [of _ _ "interleave lits"])
  have es: "list_all (\<lambda>e. ident (expr_var e)) ?es"
    using vs len(2) by (auto simp: list_all_iff dest: set_zip_rightD)
  have eval: "eval (QUOTE V) (var V d t) e = Some (sql_text V arg)"
    if "(arg, v) \<in> set (zip args vs)" "e = arg_expr arg v" for arg v e
    using vars that by (auto simp: list_all2_conv_all_nth set_zip intro!: eval_arg_expr)
  then have evals: "list_all (\<lambda>e. eval (QUOTE V) (var V d t) e \<noteq> None) ?es"
    by (auto simp: list_all_iff)
  have "map (\<lambda>e. the (eval (QUOTE V) (var V d t) e)) ?es = map (sql_text V) (map fst (zip args vs))"
    using eval by (auto simp: comp_def)
  then have texts: "map (\<lambda>e. the (eval (QUOTE V) (var V d t) e)) ?es = map (sql_text V) args"
    using len(2) by (simp only: map_fst_zip)
  show ?thesis
    unfolding runStatement_def executePrepared_def [symmetric] wpp_bind [of "randIdentifier h 16"]
  proof (rule wpp_mono [OF wp_randIdentifier [OF laws]], goal_cases)
    case (1 s d1)
    then have s: "ident s" and d1: "var V d1 = var V d" "accounts V d1 = accounts V d" by simp_all
    have q: "sprintf ''SET @%s := CONCAT(\"%s\")'' [s, interleave lits (map2 finalArg args vs)] =
       ''SET @'' @ s @ '' := CONCAT('' @ concat_args lits ?es @ '')''"
      by (simp flip: raw)
    have "wp (exec_or_wrap h t (''SET @'' @ s @ '' := CONCAT('' @ concat_args lits ?es @ '')'') [])
      (\<lambda>r d'. quiet V d1 d' r \<and> (r = Inr () \<longrightarrow> var V d' t s = Some ?text)) d1"
      using wp_set_concat [OF laws s lits, of ?es d1 t] len es evals texts d1(1) by simp
    then show ?case
      unfolding q wpp_check [of "exec_or_wrap h t (''SET @'' @ s @ X) Y" for X Y]
    proof (rule wpp_mono, goal_cases)
      case (1 r d2)
      show ?case
      proof (cases r)
        case (Inl e)
        with 1 d1(2) show ?thesis by (simp add: wpp_return ran_simps quiet_simps)
      next
        case (Inr u)
        with 1 have "var V d2 t s = Some ?text" and "accounts V d2 = accounts V d"
          using d1(2) by (simp_all add: quiet_simps)
        with prepareAndExecute_spec [OF laws s, of d2 t ?text] Inr show ?thesis
          by (simp add: ran_cong [of V d2 d])
      qed
    qed auto
  qed auto
qed

text \<open>
  Indirect substitution executes, on the server, the format with every argument in place: as it is
  for \<open>noquote\<close>, as a quoted string literal for \<open>quoted\<close>. Whatever the arguments contain, no other
  statement is executed.
\<close>

lemma indirectSubstitute_spec:
  assumes laws: "session_laws (handle mdba) V"
    and len: "length (split_format format) = Suc (length args)"
    and lits: "list_all plain_literal (split_format format)"
    and fresh: "distinct (map (block V) [draws V d..<draws V d + length args])"
  shows "wp (indirectSubstitute mdba format args)
    (\<lambda>r d'. ran V (sprintf format (map (sql_text V) args)) d r d') d"
proof -
  let ?h = "handle mdba" and ?text = "sprintf format (map (sql_text V) args)"
  have fmt: "sprintf format as = interleave (split_format format) as" if "length as = length args" for as
    by (rule sprintf_split) (simp add: len that)
  have body: "wp (go_check (substituteArgs ?h t args []) (\<lambda>err. go_return (Inl err))
      (\<lambda>finalArgs. runStatement ?h t (sprintf format finalArgs))) (\<lambda>r d'. ran V ?text d r d') d1"
    if "accounts V d1 = accounts V d" "draws V d1 = draws V d" for d1 t
    unfolding wpp_check
  proof (rule wpp_mono [OF substituteArgs_spec [OF laws]], goal_cases)
    case 1
    with fresh that(2) show ?case by (simp add: distinct_idents)
  next
    case (2 r d2)
    show ?case
    proof (cases r)
      case (Inl e)
      with 2 that(1) show ?thesis by (simp add: wpp_return ran_simps)
    next
      case (Inr fs)
      let ?vs = "idents V (draws V d1) (length args)"
      from 2 Inr that(1) have fs: "fs = map2 finalArg args ?vs" and acc: "accounts V d2 = accounts V d"
        and vars: "list_all2 (\<lambda>v arg. var V d2 t v = Some (sv_value arg)) ?vs args" by simp_all
      have "wp (runStatement ?h t (interleave (split_format format) (map2 finalArg args ?vs)))
          (\<lambda>r d'. ran V (interleave (split_format format) (map (sql_text V) args)) d2 r d') d2"
        by (rule runStatement_spec [OF laws lits _ _ idents_ident vars]) (simp_all add: len)
      with Inr fs show ?thesis by (simp add: fmt ran_cong [OF acc])
    qed
  qed auto
  have rollback: "wp (go_call (tx_Rollback ?h t)) (\<lambda>_ d'. ran V ?text d r d') d2"
    if "ran V ?text d r d2" for r d2 t
    by (rule wpp_mono [OF wp_Rollback [OF laws]]) (use that in \<open>auto simp: ran_def quiet_def split: sum.splits\<close>)
  show ?thesis
    unfolding indirectSubstitute_def wpp_check [of "go_call (db_Begin ?h)"] wpp_defer
  proof (rule wpp_mono [OF wp_Begin [OF laws]], goal_cases)
    case (1 r d1)
    then show ?case
      by (cases r) (auto simp: wpp_return ran_simps quiet_simps intro!: wpp_mono [OF body] rollback)
  qed auto
qed

section \<open>The contract of the administration interface\<close>

definition mysql_users :: "'d server \<Rightarrow> 'd \<Rightarrow> string set" where
  "mysql_users V d = {u. (u, ''%'') \<in> accounts V d}"

text \<open>The accounts the operator sees as its own.\<close>

definition mysql_listed :: "string \<Rightarrow> bool" where
  "mysql_listed u = like_match (DBUsernamePrefix @ ''%'') u"

text \<open>
  What the implementation needs: the server behaves, the database name can stand in a statement
  without quotes, a migration engine is set, and the accounts the operator sees are not bound to a
  host, since \<^verbatim>\<open>DROP USER\<close> without a host removes only those that are not.
\<close>

definition mysql_ok :: "'d MySQLDbAdmin \<Rightarrow> 'd server \<Rightarrow> 'd \<Rightarrow> bool" where
  "mysql_ok mdba V d \<longleftrightarrow> mysql_server (handle mdba) V \<and> unquoted_name (database mdba) \<and>
     engine mdba \<noteq> None \<and> (\<forall>u host. (u, host) \<in> accounts V d \<and> mysql_listed u \<longrightarrow> host = ''%'')"

lemma like_any: "like_match ''%'' s"
  by (induction s) auto

text \<open>Names with the prefix are listed. The underscore of the prefix is a wildcard for \<^verbatim>\<open>LIKE\<close>.\<close>

lemma mysql_listed_iff: "mysql_listed u \<longleftrightarrow> (\<exists>c rest. u = ''dba'' @ c # rest)"
proof -
  have "like_match ''dba_%'' u \<longleftrightarrow> (\<exists>c rest. u = ''dba'' @ c # rest)"
    by (cases u; simp; cases "tl u"; simp; cases "tl (tl u)"; simp; cases "tl (tl (tl u))"; simp add: like_any)
  then show ?thesis by (simp add: mysql_listed_def DBUsernamePrefix_def)
qed

lemma prefix_mysql_listed: "prefix DBUsernamePrefix u \<Longrightarrow> mysql_listed u"
  by (auto simp: mysql_listed_iff DBUsernamePrefix_def prefix_def)

text \<open>The three statements.\<close>

lemma indirect_CREATE:
  assumes "mysql_server (handle mdba) V"
  shows "wp (indirectSubstitute mdba ''CREATE USER %s@'%%' IDENTIFIED BY %s'' [quoted u, quoted pw])
    (\<lambda>r d'. case r of
       Inl e \<Rightarrow> foreign e \<and> accounts V d' \<in> {accounts V d, insert (u, ''%'') (accounts V d)}
     | Inr _ \<Rightarrow> accounts V d' = insert (u, ''%'') (accounts V d)) d"
proof -
  let ?q = "''CREATE USER '' @ QUOTE V u @ ''@'%' IDENTIFIED BY '' @ QUOTE V pw"
  have laws: "session_laws (handle mdba) V" and eff: "effect V ?q A = insert (u, ''%'') A" for A
    using assms by (auto simp: mysql_server_def account_laws_def)
  have "block V i \<noteq> block V (Suc i)" for i using laws by (simp add: session_laws_def tx_law_def)
  then have "wp (indirectSubstitute mdba ''CREATE USER %s@'%%' IDENTIFIED BY %s'' [quoted u, quoted pw])
      (\<lambda>r d'. ran V (sprintf ''CREATE USER %s@'%%' IDENTIFIED BY %s''
         (map (sql_text V) [quoted u, quoted pw])) d r d') d"
    by (intro indirectSubstitute_spec laws) (simp_all add: plain_literal_def)
  moreover have "sprintf ''CREATE USER %s@'%%' IDENTIFIED BY %s''
      (map (sql_text V) [quoted u, quoted pw]) = ?q"
    by (simp add: sql_text_def quoted_def)
  ultimately show ?thesis by (simp only: ran_def eff)
qed

lemma indirect_GRANT:
  assumes "mysql_server (handle mdba) V" and "unquoted_name db"
  shows "wp (indirectSubstitute mdba ''GRANT SELECT, INSERT, UPDATE, DELETE ON %s.* TO %s''
      [noquote db, quoted u])
    (\<lambda>r d'. (\<forall>e. r = Inl e \<longrightarrow> foreign e) \<and> accounts V d \<subseteq> accounts V d' \<and>
       accounts V d' \<subseteq> insert (u, ''%'') (accounts V d)) d"
proof -
  let ?q = "''GRANT SELECT, INSERT, UPDATE, DELETE ON '' @ db @ ''.* TO '' @ QUOTE V u"
  have laws: "session_laws (handle mdba) V"
    and eff: "A \<subseteq> effect V ?q A" "effect V ?q A \<subseteq> insert (u, ''%'') A" for A
    using assms by (auto simp: mysql_server_def account_laws_def)
  have "block V i \<noteq> block V (Suc i)" for i using laws by (simp add: session_laws_def tx_law_def)
  then have run: "wp (indirectSubstitute mdba ''GRANT SELECT, INSERT, UPDATE, DELETE ON %s.* TO %s''
      [noquote db, quoted u])
      (\<lambda>r d'. ran V (sprintf ''GRANT SELECT, INSERT, UPDATE, DELETE ON %s.* TO %s''
         (map (sql_text V) [noquote db, quoted u])) d r d') d"
    by (intro indirectSubstitute_spec laws) (simp_all add: plain_literal_def)
  have q: "sprintf ''GRANT SELECT, INSERT, UPDATE, DELETE ON %s.* TO %s''
      (map (sql_text V) [noquote db, quoted u]) = ?q"
    by (simp add: sql_text_def quoted_def noquote_def)
  show ?thesis
  proof (rule wpp_mono [OF run [unfolded q]], goal_cases)
    case (1 r d')
    then show ?case using eff [of "accounts V d"] by (cases r) (auto simp only: ran_simps)
  qed auto
qed

lemma indirect_DROP:
  assumes "mysql_server (handle mdba) V"
  shows "wp (indirectSubstitute mdba ''DROP USER %s'' [quoted u])
    (\<lambda>r d'. case r of
       Inl e \<Rightarrow> foreign e \<and> accounts V d' \<in> {accounts V d, accounts V d - {(u, ''%'')}}
     | Inr _ \<Rightarrow> accounts V d' = accounts V d - {(u, ''%'')}) d"
proof -
  let ?q = "''DROP USER '' @ QUOTE V u"
  have laws: "session_laws (handle mdba) V" and eff: "effect V ?q A = A - {(u, ''%'')}" for A
    using assms by (auto simp: mysql_server_def account_laws_def)
  have "wp (indirectSubstitute mdba ''DROP USER %s'' [quoted u])
      (\<lambda>r d'. ran V (sprintf ''DROP USER %s'' (map (sql_text V) [quoted u])) d r d') d"
    by (intro indirectSubstitute_spec laws) (simp_all add: plain_literal_def)
  moreover have "sprintf ''DROP USER %s'' (map (sql_text V) [quoted u]) = ?q"
    by (simp add: sql_text_def quoted_def)
  ultimately show ?thesis by (simp only: ran_def eff)
qed

text \<open>The methods of the interface keep the contract.\<close>

lemma mysql_ok_mono:
  "mysql_ok mdba V d \<Longrightarrow> accounts V d' \<subseteq> insert (u, ''%'') (accounts V d) \<Longrightarrow> mysql_ok mdba V d'"
  unfolding mysql_ok_def by blast

lemma mysql_List_spec:
  assumes "mysql_ok mdba V d"
  shows "wp (mysql_ListUsernames mdba DBUsernamePrefix) (\<lambda>r d'. mysql_ok mdba V d' \<and>
     mysql_users V d' = mysql_users V d \<and> (case r of Inl e \<Rightarrow> foreign e
     | Inr xs \<Rightarrow> set xs = {u \<in> mysql_users V d. mysql_listed u})) d"
proof -
  obtain r d' where run: "db_Select_strings (handle mdba)
      ''SELECT user FROM mysql.user WHERE user LIKE ?'' [DBUsernamePrefix @ ''%''] d = (r, d')" by force
  with assms have q: "quiet V d d' r" and rows: "r = Inr us \<Longrightarrow> set us =
      {u. (\<exists>host. (u, host) \<in> accounts V d) \<and> like_match (DBUsernamePrefix @ ''%'') u}" for us
    unfolding mysql_ok_def mysql_server_def list_law_def by blast+
  then have acc: "accounts V d' = accounts V d" by (simp add: quiet_def)
  show ?thesis
  proof (cases r)
    case (Inl e)
    with run q acc assms show ?thesis
      by (simp add: mysql_ListUsernames_def wp_simps quiet_simps mysql_users_def mysql_ok_def)
  next
    case (Inr us)
    with rows assms have "set us = {u \<in> mysql_users V d. mysql_listed u}"
      unfolding mysql_users_def mysql_listed_def mysql_ok_def by blast
    with run Inr acc assms show ?thesis
      by (simp add: mysql_ListUsernames_def wp_simps mysql_users_def mysql_ok_def)
  qed
qed

lemma mysql_Write_spec:
  assumes ok: "mysql_ok mdba V d"
  shows "wp (mysql_WriteCredentials mdba u pw) (\<lambda>r d'. mysql_ok mdba V d' \<and>
     mysql_users V d \<subseteq> mysql_users V d' \<and> mysql_users V d' \<subseteq> insert u (mysql_users V d) \<and>
     (case r of Inl e \<Rightarrow> foreign e | Inr _ \<Rightarrow> u \<in> mysql_users V d')) d"
    (is "wp _ ?post d")
proof -
  have server: "mysql_server (handle mdba) V" and db: "unquoted_name (database mdba)"
    using ok by (simp_all add: mysql_ok_def)
  have sound: "?post (Inl e) d'" if "accounts V d \<subseteq> accounts V d'"
    "accounts V d' \<subseteq> insert (u, ''%'') (accounts V d)" "foreign e" for e d'
    using mysql_ok_mono [OF ok that(2)] that by (auto simp: mysql_users_def)
  have full: "?post (Inr ()) d'" if "accounts V d \<subseteq> accounts V d'"
    "accounts V d' \<subseteq> insert (u, ''%'') (accounts V d)" "(u, ''%'') \<in> accounts V d'" for d'
    using mysql_ok_mono [OF ok that(2)] that by (auto simp: mysql_users_def)
  have grant: "wp (go_check (indirectSubstitute mdba
        ''GRANT SELECT, INSERT, UPDATE, DELETE ON %s.* TO %s'' [noquote (database mdba), quoted u])
      (\<lambda>err. go_return (Inl (Errorf_w ''Unable to grant permission to new user %s: %w'' [u] err)))
      (\<lambda>_. go_return (Inr ()))) ?post d1"
    if "accounts V d1 = insert (u, ''%'') (accounts V d)" for d1
    unfolding wpp_check wpp_return
  proof (rule wpp_mono [OF indirect_GRANT [OF server db]], goal_cases)
    case (1 r d2)
    with that have "accounts V d \<subseteq> accounts V d2" "(u, ''%'') \<in> accounts V d2"
      "accounts V d2 \<subseteq> insert (u, ''%'') (accounts V d)" by auto
    with 1 sound [of d2] full [of d2] show ?case by (cases r) simp_all
  qed auto
  show ?thesis
    unfolding mysql_WriteCredentials_def wpp_check [of "indirectSubstitute mdba ''CREATE USER %s@'%%' IDENTIFIED BY %s'' X" for X]
  proof (rule wpp_mono [OF indirect_CREATE [OF server]], goal_cases)
    case (1 r d1)
    show ?case
    proof (cases r)
      case (Inl e)
      with 1 have "accounts V d \<subseteq> accounts V d1" "foreign e"
        "accounts V d1 \<subseteq> insert (u, ''%'') (accounts V d)" by auto
      with Inl sound [of d1] show ?thesis by (simp add: wpp_return)
    next
      case (Inr x)
      with 1 grant show ?thesis by simp
    qed
  qed auto
qed

lemma mysql_Delete_spec:
  assumes ok: "mysql_ok mdba V d"
  shows "wp (mysql_VerifyUnusedAndDeleteCredentials mdba u) (\<lambda>r d'. mysql_ok mdba V d' \<and>
     mysql_users V d' \<subseteq> mysql_users V d \<and> mysql_users V d - {u} \<subseteq> mysql_users V d' \<and>
     (0 < processes V d u \<longrightarrow> mysql_users V d \<subseteq> mysql_users V d') \<and>
     (case r of Inl e \<Rightarrow> foreign e | Inr _ \<Rightarrow> u \<notin> mysql_users V d')) d"
    (is "wp _ ?post d")
proof -
  have server: "mysql_server (handle mdba) V" using ok by (simp add: mysql_ok_def)
  have mono: "mysql_ok mdba V d'" if "accounts V d' \<subseteq> accounts V d" for d'
    using mysql_ok_mono [OF ok] that by blast
  obtain r d1 where run: "db_Get_int (handle mdba)
      ''SELECT COUNT(*) FROM information_schema.processlist WHERE user = ?'' [u] d = (r, d1)" by force
  with server have q: "quiet V d d1 r" and count: "r = Inr n \<Longrightarrow> n = processes V d u" for n
    unfolding mysql_server_def count_law_def by blast+
  then have acc: "accounts V d1 = accounts V d" by (simp add: quiet_def)
  have drop: "wp (go_check (indirectSubstitute mdba ''DROP USER %s'' [quoted u])
      (\<lambda>err. go_return (Inl (Errorf_w ''Unable to remove user %s from the database: %w'' [u] err)))
      (\<lambda>_. go_return (Inr ()))) ?post d1" if "processes V d u = 0"
    unfolding wpp_check wpp_return
  proof (rule wpp_mono [OF indirect_DROP [OF server]], goal_cases)
    case (1 r d2)
    then have "accounts V d2 = accounts V d \<or> accounts V d2 = accounts V d - {(u, ''%'')}"
      using acc by (cases r) simp_all
    with 1 that acc mono [of d2] show ?case by (cases r) (auto simp: mysql_users_def)
  qed auto
  show ?thesis
  proof (cases r)
    case (Inl e)
    with run q acc mono [of d1] show ?thesis
      by (simp add: mysql_VerifyUnusedAndDeleteCredentials_def wp_simps quiet_simps mysql_users_def)
  next
    case (Inr n)
    with run acc mono [of d1] drop count [OF Inr] show ?thesis
      by (auto simp: mysql_VerifyUnusedAndDeleteCredentials_def wpp_check [of "go_call X" for X]
          wpp_call wpp_if wpp_return mysql_users_def)
  qed
qed

lemmas mysql_methods = mysql_List_spec mysql_Write_spec mysql_Delete_spec

interpretation mysql_admin: credential_admin "mysql_DbAdmin mdba" "mysql_users V" "processes V"
    DBUsernamePrefix mysql_listed "mysql_ok mdba V"
  for mdba :: "'d MySQLDbAdmin" and V :: "'d server"
  by unfold_locales (simp_all add: prefix_mysql_listed mysql_DbAdmin_def mysql_methods)

interpretation mysql_operator: operator_admin "mysql_DbAdmin mdba" "mysql_users V" "processes V"
    mysql_listed "mysql_ok mdba V"
  for mdba :: "'d MySQLDbAdmin" and V :: "'d server"
  by unfold_locales

end
