(* ===== verification/SqlReference.thy ===== *)
theory SqlReference
  imports SqlServer
begin

text \<open>
  A small executable MySQL server that satisfies the hypotheses of \<^verbatim>\<open>SqlServer\<close>: it parses the
  statements it receives as text, keeps user variables and prepared statements per connection, and
  runs the account management statements. It shows that the hypotheses can hold together, and the
  witnesses of the properties that rest on them run against it.
\<close>

section \<open>The server\<close>

record refdb =
  ref_accounts :: "(string \<times> string) list"
  ref_processes :: "(string \<times> nat) list"
  ref_var :: "tx \<Rightarrow> (string \<rightharpoonup> string)"
  ref_stmt :: "tx \<Rightarrow> (string \<rightharpoonup> string)"
  ref_draws :: nat
  ref_version :: "string option"

definition strip :: "string \<Rightarrow> string \<Rightarrow> string option" where
  "strip p s = (if take (length p) s = p then Some (drop (length p) s) else None)"

lemma strip_append [simp]: "strip p (p @ s) = Some s"
  by (simp add: strip_def)

lemma strip_length: "strip p s = Some r \<Longrightarrow> length r \<le> length s"
  by (auto simp: strip_def split: if_splits)

lemma strip_dropWhile:
  assumes "strip q r = Some r1" and "strip p (dropWhile P r1) = Some r2"
  shows "length r2 < Suc (length r)"
  using strip_length [OF assms(1)] strip_length [OF assms(2)] length_dropWhile_le [of P r1] by linarith

text \<open>String literals in single quotes, with backslash escapes.\<close>

definition esc :: "char \<Rightarrow> string" where
  "esc c = (if c \<in> {CHR 0x27, CHR 0x5C} then [CHR 0x5C, c] else [c])"

definition ref_quote :: "string \<Rightarrow> string" where
  "ref_quote u = [CHR 0x27] @ concat (map esc u) @ [CHR 0x27]"

fun scan_literal :: "string \<Rightarrow> (string \<times> string) option" where
  "scan_literal [] = None"
| "scan_literal [c] = (if c = CHR 0x27 then Some ([], []) else None)"
| "scan_literal (c # d # cs) =
     (if c = CHR 0x27 then Some ([], d # cs)
      else if c = CHR 0x5C then map_option (apfst (Cons d)) (scan_literal cs)
      else map_option (apfst (Cons c)) (scan_literal (d # cs)))"

definition scan_quoted :: "string \<Rightarrow> (string \<times> string) option" where
  "scan_quoted s = (case s of [] \<Rightarrow> None | c # cs \<Rightarrow> if c = CHR 0x27 then scan_literal cs else None)"

lemma scan_literal_Cons:
  "c \<notin> {CHR 0x27, CHR 0x5C} \<Longrightarrow> scan_literal (c # s) = map_option (apfst (Cons c)) (scan_literal s)"
  by (cases s) simp_all

lemma scan_literal_quote:
  "scan_literal (concat (map esc u) @ CHR 0x27 # rest) = Some (u, rest)"
proof (induction u)
  case Nil
  then show ?case by (cases rest) simp_all
next
  case (Cons c u)
  then show ?case by (auto simp: esc_def scan_literal_Cons)
qed

lemma scan_quote: "scan_quoted (ref_quote u @ rest) = Some (u, rest)"
  by (simp add: scan_quoted_def ref_quote_def scan_literal_quote)

text \<open>Account management.\<close>

definition ref_run :: "string \<Rightarrow> (string \<times> string) list \<Rightarrow> (string \<times> string) list" where
  "ref_run sql A =
     (case strip ''CREATE USER '' sql of
        Some rest \<Rightarrow> (case scan_quoted rest of
           Some (u, _) \<Rightarrow> List.insert (u, ''%'') A | None \<Rightarrow> A)
      | None \<Rightarrow> (case strip ''DROP USER '' sql of
           Some rest \<Rightarrow> (case scan_quoted rest of
              Some (u, _) \<Rightarrow> removeAll (u, ''%'') A | None \<Rightarrow> A)
         | None \<Rightarrow> A))"

definition ref_effect :: "string \<Rightarrow> (string \<times> string) set \<Rightarrow> (string \<times> string) set" where
  "ref_effect sql A =
     (case strip ''CREATE USER '' sql of
        Some rest \<Rightarrow> (case scan_quoted rest of
           Some (u, _) \<Rightarrow> insert (u, ''%'') A | None \<Rightarrow> A)
      | None \<Rightarrow> (case strip ''DROP USER '' sql of
           Some rest \<Rightarrow> (case scan_quoted rest of
              Some (u, _) \<Rightarrow> A - {(u, ''%'')} | None \<Rightarrow> A)
         | None \<Rightarrow> A))"

lemma set_ref_run: "set (ref_run sql A) = ref_effect sql (set A)"
  by (auto simp: ref_run_def ref_effect_def split: option.splits)

text \<open>Evaluating the arguments of \<^verbatim>\<open>CONCAT\<close>, from inside a literal to the closing parenthesis.\<close>

definition id_char :: "char \<Rightarrow> bool" where
  "id_char c = (c \<in> set ident_chars)"

function eval_literal :: "(string \<rightharpoonup> string) \<Rightarrow> string \<Rightarrow> string option" where
  "eval_literal env [] = None"
| "eval_literal env (c # r) =
     (if c \<noteq> CHR 0x22 then map_option (Cons c) (eval_literal env r)
      else (case strip '', QUOTE(@'' r of
        Some r1 \<Rightarrow> (case strip ''), \"'' (dropWhile id_char r1) of
            Some r2 \<Rightarrow> (case env (takeWhile id_char r1) of
                Some x \<Rightarrow> map_option ((@) (ref_quote x)) (eval_literal env r2)
              | None \<Rightarrow> None)
          | None \<Rightarrow> None)
      | None \<Rightarrow> (case strip '', @'' r of
            Some r1 \<Rightarrow> (case strip '', \"'' (dropWhile id_char r1) of
                Some r2 \<Rightarrow> (case env (takeWhile id_char r1) of
                    Some x \<Rightarrow> map_option ((@) x) (eval_literal env r2)
                  | None \<Rightarrow> None)
              | None \<Rightarrow> None)
          | None \<Rightarrow> if r = '')'' then Some [] else None)))"
  by pat_completeness auto
termination
  by (relation "measure (\<lambda>(env, s). length s)") (auto dest: strip_dropWhile)

definition ref_set :: "tx \<Rightarrow> string \<Rightarrow> string \<Rightarrow> refdb \<Rightarrow> refdb" where
  "ref_set t v x d = d\<lparr>ref_var := (ref_var d)(t := (ref_var d t)(v \<mapsto> x))\<rparr>"

definition syntax_error :: go_error where
  "syntax_error = MySQLError 1064 ''You have an error in your SQL syntax''"

definition ref_Exec :: "tx \<Rightarrow> string \<Rightarrow> string list \<Rightarrow> (refdb, go_error + unit) call" where
  "ref_Exec t q args d =
     (case strip ''SET @'' q of
        Some r \<Rightarrow>
          (let v = takeWhile id_char r; r' = dropWhile id_char r in
           if r' = '' := ?'' \<and> length args = 1 then (Inr (), ref_set t v (hd args) d)
           else (case strip '' := CONCAT(\"'' r' of
               Some l \<Rightarrow> (case eval_literal (ref_var d t) l of
                   Some x \<Rightarrow> (Inr (), ref_set t v x d)
                 | None \<Rightarrow> (Inl syntax_error, d))
             | None \<Rightarrow> (Inl syntax_error, d)))
      | None \<Rightarrow> (case strip ''PREPARE '' q of
        Some r \<Rightarrow>
          (let s = takeWhile id_char r in
           case strip '' FROM @'' (dropWhile id_char r) of
             Some v \<Rightarrow> (case ref_var d t v of
                 Some sql \<Rightarrow> (Inr (), d\<lparr>ref_stmt := (ref_stmt d)(t := (ref_stmt d t)(s \<mapsto> sql))\<rparr>)
               | None \<Rightarrow> (Inl syntax_error, d))
           | None \<Rightarrow> (Inl syntax_error, d))
      | None \<Rightarrow> (case strip ''EXECUTE '' q of
        Some s \<Rightarrow> (case ref_stmt d t s of
            Some sql \<Rightarrow> (Inr (), d\<lparr>ref_accounts := ref_run sql (ref_accounts d)\<rparr>)
          | None \<Rightarrow> (Inl (MySQLError 1243 ''Unknown prepared statement handler''), d))
      | None \<Rightarrow> (Inl syntax_error, d))))"

definition ref_block :: "nat \<Rightarrow> 8 word list" where
  "ref_block i = replicate 15 0 @ [of_nat i]"

definition ref_handle :: "refdb sqlDB" where
  "ref_handle = \<lparr>
     db_Begin = \<lambda>d. (Inr 0, d),
     tx_Exec = ref_Exec,
     tx_Commit = \<lambda>t d. (Inr (), d),
     tx_Rollback = \<lambda>t d. (Inr (), d),
     db_Select_strings = \<lambda>q args d.
       (Inr (filter (like_match (hd args)) (map fst (ref_accounts d))), d),
     db_Select_tables = \<lambda>q args d. (Inr [], d),
     db_Select_fields = \<lambda>q args d. (Inr [], d),
     db_Select_indexes = \<lambda>q args d. (Inr [], d),
     db_Get_int = \<lambda>q args d.
       (Inr (case map_of (ref_processes d) (hd args) of Some n \<Rightarrow> n | None \<Rightarrow> 0), d),
     db_Get_string = \<lambda>q d. (case ref_version d of
         Some v \<Rightarrow> (Inr v, d)
       | None \<Rightarrow> (Inl (MySQLError 1146 ''Table 'alembic_version' doesn't exist''), d)),
     db_Get_float = \<lambda>q d. (Inr (FloatBits 0), d),
     db_SliceScan = \<lambda>q args d. (Some ErrNoRows, d),
     db_Rebind = \<lambda>q. q,
     sqlx_In = \<lambda>q args. Inr (q, concat (map (\<lambda>a. case a of Scalar x \<Rightarrow> [x] | Slice xs \<Rightarrow> xs) args)),
     db_Close = \<lambda>d. (Inr (), d),
     math_rand_Read = \<lambda>n d. (ref_block (ref_draws d), d\<lparr>ref_draws := Suc (ref_draws d)\<rparr>)\<rparr>"

definition ref_view :: "refdb server" where
  "ref_view = \<lparr>
     accounts = \<lambda>d. set (ref_accounts d),
     processes = \<lambda>d u. (case map_of (ref_processes d) u of Some n \<Rightarrow> n | None \<Rightarrow> 0),
     var = ref_var, stmt = ref_stmt, draws = ref_draws, block = ref_block,
     QUOTE = ref_quote, effect = ref_effect\<rparr>"

section \<open>It satisfies the hypotheses\<close>

lemma ident_split:
  assumes "ident v" and "\<not> id_char c"
  shows "takeWhile id_char (v @ c # r) = v" "dropWhile id_char (v @ c # r) = c # r"
  using assms by (auto simp: ident_def id_char_def takeWhile_append dropWhile_append)

lemma not_id_char [simp]:
  "\<not> id_char (CHR '' '')" "\<not> id_char (CHR '')'')" "\<not> id_char (CHR '','')"
  by (simp_all add: id_char_def ident_chars_def)

lemma eval_literal_plain:
  "plain_literal l \<Longrightarrow> eval_literal env (l @ s) = map_option ((@) l) (eval_literal env s)"
proof (induction l)
  case Nil
  then show ?case by (cases "eval_literal env s") simp_all
next
  case (Cons a l)
  then have "a \<noteq> CHR 0x22" by (auto simp: plain_literal_def)
  then have "eval_literal env (a # l @ s) = map_option (Cons a) (eval_literal env (l @ s))" by simp
  with Cons show ?case by (simp add: plain_literal_def option.map_comp comp_def del: eval_literal.simps)
qed

lemma eval_literal_args:
  assumes "list_all plain_literal lits" and "length lits = Suc (length es)"
    and "list_all (\<lambda>e. ident (expr_var e)) es" and "list_all (\<lambda>e. eval ref_quote env e \<noteq> None) es"
  shows "eval_literal env (interleave lits (map (\<lambda>e. ''\", '' @ render e @ '', \"'') es) @ ''\")'') =
    Some (interleave lits (map (\<lambda>e. the (eval ref_quote env e)) es))"
  using assms
proof (induction es arbitrary: lits)
  case Nil
  then obtain l where "lits = [l]" "plain_literal l" by (cases lits) auto
  then show ?case by (simp add: eval_literal_plain strip_def)
next
  case (Cons e es)
  then obtain l ls where lits: "lits = l # ls" "plain_literal l" "list_all plain_literal ls"
    "length ls = Suc (length es)" by (cases lits) auto
  from Cons lits have IH: "eval_literal env
      (interleave ls (map (\<lambda>e. ''\", '' @ render e @ '', \"'') es) @ ''\")'') =
      Some (interleave ls (map (\<lambda>e. the (eval ref_quote env e)) es))" by simp
  from Cons.prems have e: "ident (expr_var e)" "eval ref_quote env e \<noteq> None" by simp_all
  show ?case
  proof (cases e)
    case (QuoteVar v)
    with e IH lits show ?thesis
      by (auto simp: eval_literal_plain strip_def ident_split)
  next
    case (PlainVar v)
    with e IH lits show ?thesis
      by (auto simp: eval_literal_plain strip_def ident_split)
  qed
qed

lemma ref_view_simps [simp]:
  "accounts ref_view d = set (ref_accounts d)" "var ref_view = ref_var" "stmt ref_view = ref_stmt"
  "draws ref_view = ref_draws" "block ref_view = ref_block" "QUOTE ref_view = ref_quote"
  "effect ref_view = ref_effect" "ref_accounts (ref_set t v x d) = ref_accounts d"
  "ref_draws (ref_set t v x d) = ref_draws d"
  by (simp_all add: ref_view_def ref_set_def)

lemma ref_tx_law: "tx_law ref_handle ref_view"
proof -
  have "(of_nat i :: 8 word) \<noteq> of_nat (Suc i)" for i by simp
  then show ?thesis
    by (auto simp: tx_law_def ref_handle_def quiet_def ref_block_def)
qed

lemma ref_set_law: "set_law ref_handle ref_view"
  by (auto simp: set_law_def ref_handle_def ref_Exec_def strip_def ident_split Let_def quiet_def ref_set_def)

lemma ref_Exec_concat:
  "ident v \<Longrightarrow> eval_literal (ref_var d t) l = Some x \<Longrightarrow>
   ref_Exec t (''SET @'' @ v @ '' := CONCAT(\"'' @ l) [] d = (Inr (), ref_set t v x d)"
  by (simp add: ref_Exec_def strip_def ident_split Let_def)

lemma ref_concat_law: "concat_law ref_handle ref_view"
  unfolding concat_law_def
proof (intro allI impI, goal_cases)
  case (1 t v lits es d r d')
  have q: "''SET @'' @ v @ '' := CONCAT('' @ concat_args lits es @ '')'' =
      ''SET @'' @ v @ '' := CONCAT(\"'' @
        interleave lits (map (\<lambda>e. ''\", '' @ render e @ '', \"'') es) @ ''\")''"
    by (simp add: concat_args_def)
  have "ref_Exec t (''SET @'' @ v @ '' := CONCAT(\"'' @
        interleave lits (map (\<lambda>e. ''\", '' @ render e @ '', \"'') es) @ ''\")'') [] d =
      (Inr (), ref_set t v (interleave lits (map (\<lambda>e. the (eval ref_quote (ref_var d t) e)) es)) d)"
    by (rule ref_Exec_concat [OF 1(1) eval_literal_args]) (use 1(2-5) in simp_all)
  with 1(6) have "(r, d') =
      (Inr (), ref_set t v (interleave lits (map (\<lambda>e. the (eval ref_quote (ref_var d t) e)) es)) d)"
    unfolding q by (simp add: ref_handle_def)
  then show ?case by (simp add: quiet_def ref_set_def)
qed

lemma ref_prepare_law: "prepare_law ref_handle ref_view"
  by (auto simp: prepare_law_def ref_handle_def ref_Exec_def strip_def ident_split Let_def quiet_def)

lemma ref_execute_law: "execute_law ref_handle ref_view"
  by (auto simp: execute_law_def ref_handle_def ref_Exec_def strip_def set_ref_run)

lemma ref_effects:
  "ref_effect (''CREATE USER '' @ ref_quote u @ rest) A = insert (u, ''%'') A"
  "ref_effect (''DROP USER '' @ ref_quote u) A = A - {(u, ''%'')}"
  "ref_effect (''GRANT '' @ rest) A = A"
  using scan_quote [of u "[]"]
  by (simp_all add: ref_effect_def strip_def scan_quote)

lemma ref_account_laws: "account_laws ref_view"
proof -
  have "ref_effect (''GRANT SELECT, INSERT, UPDATE, DELETE ON '' @ rest) A = A" for rest A
    using ref_effects(3) [of "''SELECT, INSERT, UPDATE, DELETE ON '' @ rest"] by simp
  with ref_effects(1,2) show ?thesis
    by (simp only: account_laws_def ref_view_simps append_assoc) auto
qed

lemma ref_mysql_server: "mysql_server ref_handle ref_view"
proof -
  have "list_law ref_handle ref_view"
    by (force simp: list_law_def ref_handle_def quiet_def image_iff)
  moreover have "count_law ref_handle ref_view"
    by (auto simp: count_law_def ref_handle_def ref_view_def quiet_def)
  moreover have "query_law ref_handle ref_view"
    by (simp add: query_law_def ref_handle_def split: option.splits)
  ultimately show ?thesis
    by (simp add: mysql_server_def session_laws_def ref_tx_law ref_set_law ref_concat_law
        ref_prepare_law ref_execute_law ref_account_laws)
qed

end
