(* ===== verification/MySQLOperator.thy ===== *)
theory MySQLOperator
  imports Progress SqlReference
begin

text \<open>
  The operator on MySQL: the administration interface of \<^verbatim>\<open>mysqladmin\<close> keeps the full contract
  \<open>operator_db\<close> the handlers rely on, and the connections the controller opens through
  \<^verbatim>\<open>dbadmin.Open\<close> are such interfaces.
\<close>

section \<open>The remaining methods leave the accounts alone\<close>

definition mysql_framed :: "'d MySQLDbAdmin \<Rightarrow> 'd server \<Rightarrow> 'd \<Rightarrow> 'd \<Rightarrow> bool" where
  "mysql_framed mdba V d d' \<longleftrightarrow> mysql_ok mdba V d' \<and> mysql_users V d' = mysql_users V d"

lemma mysql_framedI: "mysql_ok mdba V d \<Longrightarrow> accounts V d' = accounts V d \<Longrightarrow> mysql_framed mdba V d d'"
  by (simp add: mysql_framed_def mysql_ok_def mysql_users_def)

lemma mysql_framed_cong: "mysql_framed mdba V d d' \<Longrightarrow> mysql_framed mdba V d' = mysql_framed mdba V d"
  by (simp add: mysql_framed_def fun_eq_iff)

lemma mysql_framed_ok: "mysql_framed mdba V d d' \<Longrightarrow> mysql_ok mdba V d'"
  by (simp add: mysql_framed_def)

lemma mysql_query:
  assumes "mysql_ok mdba V d"
  shows "accounts V (snd (db_Get_string (handle mdba) q d)) = accounts V d"
    and "accounts V (snd (db_Select_tables (handle mdba) q as d)) = accounts V d"
    and "accounts V (snd (db_Select_fields (handle mdba) q as d)) = accounts V d"
    and "accounts V (snd (db_Select_indexes (handle mdba) q as d)) = accounts V d"
    and "accounts V (snd (db_SliceScan (handle mdba) q as d)) = accounts V d"
    and "accounts V (snd (db_Close (handle mdba) d)) = accounts V d"
  using assms by (simp_all add: mysql_ok_def mysql_server_def query_law_def)

lemma mysql_Version_frame:
  assumes "mysql_ok mdba V d"
  shows "wp (mysql_GetSchemaVersion mdba) (\<lambda>_. mysql_framed mdba V d) d"
proof -
  obtain eng where eng: "engine mdba = Some eng" using assms by (auto simp: mysql_ok_def)
  obtain r d' where run: "db_Get_string (handle mdba) (GetVersionQuery eng) d = (r, d')" by force
  then have "mysql_framed mdba V d d'"
    using mysql_query(1) [OF assms, of "GetVersionQuery eng"] by (intro mysql_framedI assms) simp
  with eng run show ?thesis
    by (auto simp: mysql_GetSchemaVersion_def wp_simps split: sum.splits go_error.splits)
qed

lemma mysql_Sizes_frame:
  assumes "mysql_ok mdba V d"
  shows "wp (mysql_GetTableSizeEstimates mdba ts) (\<lambda>_. mysql_framed mdba V d) d"
proof -
  have "mysql_framed mdba V d d'" if "db_Select_tables (handle mdba) q as d = (r, d')" for q as r d'
    using mysql_query(2) [OF assms, of q as] that by (intro mysql_framedI assms) simp
  moreover have "mysql_framed mdba V d d" by (rule mysql_framedI [OF assms refl])
  ultimately show ?thesis
    by (auto simp: mysql_GetTableSizeEstimates_def Let_def wp_simps split: sum.splits prod.splits)
qed

lemma row_exists_frame:
  assumes "mysql_ok mdba V d"
  shows "wp (row_exists mdba q as) (\<lambda>_. mysql_framed mdba V d) d"
proof -
  have "mysql_framed mdba V d d'" if "db_SliceScan (handle mdba) q as d = (r, d')" for r d'
    using mysql_query(5) [OF assms, of q as] that by (intro mysql_framedI assms) simp
  then show ?thesis by (auto simp: row_exists_def wp_simps split: prod.splits option.splits)
qed

lemma notNullWillFail_frame:
  "mysql_ok mdba V d \<Longrightarrow> wp (notNullWillFail mdba t nullable cs) (\<lambda>_. mysql_framed mdba V d) d"
proof (induction cs arbitrary: d)
  case Nil
  then show ?case by (simp add: wp_simps mysql_framedI)
next
  case (Cons c cs)
  have rest: "wp (notNullWillFail mdba t nullable cs) (\<lambda>_. mysql_framed mdba V d) d'"
    if "mysql_framed mdba V d d'" for d'
    using Cons.IH [OF mysql_framed_ok [OF that]] unfolding mysql_framed_cong [OF that] .
  have "mysql_framed mdba V d d" by (rule mysql_framedI [OF Cons.prems refl])
  with Cons.prems show ?case
    by (auto simp: wp_simps rest split: option.splits sum.splits
        intro!: wpp_mono [OF row_exists_frame [OF Cons.prems]])
qed

lemma mysql_Constraint_frame:
  assumes "mysql_ok mdba V d"
  shows "wp (mysql_ConstraintWillFail mdba t k cs) (\<lambda>_. mysql_framed mdba V d) d"
proof -
  have fields: "mysql_framed mdba V d d'" if "db_Select_fields (handle mdba) q as d = (r, d')" for q as r d'
    using mysql_query(3) [OF assms, of q as] that by (intro mysql_framedI assms) simp
  have indexes: "mysql_framed mdba V d d'" if "db_Select_indexes (handle mdba) q as d = (r, d')" for q as r d'
    using mysql_query(4) [OF assms, of q as] that by (intro mysql_framedI assms) simp
  have later: "wp (notNullWillFail mdba t nullable cs) (\<lambda>_. mysql_framed mdba V d) d'"
    "wp (row_exists mdba q as) (\<lambda>_. mysql_framed mdba V d) d'" if "mysql_framed mdba V d d'" for d' nullable q as
    using notNullWillFail_frame [OF mysql_framed_ok [OF that]] row_exists_frame [OF mysql_framed_ok [OF that]]
    unfolding mysql_framed_cong [OF that] by blast+
  have "mysql_framed mdba V d d" by (rule mysql_framedI [OF assms refl])
  then show ?thesis
    by (auto simp: mysql_ConstraintWillFail_def wp_simps later fields indexes
        split: sum.splits prod.splits)
qed

lemma mysql_Close_frame:
  assumes "mysql_ok mdba V d"
  shows "wp (mysql_Close mdba) (\<lambda>_. mysql_framed mdba V d) d"
proof -
  obtain r d' where run: "db_Close (handle mdba) d = (r, d')" by force
  then have "mysql_framed mdba V d d'"
    using mysql_query(6) [OF assms] by (intro mysql_framedI [OF assms]) simp
  with run show ?thesis by (simp add: mysql_Close_def wp_simps)
qed

interpretation mysql_db: operator_db "mysql_DbAdmin mdba" "mysql_users V" "processes V"
    mysql_listed "mysql_ok mdba V"
  for mdba :: "'d MySQLDbAdmin" and V :: "'d server"
  by unfold_locales
     (simp_all add: mysql_DbAdmin_def mysql_framed_def [symmetric] mysql_Version_frame
       mysql_Sizes_frame mysql_Constraint_frame mysql_Close_frame)

section \<open>Connections\<close>

text \<open>
  Where a DSN leads: the URL library finds the database name \<open>dbName\<close> in it, and opening it gives the
  handle \<open>h\<close> or an error, without touching accounts.
\<close>

definition dials :: "('d, 'd sqlDB) dburl \<Rightarrow> string \<Rightarrow> 'd sqlDB \<Rightarrow> string \<Rightarrow> 'd server \<Rightarrow> bool" where
  "dials lib dsn h dbName V \<longleftrightarrow>
     (\<forall>p. dburl_Parse lib dsn = Inr p \<longrightarrow> drop 1 (url_Path p) = dbName) \<and>
     (\<forall>d. accounts V (snd (dburl_Open lib dsn d)) = accounts V d) \<and>
     (\<forall>d h'. fst (dburl_Open lib dsn d) = Inr h' \<longrightarrow> h' = h)"

definition alembic_admin :: "'d sqlDB \<Rightarrow> string \<Rightarrow> 'd MySQLDbAdmin" where
  "alembic_admin h dbName =
     \<lparr>handle = h, database = dbName, engine = Some alembic_CreateMigrationEngine\<rparr>"

text \<open>Without a migration engine the interface panics when it is asked for the schema version.\<close>

lemma mysql_unusable:
  "unusable (mysql_ok (alembic_admin h dbName) V) (mysql_users V)
     (mysql_DbAdmin ((alembic_admin h dbName)\<lparr>engine := None\<rparr>))"
proof -
  have "wp (mysql_Close ((alembic_admin h dbName)\<lparr>engine := None\<rparr>)) (\<lambda>_. mysql_framed (alembic_admin h dbName) V d) d"
    if "mysql_ok (alembic_admin h dbName) V d" for d
    using mysql_Close_frame [OF that] by (simp add: mysql_Close_def)
  then show ?thesis
    unfolding mysql_framed_def
    by (simp add: unusable_def mysql_DbAdmin_def mysql_GetSchemaVersion_def go_bind_def go_deref_def go_panic_def)
qed

text \<open>What \<^verbatim>\<open>dbInitializer\<close> opens for such a DSN, for any migration engine.\<close>

lemma dbInitializer_opens:
  assumes "dials lib dsn h dbName V" and ok: "mysql_ok (alembic_admin h dbName) V d"
  shows "wp (dbInitializer lib (mysql_init Map.empty) dsn eng) (\<lambda>r d'.
    mysql_framed (alembic_admin h dbName) V d d' \<and> (\<forall>a. r = Inr a \<longrightarrow> a = mysql_DbAdmin (if eng = ''alembic''
      then alembic_admin h dbName else (alembic_admin h dbName)\<lparr>engine := None\<rparr>))) d"
proof (cases "dburl_Parse lib dsn")
  case (Inl e)
  with mysql_framedI [OF ok refl] show ?thesis
    by (simp add: dbInitializer_def Open_def wp_simps)
next
  case (Inr p)
  obtain r d' where run: "dburl_Open lib dsn d = (r, d')" by force
  from assms(1) Inr have path: "drop 1 (url_Path p) = dbName"
    and acc: "accounts V (snd (dburl_Open lib dsn d)) = accounts V d"
    and handle: "\<And>h'. fst (dburl_Open lib dsn d) = Inr h' \<Longrightarrow> h' = h" by (simp_all add: dials_def)
  have framed: "mysql_framed (alembic_admin h dbName) V d d'"
    by (rule mysql_framedI [OF ok]) (use acc run in simp)
  have here: "mysql_framed (alembic_admin h dbName) V d d" by (rule mysql_framedI [OF ok refl])
  show ?thesis
  proof (cases r)
    case (Inl e)
    with Inr run framed here show ?thesis by (simp add: dbInitializer_def Open_def wp_simps)
  next
    case h': (Inr h')
    with handle run have "h' = h" by simp
    with Inr run framed here path h' show ?thesis
      by (simp add: dbInitializer_def Open_def wp_simps mysql_init_def Register_def
          CreateMySQLAdmin_def alembic_admin_def split: option.splits)
  qed
qed

lemma mysql_connected:
  assumes "dials lib dsn h dbName V" and "b \<or> eng = ''alembic''"
    and "initializeAdminConnection c = dbInitializer lib (mysql_init Map.empty)"
  shows "connected b (mysql_ok (alembic_admin h dbName) V) (mysql_users V)
    (mysql_DbAdmin (alembic_admin h dbName)) c dsn eng"
  unfolding connected_def assms(3)
proof (intro allI impI)
  fix d
  assume ok: "mysql_ok (alembic_admin h dbName) V d"
  show "wp (dbInitializer lib (mysql_init Map.empty) dsn eng) (\<lambda>r d'. mysql_ok (alembic_admin h dbName) V d' \<and>
      mysql_users V d' = mysql_users V d \<and> (\<forall>a. r = Inr a \<longrightarrow> a = mysql_DbAdmin (alembic_admin h dbName) \<or>
        b \<and> unusable (mysql_ok (alembic_admin h dbName) V) (mysql_users V) a)) d"
    by (rule wpp_mono [OF dbInitializer_opens [OF assms(1) ok]])
       (use assms(2) mysql_unusable [of h dbName V] in \<open>auto simp: mysql_framed_def\<close>)
qed

end
