(* ===== verification/Startup.thy ===== *)
theory Startup
  imports Reconcile MySQLAdmin
begin

text \<open>
  The start of the process: the controller's static metrics (\<^verbatim>\<open>metrics.go\<close>), \<^verbatim>\<open>SetupWithManager\<close> and
  \<^verbatim>\<open>main.go\<close>, with the parsing of command line flags (package \<^verbatim>\<open>flag\<close> of the standard library, as of the
  Go version of \<^verbatim>\<open>go.mod\<close>). The manager, the registry and the Kubernetes configuration are parameters;
  leaving the process with \<^verbatim>\<open>os.Exit\<close> is a returned exit code.
\<close>

section \<open>Static metrics\<close>

datatype staticMetric = NewCounter string | NewGauge string

record ManagedDatabaseControllerMetrics =
  sm_MigrationJobsSpawned :: staticMetric
  sm_CredentialsCreated :: staticMetric
  sm_CredentialsRevoked :: staticMetric
  sm_RegisteredMigrations :: staticMetric
  sm_ManagedDatabases :: staticMetric

definition generateManagedDatabaseControllerMetrics :: ManagedDatabaseControllerMetrics where
  "generateManagedDatabaseControllerMetrics = \<lparr>
     sm_MigrationJobsSpawned = NewCounter ''dba_operator_migration_jobs_spawned_total'',
     sm_CredentialsCreated = NewCounter ''dba_operator_credentials_created_total'',
     sm_CredentialsRevoked = NewCounter ''dba_operator_credentials_revoked_total'',
     sm_RegisteredMigrations = NewGauge ''dba_operator_registered_migrations_total'',
     sm_ManagedDatabases = NewGauge ''dba_operator_managed_databases_total''\<rparr>"

text \<open>The reflection runs over the fields in the order of their declaration.\<close>

definition getAllMetrics :: "ManagedDatabaseControllerMetrics \<Rightarrow> staticMetric list" where
  "getAllMetrics m = [sm_MigrationJobsSpawned m, sm_CredentialsCreated m, sm_CredentialsRevoked m,
     sm_RegisteredMigrations m, sm_ManagedDatabases m]"

section \<open>Binding the controller to a manager\<close>

text \<open>What a controller built with \<^verbatim>\<open>NewControllerManagedBy\<close> watches, and what it calls.\<close>

record ('k, 'd, 'h) watch =
  watch_For :: string
  watch_Owns :: "string list"
  watch_Reconciler :: "NamespacedName \<Rightarrow> ('k, 'd, 'h) handler"

record ('k, 'd, 'h, 'p) manager =
  GetClient :: "'k Client"
  Register_static :: "staticMetric \<Rightarrow> ('p, go_error + unit) call"
  Complete :: "('k, 'd, 'h) watch \<Rightarrow> ('p, go_error + unit) call"
  Start :: "('p, go_error + unit) call"

definition database_watch :: "('k, 'd, 'h) Controller \<Rightarrow> ('k, 'd, 'h) watch" where
  "database_watch c = \<lparr>watch_For = ''ManagedDatabase'', watch_Owns = [''Job'', ''Secret''],
     watch_Reconciler = ReconcileManagedDatabase c\<rparr>"

definition migration_watch :: "('k, 'd, 'h) Controller \<Rightarrow> ('k, 'd, 'h) watch" where
  "migration_watch c = \<lparr>watch_For = ''DatabaseMigration'', watch_Owns = [],
     watch_Reconciler = ReconcileDatabaseMigration c\<rparr>"

definition registerMetrics ::
  "('k, 'd, 'h, 'p) manager \<Rightarrow> ManagedDatabaseControllerMetrics \<Rightarrow> ('p, go_error + unit) go" where
  "registerMetrics mgr metrics = go_for (getAllMetrics metrics) (\<lambda>collector.
     go_check (go_call (Register_static mgr collector))
       (\<lambda>err. go_return (Inl (Errorf_w ''Unable to registry metrics for operator: %w'' [] err)))
       (\<lambda>_. go_return (Inr ())))"

definition SetupWithManager ::
  "('k, 'd, 'h) Controller \<Rightarrow> ManagedDatabaseControllerMetrics \<Rightarrow> ('k, 'd, 'h, 'p) manager
   \<Rightarrow> ('p, go_error + unit) go" where
  "SetupWithManager c metrics mgr =
     go_check (registerMetrics mgr metrics) (\<lambda>err. go_return (Inl err)) (\<lambda>_.
     go_check (go_call (Complete mgr (database_watch c)))
       (\<lambda>err. go_return (Inl (Errorf_w ''Unable to finish operator setup: %w'' [] err))) (\<lambda>_.
     go_call (Complete mgr (migration_watch c))))"

section \<open>Command line flags\<close>

datatype flag_kind = BoolFlag | StringFlag

type_synonym flag_set = "string \<rightharpoonup> flag_kind"

datatype flag_error = NotDefined string | BadSyntax string | InvalidValue string | NeedsArgument string | ErrHelp

text \<open>\<^verbatim>\<open>strconv.ParseBool\<close>.\<close>

definition ParseBool :: "string \<Rightarrow> bool option" where
  "ParseBool v =
     (if v \<in> {''1'', ''t'', ''T'', ''TRUE'', ''true'', ''True''} then Some True
      else if v \<in> {''0'', ''f'', ''F'', ''FALSE'', ''false'', ''False''} then Some False else None)"

text \<open>How one argument is read: not a flag, the end of the flags, or a name with perhaps a value.\<close>

datatype flag_token = NoFlag | EndOfFlags | BadFlag | Flag string "string option"

definition split_value :: "string \<Rightarrow> string \<times> string option" where
  "split_value s = (let name = takeWhile (\<lambda>c. c \<noteq> CHR ''='') s in
     (name, case drop (length name) s of [] \<Rightarrow> None | _ # v \<Rightarrow> Some v))"

definition flag_name :: "string \<Rightarrow> flag_token" where
  "flag_name name = (case name of
       [] \<Rightarrow> BadFlag
     | c # _ \<Rightarrow> if c = CHR ''-'' \<or> c = CHR ''='' then BadFlag else (case split_value name of (n, v) \<Rightarrow> Flag n v))"

fun read_flag :: "string \<Rightarrow> flag_token" where
  "read_flag (m # c # s) = (if m \<noteq> CHR ''-'' then NoFlag
     else if c = CHR ''-'' then (if s = [] then EndOfFlags else flag_name s)
     else flag_name (c # s))"
| "read_flag _ = NoFlag"

text \<open>
  \<^verbatim>\<open>parseOne\<close> takes one flag off the arguments, with the value it is set to; without a flag in front it
  only returns the arguments left. \<^verbatim>\<open>Parse\<close> repeats it.
\<close>

definition parseValue :: "flag_kind \<Rightarrow> string \<Rightarrow> string option \<Rightarrow> string list \<Rightarrow> flag_error + string \<times> string list" where
  "parseValue kind name value args = (case kind of
       BoolFlag \<Rightarrow> (case value of
           None \<Rightarrow> Inr (''true'', args)
         | Some v \<Rightarrow> if ParseBool v = None then Inl (InvalidValue name) else Inr (v, args))
     | StringFlag \<Rightarrow> (case value of
           Some v \<Rightarrow> Inr (v, args)
         | None \<Rightarrow> (case args of [] \<Rightarrow> Inl (NeedsArgument name) | v # rest \<Rightarrow> Inr (v, rest))))"

fun parseOne :: "flag_set \<Rightarrow> string list \<Rightarrow> flag_error + (string \<times> string) option \<times> string list" where
  "parseOne defs [] = Inr (None, [])"
| "parseOne defs (s # args) = (case read_flag s of
       NoFlag \<Rightarrow> Inr (None, s # args)
     | EndOfFlags \<Rightarrow> Inr (None, args)
     | BadFlag \<Rightarrow> Inl (BadSyntax s)
     | Flag name value \<Rightarrow> (case defs name of
           None \<Rightarrow> Inl (if name = ''help'' \<or> name = ''h'' then ErrHelp else NotDefined name)
         | Some kind \<Rightarrow> (case parseValue kind name value args of
               Inl e \<Rightarrow> Inl e | Inr (v, rest) \<Rightarrow> Inr (Some (name, v), rest))))"

lemma parseOne_shorter: "parseOne defs args = Inr (Some f, rest) \<Longrightarrow> length rest < length args"
  by (cases args) (auto simp: parseValue_def split: flag_token.splits option.splits sum.splits
      flag_kind.splits list.splits if_splits)

function flag_Parse :: "flag_set \<Rightarrow> (string \<rightharpoonup> string) \<Rightarrow> string list \<Rightarrow> flag_error + (string \<rightharpoonup> string) \<times> string list" where
  "flag_Parse defs vals args = (case parseOne defs args of
       Inl e \<Rightarrow> Inl e
     | Inr (None, rest) \<Rightarrow> Inr (vals, rest)
     | Inr (Some (name, v), rest) \<Rightarrow> flag_Parse defs (vals(name \<mapsto> v)) rest)"
  by auto
termination
  by (relation "measure (\<lambda>(defs, vals, args). length args)") (auto dest: parseOne_shorter)

declare flag_Parse.simps [simp del]

section \<open>main\<close>

record ManagerOptions =
  MetricsBindAddress :: string
  LeaderElection :: bool

text \<open>
  What the process finds around it: the flags that imported packages have defined, the Kubernetes
  configuration, the constructor of a manager, and what the controller needs of the libraries.
\<close>

record ('k, 'd, 'h, 'p) process =
  imported_flags :: flag_set
  GetConfig :: "('p, go_error + unit) call"
  NewManager :: "ManagerOptions \<Rightarrow> ('p, go_error + ('k, 'd, 'h, 'p) manager) call"
  prom_Register :: "'d databaseMetricsCollector \<Rightarrow> ('h, go_error + unit) call"
  prom_Unregister :: "'d databaseMetricsCollector \<Rightarrow> ('h, bool) call"
  sys_rand_Read :: "nat \<Rightarrow> ('h, go_error + 8 word list) call"
  map_order :: "string list \<Rightarrow> string list"
  to_lower_camel :: "string \<Rightarrow> string"
  dburl_lib :: "('d, 'd sqlDB) dburl"

text \<open>The rest of \<^verbatim>\<open>main\<close> once the flags are read; \<open>Some n\<close> is \<^verbatim>\<open>os.Exit(n)\<close>.\<close>

definition runManager :: "('k, 'd, 'h, 'p) process \<Rightarrow> ManagerOptions \<Rightarrow> ('p, nat option) go" where
  "runManager env opts =
     go_check (go_call (GetConfig env)) (\<lambda>_. go_return (Some 1)) (\<lambda>_.
     go_check (go_call (NewManager env opts)) (\<lambda>_. go_return (Some 1)) (\<lambda>mgr.
     let controller = NewManagedDatabaseController (GetClient mgr) (prom_Register env) (prom_Unregister env)
           (sys_rand_Read env) (map_order env) (to_lower_camel env) (dburl_lib env) (mysql_init Map.empty)
     in go_check (SetupWithManager controller generateManagedDatabaseControllerMetrics mgr)
          (\<lambda>_. go_return (Some 1)) (\<lambda>_.
     go_check (go_call (Start mgr)) (\<lambda>_. go_return (Some 1)) (\<lambda>_. go_return None))))"

text \<open>
  The first \<^verbatim>\<open>flag.Parse()\<close> comes before the two flags are defined. An error of \<^verbatim>\<open>flag.Parse\<close> ends the
  process with code 2; defining a flag that an imported package has defined already panics.
\<close>

definition own_flags :: flag_set where
  "own_flags = [''metrics-addr'' \<mapsto> StringFlag, ''enable-leader-election'' \<mapsto> BoolFlag]"

definition parsed_options :: "(string \<rightharpoonup> string) \<Rightarrow> ManagerOptions" where
  "parsed_options vals = \<lparr>
     MetricsBindAddress = (case vals ''metrics-addr'' of Some v \<Rightarrow> v | None \<Rightarrow> '':8080''),
     LeaderElection = (case vals ''enable-leader-election'' of Some v \<Rightarrow> ParseBool v = Some True | None \<Rightarrow> False)\<rparr>"

definition main :: "('k, 'd, 'h, 'p) process \<Rightarrow> string list \<Rightarrow> ('p, nat option) go" where
  "main env args = (case flag_Parse (imported_flags env) Map.empty args of
       Inl _ \<Rightarrow> go_return (Some 2)
     | Inr _ \<Rightarrow>
         if dom own_flags \<inter> dom (imported_flags env) \<noteq> {} then go_panic ''flag redefined''
         else (case flag_Parse (imported_flags env ++ own_flags) Map.empty args of
             Inl _ \<Rightarrow> go_return (Some 2)
           | Inr (vals, rest) \<Rightarrow> runManager env (parsed_options vals)))"

section \<open>The flags have no effect\<close>

text \<open>Parsing with more flags defined gives the same, when it succeeded before, and sets only defined flags.\<close>

lemma parseOne_more: "parseOne defs args = Inr r \<Longrightarrow> defs \<subseteq>\<^sub>m defs' \<Longrightarrow> parseOne defs' args = Inr r"
  by (cases args) (force simp: map_le_def dom_def split: flag_token.splits option.splits)+

lemma parseOne_defined: "parseOne defs args = Inr (Some (name, v), rest) \<Longrightarrow> name \<in> dom defs"
  by (cases args) (auto split: flag_token.splits option.splits sum.splits)

lemma flag_Parse_more:
  assumes "flag_Parse defs vals args = Inr (vals', rest)" and "defs \<subseteq>\<^sub>m defs'"
  shows "flag_Parse defs' vals args = Inr (vals', rest) \<and> dom vals' \<subseteq> dom vals \<union> dom defs"
  using assms
proof (induction defs vals args rule: flag_Parse.induct)
  case (1 defs vals args)
  then obtain r where one: "parseOne defs args = Inr r"
    by (cases "parseOne defs args") (simp_all add: flag_Parse.simps)
  note one' = parseOne_more [OF this 1(3)]
  show ?case
  proof (cases r)
    case (Pair f left)
    show ?thesis
    proof (cases f)
      case None
      with 1(2) Pair one one' show ?thesis by (simp add: flag_Parse.simps)
    next
      case (Some nv)
      obtain name v where nv: "nv = (name, v)" by force
      have "flag_Parse defs (vals(name \<mapsto> v)) left = Inr (vals', rest)"
        using 1(2) Pair Some nv one by (simp add: flag_Parse.simps [of defs vals])
      from 1(1) [OF one Pair [symmetric] Some nv [symmetric] this 1(3)]
      have "flag_Parse defs' (vals(name \<mapsto> v)) left = Inr (vals', rest)"
        and "dom vals' \<subseteq> dom (vals(name \<mapsto> v)) \<union> dom defs" by blast+
      moreover have "name \<in> dom defs" using parseOne_defined [of defs args name v left] Pair Some nv one by simp
      ultimately show ?thesis using Pair Some nv one'
        by (simp add: flag_Parse.simps [of defs' vals]) blast
    qed
  qed
qed

text \<open>
  The process either ends with code 2, or it runs with the default options: no argument list sets
  them.
\<close>

lemma main_defaults:
  assumes "dom own_flags \<inter> dom (imported_flags env) = {}"
  shows "main env args = go_return (Some 2) \<or>
    main env args = runManager env \<lparr>MetricsBindAddress = '':8080'', LeaderElection = False\<rparr>"
proof (cases "flag_Parse (imported_flags env) Map.empty args")
  case (Inr r)
  obtain vals rest where r: "r = (vals, rest)" by force
  have "imported_flags env \<subseteq>\<^sub>m imported_flags env ++ own_flags"
    using assms by (simp add: map_le_iff_map_add_commute map_add_comm Int_commute)
  from flag_Parse_more [OF Inr [unfolded r] this]
  have second: "flag_Parse (imported_flags env ++ own_flags) Map.empty args = Inr (vals, rest)"
    and set: "dom vals \<subseteq> dom (imported_flags env)" by simp_all
  have "vals n = None" if "n \<in> dom own_flags" for n using that set assms by blast
  then have "vals ''metrics-addr'' = None" and "vals ''enable-leader-election'' = None"
    by (simp_all add: own_flags_def)
  with Inr second assms show ?thesis by (simp add: main_def parsed_options_def)
qed (simp add: main_def)

text \<open>An argument list that starts with one of the two flags ends the process, whatever follows.\<close>

lemma main_refuses:
  assumes "read_flag s = Flag name v" and "name \<in> dom own_flags"
    and "dom own_flags \<inter> dom (imported_flags env) = {}"
  shows "main env (s # args) = go_return (Some 2)"
proof -
  from assms(2,3) have "imported_flags env name = None" by blast
  with assms(1) show ?thesis by (simp add: main_def flag_Parse.simps)
qed

text \<open>
  So does every argument list which would set one of the two flags if they had been defined before, wherever
  the flag stands.
\<close>

lemma main_refuses_set:
  assumes "dom own_flags \<inter> dom (imported_flags env) = {}"
    and "flag_Parse (imported_flags env ++ own_flags) Map.empty args = Inr (vals, rest)"
    and "n \<in> dom own_flags" and "vals n \<noteq> None"
  shows "main env args = go_return (Some 2)"
proof (cases "flag_Parse (imported_flags env) Map.empty args")
  case (Inr r)
  obtain vals' rest' where r: "r = (vals', rest')" by force
  have "imported_flags env \<subseteq>\<^sub>m imported_flags env ++ own_flags"
    using assms(1) by (simp add: map_le_iff_map_add_commute map_add_comm Int_commute)
  from flag_Parse_more [OF Inr [unfolded r] this] assms(2)
  have "dom vals \<subseteq> dom (imported_flags env)" by simp
  with assms(1,3,4) show ?thesis by blast
qed (simp add: main_def)

section \<open>What a successful setup has done\<close>

primrec all_succeed :: "('p, go_error + unit) call list \<Rightarrow> 'p \<Rightarrow> 'p \<Rightarrow> bool" where
  "all_succeed [] p p' \<longleftrightarrow> p' = p"
| "all_succeed (f # fs) p p' \<longleftrightarrow> (case f p of (Inl _, _) \<Rightarrow> False | (Inr _, q) \<Rightarrow> all_succeed fs q p')"

lemma all_succeed_Cons: "all_succeed (f # fs) p p' \<longleftrightarrow> (\<exists>q. f p = (Inr (), q) \<and> all_succeed fs q p')"
  by (auto split: prod.splits sum.splits)

declare all_succeed.simps(2) [simp del]

lemma all_succeed_append: "all_succeed (fs @ gs) p p' \<longleftrightarrow> (\<exists>q. all_succeed fs p q \<and> all_succeed gs q p')"
  by (induction fs arbitrary: p) (auto simp: all_succeed_Cons)

lemma go_for_calls:
  "go_for xs (\<lambda>x. go_check (go_call (f x)) (\<lambda>err. go_return (Inl (g err))) (\<lambda>_. go_return (Inr ()))) p = Ret (Inr ()) p' \<longleftrightarrow>
   all_succeed (map f xs) p p'"
  by (induction xs arbitrary: p) (auto simp: go_check_Ret_iff go_call_Ret_iff go_return_Ret_iff all_succeed_Cons)

lemma registerMetrics_success: "registerMetrics mgr metrics p = Ret (Inr ()) p' \<longleftrightarrow>
   all_succeed (map (Register_static mgr) (getAllMetrics metrics)) p p'"
  unfolding registerMetrics_def by (rule go_for_calls)

text \<open>
  Setup succeeds exactly when all five metrics could be registered and both controllers, the one for
  databases with the jobs and secrets they own and the one for migrations, were accepted.
\<close>

lemma SetupWithManager_success:
  "SetupWithManager c metrics mgr p = Ret (Inr ()) p' \<longleftrightarrow>
   all_succeed (map (Register_static mgr) (getAllMetrics metrics) @
     [Complete mgr (database_watch c), Complete mgr (migration_watch c)]) p p'"
  by (auto simp: SetupWithManager_def go_check_Ret_iff go_call_Ret_iff go_return_Ret_iff
      registerMetrics_success all_succeed_append all_succeed_Cons)

end
