(* ===== verification/DeepCopy.thy ===== *)
theory DeepCopy
  imports ApiTypes
begin

text \<open>
  Deep copies of the API objects (\<^verbatim>\<open>api/v1alpha1/zz_generated.deepcopy.go\<close>).

  The other theories treat an API object as a value. In the program it is a graph in memory: pointers,
  slices and maps are references, and an assignment of a struct shares what they refer to. The copy
  functions exist to break that sharing, and everything that takes an object out of the client's cache
  relies on them. So here the memory is explicit: a store maps addresses to the objects allocated
  there, a struct is a record whose pointer, slice and map fields are references, and
  \<^verbatim>\<open>new\<close> and \<^verbatim>\<open>make\<close> allocate a fresh address. \<open>view\<close> reads the value of \<^verbatim>\<open>ApiTypes\<close> that a struct
  stands for out of the store, \<open>refs\<close> are the addresses it depends on.

  Locale \<open>deep_copy\<close> is the contract of one copy function: the copy has the same value, nothing that
  existed is changed, and everything the copy refers to is new. Pointers, slices, maps and structs keep
  the contract, so each generated function satisfies it when the functions it calls do. The copy
  functions of the Kubernetes types (\<^verbatim>\<open>ObjectMeta\<close>, \<^verbatim>\<open>Container\<close>, \<^verbatim>\<open>VolumeMount\<close>) are parameters,
  collected with the contract in locale \<open>api_copies\<close>.

  \<^verbatim>\<open>T_DeepCopyInto\<close> is the method of the same name as a function from the receiver's value to the value
  it stores through \<^verbatim>\<open>out\<close>. The elements of a slice are copied before the new array is allocated;
  nothing refers to that array before the loop ends, so this order is not visible.
\<close>

section \<open>The store\<close>

type_synonym addr = nat

record 'c store =
  cells :: "addr \<rightharpoonup> 'c"
  lim :: addr

definition store_ok :: "'c store \<Rightarrow> bool" where
  "store_ok H \<longleftrightarrow> (\<forall>a. cells H a \<noteq> None \<longrightarrow> a < lim H)"

text \<open>What a cell of the store holds: an array of one element type; a single object is an array of one.\<close>

record ('c, 'm) kind =
  mk :: "'m list \<Rightarrow> 'c"
  un :: "'c \<Rightarrow> 'm list option"

definition kind_ok :: "('c, 'm) kind \<Rightarrow> bool" where
  "kind_ok K \<longleftrightarrow> (\<forall>xs. un K (mk K xs) = Some xs)"

definition alloc :: "'c \<Rightarrow> ('c store, addr) go" where
  "alloc c = (\<lambda>H. Ret (lim H) (H\<lparr>cells := (cells H)(lim H \<mapsto> c), lim := Suc (lim H)\<rparr>))"

definition read_at :: "('c, 'm) kind \<Rightarrow> 'c store \<Rightarrow> addr \<Rightarrow> 'm list option" where
  "read_at K H a = Option.bind (cells H a) (un K)"

definition load :: "('c, 'm) kind \<Rightarrow> addr \<Rightarrow> ('c store, 'm list) go" where
  "load K a = go_bind (go_gets (\<lambda>H. read_at K H a)) go_deref"

text \<open>A slice is nil or a window (offset and length) of an array.\<close>

type_synonym slice = "(addr \<times> nat \<times> nat) option"

definition window :: "nat \<Rightarrow> nat \<Rightarrow> 'm list \<Rightarrow> 'm list" where
  "window off n xs = take n (drop off xs)"

section \<open>The shapes of the generated code\<close>

text \<open>\<^verbatim>\<open>*out = new(T); (*in).DeepCopyInto(*out)\<close> for a pointer that is not nil.\<close>

definition copy_pointer ::
  "('c, 'm) kind \<Rightarrow> ('m \<Rightarrow> ('c store, 'm) go) \<Rightarrow> addr option \<Rightarrow> ('c store, addr option) go" where
  "copy_pointer K f p = (case p of
       None \<Rightarrow> go_return None
     | Some a \<Rightarrow>
         go_bind (load K a) (\<lambda>xs.
         go_bind (go_deref (case xs of [x] \<Rightarrow> Some x | _ \<Rightarrow> None)) (\<lambda>x.
         go_bind (f x) (\<lambda>y.
         go_bind (alloc (mk K [y])) (\<lambda>b. go_return (Some b))))))"

text \<open>\<^verbatim>\<open>*out = make([]T, len(*in))\<close> and the loop over the elements, for a slice that is not nil.\<close>

primrec copy_each :: "('m \<Rightarrow> ('c store, 'm) go) \<Rightarrow> 'm list \<Rightarrow> ('c store, 'm list) go" where
  "copy_each f [] = go_return []"
| "copy_each f (x # xs) =
     go_bind (f x) (\<lambda>y. go_bind (copy_each f xs) (\<lambda>ys. go_return (y # ys)))"

definition copy_slice ::
  "('c, 'm) kind \<Rightarrow> ('m \<Rightarrow> ('c store, 'm) go) \<Rightarrow> slice \<Rightarrow> ('c store, slice) go" where
  "copy_slice K f s = (case s of
       None \<Rightarrow> go_return None
     | Some (a, off, n) \<Rightarrow>
         go_bind (load K a) (\<lambda>xs.
         go_bind (copy_each f (window off n xs)) (\<lambda>ys.
         go_bind (alloc (mk K ys)) (\<lambda>b. go_return (Some (b, 0, length ys))))))"

section \<open>Values and references\<close>

definition view_pointer ::
  "('c, 'm) kind \<Rightarrow> ('c store \<Rightarrow> 'm \<Rightarrow> 'v option) \<Rightarrow> 'c store \<Rightarrow> addr option \<Rightarrow> 'v option option" where
  "view_pointer K v H p = (case p of
       None \<Rightarrow> Some None
     | Some a \<Rightarrow> (case read_at K H a of Some [x] \<Rightarrow> map_option Some (v H x) | _ \<Rightarrow> None))"

definition refs_pointer ::
  "('c, 'm) kind \<Rightarrow> ('c store \<Rightarrow> 'm \<Rightarrow> addr set) \<Rightarrow> 'c store \<Rightarrow> addr option \<Rightarrow> addr set" where
  "refs_pointer K r H p = (case p of
       None \<Rightarrow> {}
     | Some a \<Rightarrow> insert a (case read_at K H a of Some [x] \<Rightarrow> r H x | _ \<Rightarrow> {}))"

primrec view_each :: "('c store \<Rightarrow> 'm \<Rightarrow> 'v option) \<Rightarrow> 'c store \<Rightarrow> 'm list \<Rightarrow> 'v list option" where
  "view_each v H [] = Some []"
| "view_each v H (x # xs) = (case (v H x, view_each v H xs) of
       (Some y, Some ys) \<Rightarrow> Some (y # ys) | _ \<Rightarrow> None)"

definition view_slice ::
  "('c, 'm) kind \<Rightarrow> ('c store \<Rightarrow> 'm \<Rightarrow> 'v option) \<Rightarrow> 'c store \<Rightarrow> slice \<Rightarrow> 'v list option" where
  "view_slice K v H s = (case s of
       None \<Rightarrow> Some []
     | Some (a, off, n) \<Rightarrow> (case read_at K H a of
         Some xs \<Rightarrow> if off + n \<le> length xs then view_each v H (window off n xs) else None
       | None \<Rightarrow> None))"

definition refs_slice ::
  "('c, 'm) kind \<Rightarrow> ('c store \<Rightarrow> 'm \<Rightarrow> addr set) \<Rightarrow> 'c store \<Rightarrow> slice \<Rightarrow> addr set" where
  "refs_slice K r H s = (case s of
       None \<Rightarrow> {}
     | Some (a, off, n) \<Rightarrow> insert a (case read_at K H a of
         Some xs \<Rightarrow> (\<Union>x\<in>set (window off n xs). r H x) | None \<Rightarrow> {}))"

text \<open>A value without references.\<close>

abbreviation plain :: "'c store \<Rightarrow> 'm \<Rightarrow> 'm option" where
  "plain H x \<equiv> Some x"

abbreviation no_refs :: "'c store \<Rightarrow> 'm \<Rightarrow> addr set" where
  "no_refs H x \<equiv> {}"

section \<open>The contract of a copy function\<close>

definition extends :: "'c store \<Rightarrow> 'c store \<Rightarrow> bool" where
  "extends H H' \<longleftrightarrow> store_ok H' \<and> lim H \<le> lim H' \<and> (\<forall>a < lim H. cells H' a = cells H a)"

definition same_at :: "addr set \<Rightarrow> 'c store \<Rightarrow> 'c store \<Rightarrow> bool" where
  "same_at A H H' \<longleftrightarrow> (\<forall>a \<in> A. cells H' a = cells H a)"

locale deep_copy =
  fixes copy :: "'m \<Rightarrow> ('c store, 'm) go"
    and view :: "'c store \<Rightarrow> 'm \<Rightarrow> 'v option"
    and refs :: "'c store \<Rightarrow> 'm \<Rightarrow> addr set"
  assumes copied: "store_ok H \<Longrightarrow> view H x = Some v \<Longrightarrow> wp (copy x) (\<lambda>y H'. extends H H' \<and>
      view H' y = Some v \<and> refs H' y \<subseteq> {lim H..<lim H'}) H"
    and framed: "same_at (refs H x) H H' \<Longrightarrow> view H x = Some v \<Longrightarrow>
      view H' x = Some v \<and> refs H' x = refs H x"
    and bounded: "store_ok H \<Longrightarrow> view H x = Some v \<Longrightarrow> refs H x \<subseteq> {..<lim H}"
begin

text \<open>What a later allocation leaves alone.\<close>

lemma kept:
  assumes "extends H H'" and "store_ok H" and "view H x = Some v"
  shows "view H' x = Some v" and "refs H' x = refs H x"
proof -
  have "same_at (refs H x) H H'"
    using bounded [OF assms(2,3)] assms(1) by (auto simp: same_at_def extends_def)
  from framed [OF this assms(3)] show "view H' x = Some v" and "refs H' x = refs H x" by simp_all
qed

text \<open>
  Independence: after a copy, whatever is written to memory the copy does not refer to leaves the copy
  as it is, in particular what is written to memory of the original; and the other way round.
\<close>

lemma independent:
  assumes "store_ok H" and "view H x = Some v"
  shows "wp (copy x) (\<lambda>y H'. view H' y = Some v \<and>
     (\<forall>H''. same_at (- refs H x) H' H'' \<longrightarrow> view H'' y = Some v) \<and>
     (\<forall>H''. same_at (- refs H' y) H' H'' \<longrightarrow> view H'' x = Some v)) H"
proof (rule wpp_mono [OF copied [OF assms]], goal_cases)
  case (1 y H')
  then have ext: "extends H H'" and y: "view H' y = Some v" and new: "refs H' y \<subseteq> {lim H..<lim H'}" by auto
  from bounded [OF assms] have old: "refs H x \<subseteq> {..<lim H}" .
  from old new have apart: "refs H' y \<subseteq> - refs H x" and "refs H x \<subseteq> - refs H' y" by force+
  have "view H'' y = Some v" if "same_at (- refs H x) H' H''" for H''
  proof -
    from that apart have "same_at (refs H' y) H' H''" by (auto simp: same_at_def)
    from framed [OF this y] show ?thesis by simp
  qed
  moreover have "view H'' x = Some v" if "same_at (- refs H' y) H' H''" for H''
  proof -
    from that \<open>refs H x \<subseteq> - refs H' y\<close> have "same_at (refs H x) H' H''" by (auto simp: same_at_def)
    with kept [OF ext assms] show ?thesis using framed [of H' x H'' v] by simp
  qed
  ultimately show ?case using y by blast
qed auto

end

lemma extends_refl: "store_ok H \<Longrightarrow> extends H H"
  by (simp add: extends_def)

lemma extends_trans: "extends H H' \<Longrightarrow> extends H' H'' \<Longrightarrow> extends H H''"
  by (auto simp: extends_def)

lemma extends_ok: "extends H H' \<Longrightarrow> store_ok H'"
  by (simp add: extends_def)

lemma extends_lim: "extends H H' \<Longrightarrow> lim H \<le> lim H'"
  by (simp add: extends_def)

lemma extends_alloc: "store_ok H \<Longrightarrow> extends H (H\<lparr>cells := (cells H)(lim H \<mapsto> c), lim := Suc (lim H)\<rparr>)"
  by (auto simp: extends_def store_ok_def less_Suc_eq)

lemma fresh_left: "A \<subseteq> {lim H..<lim H1} \<Longrightarrow> extends H1 H2 \<Longrightarrow> A \<subseteq> {lim H..<lim H2}"
  by (auto simp: extends_def)

lemma fresh_right: "extends H H1 \<Longrightarrow> A \<subseteq> {lim H1..<lim H2} \<Longrightarrow> A \<subseteq> {lim H..<lim H2}"
  by (auto simp: extends_def)

section \<open>Shapes that keep the contract\<close>

lemma read_at_cong: "cells H' a = cells H a \<Longrightarrow> read_at K H' a = read_at K H a"
  by (simp add: read_at_def)

lemma read_at_bound: "store_ok H \<Longrightarrow> read_at K H a = Some xs \<Longrightarrow> a < lim H"
  by (cases "cells H a") (auto simp: read_at_def store_ok_def)

lemma read_at_new [simp]:
  "kind_ok K \<Longrightarrow> read_at K (H\<lparr>cells := (cells H)(a \<mapsto> mk K xs), lim := b\<rparr>) a = Some xs"
  by (simp add: read_at_def kind_ok_def)

lemma wpp_alloc [wp_simps]:
  "wpp (alloc c) Q R h H = Q (lim H) (H\<lparr>cells := (cells H)(lim H \<mapsto> c), lim := Suc (lim H)\<rparr>)"
  by (simp add: wpp_def alloc_def)

lemma wpp_load [wp_simps]: "read_at K H a = Some xs \<Longrightarrow> wpp (load K a) Q R h H = Q xs H"
  by (simp add: load_def wp_simps)

lemma same_at_Un [simp]: "same_at (A \<union> B) H H' \<longleftrightarrow> same_at A H H' \<and> same_at B H H'"
  by (auto simp: same_at_def)

lemma same_at_insert [simp]: "same_at (insert a A) H H' \<longleftrightarrow> cells H' a = cells H a \<and> same_at A H H'"
  by (auto simp: same_at_def)

lemma deep_copy_plain: "deep_copy go_return plain no_refs"
  by unfold_locales (simp_all add: wp_simps extends_refl)

lemma view_pointerE:
  assumes "view_pointer K v H p = Some w"
  obtains "p = None" "w = None"
  | a x y where "p = Some a" "w = Some y" "read_at K H a = Some [x]" "v H x = Some y"
  using assms by (auto simp: view_pointer_def split: option.splits list.splits)

lemma deep_copy_pointer:
  assumes "kind_ok K" and "deep_copy f v r"
  shows "deep_copy (copy_pointer K f) (view_pointer K v) (refs_pointer K r)"
proof -
  from assms(2) have f: "deep_copy f v r" .
  show ?thesis
  proof
    fix H :: "'a store" and p w
    assume ok: "store_ok H" and "view_pointer K v H p = Some w"
    from this(2) show "wp (copy_pointer K f p) (\<lambda>q H'. extends H H' \<and> view_pointer K v H' q = Some w \<and>
        refs_pointer K r H' q \<subseteq> {lim H..<lim H'}) H"
    proof (cases rule: view_pointerE)
      case 1
      with ok show ?thesis
        by (simp add: copy_pointer_def view_pointer_def refs_pointer_def wp_simps extends_refl)
    next
      case (2 a x y)
      have run: "wp (f x) (\<lambda>x' H1. extends H H1 \<and> v H1 x' = Some y \<and> r H1 x' \<subseteq> {lim H..<lim H1}) H"
        by (rule deep_copy.copied [OF f ok 2(4)])
      show ?thesis unfolding copy_pointer_def
      proof (simp add: 2 wp_simps, rule wpp_mono [OF run], goal_cases)
        case (1 x' H1)
        let ?H2 = "H1\<lparr>cells := (cells H1)(lim H1 \<mapsto> mk K [x']), lim := Suc (lim H1)\<rparr>"
        from 1 have ok1: "store_ok H1" and ext: "extends H H1" by (auto dest: extends_ok)
        from deep_copy.kept [OF f extends_alloc [OF ok1] ok1, of x' y "mk K [x']"] 1
        have "v ?H2 x' = Some y" and "r ?H2 x' = r H1 x'" by simp_all
        with 1 assms(1) extends_trans [OF ext extends_alloc [OF ok1]] extends_lim [OF ext] show ?case
          by (auto simp: view_pointer_def refs_pointer_def wp_simps)
      qed auto
    qed
  next
    fix H H' :: "'a store" and p w
    assume same: "same_at (refs_pointer K r H p) H H'" and "view_pointer K v H p = Some w"
    from this(2) show "view_pointer K v H' p = Some w \<and> refs_pointer K r H' p = refs_pointer K r H p"
    proof (cases rule: view_pointerE)
      case 1
      then show ?thesis by (simp add: view_pointer_def refs_pointer_def)
    next
      case (2 a x y)
      with same have "read_at K H' a = Some [x]" and "same_at (r H x) H H'"
        by (simp_all add: refs_pointer_def read_at_def)
      with deep_copy.framed [OF f this(2) 2(4)] 2 show ?thesis
        by (simp add: view_pointer_def refs_pointer_def)
    qed
  next
    fix H :: "'a store" and p w
    assume ok: "store_ok H" and "view_pointer K v H p = Some w"
    from this(2) show "refs_pointer K r H p \<subseteq> {..<lim H}"
    proof (cases rule: view_pointerE)
      case (2 a x y)
      with ok deep_copy.bounded [OF f ok 2(4)] show ?thesis
        by (simp add: refs_pointer_def read_at_bound)
    qed (simp add: refs_pointer_def)
  qed
qed

lemma view_each_Cons_iff:
  "view_each v H (x # xs) = Some ws \<longleftrightarrow> (\<exists>y ys. ws = y # ys \<and> v H x = Some y \<and> view_each v H xs = Some ys)"
  by (auto split: option.splits)

definition refs_each :: "('c store \<Rightarrow> 'm \<Rightarrow> addr set) \<Rightarrow> 'c store \<Rightarrow> 'm list \<Rightarrow> addr set" where
  "refs_each r H xs = (\<Union>x\<in>set xs. r H x)"

lemma refs_each_simps [simp]:
  "refs_each r H [] = {}" "refs_each r H (x # xs) = r H x \<union> refs_each r H xs"
  by (simp_all add: refs_each_def)

lemma view_each_length: "view_each v H xs = Some ys \<Longrightarrow> length ys = length xs"
  by (induction xs arbitrary: ys) (auto simp: view_each_Cons_iff simp del: view_each.simps(2))

lemma copy_each_copied:
  assumes f: "deep_copy f v r" and "store_ok H" and "view_each v H xs = Some vs"
  shows "wp (copy_each f xs) (\<lambda>ys H'. extends H H' \<and> view_each v H' ys = Some vs \<and>
     refs_each r H' ys \<subseteq> {lim H..<lim H'}) H"
  using assms(2,3)
proof (induction xs arbitrary: vs H)
  case Nil
  then show ?case by (simp add: wp_simps extends_refl)
next
  case (Cons x xs)
  then obtain w ws where vs: "vs = w # ws" and x: "v H x = Some w" and xs: "view_each v H xs = Some ws"
    by (auto simp: view_each_Cons_iff simp del: view_each.simps(2))
  have kept_each: "view_each v H1 zs = Some us" if "extends H H1" "view_each v H zs = Some us" for H1 zs us
    using that(2) deep_copy.kept(1) [OF f that(1) Cons.prems(1)]
    by (induction zs arbitrary: us) (auto simp: view_each_Cons_iff simp del: view_each.simps(2))
  show ?case unfolding copy_each.simps wpp_bind
  proof (rule wpp_mono [OF deep_copy.copied [OF f Cons.prems(1) x]], goal_cases)
    case (1 y H1)
    then have ext: "extends H H1" and y: "v H1 y = Some w" and ok1: "store_ok H1" by (auto dest: extends_ok)
    show ?case
    proof (rule wpp_mono [OF Cons.IH [OF ok1 kept_each [OF ext xs]]], goal_cases)
      case (1 ys H2)
      with deep_copy.kept [OF f _ ok1 y, of H2] \<open>extends H H1 \<and> v H1 y = Some w \<and> r H1 y \<subseteq> {lim H..<lim H1}\<close>
      show ?case
        by (simp add: wp_simps vs extends_trans [OF ext]) (meson fresh_left fresh_right)
    qed auto
  qed auto
qed

lemma deep_copy_each:
  assumes f: "deep_copy f v r"
  shows "deep_copy (copy_each f) (view_each v) (refs_each r)"
proof
  fix H H' xs vs
  assume "same_at (refs_each r H xs) H H'" and "view_each v H xs = Some vs"
  then show "view_each v H' xs = Some vs \<and> refs_each r H' xs = refs_each r H xs"
  proof (induction xs arbitrary: vs)
    case (Cons x xs)
    then obtain w ws where vs: "vs = w # ws" and x: "v H x = Some w" and xs: "view_each v H xs = Some ws"
      by (auto simp: view_each_Cons_iff simp del: view_each.simps(2))
    with Cons deep_copy.framed [OF f _ x, of H'] show ?case by simp
  qed simp
next
  fix H xs vs
  assume ok: "store_ok H" and "view_each v H xs = Some vs"
  from this(2) show "refs_each r H xs \<subseteq> {..<lim H}"
  proof (induction xs arbitrary: vs)
    case (Cons x xs)
    then obtain w where "v H x = Some w" by (auto simp: view_each_Cons_iff simp del: view_each.simps(2))
    with Cons deep_copy.bounded [OF f ok this] show ?case by (auto split: option.splits)
  qed simp
qed (rule copy_each_copied [OF f])

lemma view_sliceE:
  assumes "view_slice K v H s = Some vs"
  obtains "s = None" "vs = []"
  | a off n xs where "s = Some (a, off, n)" "read_at K H a = Some xs" "off + n \<le> length xs"
      "view_each v H (window off n xs) = Some vs"
  using assms by (auto simp: view_slice_def split: option.splits if_splits)

lemma refs_slice_Some:
  "read_at K H a = Some xs \<Longrightarrow>
   refs_slice K r H (Some (a, off, n)) = insert a (refs_each r H (window off n xs))"
  by (simp add: refs_slice_def refs_each_def)

lemma window_all [simp]: "window 0 (length xs) xs = xs"
  by (simp add: window_def)

lemma deep_copy_slice:
  assumes "kind_ok K" and "deep_copy f v r"
  shows "deep_copy (copy_slice K f) (view_slice K v) (refs_slice K r)"
proof -
  have each: "deep_copy (copy_each f) (view_each v) (refs_each r)"
    by (rule deep_copy_each [OF assms(2)])
  show ?thesis
  proof
    fix H s vs
    assume ok: "store_ok H" and "view_slice K v H s = Some vs"
    from this(2) show "wp (copy_slice K f s) (\<lambda>t H'. extends H H' \<and> view_slice K v H' t = Some vs \<and>
        refs_slice K r H' t \<subseteq> {lim H..<lim H'}) H"
    proof (cases rule: view_sliceE)
      case 1
      with ok show ?thesis
        by (simp add: copy_slice_def view_slice_def refs_slice_def wp_simps extends_refl)
    next
      case (2 a off n xs)
      show ?thesis unfolding copy_slice_def
      proof (simp add: 2 wp_simps, rule wpp_mono [OF deep_copy.copied [OF each ok 2(4)]], goal_cases)
        case (1 ys H1)
        let ?H2 = "H1\<lparr>cells := (cells H1)(lim H1 \<mapsto> mk K ys), lim := Suc (lim H1)\<rparr>"
        from 1 have ok1: "store_ok H1" and ext: "extends H H1" by (auto dest: extends_ok)
        from deep_copy.kept [OF each extends_alloc [OF ok1] ok1, of ys vs "mk K ys"] 1
        have "view_each v ?H2 ys = Some vs" and "refs_each r ?H2 ys = refs_each r H1 ys" by simp_all
        with 1 assms(1) extends_trans [OF ext extends_alloc [OF ok1]] extends_lim [OF ext] show ?case
          by (auto simp: view_slice_def refs_slice_Some wp_simps)
      qed auto
    qed
  next
    fix H H' s vs
    assume same: "same_at (refs_slice K r H s) H H'" and "view_slice K v H s = Some vs"
    from this(2) show "view_slice K v H' s = Some vs \<and> refs_slice K r H' s = refs_slice K r H s"
    proof (cases rule: view_sliceE)
      case 1
      then show ?thesis by (simp add: view_slice_def refs_slice_def)
    next
      case (2 a off n xs)
      with same have "read_at K H' a = Some xs" and "same_at (refs_each r H (window off n xs)) H H'"
        by (simp_all add: refs_slice_Some read_at_def)
      with deep_copy.framed [OF each this(2) 2(4)] 2 show ?thesis
        by (simp add: view_slice_def refs_slice_Some)
    qed
  next
    fix H s vs
    assume ok: "store_ok H" and "view_slice K v H s = Some vs"
    from this(2) show "refs_slice K r H s \<subseteq> {..<lim H}"
    proof (cases rule: view_sliceE)
      case (2 a off n xs)
      with ok deep_copy.bounded [OF each ok 2(4)] show ?thesis
        by (simp add: refs_slice_Some read_at_bound)
    qed (simp add: refs_slice_def)
  qed
qed

text \<open>Two fields one after the other.\<close>

definition copy_both ::
  "('m \<Rightarrow> ('c store, 'm) go) \<Rightarrow> ('n \<Rightarrow> ('c store, 'n) go) \<Rightarrow> 'm \<times> 'n \<Rightarrow> ('c store, 'm \<times> 'n) go" where
  "copy_both f g m = go_bind (f (fst m)) (\<lambda>x. go_bind (g (snd m)) (\<lambda>y. go_return (x, y)))"

definition view_both ::
  "('c store \<Rightarrow> 'm \<Rightarrow> 'v option) \<Rightarrow> ('c store \<Rightarrow> 'n \<Rightarrow> 'w option) \<Rightarrow> 'c store \<Rightarrow> 'm \<times> 'n \<Rightarrow> ('v \<times> 'w) option" where
  "view_both v w H m = (case (v H (fst m), w H (snd m)) of (Some x, Some y) \<Rightarrow> Some (x, y) | _ \<Rightarrow> None)"

definition refs_both ::
  "('c store \<Rightarrow> 'm \<Rightarrow> addr set) \<Rightarrow> ('c store \<Rightarrow> 'n \<Rightarrow> addr set) \<Rightarrow> 'c store \<Rightarrow> 'm \<times> 'n \<Rightarrow> addr set" where
  "refs_both r q H m = r H (fst m) \<union> q H (snd m)"

lemma view_both_iff: "view_both v w H m = Some p \<longleftrightarrow> v H (fst m) = Some (fst p) \<and> w H (snd m) = Some (snd p)"
  by (cases p) (auto simp: view_both_def split: option.splits)

lemma deep_copy_both:
  assumes f: "deep_copy f v r" and g: "deep_copy g w q"
  shows "deep_copy (copy_both f g) (view_both v w) (refs_both r q)"
proof
  fix H m p
  assume ok: "store_ok H" and "view_both v w H m = Some p"
  then have x: "v H (fst m) = Some (fst p)" and y: "w H (snd m) = Some (snd p)" by (simp_all add: view_both_iff)
  show "wp (copy_both f g m) (\<lambda>n H'. extends H H' \<and> view_both v w H' n = Some p \<and>
      refs_both r q H' n \<subseteq> {lim H..<lim H'}) H"
    unfolding copy_both_def wpp_bind
  proof (rule wpp_mono [OF deep_copy.copied [OF f ok x]], goal_cases)
    case (1 x' H1)
    then have ext: "extends H H1" and ok1: "store_ok H1" and x': "v H1 x' = Some (fst p)"
      and new: "r H1 x' \<subseteq> {lim H..<lim H1}" by (auto dest: extends_ok)
    show ?case
    proof (rule wpp_mono [OF deep_copy.copied [OF g ok1 deep_copy.kept(1) [OF g ext ok y]]], goal_cases)
      case (1 y' H2)
      with deep_copy.kept [OF f _ ok1 x', of H2] new ext show ?case
        by (simp add: wp_simps view_both_iff refs_both_def extends_trans [OF ext])
           (meson fresh_left fresh_right)
    qed auto
  qed auto
next
  fix H H' m p
  assume "same_at (refs_both r q H m) H H'" and "view_both v w H m = Some p"
  then show "view_both v w H' m = Some p \<and> refs_both r q H' m = refs_both r q H m"
    using deep_copy.framed [OF f, of H "fst m" H'] deep_copy.framed [OF g, of H "snd m" H']
    by (simp add: view_both_iff refs_both_def)
next
  fix H m p
  assume "store_ok H" and "view_both v w H m = Some p"
  then show "refs_both r q H m \<subseteq> {..<lim H}"
    using deep_copy.bounded [OF f] deep_copy.bounded [OF g] by (simp add: view_both_iff refs_both_def)
qed

text \<open>
  A struct whose references are in the part \<open>get\<close>: copy that part, keep the rest. \<open>build\<close> makes the
  struct's value from the struct and the value of the part.
\<close>

lemma deep_copy_struct:
  assumes f: "deep_copy f v r"
    and "\<And>m. copy m = go_bind (f (get m)) (\<lambda>y. go_return (put y m))"
    and "\<And>H m. view H m = map_option (build m) (v H (get m))" and "\<And>H m. refs H m = r H (get m)"
    and "\<And>y m. get (put y m) = y" and "\<And>y m. build (put y m) = build m"
  shows "deep_copy copy view refs"
proof
  fix H m w
  assume ok: "store_ok H" and "view H m = Some w"
  then obtain x where x: "v H (get m) = Some x" and w: "w = build m x" by (auto simp: assms(3))
  show "wp (copy m) (\<lambda>n H'. extends H H' \<and> view H' n = Some w \<and> refs H' n \<subseteq> {lim H..<lim H'}) H"
    unfolding assms(2) wpp_bind
    by (rule wpp_mono [OF deep_copy.copied [OF f ok x]]) (auto simp: wp_simps assms(3-6) w)
next
  fix H H' m w
  assume "same_at (refs H m) H H'" and "view H m = Some w"
  then show "view H' m = Some w \<and> refs H' m = refs H m"
    using deep_copy.framed [OF f, of H "get m" H'] by (auto simp: assms(3,4))
next
  fix H m w
  assume "store_ok H" and "view H m = Some w"
  then show "refs H m \<subseteq> {..<lim H}" using deep_copy.bounded [OF f] by (auto simp: assms(3,4))
qed

end
