(* ===== verification/ApiCopies.thy ===== *)
theory ApiCopies
  imports DeepCopy
begin

text \<open>
  The generated copy functions of the API types (\<^verbatim>\<open>api/v1alpha1/zz_generated.deepcopy.go\<close>), one definition
  per method. The records ending in \<^verbatim>\<open>M\<close> are the structs as they are in memory: an \<open>addr option\<close> is a
  pointer or a map, a \<open>slice\<close> a slice; the fields are those of \<^verbatim>\<open>ApiTypes\<close>. \<^verbatim>\<open>ObjectMeta\<close>, \<^verbatim>\<open>Container\<close> and
  \<^verbatim>\<open>VolumeMount\<close> come from a library: their representation is a type parameter, their copy functions are
  the record \<open>machinery\<close>. \<^verbatim>\<open>TypeMeta\<close> and \<^verbatim>\<open>ListMeta\<close> hold strings only.
\<close>

section \<open>The structs in memory\<close>

record TypeMeta =
  Kind :: string
  APIVersion :: string

record ListMeta =
  lm_SelfLink :: string
  lm_ResourceVersion :: string
  lm_Continue :: string

record PrometheusMetricExporterM =
  m_ValueType :: string
  m_pmName :: string
  m_HelpString :: string
  m_ExtraLabels :: "addr option"

record SQLQueryMetricM =
  m_Query :: string
  m_PrometheusMetric :: PrometheusMetricExporterM

record DataMetricsM =
  m_TableEstimatedSize :: "addr option"
  m_TableNextID :: "addr option"
  m_SQLQuery :: "addr option"

record 'vm MigrationContainerConfigM =
  m_Secret :: string
  m_VolumeMount :: 'vm

record ManagedDatabaseSpecM =
  m_DesiredSchemaVersion :: string
  m_Connection :: DatabaseConnectionInfo
  m_MigrationEngine :: string
  m_MigrationContainerConfig :: "addr option"
  m_ExportDataMetrics :: "addr option"
  m_HintsEngine :: "addr option"
  m_ReadOnly :: bool

record ManagedDatabaseStatusM =
  m_CurrentVersion :: string
  m_Errors :: slice

record 'om ManagedDatabaseM =
  m_TypeMeta :: TypeMeta
  m_ObjectMeta :: 'om
  m_Spec :: ManagedDatabaseSpecM
  m_Status :: ManagedDatabaseStatusM

record ManagedDatabaseListM =
  dl_TypeMeta :: TypeMeta
  dl_ListMeta :: ListMeta
  dl_Items :: slice

record DatabaseMigrationSchemaHintM =
  m_TableReference :: TableReference
  m_Operation :: string
  m_Columns :: slice
  m_IndexType :: string

record 'co DatabaseMigrationSpecM =
  m_Previous :: string
  m_MigrationContainerSpec :: 'co
  m_Scalable :: bool
  m_SchemaHints :: slice

record ('om, 'co) DatabaseMigrationM =
  mm_TypeMeta :: TypeMeta
  mm_ObjectMeta :: 'om
  mm_Spec :: "'co DatabaseMigrationSpecM"
  mm_Status :: unit

record DatabaseMigrationListM =
  ml_TypeMeta :: TypeMeta
  ml_ListMeta :: ListMeta
  ml_Items :: slice

section \<open>What the store holds\<close>

datatype ('om, 'co, 'vm, 'x) api_cell =
    A_TableReference "TableReference list"
  | A_HintColumn "DatabaseMigrationSchemaHintColumn list"
  | A_Error "ManagedDatabaseError list"
  | A_Connection "DatabaseConnectionInfo list"
  | A_HintsConfig "HintsEngineConfig list"
  | A_MigStatus "unit list"
  | A_SliceVar "slice list"
  | A_Labels "(string \<rightharpoonup> string) list"
  | A_Exporter "PrometheusMetricExporterM list"
  | A_Query "SQLQueryMetricM list"
  | A_DataMetrics "DataMetricsM list"
  | A_ContainerConfig "'vm MigrationContainerConfigM list"
  | A_DbSpec "ManagedDatabaseSpecM list"
  | A_DbStatus "ManagedDatabaseStatusM list"
  | A_Database "'om ManagedDatabaseM list"
  | A_DbList "ManagedDatabaseListM list"
  | A_Hint "DatabaseMigrationSchemaHintM list"
  | A_MigSpec "'co DatabaseMigrationSpecM list"
  | A_Migration "('om, 'co) DatabaseMigrationM list"
  | A_MigList "DatabaseMigrationListM list"
  | A_Foreign "'x list"

type_synonym ('om, 'co, 'vm, 'x) memory = "('om, 'co, 'vm, 'x) api_cell store"

definition K_TableReference :: "(('om, 'co, 'vm, 'x) api_cell, TableReference) kind" where
  "K_TableReference = \<lparr>mk = A_TableReference, un = (\<lambda>c. case c of A_TableReference xs \<Rightarrow> Some xs | _ \<Rightarrow> None)\<rparr>"

definition K_HintColumn :: "(('om, 'co, 'vm, 'x) api_cell, DatabaseMigrationSchemaHintColumn) kind" where
  "K_HintColumn = \<lparr>mk = A_HintColumn, un = (\<lambda>c. case c of A_HintColumn xs \<Rightarrow> Some xs | _ \<Rightarrow> None)\<rparr>"

definition K_Error :: "(('om, 'co, 'vm, 'x) api_cell, ManagedDatabaseError) kind" where
  "K_Error = \<lparr>mk = A_Error, un = (\<lambda>c. case c of A_Error xs \<Rightarrow> Some xs | _ \<Rightarrow> None)\<rparr>"

definition K_Connection :: "(('om, 'co, 'vm, 'x) api_cell, DatabaseConnectionInfo) kind" where
  "K_Connection = \<lparr>mk = A_Connection, un = (\<lambda>c. case c of A_Connection xs \<Rightarrow> Some xs | _ \<Rightarrow> None)\<rparr>"

definition K_HintsConfig :: "(('om, 'co, 'vm, 'x) api_cell, HintsEngineConfig) kind" where
  "K_HintsConfig = \<lparr>mk = A_HintsConfig, un = (\<lambda>c. case c of A_HintsConfig xs \<Rightarrow> Some xs | _ \<Rightarrow> None)\<rparr>"

definition K_MigStatus :: "(('om, 'co, 'vm, 'x) api_cell, unit) kind" where
  "K_MigStatus = \<lparr>mk = A_MigStatus, un = (\<lambda>c. case c of A_MigStatus xs \<Rightarrow> Some xs | _ \<Rightarrow> None)\<rparr>"

definition K_SliceVar :: "(('om, 'co, 'vm, 'x) api_cell, slice) kind" where
  "K_SliceVar = \<lparr>mk = A_SliceVar, un = (\<lambda>c. case c of A_SliceVar xs \<Rightarrow> Some xs | _ \<Rightarrow> None)\<rparr>"

definition K_Labels :: "(('om, 'co, 'vm, 'x) api_cell, (string \<rightharpoonup> string)) kind" where
  "K_Labels = \<lparr>mk = A_Labels, un = (\<lambda>c. case c of A_Labels xs \<Rightarrow> Some xs | _ \<Rightarrow> None)\<rparr>"

definition K_Exporter :: "(('om, 'co, 'vm, 'x) api_cell, PrometheusMetricExporterM) kind" where
  "K_Exporter = \<lparr>mk = A_Exporter, un = (\<lambda>c. case c of A_Exporter xs \<Rightarrow> Some xs | _ \<Rightarrow> None)\<rparr>"

definition K_Query :: "(('om, 'co, 'vm, 'x) api_cell, SQLQueryMetricM) kind" where
  "K_Query = \<lparr>mk = A_Query, un = (\<lambda>c. case c of A_Query xs \<Rightarrow> Some xs | _ \<Rightarrow> None)\<rparr>"

definition K_DataMetrics :: "(('om, 'co, 'vm, 'x) api_cell, DataMetricsM) kind" where
  "K_DataMetrics = \<lparr>mk = A_DataMetrics, un = (\<lambda>c. case c of A_DataMetrics xs \<Rightarrow> Some xs | _ \<Rightarrow> None)\<rparr>"

definition K_ContainerConfig :: "(('om, 'co, 'vm, 'x) api_cell, 'vm MigrationContainerConfigM) kind" where
  "K_ContainerConfig = \<lparr>mk = A_ContainerConfig, un = (\<lambda>c. case c of A_ContainerConfig xs \<Rightarrow> Some xs | _ \<Rightarrow> None)\<rparr>"

definition K_DbSpec :: "(('om, 'co, 'vm, 'x) api_cell, ManagedDatabaseSpecM) kind" where
  "K_DbSpec = \<lparr>mk = A_DbSpec, un = (\<lambda>c. case c of A_DbSpec xs \<Rightarrow> Some xs | _ \<Rightarrow> None)\<rparr>"

definition K_DbStatus :: "(('om, 'co, 'vm, 'x) api_cell, ManagedDatabaseStatusM) kind" where
  "K_DbStatus = \<lparr>mk = A_DbStatus, un = (\<lambda>c. case c of A_DbStatus xs \<Rightarrow> Some xs | _ \<Rightarrow> None)\<rparr>"

definition K_Database :: "(('om, 'co, 'vm, 'x) api_cell, 'om ManagedDatabaseM) kind" where
  "K_Database = \<lparr>mk = A_Database, un = (\<lambda>c. case c of A_Database xs \<Rightarrow> Some xs | _ \<Rightarrow> None)\<rparr>"

definition K_DbList :: "(('om, 'co, 'vm, 'x) api_cell, ManagedDatabaseListM) kind" where
  "K_DbList = \<lparr>mk = A_DbList, un = (\<lambda>c. case c of A_DbList xs \<Rightarrow> Some xs | _ \<Rightarrow> None)\<rparr>"

definition K_Hint :: "(('om, 'co, 'vm, 'x) api_cell, DatabaseMigrationSchemaHintM) kind" where
  "K_Hint = \<lparr>mk = A_Hint, un = (\<lambda>c. case c of A_Hint xs \<Rightarrow> Some xs | _ \<Rightarrow> None)\<rparr>"

definition K_MigSpec :: "(('om, 'co, 'vm, 'x) api_cell, 'co DatabaseMigrationSpecM) kind" where
  "K_MigSpec = \<lparr>mk = A_MigSpec, un = (\<lambda>c. case c of A_MigSpec xs \<Rightarrow> Some xs | _ \<Rightarrow> None)\<rparr>"

definition K_Migration :: "(('om, 'co, 'vm, 'x) api_cell, ('om, 'co) DatabaseMigrationM) kind" where
  "K_Migration = \<lparr>mk = A_Migration, un = (\<lambda>c. case c of A_Migration xs \<Rightarrow> Some xs | _ \<Rightarrow> None)\<rparr>"

definition K_MigList :: "(('om, 'co, 'vm, 'x) api_cell, DatabaseMigrationListM) kind" where
  "K_MigList = \<lparr>mk = A_MigList, un = (\<lambda>c. case c of A_MigList xs \<Rightarrow> Some xs | _ \<Rightarrow> None)\<rparr>"

lemma kinds_ok [simp]:
  "kind_ok K_TableReference"
  "kind_ok K_HintColumn"
  "kind_ok K_Error"
  "kind_ok K_Connection"
  "kind_ok K_HintsConfig"
  "kind_ok K_MigStatus"
  "kind_ok K_SliceVar"
  "kind_ok K_Labels"
  "kind_ok K_Exporter"
  "kind_ok K_Query"
  "kind_ok K_DataMetrics"
  "kind_ok K_ContainerConfig"
  "kind_ok K_DbSpec"
  "kind_ok K_DbStatus"
  "kind_ok K_Database"
  "kind_ok K_DbList"
  "kind_ok K_Hint"
  "kind_ok K_MigSpec"
  "kind_ok K_Migration"
  "kind_ok K_MigList"
  by (simp_all add: kind_ok_def K_TableReference_def K_HintColumn_def K_Error_def K_Connection_def K_HintsConfig_def K_MigStatus_def K_SliceVar_def K_Labels_def K_Exporter_def K_Query_def K_DataMetrics_def K_ContainerConfig_def K_DbSpec_def K_DbStatus_def K_Database_def K_DbList_def K_Hint_def K_MigSpec_def K_Migration_def K_MigList_def)

section \<open>The copy functions\<close>

text \<open>What the generated code calls of the Kubernetes libraries.\<close>

record ('om, 'co, 'vm, 'x) machinery =
  ObjectMeta_DeepCopyInto :: "'om \<Rightarrow> (('om, 'co, 'vm, 'x) memory, 'om) go"
  Container_DeepCopyInto :: "'co \<Rightarrow> (('om, 'co, 'vm, 'x) memory, 'co) go"
  VolumeMount_DeepCopyInto :: "'vm \<Rightarrow> (('om, 'co, 'vm, 'x) memory, 'vm) go"

text \<open>Structs without references: \<^verbatim>\<open>*out = *in\<close>.\<close>

definition DatabaseConnectionInfo_DeepCopyInto ::
  "DatabaseConnectionInfo \<Rightarrow> (('om, 'co, 'vm, 'x) memory, DatabaseConnectionInfo) go" where
  "DatabaseConnectionInfo_DeepCopyInto = go_return"

definition DatabaseMigrationSchemaHintColumn_DeepCopyInto ::
  "DatabaseMigrationSchemaHintColumn \<Rightarrow> (('om, 'co, 'vm, 'x) memory, DatabaseMigrationSchemaHintColumn) go" where
  "DatabaseMigrationSchemaHintColumn_DeepCopyInto = go_return"

definition DatabaseMigrationStatus_DeepCopyInto :: "unit \<Rightarrow> (('om, 'co, 'vm, 'x) memory, unit) go" where
  "DatabaseMigrationStatus_DeepCopyInto = go_return"

definition HintsEngineConfig_DeepCopyInto ::
  "HintsEngineConfig \<Rightarrow> (('om, 'co, 'vm, 'x) memory, HintsEngineConfig) go" where
  "HintsEngineConfig_DeepCopyInto = go_return"

definition ManagedDatabaseError_DeepCopyInto ::
  "ManagedDatabaseError \<Rightarrow> (('om, 'co, 'vm, 'x) memory, ManagedDatabaseError) go" where
  "ManagedDatabaseError_DeepCopyInto = go_return"

definition TableReference_DeepCopyInto ::
  "TableReference \<Rightarrow> (('om, 'co, 'vm, 'x) memory, TableReference) go" where
  "TableReference_DeepCopyInto = go_return"

text \<open>Metrics. A map is copied entry by entry into a new one.\<close>

definition PrometheusMetricExporter_DeepCopyInto ::
  "PrometheusMetricExporterM \<Rightarrow> (('om, 'co, 'vm, 'x) memory, PrometheusMetricExporterM) go" where
  "PrometheusMetricExporter_DeepCopyInto m =
     go_bind (copy_pointer K_Labels go_return (m_ExtraLabels m)) (\<lambda>labels.
     go_return (m\<lparr>m_ExtraLabels := labels\<rparr>))"

definition SQLQueryMetric_DeepCopyInto ::
  "SQLQueryMetricM \<Rightarrow> (('om, 'co, 'vm, 'x) memory, SQLQueryMetricM) go" where
  "SQLQueryMetric_DeepCopyInto m =
     go_bind (PrometheusMetricExporter_DeepCopyInto (m_PrometheusMetric m)) (\<lambda>metric.
     go_return (m\<lparr>m_PrometheusMetric := metric\<rparr>))"

definition DataMetrics_DeepCopyInto ::
  "DataMetricsM \<Rightarrow> (('om, 'co, 'vm, 'x) memory, DataMetricsM) go" where
  "DataMetrics_DeepCopyInto m =
     go_bind (copy_pointer K_SliceVar (copy_slice K_TableReference go_return) (m_TableEstimatedSize m)) (\<lambda>sizes.
     go_bind (copy_pointer K_SliceVar (copy_slice K_TableReference go_return) (m_TableNextID m)) (\<lambda>ids.
     go_bind (copy_pointer K_SliceVar (copy_slice K_Query SQLQueryMetric_DeepCopyInto) (m_SQLQuery m)) (\<lambda>queries.
     go_return (m\<lparr>m_TableEstimatedSize := sizes, m_TableNextID := ids, m_SQLQuery := queries\<rparr>))))"

text \<open>Managed databases.\<close>

definition MigrationContainerConfig_DeepCopyInto ::
  "('om, 'co, 'vm, 'x) machinery \<Rightarrow> 'vm MigrationContainerConfigM
   \<Rightarrow> (('om, 'co, 'vm, 'x) memory, 'vm MigrationContainerConfigM) go" where
  "MigrationContainerConfig_DeepCopyInto L m =
     go_bind (VolumeMount_DeepCopyInto L (m_VolumeMount m)) (\<lambda>mount.
     go_return (m\<lparr>m_VolumeMount := mount\<rparr>))"

definition ManagedDatabaseSpec_DeepCopyInto ::
  "('om, 'co, 'vm, 'x) machinery \<Rightarrow> ManagedDatabaseSpecM
   \<Rightarrow> (('om, 'co, 'vm, 'x) memory, ManagedDatabaseSpecM) go" where
  "ManagedDatabaseSpec_DeepCopyInto L m =
     go_bind (copy_pointer K_ContainerConfig (MigrationContainerConfig_DeepCopyInto L)
         (m_MigrationContainerConfig m)) (\<lambda>config.
     go_bind (copy_pointer K_DataMetrics DataMetrics_DeepCopyInto (m_ExportDataMetrics m)) (\<lambda>metrics.
     go_bind (copy_pointer K_HintsConfig go_return (m_HintsEngine m)) (\<lambda>hints.
     go_return (m\<lparr>m_MigrationContainerConfig := config, m_ExportDataMetrics := metrics,
       m_HintsEngine := hints\<rparr>))))"

definition ManagedDatabaseStatus_DeepCopyInto ::
  "ManagedDatabaseStatusM \<Rightarrow> (('om, 'co, 'vm, 'x) memory, ManagedDatabaseStatusM) go" where
  "ManagedDatabaseStatus_DeepCopyInto m =
     go_bind (copy_slice K_Error go_return (m_Errors m)) (\<lambda>errors. go_return (m\<lparr>m_Errors := errors\<rparr>))"

definition ManagedDatabase_DeepCopyInto ::
  "('om, 'co, 'vm, 'x) machinery \<Rightarrow> 'om ManagedDatabaseM
   \<Rightarrow> (('om, 'co, 'vm, 'x) memory, 'om ManagedDatabaseM) go" where
  "ManagedDatabase_DeepCopyInto L m =
     go_bind (ObjectMeta_DeepCopyInto L (m_ObjectMeta m)) (\<lambda>meta.
     go_bind (ManagedDatabaseSpec_DeepCopyInto L (m_Spec m)) (\<lambda>spec.
     go_bind (ManagedDatabaseStatus_DeepCopyInto (m_Status m)) (\<lambda>status.
     go_return (m\<lparr>m_ObjectMeta := meta, m_Spec := spec, m_Status := status\<rparr>))))"

definition ManagedDatabaseList_DeepCopyInto ::
  "('om, 'co, 'vm, 'x) machinery \<Rightarrow> ManagedDatabaseListM
   \<Rightarrow> (('om, 'co, 'vm, 'x) memory, ManagedDatabaseListM) go" where
  "ManagedDatabaseList_DeepCopyInto L m =
     go_bind (copy_slice K_Database (ManagedDatabase_DeepCopyInto L) (dl_Items m)) (\<lambda>items.
     go_return (m\<lparr>dl_Items := items\<rparr>))"

text \<open>Migrations.\<close>

definition DatabaseMigrationSchemaHint_DeepCopyInto ::
  "DatabaseMigrationSchemaHintM \<Rightarrow> (('om, 'co, 'vm, 'x) memory, DatabaseMigrationSchemaHintM) go" where
  "DatabaseMigrationSchemaHint_DeepCopyInto m =
     go_bind (copy_slice K_HintColumn go_return (m_Columns m)) (\<lambda>columns.
     go_return (m\<lparr>m_Columns := columns\<rparr>))"

definition DatabaseMigrationSpec_DeepCopyInto ::
  "('om, 'co, 'vm, 'x) machinery \<Rightarrow> 'co DatabaseMigrationSpecM
   \<Rightarrow> (('om, 'co, 'vm, 'x) memory, 'co DatabaseMigrationSpecM) go" where
  "DatabaseMigrationSpec_DeepCopyInto L m =
     go_bind (Container_DeepCopyInto L (m_MigrationContainerSpec m)) (\<lambda>container.
     go_bind (copy_slice K_Hint DatabaseMigrationSchemaHint_DeepCopyInto (m_SchemaHints m)) (\<lambda>hints.
     go_return (m\<lparr>m_MigrationContainerSpec := container, m_SchemaHints := hints\<rparr>)))"

definition DatabaseMigration_DeepCopyInto ::
  "('om, 'co, 'vm, 'x) machinery \<Rightarrow> ('om, 'co) DatabaseMigrationM
   \<Rightarrow> (('om, 'co, 'vm, 'x) memory, ('om, 'co) DatabaseMigrationM) go" where
  "DatabaseMigration_DeepCopyInto L m =
     go_bind (ObjectMeta_DeepCopyInto L (mm_ObjectMeta m)) (\<lambda>meta.
     go_bind (DatabaseMigrationSpec_DeepCopyInto L (mm_Spec m)) (\<lambda>spec.
     go_return (m\<lparr>mm_ObjectMeta := meta, mm_Spec := spec\<rparr>)))"

definition DatabaseMigrationList_DeepCopyInto ::
  "('om, 'co, 'vm, 'x) machinery \<Rightarrow> DatabaseMigrationListM
   \<Rightarrow> (('om, 'co, 'vm, 'x) memory, DatabaseMigrationListM) go" where
  "DatabaseMigrationList_DeepCopyInto L m =
     go_bind (copy_slice K_Migration (DatabaseMigration_DeepCopyInto L) (ml_Items m)) (\<lambda>items.
     go_return (m\<lparr>ml_Items := items\<rparr>))"

section \<open>DeepCopy and DeepCopyObject\<close>

text \<open>\<^verbatim>\<open>DeepCopy\<close> is nil for nil, and otherwise copies into a new object.\<close>

definition DatabaseConnectionInfo_DeepCopy ::
  "addr option \<Rightarrow> (('om, 'co, 'vm, 'x) memory, addr option) go" where
  "DatabaseConnectionInfo_DeepCopy = copy_pointer K_Connection DatabaseConnectionInfo_DeepCopyInto"

definition DatabaseMigrationSchemaHintColumn_DeepCopy ::
  "addr option \<Rightarrow> (('om, 'co, 'vm, 'x) memory, addr option) go" where
  "DatabaseMigrationSchemaHintColumn_DeepCopy = copy_pointer K_HintColumn DatabaseMigrationSchemaHintColumn_DeepCopyInto"

definition DatabaseMigrationStatus_DeepCopy ::
  "addr option \<Rightarrow> (('om, 'co, 'vm, 'x) memory, addr option) go" where
  "DatabaseMigrationStatus_DeepCopy = copy_pointer K_MigStatus DatabaseMigrationStatus_DeepCopyInto"

definition HintsEngineConfig_DeepCopy ::
  "addr option \<Rightarrow> (('om, 'co, 'vm, 'x) memory, addr option) go" where
  "HintsEngineConfig_DeepCopy = copy_pointer K_HintsConfig HintsEngineConfig_DeepCopyInto"

definition ManagedDatabaseError_DeepCopy ::
  "addr option \<Rightarrow> (('om, 'co, 'vm, 'x) memory, addr option) go" where
  "ManagedDatabaseError_DeepCopy = copy_pointer K_Error ManagedDatabaseError_DeepCopyInto"

definition TableReference_DeepCopy ::
  "addr option \<Rightarrow> (('om, 'co, 'vm, 'x) memory, addr option) go" where
  "TableReference_DeepCopy = copy_pointer K_TableReference TableReference_DeepCopyInto"

definition PrometheusMetricExporter_DeepCopy ::
  "addr option \<Rightarrow> (('om, 'co, 'vm, 'x) memory, addr option) go" where
  "PrometheusMetricExporter_DeepCopy = copy_pointer K_Exporter PrometheusMetricExporter_DeepCopyInto"

definition SQLQueryMetric_DeepCopy ::
  "addr option \<Rightarrow> (('om, 'co, 'vm, 'x) memory, addr option) go" where
  "SQLQueryMetric_DeepCopy = copy_pointer K_Query SQLQueryMetric_DeepCopyInto"

definition DataMetrics_DeepCopy ::
  "addr option \<Rightarrow> (('om, 'co, 'vm, 'x) memory, addr option) go" where
  "DataMetrics_DeepCopy = copy_pointer K_DataMetrics DataMetrics_DeepCopyInto"

definition MigrationContainerConfig_DeepCopy ::
  "('om, 'co, 'vm, 'x) machinery \<Rightarrow> addr option \<Rightarrow> (('om, 'co, 'vm, 'x) memory, addr option) go" where
  "MigrationContainerConfig_DeepCopy L = copy_pointer K_ContainerConfig (MigrationContainerConfig_DeepCopyInto L)"

definition ManagedDatabaseSpec_DeepCopy ::
  "('om, 'co, 'vm, 'x) machinery \<Rightarrow> addr option \<Rightarrow> (('om, 'co, 'vm, 'x) memory, addr option) go" where
  "ManagedDatabaseSpec_DeepCopy L = copy_pointer K_DbSpec (ManagedDatabaseSpec_DeepCopyInto L)"

definition ManagedDatabaseStatus_DeepCopy ::
  "addr option \<Rightarrow> (('om, 'co, 'vm, 'x) memory, addr option) go" where
  "ManagedDatabaseStatus_DeepCopy = copy_pointer K_DbStatus ManagedDatabaseStatus_DeepCopyInto"

definition ManagedDatabase_DeepCopy ::
  "('om, 'co, 'vm, 'x) machinery \<Rightarrow> addr option \<Rightarrow> (('om, 'co, 'vm, 'x) memory, addr option) go" where
  "ManagedDatabase_DeepCopy L = copy_pointer K_Database (ManagedDatabase_DeepCopyInto L)"

definition ManagedDatabaseList_DeepCopy ::
  "('om, 'co, 'vm, 'x) machinery \<Rightarrow> addr option \<Rightarrow> (('om, 'co, 'vm, 'x) memory, addr option) go" where
  "ManagedDatabaseList_DeepCopy L = copy_pointer K_DbList (ManagedDatabaseList_DeepCopyInto L)"

definition DatabaseMigrationSchemaHint_DeepCopy ::
  "addr option \<Rightarrow> (('om, 'co, 'vm, 'x) memory, addr option) go" where
  "DatabaseMigrationSchemaHint_DeepCopy = copy_pointer K_Hint DatabaseMigrationSchemaHint_DeepCopyInto"

definition DatabaseMigrationSpec_DeepCopy ::
  "('om, 'co, 'vm, 'x) machinery \<Rightarrow> addr option \<Rightarrow> (('om, 'co, 'vm, 'x) memory, addr option) go" where
  "DatabaseMigrationSpec_DeepCopy L = copy_pointer K_MigSpec (DatabaseMigrationSpec_DeepCopyInto L)"

definition DatabaseMigration_DeepCopy ::
  "('om, 'co, 'vm, 'x) machinery \<Rightarrow> addr option \<Rightarrow> (('om, 'co, 'vm, 'x) memory, addr option) go" where
  "DatabaseMigration_DeepCopy L = copy_pointer K_Migration (DatabaseMigration_DeepCopyInto L)"

definition DatabaseMigrationList_DeepCopy ::
  "('om, 'co, 'vm, 'x) machinery \<Rightarrow> addr option \<Rightarrow> (('om, 'co, 'vm, 'x) memory, addr option) go" where
  "DatabaseMigrationList_DeepCopy L = copy_pointer K_MigList (DatabaseMigrationList_DeepCopyInto L)"

text \<open>A \<^verbatim>\<open>runtime.Object\<close>: which type the pointer has, and the pointer.\<close>

datatype runtime_Object =
    Object_ManagedDatabase addr
  | Object_ManagedDatabaseList addr
  | Object_DatabaseMigration addr
  | Object_DatabaseMigrationList addr

definition ManagedDatabase_DeepCopyObject ::
  "('om, 'co, 'vm, 'x) machinery \<Rightarrow> addr option \<Rightarrow> (('om, 'co, 'vm, 'x) memory, runtime_Object option) go" where
  "ManagedDatabase_DeepCopyObject L p =
     go_bind (ManagedDatabase_DeepCopy L p) (\<lambda>c. go_return (map_option Object_ManagedDatabase c))"

definition ManagedDatabaseList_DeepCopyObject ::
  "('om, 'co, 'vm, 'x) machinery \<Rightarrow> addr option \<Rightarrow> (('om, 'co, 'vm, 'x) memory, runtime_Object option) go" where
  "ManagedDatabaseList_DeepCopyObject L p =
     go_bind (ManagedDatabaseList_DeepCopy L p) (\<lambda>c. go_return (map_option Object_ManagedDatabaseList c))"

definition DatabaseMigration_DeepCopyObject ::
  "('om, 'co, 'vm, 'x) machinery \<Rightarrow> addr option \<Rightarrow> (('om, 'co, 'vm, 'x) memory, runtime_Object option) go" where
  "DatabaseMigration_DeepCopyObject L p =
     go_bind (DatabaseMigration_DeepCopy L p) (\<lambda>c. go_return (map_option Object_DatabaseMigration c))"

definition DatabaseMigrationList_DeepCopyObject ::
  "('om, 'co, 'vm, 'x) machinery \<Rightarrow> addr option \<Rightarrow> (('om, 'co, 'vm, 'x) memory, runtime_Object option) go" where
  "DatabaseMigrationList_DeepCopyObject L p =
     go_bind (DatabaseMigrationList_DeepCopy L p) (\<lambda>c. go_return (map_option Object_DatabaseMigrationList c))"

section \<open>The values the structs stand for\<close>

text \<open>How the library's representations are read.\<close>

record ('om, 'co, 'vm, 'x) readings =
  om_view :: "('om, 'co, 'vm, 'x) memory \<Rightarrow> 'om \<Rightarrow> ObjectMeta option"
  om_refs :: "('om, 'co, 'vm, 'x) memory \<Rightarrow> 'om \<Rightarrow> addr set"
  co_view :: "('om, 'co, 'vm, 'x) memory \<Rightarrow> 'co \<Rightarrow> Container option"
  co_refs :: "('om, 'co, 'vm, 'x) memory \<Rightarrow> 'co \<Rightarrow> addr set"
  vm_view :: "('om, 'co, 'vm, 'x) memory \<Rightarrow> 'vm \<Rightarrow> VolumeMount option"
  vm_refs :: "('om, 'co, 'vm, 'x) memory \<Rightarrow> 'vm \<Rightarrow> addr set"

definition view_Exporter ::
  "('om, 'co, 'vm, 'x) memory \<Rightarrow> PrometheusMetricExporterM \<Rightarrow> PrometheusMetricExporter option" where
  "view_Exporter H m = map_option (\<lambda>labels. \<lparr>ValueType = m_ValueType m, pm_Name = m_pmName m,
       HelpString = m_HelpString m, ExtraLabels = (case labels of None \<Rightarrow> Map.empty | Some f \<Rightarrow> f)\<rparr>)
     (view_pointer K_Labels plain H (m_ExtraLabels m))"

definition refs_Exporter :: "('om, 'co, 'vm, 'x) memory \<Rightarrow> PrometheusMetricExporterM \<Rightarrow> addr set" where
  "refs_Exporter H m = refs_pointer K_Labels no_refs H (m_ExtraLabels m)"

definition view_Query :: "('om, 'co, 'vm, 'x) memory \<Rightarrow> SQLQueryMetricM \<Rightarrow> SQLQueryMetric option" where
  "view_Query H m = map_option (\<lambda>metric. \<lparr>Query = m_Query m, PrometheusMetric = metric\<rparr>)
     (view_Exporter H (m_PrometheusMetric m))"

definition refs_Query :: "('om, 'co, 'vm, 'x) memory \<Rightarrow> SQLQueryMetricM \<Rightarrow> addr set" where
  "refs_Query H m = refs_Exporter H (m_PrometheusMetric m)"

text \<open>The three fields of \<^verbatim>\<open>DataMetrics\<close> are pointers to slices.\<close>

abbreviation metrics_part :: "DataMetricsM \<Rightarrow> addr option \<times> addr option \<times> addr option" where
  "metrics_part m \<equiv> (m_TableEstimatedSize m, m_TableNextID m, m_SQLQuery m)"

abbreviation view_tables :: "('om, 'co, 'vm, 'x) memory \<Rightarrow> addr option \<Rightarrow> TableReference list option option" where
  "view_tables \<equiv> view_pointer K_SliceVar (view_slice K_TableReference plain)"

abbreviation refs_tables :: "('om, 'co, 'vm, 'x) memory \<Rightarrow> addr option \<Rightarrow> addr set" where
  "refs_tables \<equiv> refs_pointer K_SliceVar (refs_slice K_TableReference no_refs)"

definition view_DataMetrics :: "('om, 'co, 'vm, 'x) memory \<Rightarrow> DataMetricsM \<Rightarrow> DataMetrics option" where
  "view_DataMetrics H m = map_option (\<lambda>(sizes, ids, queries).
       \<lparr>TableEstimatedSize = sizes, TableNextID = ids, SQLQuery = queries\<rparr>)
     (view_both view_tables (view_both view_tables
       (view_pointer K_SliceVar (view_slice K_Query view_Query))) H (metrics_part m))"

definition refs_DataMetrics :: "('om, 'co, 'vm, 'x) memory \<Rightarrow> DataMetricsM \<Rightarrow> addr set" where
  "refs_DataMetrics H m = refs_both refs_tables (refs_both refs_tables
     (refs_pointer K_SliceVar (refs_slice K_Query refs_Query))) H (metrics_part m)"

definition view_ContainerConfig :: "('om, 'co, 'vm, 'x) readings \<Rightarrow> ('om, 'co, 'vm, 'x) memory
   \<Rightarrow> 'vm MigrationContainerConfigM \<Rightarrow> MigrationContainerConfig option" where
  "view_ContainerConfig W H m = map_option (\<lambda>mount. \<lparr>mcc_Secret = m_Secret m, mcc_VolumeMount = mount\<rparr>)
     (vm_view W H (m_VolumeMount m))"

definition refs_ContainerConfig :: "('om, 'co, 'vm, 'x) readings \<Rightarrow> ('om, 'co, 'vm, 'x) memory
   \<Rightarrow> 'vm MigrationContainerConfigM \<Rightarrow> addr set" where
  "refs_ContainerConfig W H m = vm_refs W H (m_VolumeMount m)"

abbreviation spec_part :: "ManagedDatabaseSpecM \<Rightarrow> addr option \<times> addr option \<times> addr option" where
  "spec_part m \<equiv> (m_MigrationContainerConfig m, m_ExportDataMetrics m, m_HintsEngine m)"

definition view_DbSpec :: "('om, 'co, 'vm, 'x) readings \<Rightarrow> ('om, 'co, 'vm, 'x) memory
   \<Rightarrow> ManagedDatabaseSpecM \<Rightarrow> ManagedDatabaseSpec option" where
  "view_DbSpec W H m = map_option (\<lambda>(config, metrics, hints).
       \<lparr>DesiredSchemaVersion = m_DesiredSchemaVersion m, Connection = m_Connection m,
        MigrationEngine = m_MigrationEngine m, spec_MigrationContainerConfig = config,
        ExportDataMetrics = metrics, HintsEngine = hints, ReadOnly = m_ReadOnly m\<rparr>)
     (view_both (view_pointer K_ContainerConfig (view_ContainerConfig W))
       (view_both (view_pointer K_DataMetrics view_DataMetrics) (view_pointer K_HintsConfig plain)) H (spec_part m))"

definition refs_DbSpec :: "('om, 'co, 'vm, 'x) readings \<Rightarrow> ('om, 'co, 'vm, 'x) memory
   \<Rightarrow> ManagedDatabaseSpecM \<Rightarrow> addr set" where
  "refs_DbSpec W H m = refs_both (refs_pointer K_ContainerConfig (refs_ContainerConfig W))
     (refs_both (refs_pointer K_DataMetrics refs_DataMetrics) (refs_pointer K_HintsConfig no_refs)) H (spec_part m)"

definition view_DbStatus :: "('om, 'co, 'vm, 'x) memory \<Rightarrow> ManagedDatabaseStatusM \<Rightarrow> ManagedDatabaseStatus option" where
  "view_DbStatus H m = map_option (\<lambda>errors. \<lparr>CurrentVersion = m_CurrentVersion m, Errors = errors\<rparr>)
     (view_slice K_Error plain H (m_Errors m))"

definition refs_DbStatus :: "('om, 'co, 'vm, 'x) memory \<Rightarrow> ManagedDatabaseStatusM \<Rightarrow> addr set" where
  "refs_DbStatus H m = refs_slice K_Error no_refs H (m_Errors m)"

abbreviation db_part :: "'om ManagedDatabaseM \<Rightarrow> 'om \<times> ManagedDatabaseSpecM \<times> ManagedDatabaseStatusM" where
  "db_part m \<equiv> (m_ObjectMeta m, m_Spec m, m_Status m)"

definition view_Database :: "('om, 'co, 'vm, 'x) readings \<Rightarrow> ('om, 'co, 'vm, 'x) memory
   \<Rightarrow> 'om ManagedDatabaseM \<Rightarrow> (TypeMeta \<times> ManagedDatabase) option" where
  "view_Database W H m = map_option (\<lambda>(meta, spec, status). (m_TypeMeta m,
       ObjectMeta.extend meta (ManagedDatabase.fields spec status)))
     (view_both (om_view W) (view_both (view_DbSpec W) view_DbStatus) H (db_part m))"

definition refs_Database :: "('om, 'co, 'vm, 'x) readings \<Rightarrow> ('om, 'co, 'vm, 'x) memory
   \<Rightarrow> 'om ManagedDatabaseM \<Rightarrow> addr set" where
  "refs_Database W H m = refs_both (om_refs W) (refs_both (refs_DbSpec W) refs_DbStatus) H (db_part m)"

definition view_DbList :: "('om, 'co, 'vm, 'x) readings \<Rightarrow> ('om, 'co, 'vm, 'x) memory
   \<Rightarrow> ManagedDatabaseListM \<Rightarrow> (TypeMeta \<times> ListMeta \<times> (TypeMeta \<times> ManagedDatabase) list) option" where
  "view_DbList W H m = map_option (\<lambda>items. (dl_TypeMeta m, dl_ListMeta m, items))
     (view_slice K_Database (view_Database W) H (dl_Items m))"

definition refs_DbList :: "('om, 'co, 'vm, 'x) readings \<Rightarrow> ('om, 'co, 'vm, 'x) memory
   \<Rightarrow> ManagedDatabaseListM \<Rightarrow> addr set" where
  "refs_DbList W H m = refs_slice K_Database (refs_Database W) H (dl_Items m)"

definition view_Hint :: "('om, 'co, 'vm, 'x) memory \<Rightarrow> DatabaseMigrationSchemaHintM
   \<Rightarrow> DatabaseMigrationSchemaHint option" where
  "view_Hint H m = map_option (\<lambda>columns. \<lparr>TableName = TableName (m_TableReference m),
       Operation = m_Operation m, Columns = columns, hint_IndexType = m_IndexType m\<rparr>)
     (view_slice K_HintColumn plain H (m_Columns m))"

definition refs_Hint :: "('om, 'co, 'vm, 'x) memory \<Rightarrow> DatabaseMigrationSchemaHintM \<Rightarrow> addr set" where
  "refs_Hint H m = refs_slice K_HintColumn no_refs H (m_Columns m)"

definition view_MigSpec :: "('om, 'co, 'vm, 'x) readings \<Rightarrow> ('om, 'co, 'vm, 'x) memory
   \<Rightarrow> 'co DatabaseMigrationSpecM \<Rightarrow> DatabaseMigrationSpec option" where
  "view_MigSpec W H m = map_option (\<lambda>(container, hints). \<lparr>Previous = m_Previous m,
       MigrationContainerSpec = container, Scalable = m_Scalable m, SchemaHints = hints\<rparr>)
     (view_both (co_view W) (view_slice K_Hint view_Hint) H (m_MigrationContainerSpec m, m_SchemaHints m))"

definition refs_MigSpec :: "('om, 'co, 'vm, 'x) readings \<Rightarrow> ('om, 'co, 'vm, 'x) memory
   \<Rightarrow> 'co DatabaseMigrationSpecM \<Rightarrow> addr set" where
  "refs_MigSpec W H m = refs_both (co_refs W) (refs_slice K_Hint refs_Hint) H
     (m_MigrationContainerSpec m, m_SchemaHints m)"

definition view_Migration :: "('om, 'co, 'vm, 'x) readings \<Rightarrow> ('om, 'co, 'vm, 'x) memory
   \<Rightarrow> ('om, 'co) DatabaseMigrationM \<Rightarrow> (TypeMeta \<times> DatabaseMigration) option" where
  "view_Migration W H m = map_option (\<lambda>(meta, spec). (mm_TypeMeta m,
       ObjectMeta.extend meta (DatabaseMigration.fields spec)))
     (view_both (om_view W) (view_MigSpec W) H (mm_ObjectMeta m, mm_Spec m))"

definition refs_Migration :: "('om, 'co, 'vm, 'x) readings \<Rightarrow> ('om, 'co, 'vm, 'x) memory
   \<Rightarrow> ('om, 'co) DatabaseMigrationM \<Rightarrow> addr set" where
  "refs_Migration W H m = refs_both (om_refs W) (refs_MigSpec W) H (mm_ObjectMeta m, mm_Spec m)"

definition view_MigList :: "('om, 'co, 'vm, 'x) readings \<Rightarrow> ('om, 'co, 'vm, 'x) memory
   \<Rightarrow> DatabaseMigrationListM \<Rightarrow> (TypeMeta \<times> ListMeta \<times> (TypeMeta \<times> DatabaseMigration) list) option" where
  "view_MigList W H m = map_option (\<lambda>items. (ml_TypeMeta m, ml_ListMeta m, items))
     (view_slice K_Migration (view_Migration W) H (ml_Items m))"

definition refs_MigList :: "('om, 'co, 'vm, 'x) readings \<Rightarrow> ('om, 'co, 'vm, 'x) memory
   \<Rightarrow> DatabaseMigrationListM \<Rightarrow> addr set" where
  "refs_MigList W H m = refs_slice K_Migration (refs_Migration W) H (ml_Items m)"

section \<open>Every copy function keeps the contract\<close>

lemma go_bind_assoc: "go_bind (go_bind m f) g = go_bind m (\<lambda>x. go_bind (f x) g)"
  by (rule ext) (simp add: go_bind_def split: outcome.splits)

lemma go_bind_return: "go_bind (go_return x) f = f x"
  by (rule ext) (simp add: go_bind_def go_return_def)

lemmas copy_flat = copy_both_def go_bind_assoc go_bind_return

interpretation exporter: deep_copy PrometheusMetricExporter_DeepCopyInto view_Exporter refs_Exporter
  by (rule deep_copy_struct [where put = "\<lambda>y m. m\<lparr>m_ExtraLabels := y\<rparr>",
        OF deep_copy_pointer [OF kinds_ok(8) deep_copy_plain] _ view_Exporter_def refs_Exporter_def])
     (simp_all add: PrometheusMetricExporter_DeepCopyInto_def)

interpretation query: deep_copy SQLQueryMetric_DeepCopyInto view_Query refs_Query
  by (rule deep_copy_struct [where put = "\<lambda>y m. m\<lparr>m_PrometheusMetric := y\<rparr>",
        OF exporter.deep_copy_axioms _ view_Query_def refs_Query_def])
     (simp_all add: SQLQueryMetric_DeepCopyInto_def)

lemmas tables_deep_copy = deep_copy_pointer [OF kinds_ok(7) deep_copy_slice [OF kinds_ok(1) deep_copy_plain]]

lemmas queries_deep_copy = deep_copy_pointer [OF kinds_ok(7) deep_copy_slice [OF kinds_ok(10) query.deep_copy_axioms]]

interpretation data_metrics: deep_copy DataMetrics_DeepCopyInto view_DataMetrics refs_DataMetrics
  by (rule deep_copy_struct [where put = "\<lambda>y m. m\<lparr>m_TableEstimatedSize := fst y,
          m_TableNextID := fst (snd y), m_SQLQuery := snd (snd y)\<rparr>",
        OF deep_copy_both [OF tables_deep_copy deep_copy_both [OF tables_deep_copy queries_deep_copy]] _
          view_DataMetrics_def refs_DataMetrics_def])
     (simp_all add: DataMetrics_DeepCopyInto_def copy_flat)

interpretation db_status: deep_copy ManagedDatabaseStatus_DeepCopyInto view_DbStatus refs_DbStatus
  by (rule deep_copy_struct [where put = "\<lambda>y m. m\<lparr>m_Errors := y\<rparr>",
        OF deep_copy_slice [OF kinds_ok(3) deep_copy_plain] _ view_DbStatus_def refs_DbStatus_def])
     (simp_all add: ManagedDatabaseStatus_DeepCopyInto_def)

interpretation hint: deep_copy DatabaseMigrationSchemaHint_DeepCopyInto view_Hint refs_Hint
  by (rule deep_copy_struct [where put = "\<lambda>y m. m\<lparr>m_Columns := y\<rparr>",
        OF deep_copy_slice [OF kinds_ok(2) deep_copy_plain] _ view_Hint_def refs_Hint_def])
     (simp_all add: DatabaseMigrationSchemaHint_DeepCopyInto_def)

text \<open>
  The other types contain library types. Their contract is what is assumed of the library; everything
  below follows from it.
\<close>

locale api_copies =
  om: deep_copy "ObjectMeta_DeepCopyInto L" "om_view W" "om_refs W" +
  co: deep_copy "Container_DeepCopyInto L" "co_view W" "co_refs W" +
  vm: deep_copy "VolumeMount_DeepCopyInto L" "vm_view W" "vm_refs W"
  for L :: "('om, 'co, 'vm, 'x) machinery" and W :: "('om, 'co, 'vm, 'x) readings"

sublocale api_copies \<subseteq> config: deep_copy "MigrationContainerConfig_DeepCopyInto L"
    "view_ContainerConfig W" "refs_ContainerConfig W"
  by (rule deep_copy_struct [where put = "\<lambda>y m. m\<lparr>m_VolumeMount := y\<rparr>",
        OF vm.deep_copy_axioms _ view_ContainerConfig_def refs_ContainerConfig_def])
     (simp_all add: MigrationContainerConfig_DeepCopyInto_def)

sublocale api_copies \<subseteq> db_spec: deep_copy "ManagedDatabaseSpec_DeepCopyInto L" "view_DbSpec W" "refs_DbSpec W"
  by (rule deep_copy_struct [where put = "\<lambda>y m. m\<lparr>m_MigrationContainerConfig := fst y,
          m_ExportDataMetrics := fst (snd y), m_HintsEngine := snd (snd y)\<rparr>",
        OF deep_copy_both [OF deep_copy_pointer [OF kinds_ok(12) config.deep_copy_axioms]
          deep_copy_both [OF deep_copy_pointer [OF kinds_ok(11) data_metrics.deep_copy_axioms]
            deep_copy_pointer [OF kinds_ok(5) deep_copy_plain]]] _ view_DbSpec_def refs_DbSpec_def])
     (simp_all add: ManagedDatabaseSpec_DeepCopyInto_def copy_flat)

sublocale api_copies \<subseteq> db: deep_copy "ManagedDatabase_DeepCopyInto L" "view_Database W" "refs_Database W"
  by (rule deep_copy_struct [where put = "\<lambda>y m. m\<lparr>m_ObjectMeta := fst y, m_Spec := fst (snd y),
          m_Status := snd (snd y)\<rparr>",
        OF deep_copy_both [OF om.deep_copy_axioms
          deep_copy_both [OF db_spec.deep_copy_axioms db_status.deep_copy_axioms]] _
          view_Database_def refs_Database_def])
     (simp_all add: ManagedDatabase_DeepCopyInto_def copy_flat)

sublocale api_copies \<subseteq> db_list: deep_copy "ManagedDatabaseList_DeepCopyInto L" "view_DbList W" "refs_DbList W"
  by (rule deep_copy_struct [where put = "\<lambda>y m. m\<lparr>dl_Items := y\<rparr>",
        OF deep_copy_slice [OF kinds_ok(15) db.deep_copy_axioms] _ view_DbList_def refs_DbList_def])
     (simp_all add: ManagedDatabaseList_DeepCopyInto_def)

sublocale api_copies \<subseteq> mig_spec: deep_copy "DatabaseMigrationSpec_DeepCopyInto L" "view_MigSpec W" "refs_MigSpec W"
  by (rule deep_copy_struct [where put = "\<lambda>y m. m\<lparr>m_MigrationContainerSpec := fst y, m_SchemaHints := snd y\<rparr>",
        OF deep_copy_both [OF co.deep_copy_axioms deep_copy_slice [OF kinds_ok(17) hint.deep_copy_axioms]] _
          view_MigSpec_def refs_MigSpec_def])
     (simp_all add: DatabaseMigrationSpec_DeepCopyInto_def copy_flat)

sublocale api_copies \<subseteq> mig: deep_copy "DatabaseMigration_DeepCopyInto L" "view_Migration W" "refs_Migration W"
  by (rule deep_copy_struct [where put = "\<lambda>y m. m\<lparr>mm_ObjectMeta := fst y, mm_Spec := snd y\<rparr>",
        OF deep_copy_both [OF om.deep_copy_axioms mig_spec.deep_copy_axioms] _
          view_Migration_def refs_Migration_def])
     (simp_all add: DatabaseMigration_DeepCopyInto_def copy_flat)

sublocale api_copies \<subseteq> mig_list: deep_copy "DatabaseMigrationList_DeepCopyInto L" "view_MigList W" "refs_MigList W"
  by (rule deep_copy_struct [where put = "\<lambda>y m. m\<lparr>ml_Items := y\<rparr>",
        OF deep_copy_slice [OF kinds_ok(19) mig.deep_copy_axioms] _ view_MigList_def refs_MigList_def])
     (simp_all add: DatabaseMigrationList_DeepCopyInto_def)

text \<open>Pointers to the root objects, as \<^verbatim>\<open>DeepCopyObject\<close> gets and returns them.\<close>

context api_copies
begin

lemma db_pointer: "deep_copy (ManagedDatabase_DeepCopy L)
    (view_pointer K_Database (view_Database W)) (refs_pointer K_Database (refs_Database W))"
  unfolding ManagedDatabase_DeepCopy_def by (rule deep_copy_pointer [OF kinds_ok(15) db.deep_copy_axioms])

lemma db_list_pointer: "deep_copy (ManagedDatabaseList_DeepCopy L)
    (view_pointer K_DbList (view_DbList W)) (refs_pointer K_DbList (refs_DbList W))"
  unfolding ManagedDatabaseList_DeepCopy_def by (rule deep_copy_pointer [OF kinds_ok(16) db_list.deep_copy_axioms])

lemma mig_pointer: "deep_copy (DatabaseMigration_DeepCopy L)
    (view_pointer K_Migration (view_Migration W)) (refs_pointer K_Migration (refs_Migration W))"
  unfolding DatabaseMigration_DeepCopy_def by (rule deep_copy_pointer [OF kinds_ok(19) mig.deep_copy_axioms])

lemma mig_list_pointer: "deep_copy (DatabaseMigrationList_DeepCopy L)
    (view_pointer K_MigList (view_MigList W)) (refs_pointer K_MigList (refs_MigList W))"
  unfolding DatabaseMigrationList_DeepCopy_def by (rule deep_copy_pointer [OF kinds_ok(20) mig_list.deep_copy_axioms])

end

text \<open>The interface value wraps the new pointer.\<close>

lemma wp_object:
  assumes "wp m Q H"
  shows "wp (go_bind m (\<lambda>c. go_return (map_option f c))) (\<lambda>obj H'. \<exists>q. obj = map_option f q \<and> Q q H') H"
  unfolding wpp_bind by (rule wpp_mono [OF assms]) (auto simp: wp_simps)

section \<open>A library with references\<close>

text \<open>
  An instance of the library: object metadata holds its labels in a map of the store, containers and
  volume mounts are plain values.
\<close>

type_synonym ref_meta = "ObjectMeta \<times> addr option"

definition ref_machinery :: "(ref_meta, Container, VolumeMount, unit) machinery" where
  "ref_machinery = \<lparr>ObjectMeta_DeepCopyInto = (\<lambda>m. go_bind (copy_pointer K_Labels go_return (snd m))
       (\<lambda>labels. go_return (fst m, labels))),
     Container_DeepCopyInto = go_return, VolumeMount_DeepCopyInto = go_return\<rparr>"

definition ref_readings :: "(ref_meta, Container, VolumeMount, unit) readings" where
  "ref_readings = \<lparr>om_view = (\<lambda>H m. map_option (\<lambda>labels. (fst m)\<lparr>Labels := labels\<rparr>)
       (view_pointer K_Labels plain H (snd m))), om_refs = (\<lambda>H m. refs_pointer K_Labels no_refs H (snd m)),
     co_view = plain, co_refs = no_refs, vm_view = plain, vm_refs = no_refs\<rparr>"

interpretation ref_copies: api_copies ref_machinery ref_readings
proof -
  have "deep_copy (ObjectMeta_DeepCopyInto ref_machinery) (om_view ref_readings) (om_refs ref_readings)"
    by (rule deep_copy_struct [OF deep_copy_pointer [OF kinds_ok(8) deep_copy_plain],
          where get = snd and put = "\<lambda>y m. (fst m, y)" and build = "\<lambda>m labels. (fst m)\<lparr>Labels := labels\<rparr>"])
       (simp_all add: ref_machinery_def ref_readings_def)
  then show "api_copies ref_machinery ref_readings"
    by (simp add: api_copies_def ref_machinery_def ref_readings_def deep_copy_plain)
qed

text \<open>A list of one managed database with labels and errors, and a list of one migration, in memory.\<close>

definition ex_memory :: "(ref_meta, Container, VolumeMount, unit) memory" where
  "ex_memory = \<lparr>cells = [
     0 \<mapsto> A_Labels [[''app'' \<mapsto> ''registry'']],
     1 \<mapsto> A_Error [\<lparr>Message = ''a'', Temporary = True\<rparr>, \<lparr>Message = ''b'', Temporary = False\<rparr>],
     2 \<mapsto> A_Database [\<lparr>m_TypeMeta = \<lparr>Kind = ''ManagedDatabase'', APIVersion = ''v1alpha1''\<rparr>,
       m_ObjectMeta = (zero_ObjectMeta, Some 0),
       m_Spec = \<lparr>m_DesiredSchemaVersion = ''v1'', m_Connection = \<lparr>DSNSecret = ''dsn''\<rparr>,
         m_MigrationEngine = ''alembic'', m_MigrationContainerConfig = None, m_ExportDataMetrics = None,
         m_HintsEngine = Some 3, m_ReadOnly = False\<rparr>,
       m_Status = \<lparr>m_CurrentVersion = [], m_Errors = Some (1, 1, 1)\<rparr>\<rparr>],
     3 \<mapsto> A_HintsConfig [\<lparr>Enabled = True, LargeTableRowsThreshold = 7\<rparr>],
     4 \<mapsto> A_MigList [\<lparr>ml_TypeMeta = \<lparr>Kind = ''DatabaseMigrationList'', APIVersion = ''v1alpha1''\<rparr>,
       ml_ListMeta = \<lparr>lm_SelfLink = [], lm_ResourceVersion = ''1'', lm_Continue = []\<rparr>, ml_Items = Some (5, 0, 1)\<rparr>],
     5 \<mapsto> A_Migration [\<lparr>mm_TypeMeta = \<lparr>Kind = ''DatabaseMigration'', APIVersion = ''v1alpha1''\<rparr>,
       mm_ObjectMeta = (zero_ObjectMeta, Some 0),
       mm_Spec = \<lparr>m_Previous = ''v0'', m_MigrationContainerSpec = \<lparr>c_Name = [], c_Image = ''img'', c_Command = [],
         c_Env = [], c_EnvFrom = [], c_VolumeMounts = [], c_ImagePullPolicy = []\<rparr>, m_Scalable = False,
         m_SchemaHints = None\<rparr>, mm_Status = ()\<rparr>],
     6 \<mapsto> A_DbList [\<lparr>dl_TypeMeta = \<lparr>Kind = ''ManagedDatabaseList'', APIVersion = ''v1alpha1''\<rparr>,
       dl_ListMeta = \<lparr>lm_SelfLink = [], lm_ResourceVersion = ''2'', lm_Continue = []\<rparr>, dl_Items = Some (2, 0, 1)\<rparr>]],
     lim = 7\<rparr>"

lemma ex_memory_ok: "store_ok ex_memory"
  by (auto simp: store_ok_def ex_memory_def split: if_splits)

abbreviation ex_database :: ManagedDatabase where
  "ex_database \<equiv> zero_ManagedDatabase\<lparr>Labels := Some [''app'' \<mapsto> ''registry''],
     Spec := \<lparr>DesiredSchemaVersion = ''v1'', Connection = \<lparr>DSNSecret = ''dsn''\<rparr>, MigrationEngine = ''alembic'',
       spec_MigrationContainerConfig = None, ExportDataMetrics = None,
       HintsEngine = Some \<lparr>Enabled = True, LargeTableRowsThreshold = 7\<rparr>, ReadOnly = False\<rparr>,
     Status := \<lparr>CurrentVersion = [], Errors = [\<lparr>Message = ''b'', Temporary = False\<rparr>]\<rparr>\<rparr>"

lemma ex_memory_dbs: "view_pointer K_DbList (view_DbList ref_readings) ex_memory (Some 6) =
    Some (Some (\<lparr>Kind = ''ManagedDatabaseList'', APIVersion = ''v1alpha1''\<rparr>,
      \<lparr>lm_SelfLink = [], lm_ResourceVersion = ''2'', lm_Continue = []\<rparr>,
      [(\<lparr>Kind = ''ManagedDatabase'', APIVersion = ''v1alpha1''\<rparr>, ex_database)]))"
  by (simp add: ex_memory_def view_pointer_def read_at_def K_DbList_def view_DbList_def K_Database_def
      view_Database_def view_both_def ref_readings_def K_Labels_def view_DbSpec_def K_HintsConfig_def
      view_DbStatus_def view_slice_def K_Error_def window_def zero_ObjectMeta_def zero_ManagedDatabase_def
      ObjectMeta.defs ManagedDatabase.defs)

end
