(* ===== verification/Fakes.thy ===== *)
theory Fakes
  imports DbAdmin
begin

text \<open>
  The fakes of the administration interface and of the migration engine
  (\<^verbatim>\<open>pkg/dbadmin/dbadminfakes\<close>), with which the tests of the controller and of the hints engine run.

  For every method of the interface a fake keeps a stub, the arguments of all calls, a result to return
  and results for particular calls; \<open>fake_method\<close> is that state, and the methods that every method of the
  interface gets (the call itself, \<^verbatim>\<open>CallCount\<close>, \<^verbatim>\<open>Calls\<close>, \<^verbatim>\<open>ArgsForCall\<close>, \<^verbatim>\<open>Returns\<close>,
  \<^verbatim>\<open>ReturnsOnCall\<close>) are its operations. The generated methods are those operations at one field of the
  fake. A stub is a program on a state of its own (\<open>'w\<close>); that a stub calls the fake again is not
  represented. Arguments and results are values.

  The mutexes do nothing when one goroutine uses a fake; \<^verbatim>\<open>FakeLocks\<close> is about several.
\<close>

section \<open>One method of a fake\<close>

record ('w, 'a, 'r) fake_method =
  Stub :: "('a \<Rightarrow> ('w, 'r) go) option"
  ArgsForCall :: "'a list"
  Returns :: 'r
  ReturnsOnCall :: "int \<rightharpoonup> 'r"

definition new_method :: "'r \<Rightarrow> ('w, 'a, 'r) fake_method" where
  "new_method zero = \<lparr>Stub = None, ArgsForCall = [], Returns = zero, ReturnsOnCall = Map.empty\<rparr>"

definition record_args :: "'a \<Rightarrow> ('w, 'a, 'r) fake_method \<Rightarrow> ('w, 'a, 'r) fake_method" where
  "record_args args m = m\<lparr>ArgsForCall := ArgsForCall m @ [args]\<rparr>"

definition call_count :: "('w, 'a, 'r) fake_method \<Rightarrow> int" where
  "call_count m = int (length (ArgsForCall m))"

definition set_stub ::
  "('a \<Rightarrow> ('w, 'r) go) option \<Rightarrow> ('w, 'a, 'r) fake_method \<Rightarrow> ('w, 'a, 'r) fake_method" where
  "set_stub stub m = m\<lparr>Stub := stub\<rparr>"

definition set_returns :: "'r \<Rightarrow> ('w, 'a, 'r) fake_method \<Rightarrow> ('w, 'a, 'r) fake_method" where
  "set_returns r m = m\<lparr>Stub := None, Returns := r\<rparr>"

definition set_returns_on_call :: "int \<Rightarrow> 'r \<Rightarrow> ('w, 'a, 'r) fake_method \<Rightarrow> ('w, 'a, 'r) fake_method" where
  "set_returns_on_call i r m = m\<lparr>Stub := None, ReturnsOnCall := (ReturnsOnCall m)(i \<mapsto> r)\<rparr>"

text \<open>An index outside the recorded calls panics.\<close>

definition args_for_call :: "int \<Rightarrow> ('w, 'a, 'r) fake_method \<Rightarrow> ('s, 'a) go" where
  "args_for_call i m = (if 0 \<le> i \<and> i < call_count m then go_return (ArgsForCall m ! nat i)
     else go_panic ''index out of range'')"

text \<open>The answer of a call whose number is \<open>n\<close>: the stub's, the one for that call, the general one.\<close>

definition answer :: "int \<Rightarrow> 'a \<Rightarrow> ('w, 'a, 'r) fake_method \<Rightarrow> ('w, 'r) go" where
  "answer n args m = (case Stub m of
       Some stub \<Rightarrow> stub args
     | None \<Rightarrow> (case ReturnsOnCall m n of Some r \<Rightarrow> go_return r | None \<Rightarrow> go_return (Returns m)))"

section \<open>Invocations\<close>

text \<open>An \<^verbatim>\<open>interface{}\<close> argument as it is recorded.\<close>

datatype any = AnyString string | AnyStrings "string list" | AnyInt int

type_synonym invocations = "string \<rightharpoonup> any list list"

definition recordInvocation :: "string \<Rightarrow> any list \<Rightarrow> invocations \<Rightarrow> invocations" where
  "recordInvocation key args invs =
     invs(key \<mapsto> (case invs key of None \<Rightarrow> [] | Some calls \<Rightarrow> calls) @ [args])"

section \<open>FakeDbAdmin\<close>

record 'w FakeDbAdmin =
  fake_close :: "('w, unit, go_error option) fake_method"
  fake_constraintWillFail :: "('w, string \<times> ConstraintType \<times> string list, bool \<times> go_error option) fake_method"
  fake_getNextIDs :: "('w, string list, (string \<rightharpoonup> u64) \<times> go_error option) fake_method"
  fake_getSchemaVersion :: "('w, unit, string \<times> go_error option) fake_method"
  fake_getTableSizeEstimates :: "('w, string list, (string \<rightharpoonup> u64) \<times> go_error option) fake_method"
  fake_isBlockingIndexCreation :: "('w, string \<times> IndexType \<times> string list, bool \<times> go_error option) fake_method"
  fake_listUsernames :: "('w, string, string list \<times> go_error option) fake_method"
  fake_selectFloat :: "('w, string, float64 \<times> go_error option) fake_method"
  fake_verifyUnused :: "('w, string, go_error option) fake_method"
  fake_writeCredentials :: "('w, string \<times> string, go_error option) fake_method"
  fake_invocations :: invocations

text \<open>\<^verbatim>\<open>new(FakeDbAdmin)\<close>: no stubs, no calls, zero results.\<close>

definition new_FakeDbAdmin :: "'w FakeDbAdmin" where
  "new_FakeDbAdmin = \<lparr>fake_close = new_method None, fake_constraintWillFail = new_method (False, None),
     fake_getNextIDs = new_method (Map.empty, None), fake_getSchemaVersion = new_method ([], None),
     fake_getTableSizeEstimates = new_method (Map.empty, None),
     fake_isBlockingIndexCreation = new_method (False, None), fake_listUsernames = new_method ([], None),
     fake_selectFloat = new_method (FloatBits 0, None), fake_verifyUnused = new_method None,
     fake_writeCredentials = new_method None, fake_invocations = Map.empty\<rparr>"

text \<open>
  A call: note the result for this call, record the arguments with the method and among the invocations,
  then answer. The state is the fake and what its stubs work on.
\<close>

type_synonym ('f, 'w, 'r) on_fake = "('f \<times> 'w, 'r) go"

definition fake_call ::
  "('f \<Rightarrow> ('w, 'a, 'r) fake_method) \<Rightarrow> ('a \<Rightarrow> 'f \<Rightarrow> 'f) \<Rightarrow> 'a \<Rightarrow> ('f, 'w, 'r) on_fake" where
  "fake_call method note_call args =
     go_bind (go_gets (\<lambda>(f, w). call_count (method f))) (\<lambda>n.
     go_bind (go_modify (\<lambda>(f, w). (note_call args f, w))) (\<lambda>_.
     go_bind (go_gets (\<lambda>(f, w). method f)) (\<lambda>m.
     go_zoom snd (\<lambda>w (f, _). (f, w)) (answer n args m))))"

section \<open>The methods of FakeDbAdmin\<close>

text \<open>What a method writes down among the invocations.\<close>

abbreviation enc_Close :: "unit \<Rightarrow> any list" where
  "enc_Close \<equiv> (\<lambda>_. [])"

abbreviation enc_ConstraintWillFail :: "string \<times> ConstraintType \<times> string list \<Rightarrow> any list" where
  "enc_ConstraintWillFail \<equiv> (\<lambda>(a1, a2, a3). [AnyString a1, AnyInt a2, AnyStrings a3])"

abbreviation enc_GetNextIDs :: "string list \<Rightarrow> any list" where
  "enc_GetNextIDs \<equiv> (\<lambda>a1. [AnyStrings a1])"

abbreviation enc_GetSchemaVersion :: "unit \<Rightarrow> any list" where
  "enc_GetSchemaVersion \<equiv> (\<lambda>_. [])"

abbreviation enc_GetTableSizeEstimates :: "string list \<Rightarrow> any list" where
  "enc_GetTableSizeEstimates \<equiv> (\<lambda>a1. [AnyStrings a1])"

abbreviation enc_IsBlockingIndexCreation :: "string \<times> IndexType \<times> string list \<Rightarrow> any list" where
  "enc_IsBlockingIndexCreation \<equiv> (\<lambda>(a1, a2, a3). [AnyString a1, AnyInt a2, AnyStrings a3])"

abbreviation enc_ListUsernames :: "string \<Rightarrow> any list" where
  "enc_ListUsernames \<equiv> (\<lambda>a1. [AnyString a1])"

abbreviation enc_SelectFloat :: "string \<Rightarrow> any list" where
  "enc_SelectFloat \<equiv> (\<lambda>a1. [AnyString a1])"

abbreviation enc_VerifyUnusedAndDeleteCredentials :: "string \<Rightarrow> any list" where
  "enc_VerifyUnusedAndDeleteCredentials \<equiv> (\<lambda>a1. [AnyString a1])"

abbreviation enc_WriteCredentials :: "string \<times> string \<Rightarrow> any list" where
  "enc_WriteCredentials \<equiv> (\<lambda>(a1, a2). [AnyString a1, AnyString a2])"

paragraph \<open>Close\<close>

definition FakeDbAdmin_Close ::
  "('w FakeDbAdmin, 'w, go_error option) on_fake" where
  "FakeDbAdmin_Close = fake_call fake_close (\<lambda>args f. (fake_close_update (record_args args) f)
     \<lparr>fake_invocations := recordInvocation ''Close'' (enc_Close args) (fake_invocations f)\<rparr>) ()"

definition FakeDbAdmin_CloseCallCount :: "'w FakeDbAdmin \<Rightarrow> int" where
  "FakeDbAdmin_CloseCallCount f = call_count (fake_close f)"

definition FakeDbAdmin_CloseCalls ::
  "(unit \<Rightarrow> ('w, go_error option) go) option \<Rightarrow> 'w FakeDbAdmin \<Rightarrow> 'w FakeDbAdmin" where
  "FakeDbAdmin_CloseCalls stub = fake_close_update (set_stub stub)"

definition FakeDbAdmin_CloseReturns :: "go_error option \<Rightarrow> 'w FakeDbAdmin \<Rightarrow> 'w FakeDbAdmin" where
  "FakeDbAdmin_CloseReturns r = fake_close_update (set_returns r)"

definition FakeDbAdmin_CloseReturnsOnCall :: "int \<Rightarrow> go_error option \<Rightarrow> 'w FakeDbAdmin \<Rightarrow> 'w FakeDbAdmin" where
  "FakeDbAdmin_CloseReturnsOnCall i r = fake_close_update (set_returns_on_call i r)"

paragraph \<open>ConstraintWillFail\<close>

definition FakeDbAdmin_ConstraintWillFail ::
  "string \<Rightarrow> ConstraintType \<Rightarrow> string list \<Rightarrow> ('w FakeDbAdmin, 'w, bool \<times> go_error option) on_fake" where
  "FakeDbAdmin_ConstraintWillFail a1 a2 a3 = fake_call fake_constraintWillFail (\<lambda>args f. (fake_constraintWillFail_update (record_args args) f)
     \<lparr>fake_invocations := recordInvocation ''ConstraintWillFail'' (enc_ConstraintWillFail args) (fake_invocations f)\<rparr>) (a1, a2, a3)"

definition FakeDbAdmin_ConstraintWillFailCallCount :: "'w FakeDbAdmin \<Rightarrow> int" where
  "FakeDbAdmin_ConstraintWillFailCallCount f = call_count (fake_constraintWillFail f)"

definition FakeDbAdmin_ConstraintWillFailCalls ::
  "(string \<times> ConstraintType \<times> string list \<Rightarrow> ('w, bool \<times> go_error option) go) option \<Rightarrow> 'w FakeDbAdmin \<Rightarrow> 'w FakeDbAdmin" where
  "FakeDbAdmin_ConstraintWillFailCalls stub = fake_constraintWillFail_update (set_stub stub)"

definition FakeDbAdmin_ConstraintWillFailArgsForCall :: "int \<Rightarrow> 'w FakeDbAdmin \<Rightarrow> ('s, string \<times> ConstraintType \<times> string list) go" where
  "FakeDbAdmin_ConstraintWillFailArgsForCall i f = args_for_call i (fake_constraintWillFail f)"

definition FakeDbAdmin_ConstraintWillFailReturns :: "bool \<times> go_error option \<Rightarrow> 'w FakeDbAdmin \<Rightarrow> 'w FakeDbAdmin" where
  "FakeDbAdmin_ConstraintWillFailReturns r = fake_constraintWillFail_update (set_returns r)"

definition FakeDbAdmin_ConstraintWillFailReturnsOnCall :: "int \<Rightarrow> bool \<times> go_error option \<Rightarrow> 'w FakeDbAdmin \<Rightarrow> 'w FakeDbAdmin" where
  "FakeDbAdmin_ConstraintWillFailReturnsOnCall i r = fake_constraintWillFail_update (set_returns_on_call i r)"

paragraph \<open>GetNextIDs\<close>

definition FakeDbAdmin_GetNextIDs ::
  "string list \<Rightarrow> ('w FakeDbAdmin, 'w, (string \<rightharpoonup> u64) \<times> go_error option) on_fake" where
  "FakeDbAdmin_GetNextIDs a1 = fake_call fake_getNextIDs (\<lambda>args f. (fake_getNextIDs_update (record_args args) f)
     \<lparr>fake_invocations := recordInvocation ''GetNextIDs'' (enc_GetNextIDs args) (fake_invocations f)\<rparr>) a1"

definition FakeDbAdmin_GetNextIDsCallCount :: "'w FakeDbAdmin \<Rightarrow> int" where
  "FakeDbAdmin_GetNextIDsCallCount f = call_count (fake_getNextIDs f)"

definition FakeDbAdmin_GetNextIDsCalls ::
  "(string list \<Rightarrow> ('w, (string \<rightharpoonup> u64) \<times> go_error option) go) option \<Rightarrow> 'w FakeDbAdmin \<Rightarrow> 'w FakeDbAdmin" where
  "FakeDbAdmin_GetNextIDsCalls stub = fake_getNextIDs_update (set_stub stub)"

definition FakeDbAdmin_GetNextIDsArgsForCall :: "int \<Rightarrow> 'w FakeDbAdmin \<Rightarrow> ('s, string list) go" where
  "FakeDbAdmin_GetNextIDsArgsForCall i f = args_for_call i (fake_getNextIDs f)"

definition FakeDbAdmin_GetNextIDsReturns :: "(string \<rightharpoonup> u64) \<times> go_error option \<Rightarrow> 'w FakeDbAdmin \<Rightarrow> 'w FakeDbAdmin" where
  "FakeDbAdmin_GetNextIDsReturns r = fake_getNextIDs_update (set_returns r)"

definition FakeDbAdmin_GetNextIDsReturnsOnCall :: "int \<Rightarrow> (string \<rightharpoonup> u64) \<times> go_error option \<Rightarrow> 'w FakeDbAdmin \<Rightarrow> 'w FakeDbAdmin" where
  "FakeDbAdmin_GetNextIDsReturnsOnCall i r = fake_getNextIDs_update (set_returns_on_call i r)"

paragraph \<open>GetSchemaVersion\<close>

definition FakeDbAdmin_GetSchemaVersion ::
  "('w FakeDbAdmin, 'w, string \<times> go_error option) on_fake" where
  "FakeDbAdmin_GetSchemaVersion = fake_call fake_getSchemaVersion (\<lambda>args f. (fake_getSchemaVersion_update (record_args args) f)
     \<lparr>fake_invocations := recordInvocation ''GetSchemaVersion'' (enc_GetSchemaVersion args) (fake_invocations f)\<rparr>) ()"

definition FakeDbAdmin_GetSchemaVersionCallCount :: "'w FakeDbAdmin \<Rightarrow> int" where
  "FakeDbAdmin_GetSchemaVersionCallCount f = call_count (fake_getSchemaVersion f)"

definition FakeDbAdmin_GetSchemaVersionCalls ::
  "(unit \<Rightarrow> ('w, string \<times> go_error option) go) option \<Rightarrow> 'w FakeDbAdmin \<Rightarrow> 'w FakeDbAdmin" where
  "FakeDbAdmin_GetSchemaVersionCalls stub = fake_getSchemaVersion_update (set_stub stub)"

definition FakeDbAdmin_GetSchemaVersionReturns :: "string \<times> go_error option \<Rightarrow> 'w FakeDbAdmin \<Rightarrow> 'w FakeDbAdmin" where
  "FakeDbAdmin_GetSchemaVersionReturns r = fake_getSchemaVersion_update (set_returns r)"

definition FakeDbAdmin_GetSchemaVersionReturnsOnCall :: "int \<Rightarrow> string \<times> go_error option \<Rightarrow> 'w FakeDbAdmin \<Rightarrow> 'w FakeDbAdmin" where
  "FakeDbAdmin_GetSchemaVersionReturnsOnCall i r = fake_getSchemaVersion_update (set_returns_on_call i r)"

paragraph \<open>GetTableSizeEstimates\<close>

definition FakeDbAdmin_GetTableSizeEstimates ::
  "string list \<Rightarrow> ('w FakeDbAdmin, 'w, (string \<rightharpoonup> u64) \<times> go_error option) on_fake" where
  "FakeDbAdmin_GetTableSizeEstimates a1 = fake_call fake_getTableSizeEstimates (\<lambda>args f. (fake_getTableSizeEstimates_update (record_args args) f)
     \<lparr>fake_invocations := recordInvocation ''GetTableSizeEstimates'' (enc_GetTableSizeEstimates args) (fake_invocations f)\<rparr>) a1"

definition FakeDbAdmin_GetTableSizeEstimatesCallCount :: "'w FakeDbAdmin \<Rightarrow> int" where
  "FakeDbAdmin_GetTableSizeEstimatesCallCount f = call_count (fake_getTableSizeEstimates f)"

definition FakeDbAdmin_GetTableSizeEstimatesCalls ::
  "(string list \<Rightarrow> ('w, (string \<rightharpoonup> u64) \<times> go_error option) go) option \<Rightarrow> 'w FakeDbAdmin \<Rightarrow> 'w FakeDbAdmin" where
  "FakeDbAdmin_GetTableSizeEstimatesCalls stub = fake_getTableSizeEstimates_update (set_stub stub)"

definition FakeDbAdmin_GetTableSizeEstimatesArgsForCall :: "int \<Rightarrow> 'w FakeDbAdmin \<Rightarrow> ('s, string list) go" where
  "FakeDbAdmin_GetTableSizeEstimatesArgsForCall i f = args_for_call i (fake_getTableSizeEstimates f)"

definition FakeDbAdmin_GetTableSizeEstimatesReturns :: "(string \<rightharpoonup> u64) \<times> go_error option \<Rightarrow> 'w FakeDbAdmin \<Rightarrow> 'w FakeDbAdmin" where
  "FakeDbAdmin_GetTableSizeEstimatesReturns r = fake_getTableSizeEstimates_update (set_returns r)"

definition FakeDbAdmin_GetTableSizeEstimatesReturnsOnCall :: "int \<Rightarrow> (string \<rightharpoonup> u64) \<times> go_error option \<Rightarrow> 'w FakeDbAdmin \<Rightarrow> 'w FakeDbAdmin" where
  "FakeDbAdmin_GetTableSizeEstimatesReturnsOnCall i r = fake_getTableSizeEstimates_update (set_returns_on_call i r)"

paragraph \<open>IsBlockingIndexCreation\<close>

definition FakeDbAdmin_IsBlockingIndexCreation ::
  "string \<Rightarrow> IndexType \<Rightarrow> string list \<Rightarrow> ('w FakeDbAdmin, 'w, bool \<times> go_error option) on_fake" where
  "FakeDbAdmin_IsBlockingIndexCreation a1 a2 a3 = fake_call fake_isBlockingIndexCreation (\<lambda>args f. (fake_isBlockingIndexCreation_update (record_args args) f)
     \<lparr>fake_invocations := recordInvocation ''IsBlockingIndexCreation'' (enc_IsBlockingIndexCreation args) (fake_invocations f)\<rparr>) (a1, a2, a3)"

definition FakeDbAdmin_IsBlockingIndexCreationCallCount :: "'w FakeDbAdmin \<Rightarrow> int" where
  "FakeDbAdmin_IsBlockingIndexCreationCallCount f = call_count (fake_isBlockingIndexCreation f)"

definition FakeDbAdmin_IsBlockingIndexCreationCalls ::
  "(string \<times> IndexType \<times> string list \<Rightarrow> ('w, bool \<times> go_error option) go) option \<Rightarrow> 'w FakeDbAdmin \<Rightarrow> 'w FakeDbAdmin" where
  "FakeDbAdmin_IsBlockingIndexCreationCalls stub = fake_isBlockingIndexCreation_update (set_stub stub)"

definition FakeDbAdmin_IsBlockingIndexCreationArgsForCall :: "int \<Rightarrow> 'w FakeDbAdmin \<Rightarrow> ('s, string \<times> IndexType \<times> string list) go" where
  "FakeDbAdmin_IsBlockingIndexCreationArgsForCall i f = args_for_call i (fake_isBlockingIndexCreation f)"

definition FakeDbAdmin_IsBlockingIndexCreationReturns :: "bool \<times> go_error option \<Rightarrow> 'w FakeDbAdmin \<Rightarrow> 'w FakeDbAdmin" where
  "FakeDbAdmin_IsBlockingIndexCreationReturns r = fake_isBlockingIndexCreation_update (set_returns r)"

definition FakeDbAdmin_IsBlockingIndexCreationReturnsOnCall :: "int \<Rightarrow> bool \<times> go_error option \<Rightarrow> 'w FakeDbAdmin \<Rightarrow> 'w FakeDbAdmin" where
  "FakeDbAdmin_IsBlockingIndexCreationReturnsOnCall i r = fake_isBlockingIndexCreation_update (set_returns_on_call i r)"

paragraph \<open>ListUsernames\<close>

definition FakeDbAdmin_ListUsernames ::
  "string \<Rightarrow> ('w FakeDbAdmin, 'w, string list \<times> go_error option) on_fake" where
  "FakeDbAdmin_ListUsernames a1 = fake_call fake_listUsernames (\<lambda>args f. (fake_listUsernames_update (record_args args) f)
     \<lparr>fake_invocations := recordInvocation ''ListUsernames'' (enc_ListUsernames args) (fake_invocations f)\<rparr>) a1"

definition FakeDbAdmin_ListUsernamesCallCount :: "'w FakeDbAdmin \<Rightarrow> int" where
  "FakeDbAdmin_ListUsernamesCallCount f = call_count (fake_listUsernames f)"

definition FakeDbAdmin_ListUsernamesCalls ::
  "(string \<Rightarrow> ('w, string list \<times> go_error option) go) option \<Rightarrow> 'w FakeDbAdmin \<Rightarrow> 'w FakeDbAdmin" where
  "FakeDbAdmin_ListUsernamesCalls stub = fake_listUsernames_update (set_stub stub)"

definition FakeDbAdmin_ListUsernamesArgsForCall :: "int \<Rightarrow> 'w FakeDbAdmin \<Rightarrow> ('s, string) go" where
  "FakeDbAdmin_ListUsernamesArgsForCall i f = args_for_call i (fake_listUsernames f)"

definition FakeDbAdmin_ListUsernamesReturns :: "string list \<times> go_error option \<Rightarrow> 'w FakeDbAdmin \<Rightarrow> 'w FakeDbAdmin" where
  "FakeDbAdmin_ListUsernamesReturns r = fake_listUsernames_update (set_returns r)"

definition FakeDbAdmin_ListUsernamesReturnsOnCall :: "int \<Rightarrow> string list \<times> go_error option \<Rightarrow> 'w FakeDbAdmin \<Rightarrow> 'w FakeDbAdmin" where
  "FakeDbAdmin_ListUsernamesReturnsOnCall i r = fake_listUsernames_update (set_returns_on_call i r)"

paragraph \<open>SelectFloat\<close>

definition FakeDbAdmin_SelectFloat ::
  "string \<Rightarrow> ('w FakeDbAdmin, 'w, float64 \<times> go_error option) on_fake" where
  "FakeDbAdmin_SelectFloat a1 = fake_call fake_selectFloat (\<lambda>args f. (fake_selectFloat_update (record_args args) f)
     \<lparr>fake_invocations := recordInvocation ''SelectFloat'' (enc_SelectFloat args) (fake_invocations f)\<rparr>) a1"

definition FakeDbAdmin_SelectFloatCallCount :: "'w FakeDbAdmin \<Rightarrow> int" where
  "FakeDbAdmin_SelectFloatCallCount f = call_count (fake_selectFloat f)"

definition FakeDbAdmin_SelectFloatCalls ::
  "(string \<Rightarrow> ('w, float64 \<times> go_error option) go) option \<Rightarrow> 'w FakeDbAdmin \<Rightarrow> 'w FakeDbAdmin" where
  "FakeDbAdmin_SelectFloatCalls stub = fake_selectFloat_update (set_stub stub)"

definition FakeDbAdmin_SelectFloatArgsForCall :: "int \<Rightarrow> 'w FakeDbAdmin \<Rightarrow> ('s, string) go" where
  "FakeDbAdmin_SelectFloatArgsForCall i f = args_for_call i (fake_selectFloat f)"

definition FakeDbAdmin_SelectFloatReturns :: "float64 \<times> go_error option \<Rightarrow> 'w FakeDbAdmin \<Rightarrow> 'w FakeDbAdmin" where
  "FakeDbAdmin_SelectFloatReturns r = fake_selectFloat_update (set_returns r)"

definition FakeDbAdmin_SelectFloatReturnsOnCall :: "int \<Rightarrow> float64 \<times> go_error option \<Rightarrow> 'w FakeDbAdmin \<Rightarrow> 'w FakeDbAdmin" where
  "FakeDbAdmin_SelectFloatReturnsOnCall i r = fake_selectFloat_update (set_returns_on_call i r)"

paragraph \<open>VerifyUnusedAndDeleteCredentials\<close>

definition FakeDbAdmin_VerifyUnusedAndDeleteCredentials ::
  "string \<Rightarrow> ('w FakeDbAdmin, 'w, go_error option) on_fake" where
  "FakeDbAdmin_VerifyUnusedAndDeleteCredentials a1 = fake_call fake_verifyUnused (\<lambda>args f. (fake_verifyUnused_update (record_args args) f)
     \<lparr>fake_invocations := recordInvocation ''VerifyUnusedAndDeleteCredentials'' (enc_VerifyUnusedAndDeleteCredentials args) (fake_invocations f)\<rparr>) a1"

definition FakeDbAdmin_VerifyUnusedAndDeleteCredentialsCallCount :: "'w FakeDbAdmin \<Rightarrow> int" where
  "FakeDbAdmin_VerifyUnusedAndDeleteCredentialsCallCount f = call_count (fake_verifyUnused f)"

definition FakeDbAdmin_VerifyUnusedAndDeleteCredentialsCalls ::
  "(string \<Rightarrow> ('w, go_error option) go) option \<Rightarrow> 'w FakeDbAdmin \<Rightarrow> 'w FakeDbAdmin" where
  "FakeDbAdmin_VerifyUnusedAndDeleteCredentialsCalls stub = fake_verifyUnused_update (set_stub stub)"

definition FakeDbAdmin_VerifyUnusedAndDeleteCredentialsArgsForCall :: "int \<Rightarrow> 'w FakeDbAdmin \<Rightarrow> ('s, string) go" where
  "FakeDbAdmin_VerifyUnusedAndDeleteCredentialsArgsForCall i f = args_for_call i (fake_verifyUnused f)"

definition FakeDbAdmin_VerifyUnusedAndDeleteCredentialsReturns :: "go_error option \<Rightarrow> 'w FakeDbAdmin \<Rightarrow> 'w FakeDbAdmin" where
  "FakeDbAdmin_VerifyUnusedAndDeleteCredentialsReturns r = fake_verifyUnused_update (set_returns r)"

definition FakeDbAdmin_VerifyUnusedAndDeleteCredentialsReturnsOnCall :: "int \<Rightarrow> go_error option \<Rightarrow> 'w FakeDbAdmin \<Rightarrow> 'w FakeDbAdmin" where
  "FakeDbAdmin_VerifyUnusedAndDeleteCredentialsReturnsOnCall i r = fake_verifyUnused_update (set_returns_on_call i r)"

paragraph \<open>WriteCredentials\<close>

definition FakeDbAdmin_WriteCredentials ::
  "string \<Rightarrow> string \<Rightarrow> ('w FakeDbAdmin, 'w, go_error option) on_fake" where
  "FakeDbAdmin_WriteCredentials a1 a2 = fake_call fake_writeCredentials (\<lambda>args f. (fake_writeCredentials_update (record_args args) f)
     \<lparr>fake_invocations := recordInvocation ''WriteCredentials'' (enc_WriteCredentials args) (fake_invocations f)\<rparr>) (a1, a2)"

definition FakeDbAdmin_WriteCredentialsCallCount :: "'w FakeDbAdmin \<Rightarrow> int" where
  "FakeDbAdmin_WriteCredentialsCallCount f = call_count (fake_writeCredentials f)"

definition FakeDbAdmin_WriteCredentialsCalls ::
  "(string \<times> string \<Rightarrow> ('w, go_error option) go) option \<Rightarrow> 'w FakeDbAdmin \<Rightarrow> 'w FakeDbAdmin" where
  "FakeDbAdmin_WriteCredentialsCalls stub = fake_writeCredentials_update (set_stub stub)"

definition FakeDbAdmin_WriteCredentialsArgsForCall :: "int \<Rightarrow> 'w FakeDbAdmin \<Rightarrow> ('s, string \<times> string) go" where
  "FakeDbAdmin_WriteCredentialsArgsForCall i f = args_for_call i (fake_writeCredentials f)"

definition FakeDbAdmin_WriteCredentialsReturns :: "go_error option \<Rightarrow> 'w FakeDbAdmin \<Rightarrow> 'w FakeDbAdmin" where
  "FakeDbAdmin_WriteCredentialsReturns r = fake_writeCredentials_update (set_returns r)"

definition FakeDbAdmin_WriteCredentialsReturnsOnCall :: "int \<Rightarrow> go_error option \<Rightarrow> 'w FakeDbAdmin \<Rightarrow> 'w FakeDbAdmin" where
  "FakeDbAdmin_WriteCredentialsReturnsOnCall i r = fake_writeCredentials_update (set_returns_on_call i r)"

paragraph \<open>Invocations\<close>

definition FakeDbAdmin_Invocations :: "'w FakeDbAdmin \<Rightarrow> invocations" where
  "FakeDbAdmin_Invocations f = fake_invocations f"

text \<open>
  The fake as an administration interface: an error makes the result an error, as everywhere in this
  development.
\<close>

definition as_error :: "go_error option \<Rightarrow> go_error + unit" where
  "as_error e = (case e of Some err \<Rightarrow> Inl err | None \<Rightarrow> Inr ())"

definition as_result :: "'r \<times> go_error option \<Rightarrow> go_error + 'r" where
  "as_result r = (case snd r of Some err \<Rightarrow> Inl err | None \<Rightarrow> Inr (fst r))"

abbreviation returning :: "('r \<Rightarrow> 'q) \<Rightarrow> ('s, 'r) go \<Rightarrow> ('s, 'q) go" where
  "returning h m \<equiv> go_bind m (\<lambda>r. go_return (h r))"

definition fake_DbAdmin :: "('w FakeDbAdmin \<times> 'w) DbAdmin" where
  "fake_DbAdmin = \<lparr>
     WriteCredentials = (\<lambda>u p. returning as_error (FakeDbAdmin_WriteCredentials u p)),
     ListUsernames = (\<lambda>u. returning as_result (FakeDbAdmin_ListUsernames u)),
     VerifyUnusedAndDeleteCredentials = (\<lambda>u. returning as_error (FakeDbAdmin_VerifyUnusedAndDeleteCredentials u)),
     GetSchemaVersion = returning as_result FakeDbAdmin_GetSchemaVersion,
     GetTableSizeEstimates = (\<lambda>ts. returning as_result (FakeDbAdmin_GetTableSizeEstimates ts)),
     GetNextIDs = (\<lambda>ts. returning as_result (FakeDbAdmin_GetNextIDs ts)),
     SelectFloat = (\<lambda>q. returning as_result (FakeDbAdmin_SelectFloat q)),
     IsBlockingIndexCreation = (\<lambda>t i cs. returning as_result (FakeDbAdmin_IsBlockingIndexCreation t i cs)),
     ConstraintWillFail = (\<lambda>t c cs. returning as_result (FakeDbAdmin_ConstraintWillFail t c cs)),
     Close = returning as_error FakeDbAdmin_Close\<rparr>"

section \<open>FakeMigrationEngine\<close>

record 'w FakeMigrationEngine =
  fake_getVersionQuery :: "('w, unit, string) fake_method"
  engine_invocations :: invocations

definition new_FakeMigrationEngine :: "'w FakeMigrationEngine" where
  "new_FakeMigrationEngine = \<lparr>fake_getVersionQuery = new_method [], engine_invocations = Map.empty\<rparr>"

definition FakeMigrationEngine_GetVersionQuery :: "('w FakeMigrationEngine, 'w, string) on_fake" where
  "FakeMigrationEngine_GetVersionQuery =
     fake_call fake_getVersionQuery (\<lambda>args f. (fake_getVersionQuery_update (record_args args) f)
     \<lparr>engine_invocations := recordInvocation ''GetVersionQuery'' [] (engine_invocations f)\<rparr>) ()"

definition FakeMigrationEngine_GetVersionQueryCallCount :: "'w FakeMigrationEngine \<Rightarrow> int" where
  "FakeMigrationEngine_GetVersionQueryCallCount f = call_count (fake_getVersionQuery f)"

definition FakeMigrationEngine_GetVersionQueryCalls ::
  "(unit \<Rightarrow> ('w, string) go) option \<Rightarrow> 'w FakeMigrationEngine \<Rightarrow> 'w FakeMigrationEngine" where
  "FakeMigrationEngine_GetVersionQueryCalls stub = fake_getVersionQuery_update (set_stub stub)"

definition FakeMigrationEngine_GetVersionQueryReturns ::
  "string \<Rightarrow> 'w FakeMigrationEngine \<Rightarrow> 'w FakeMigrationEngine" where
  "FakeMigrationEngine_GetVersionQueryReturns r = fake_getVersionQuery_update (set_returns r)"

definition FakeMigrationEngine_GetVersionQueryReturnsOnCall ::
  "int \<Rightarrow> string \<Rightarrow> 'w FakeMigrationEngine \<Rightarrow> 'w FakeMigrationEngine" where
  "FakeMigrationEngine_GetVersionQueryReturnsOnCall i r = fake_getVersionQuery_update (set_returns_on_call i r)"

definition FakeMigrationEngine_Invocations :: "'w FakeMigrationEngine \<Rightarrow> invocations" where
  "FakeMigrationEngine_Invocations f = engine_invocations f"

section \<open>What a test sees\<close>

text \<open>Every way a program can stop.\<close>

definition ends :: "('s, 'a) go \<Rightarrow> 's \<Rightarrow> 's \<Rightarrow> bool" where
  "ends m s t \<longleftrightarrow> (\<exists>a. m s = Ret a t) \<or> (\<exists>p. m s = Panic p t)"

lemma fake_call_ends:
  "ends (fake_call method note_call args) s t \<Longrightarrow> fst t = note_call args (fst s)"
  by (cases s) (auto simp: ends_def fake_call_def go_defs split: outcome.splits)

text \<open>
  The answer of call number \<open>n\<close> (from 0): a stub wins; without one, the result set for that call; without
  that, the general result. Setting a result takes the stub away.
\<close>

lemma fake_call_answer:
  "wpp (fake_call method note_call args) Q R h (f, w) =
   wpp (answer (call_count (method f)) args (method (note_call args f)))
     (\<lambda>r w'. Q r (note_call args f, w')) (\<lambda>p w'. R p (note_call args f, w')) h w"
  by (simp add: fake_call_def wp_simps)

lemma answer_set_returns_on_call:
  "answer n args (record_args args (set_returns_on_call i r m)) w =
     Ret (if n = i then r else case ReturnsOnCall m n of Some q \<Rightarrow> q | None \<Rightarrow> Returns m) w"
  by (simp add: answer_def record_args_def set_returns_on_call_def go_return_def split: option.splits)

text \<open>The calls a fake has recorded with its methods, by the names under which they are invocations.\<close>

definition call_logs :: "'w FakeDbAdmin \<Rightarrow> (string \<times> any list list) list" where
  "call_logs f = [
     (''Close'', map enc_Close (ArgsForCall (fake_close f))),
     (''ConstraintWillFail'', map enc_ConstraintWillFail (ArgsForCall (fake_constraintWillFail f))),
     (''GetNextIDs'', map enc_GetNextIDs (ArgsForCall (fake_getNextIDs f))),
     (''GetSchemaVersion'', map enc_GetSchemaVersion (ArgsForCall (fake_getSchemaVersion f))),
     (''GetTableSizeEstimates'', map enc_GetTableSizeEstimates (ArgsForCall (fake_getTableSizeEstimates f))),
     (''IsBlockingIndexCreation'', map enc_IsBlockingIndexCreation (ArgsForCall (fake_isBlockingIndexCreation f))),
     (''ListUsernames'', map enc_ListUsernames (ArgsForCall (fake_listUsernames f))),
     (''SelectFloat'', map enc_SelectFloat (ArgsForCall (fake_selectFloat f))),
     (''VerifyUnusedAndDeleteCredentials'', map enc_VerifyUnusedAndDeleteCredentials (ArgsForCall (fake_verifyUnused f))),
     (''WriteCredentials'', map enc_WriteCredentials (ArgsForCall (fake_writeCredentials f)))]"

definition logged :: "'w FakeDbAdmin \<Rightarrow> string \<Rightarrow> any list list option" where
  "logged f key = (case map_of (call_logs f) key of
     None \<Rightarrow> None | Some calls \<Rightarrow> if calls = [] then None else Some calls)"

text \<open>Changing what a method will answer.\<close>

definition reconfigures :: "(('w, 'a, 'r) fake_method \<Rightarrow> ('w, 'a, 'r) fake_method) \<Rightarrow> bool" where
  "reconfigures g \<longleftrightarrow> (\<exists>stub. g = set_stub stub) \<or> (\<exists>r. g = set_returns r) \<or> (\<exists>i r. g = set_returns_on_call i r)"

lemma reconfigures_args [simp]: "reconfigures g \<Longrightarrow> ArgsForCall (g m) = ArgsForCall m"
  by (auto simp: reconfigures_def set_stub_def set_returns_def set_returns_on_call_def)

lemma record_args_args [simp]: "ArgsForCall (record_args args m) = ArgsForCall m @ [args]"
  by (simp add: record_args_def)

text \<open>One use of a fake: a call, by the code under test, or a change of the answers, by the test.\<close>

inductive fake_step :: "'w FakeDbAdmin \<times> 'w \<Rightarrow> 'w FakeDbAdmin \<times> 'w \<Rightarrow> bool" where
  call_Close: "ends FakeDbAdmin_Close s t \<Longrightarrow> fake_step s t"
| call_ConstraintWillFail: "ends (FakeDbAdmin_ConstraintWillFail a1 a2 a3) s t \<Longrightarrow> fake_step s t"
| call_GetNextIDs: "ends (FakeDbAdmin_GetNextIDs a1) s t \<Longrightarrow> fake_step s t"
| call_GetSchemaVersion: "ends FakeDbAdmin_GetSchemaVersion s t \<Longrightarrow> fake_step s t"
| call_GetTableSizeEstimates: "ends (FakeDbAdmin_GetTableSizeEstimates a1) s t \<Longrightarrow> fake_step s t"
| call_IsBlockingIndexCreation: "ends (FakeDbAdmin_IsBlockingIndexCreation a1 a2 a3) s t \<Longrightarrow> fake_step s t"
| call_ListUsernames: "ends (FakeDbAdmin_ListUsernames a1) s t \<Longrightarrow> fake_step s t"
| call_SelectFloat: "ends (FakeDbAdmin_SelectFloat a1) s t \<Longrightarrow> fake_step s t"
| call_VerifyUnusedAndDeleteCredentials: "ends (FakeDbAdmin_VerifyUnusedAndDeleteCredentials a1) s t \<Longrightarrow> fake_step s t"
| call_WriteCredentials: "ends (FakeDbAdmin_WriteCredentials a1 a2) s t \<Longrightarrow> fake_step s t"
| set_Close: "reconfigures g \<Longrightarrow> fake_step (f, w) (fake_close_update g f, w)"
| set_ConstraintWillFail: "reconfigures g \<Longrightarrow> fake_step (f, w) (fake_constraintWillFail_update g f, w)"
| set_GetNextIDs: "reconfigures g \<Longrightarrow> fake_step (f, w) (fake_getNextIDs_update g f, w)"
| set_GetSchemaVersion: "reconfigures g \<Longrightarrow> fake_step (f, w) (fake_getSchemaVersion_update g f, w)"
| set_GetTableSizeEstimates: "reconfigures g \<Longrightarrow> fake_step (f, w) (fake_getTableSizeEstimates_update g f, w)"
| set_IsBlockingIndexCreation: "reconfigures g \<Longrightarrow> fake_step (f, w) (fake_isBlockingIndexCreation_update g f, w)"
| set_ListUsernames: "reconfigures g \<Longrightarrow> fake_step (f, w) (fake_listUsernames_update g f, w)"
| set_SelectFloat: "reconfigures g \<Longrightarrow> fake_step (f, w) (fake_selectFloat_update g f, w)"
| set_VerifyUnusedAndDeleteCredentials: "reconfigures g \<Longrightarrow> fake_step (f, w) (fake_verifyUnused_update g f, w)"
| set_WriteCredentials: "reconfigures g \<Longrightarrow> fake_step (f, w) (fake_writeCredentials_update g f, w)"

lemma map_of_keyed: "map_of (map (\<lambda>(k, x). (k, if k = key then h x else x)) xs) k =
    map_option (\<lambda>x. if k = key then h x else x) (map_of xs k)"
  by (induction xs) auto

lemma logged_recorded:
  assumes "fake_invocations f = logged f" and "fake_invocations f' = recordInvocation key args (fake_invocations f)"
    and "call_logs f' = map (\<lambda>(k, calls). (k, if k = key then calls @ [args] else calls)) (call_logs f)"
    and "key \<in> fst ` set (call_logs f)"
  shows "fake_invocations f' = logged f'"
proof
  fix k
  have "map_of (call_logs f') k = map_option (\<lambda>calls. if k = key then calls @ [args] else calls) (map_of (call_logs f) k)"
    unfolding assms(3) by (rule map_of_keyed)
  moreover from assms(4) obtain calls where "map_of (call_logs f) key = Some calls"
    by (metis map_of_eq_None_iff not_None_eq)
  ultimately show "fake_invocations f' k = logged f' k"
    using assms(1) by (auto simp: assms(2) recordInvocation_def logged_def split: option.splits)
qed

lemma logged_cong: "call_logs f' = call_logs f \<Longrightarrow> logged f' = logged f"
  by (simp add: logged_def fun_eq_iff)

lemma fake_invocations_logged:
  assumes "fake_step s t" and "fake_invocations (fst s) = logged (fst s)"
  shows "fake_invocations (fst t) = logged (fst t)"
  using assms
proof (induction s t rule: fake_step.induct)
  case (call_Close s t)
  note state = fake_call_ends [OF call_Close(1) [unfolded FakeDbAdmin_Close_def]]
  show ?case
    by (rule logged_recorded [OF call_Close(2), where key = "''Close''" and args = "enc_Close ()"])
       (simp_all add: state call_logs_def)
next
  case (call_ConstraintWillFail a1 a2 a3 s t)
  note state = fake_call_ends [OF call_ConstraintWillFail(1) [unfolded FakeDbAdmin_ConstraintWillFail_def]]
  show ?case
    by (rule logged_recorded [OF call_ConstraintWillFail(2), where key = "''ConstraintWillFail''" and args = "enc_ConstraintWillFail (a1, a2, a3)"])
       (simp_all add: state call_logs_def)
next
  case (call_GetNextIDs a1 s t)
  note state = fake_call_ends [OF call_GetNextIDs(1) [unfolded FakeDbAdmin_GetNextIDs_def]]
  show ?case
    by (rule logged_recorded [OF call_GetNextIDs(2), where key = "''GetNextIDs''" and args = "enc_GetNextIDs a1"])
       (simp_all add: state call_logs_def)
next
  case (call_GetSchemaVersion s t)
  note state = fake_call_ends [OF call_GetSchemaVersion(1) [unfolded FakeDbAdmin_GetSchemaVersion_def]]
  show ?case
    by (rule logged_recorded [OF call_GetSchemaVersion(2), where key = "''GetSchemaVersion''" and args = "enc_GetSchemaVersion ()"])
       (simp_all add: state call_logs_def)
next
  case (call_GetTableSizeEstimates a1 s t)
  note state = fake_call_ends [OF call_GetTableSizeEstimates(1) [unfolded FakeDbAdmin_GetTableSizeEstimates_def]]
  show ?case
    by (rule logged_recorded [OF call_GetTableSizeEstimates(2), where key = "''GetTableSizeEstimates''" and args = "enc_GetTableSizeEstimates a1"])
       (simp_all add: state call_logs_def)
next
  case (call_IsBlockingIndexCreation a1 a2 a3 s t)
  note state = fake_call_ends [OF call_IsBlockingIndexCreation(1) [unfolded FakeDbAdmin_IsBlockingIndexCreation_def]]
  show ?case
    by (rule logged_recorded [OF call_IsBlockingIndexCreation(2), where key = "''IsBlockingIndexCreation''" and args = "enc_IsBlockingIndexCreation (a1, a2, a3)"])
       (simp_all add: state call_logs_def)
next
  case (call_ListUsernames a1 s t)
  note state = fake_call_ends [OF call_ListUsernames(1) [unfolded FakeDbAdmin_ListUsernames_def]]
  show ?case
    by (rule logged_recorded [OF call_ListUsernames(2), where key = "''ListUsernames''" and args = "enc_ListUsernames a1"])
       (simp_all add: state call_logs_def)
next
  case (call_SelectFloat a1 s t)
  note state = fake_call_ends [OF call_SelectFloat(1) [unfolded FakeDbAdmin_SelectFloat_def]]
  show ?case
    by (rule logged_recorded [OF call_SelectFloat(2), where key = "''SelectFloat''" and args = "enc_SelectFloat a1"])
       (simp_all add: state call_logs_def)
next
  case (call_VerifyUnusedAndDeleteCredentials a1 s t)
  note state = fake_call_ends [OF call_VerifyUnusedAndDeleteCredentials(1) [unfolded FakeDbAdmin_VerifyUnusedAndDeleteCredentials_def]]
  show ?case
    by (rule logged_recorded [OF call_VerifyUnusedAndDeleteCredentials(2), where key = "''VerifyUnusedAndDeleteCredentials''" and args = "enc_VerifyUnusedAndDeleteCredentials a1"])
       (simp_all add: state call_logs_def)
next
  case (call_WriteCredentials a1 a2 s t)
  note state = fake_call_ends [OF call_WriteCredentials(1) [unfolded FakeDbAdmin_WriteCredentials_def]]
  show ?case
    by (rule logged_recorded [OF call_WriteCredentials(2), where key = "''WriteCredentials''" and args = "enc_WriteCredentials (a1, a2)"])
       (simp_all add: state call_logs_def)
qed (simp_all add: logged_def call_logs_def fun_eq_iff)

end
