(* ===== verification/FakeLocks.thy ===== *)
theory FakeLocks
  imports Fakes
begin

text \<open>
  The fakes under several goroutines. Every method of a fake takes mutexes: a call takes the mutex of its
  method and, inside \<^verbatim>\<open>recordInvocation\<close>, the one of the invocations; the methods that set answers take
  the mutex of their method; \<^verbatim>\<open>CallCount\<close> and \<^verbatim>\<open>ArgsForCall\<close> take it for reading; \<^verbatim>\<open>Invocations\<close> takes the
  mutex of the invocations for reading and then those of all methods.

  A goroutine is the list of the lock operations it still has to do, the mutexes of a fake are readers
  and writers per mutex, and a step is one lock operation of one goroutine, when the mutex allows it.
  As in \<^verbatim>\<open>sync.RWMutex\<close>, a writer that waits for readers to leave already keeps new readers out:
  \<^verbatim>\<open>Lock\<close> is two operations, announcing the writer and acquiring the mutex.
\<close>

section \<open>Mutexes and goroutines\<close>

datatype mutex = MethodMutex string | InvocationsMutex

datatype lock_op = Announce mutex | Acquire mutex | Unlock mutex | RLock mutex | RUnlock mutex

record locks =
  writing :: "mutex \<Rightarrow> nat"
  reading :: "mutex \<Rightarrow> nat"

definition free_locks :: locks where
  "free_locks = \<lparr>writing = (\<lambda>_. 0), reading = (\<lambda>_. 0)\<rparr>"

text \<open>
  \<^verbatim>\<open>sync.RWMutex\<close>. \<open>writing\<close> counts the writer that has announced itself or holds the mutex. It excludes
  other writers and new readers from the announcement on, and it acquires the mutex when the readers
  that were there before it have left. Readers that wait for a writer are let in when it unlocks: their
  step comes before the announcement of the next writer. Unlocking a mutex that is not locked is a fatal
  error of the program, here no step at all.
\<close>

fun lock_step :: "lock_op \<Rightarrow> locks \<Rightarrow> locks option" where
  "lock_step (Announce x) l = (if writing l x = 0
     then Some (l\<lparr>writing := (writing l)(x := 1)\<rparr>) else None)"
| "lock_step (Acquire x) l = (if writing l x \<noteq> 0 \<and> reading l x = 0 then Some l else None)"
| "lock_step (Unlock x) l = (if writing l x \<noteq> 0
     then Some (l\<lparr>writing := (writing l)(x := writing l x - 1)\<rparr>) else None)"
| "lock_step (RLock x) l = (if writing l x = 0
     then Some (l\<lparr>reading := (reading l)(x := reading l x + 1)\<rparr>) else None)"
| "lock_step (RUnlock x) l = (if reading l x \<noteq> 0
     then Some (l\<lparr>reading := (reading l)(x := reading l x - 1)\<rparr>) else None)"

type_synonym goroutines = "lock_op list list"

inductive go_step :: "goroutines \<times> locks \<Rightarrow> goroutines \<times> locks \<Rightarrow> bool" where
  one: "i < length gs \<Longrightarrow> gs ! i = a # p \<Longrightarrow> lock_step a l = Some l' \<Longrightarrow> go_step (gs, l) (gs[i := p], l')"

inductive_cases go_stepE: "go_step (gs, l) c"

text \<open>Nobody can move although somebody has not finished.\<close>

definition deadlocked :: "goroutines \<times> locks \<Rightarrow> bool" where
  "deadlocked c \<longleftrightarrow> (\<exists>p \<in> set (fst c). p \<noteq> []) \<and> (\<nexists>c'. go_step c c')"

section \<open>What the methods lock\<close>

abbreviation Lock :: "mutex \<Rightarrow> lock_op list" where
  "Lock x \<equiv> [Announce x, Acquire x]"

definition call_locks :: "string \<Rightarrow> lock_op list" where
  "call_locks key = Lock (MethodMutex key) @ Lock InvocationsMutex @ [Unlock InvocationsMutex,
     Unlock (MethodMutex key)]"

definition set_locks :: "string \<Rightarrow> lock_op list" where
  "set_locks key = Lock (MethodMutex key) @ [Unlock (MethodMutex key)]"

definition get_locks :: "string \<Rightarrow> lock_op list" where
  "get_locks key = [RLock (MethodMutex key), RUnlock (MethodMutex key)]"

definition fake_methods :: "string list" where
  "fake_methods = [''Close'', ''ConstraintWillFail'', ''GetNextIDs'', ''GetSchemaVersion'',
     ''GetTableSizeEstimates'', ''IsBlockingIndexCreation'', ''ListUsernames'', ''SelectFloat'',
     ''VerifyUnusedAndDeleteCredentials'', ''WriteCredentials'']"

text \<open>The deferred unlocks run in the opposite order.\<close>

definition Invocations_locks :: "lock_op list" where
  "Invocations_locks = RLock InvocationsMutex # map (\<lambda>k. RLock (MethodMutex k)) fake_methods @
     map (\<lambda>k. RUnlock (MethodMutex k)) (rev fake_methods) @ [RUnlock InvocationsMutex]"

section \<open>Without Invocations nothing gets stuck\<close>

text \<open>
  What goroutines that use any methods but \<^verbatim>\<open>Invocations\<close>, one after the other, have left to do: between
  two methods, and inside of one.
\<close>

inductive between :: "lock_op list \<Rightarrow> bool" where
  finished: "between []"
| before_call: "between p \<Longrightarrow> between (call_locks key @ p)"
| before_set: "between p \<Longrightarrow> between (set_locks key @ p)"
| before_get: "between p \<Longrightarrow> between (get_locks key @ p)"

inductive ordered :: "lock_op list \<Rightarrow> bool" where
  idle: "between p \<Longrightarrow> ordered p"
| at_call: "between p \<Longrightarrow> ordered (Acquire (MethodMutex key) # Lock InvocationsMutex @
    Unlock InvocationsMutex # Unlock (MethodMutex key) # p)"
| at_set: "between p \<Longrightarrow> ordered (Acquire (MethodMutex key) # Unlock (MethodMutex key) # p)"
| at_record: "between p \<Longrightarrow> ordered (Lock InvocationsMutex @ Unlock InvocationsMutex # Unlock (MethodMutex key) # p)"
| waiting: "between p \<Longrightarrow> ordered (Acquire InvocationsMutex # Unlock InvocationsMutex # Unlock (MethodMutex key) # p)"
| recording: "between p \<Longrightarrow> ordered (Unlock InvocationsMutex # Unlock (MethodMutex key) # p)"
| leaving: "between p \<Longrightarrow> ordered (Unlock (MethodMutex key) # p)"
| leaving_get: "between p \<Longrightarrow> ordered (RUnlock (MethodMutex key) # p)"

text \<open>What a goroutine has claimed is what it will still unlock without claiming it before.\<close>

fun holds_w :: "lock_op list \<Rightarrow> mutex \<Rightarrow> nat" where
  "holds_w [] x = 0"
| "holds_w (Unlock y # p) x = (if x = y then 1 else holds_w p x)"
| "holds_w (Announce y # p) x = (if x = y then 0 else holds_w p x)"
| "holds_w (a # p) x = holds_w p x"

fun holds_r :: "lock_op list \<Rightarrow> mutex \<Rightarrow> nat" where
  "holds_r [] x = 0"
| "holds_r (RUnlock y # p) x = (if x = y then 1 else holds_r p x)"
| "holds_r (RLock y # p) x = (if x = y then 0 else holds_r p x)"
| "holds_r (a # p) x = holds_r p x"

definition consistent :: "goroutines \<times> locks \<Rightarrow> bool" where
  "consistent c \<longleftrightarrow> list_all ordered (fst c) \<and>
     (\<forall>x. writing (snd c) x = (\<Sum>p\<leftarrow>fst c. holds_w p x)) \<and>
     (\<forall>x. reading (snd c) x = (\<Sum>p\<leftarrow>fst c. holds_r p x))"

lemma sum_list_update_nat:
  fixes f :: "'a \<Rightarrow> nat"
  assumes "i < length xs"
  shows "(\<Sum>x\<leftarrow>xs[i := y]. f x) + f (xs ! i) = (\<Sum>x\<leftarrow>xs. f x) + f y"
  using assms by (induction xs arbitrary: i) (auto split: nat.splits)

lemmas lock_lists = call_locks_def set_locks_def get_locks_def

lemma between_holds [simp]:
  assumes "between p" shows "holds_w p x = 0" and "holds_r p x = 0"
  using assms by (induction) (auto simp: lock_lists)

inductive_cases betweenE: "between (a # p)"

lemma between_next:
  assumes "between (a # p)"
  shows "ordered p \<and> (\<exists>key q. between q \<and>
    (a = Announce (MethodMutex key) \<and> p = Acquire (MethodMutex key) # Lock InvocationsMutex @
       Unlock InvocationsMutex # Unlock (MethodMutex key) # q \<or>
     a = Announce (MethodMutex key) \<and> p = Acquire (MethodMutex key) # Unlock (MethodMutex key) # q \<or>
     a = RLock (MethodMutex key) \<and> p = RUnlock (MethodMutex key) # q))"
  using assms by (cases rule: betweenE)
    (auto simp: lock_lists intro: ordered.intros at_call [simplified])

lemma ordered_step:
  assumes "ordered (a # p)" and "lock_step a l = Some l'"
  shows "ordered p \<and> (\<forall>x. writing l' x + holds_w (a # p) x = writing l x + holds_w p x) \<and>
    (\<forall>x. reading l' x + holds_r (a # p) x = reading l x + holds_r p x)"
  using assms(1)
proof (cases rule: ordered.cases)
  case idle
  from between_next [OF this] assms(2) show ?thesis by (auto split: if_splits)
qed (use assms(2) in \<open>auto intro: ordered.intros at_record [simplified] split: if_splits\<close>)

lemma consistent_start: "list_all ordered gs \<Longrightarrow> (\<And>p x. p \<in> set gs \<Longrightarrow> holds_w p x = 0 \<and> holds_r p x = 0) \<Longrightarrow>
    consistent (gs, free_locks)"
  by (simp add: consistent_def free_locks_def)

lemma consistent_step:
  assumes "go_step c c'" and "consistent c"
  shows "consistent c'"
  using assms
proof (induction rule: go_step.induct)
  case (one i gs a p l l')
  then have "ordered (gs ! i)" unfolding consistent_def list_all_length fst_conv by blast
  with one ordered_step [of a p l l'] have ord: "ordered p"
    and w: "\<And>x. writing l' x + holds_w (gs ! i) x = writing l x + holds_w p x"
    and r: "\<And>x. reading l' x + holds_r (gs ! i) x = reading l x + holds_r p x" by simp_all
  have "writing l' x = (\<Sum>q\<leftarrow>gs[i := p]. holds_w q x)" for x
    using w [of x] sum_list_update_nat [OF one(1), of "\<lambda>q. holds_w q x" p] one(4) by (simp add: consistent_def)
  moreover have "reading l' x = (\<Sum>q\<leftarrow>gs[i := p]. holds_r q x)" for x
    using r [of x] sum_list_update_nat [OF one(1), of "\<lambda>q. holds_r q x" p] one(4) by (simp add: consistent_def)
  moreover have "list_all ordered (gs[i := p])"
    using one(4) ord by (auto simp: consistent_def list_all_iff dest!: set_update_subset_insert [THEN subsetD])
  ultimately show ?case by (simp add: consistent_def)
qed

lemma held_by:
  fixes f :: "'a \<Rightarrow> nat"
  shows "(\<Sum>p\<leftarrow>gs. f p) \<noteq> 0 \<longleftrightarrow> (\<exists>p \<in> set gs. f p \<noteq> 0)"
  by simp

lemma can_step:
  assumes "p \<in> set gs" and "p = a # q" and "lock_step a l \<noteq> None"
  shows "\<exists>c'. go_step (gs, l) c'"
proof -
  from assms(1) obtain i where "i < length gs" and "gs ! i = p" by (meson in_set_conv_nth)
  with assms(2,3) show ?thesis using go_step.one by blast
qed

text \<open>Who has claimed a mutex, read off what it does next.\<close>

lemma ordered_holds:
  assumes "ordered p"
  shows "holds_w p InvocationsMutex \<noteq> 0 \<Longrightarrow> \<exists>q. p = Acquire InvocationsMutex # q \<or> p = Unlock InvocationsMutex # q"
    and "holds_r p InvocationsMutex = 0"
    and "holds_w p (MethodMutex key) \<noteq> 0 \<Longrightarrow>
      \<exists>x q. p = Acquire x # q \<or> p = Announce InvocationsMutex # q \<or> p = Unlock x # q"
    and "holds_r p (MethodMutex key) \<noteq> 0 \<Longrightarrow> \<exists>x q. p = RUnlock x # q"
  using assms by (cases rule: ordered.cases; auto)+

inductive_cases ordered_AcquireE: "ordered (Acquire x # q)"

lemma ordered_acquires: "ordered (Acquire x # q) \<Longrightarrow> holds_w (Acquire x # q) x \<noteq> 0"
  by (erule ordered_AcquireE) (auto dest: between_next)

lemma consistent_progress:
  assumes "consistent (gs, l)" and "p \<in> set gs" and "p \<noteq> []"
  shows "\<exists>c'. go_step (gs, l) c'"
proof (rule ccontr)
  assume stuck: "\<nexists>c'. go_step (gs, l) c'"
  from assms(1) have ord: "\<And>p. p \<in> set gs \<Longrightarrow> ordered p"
    and w: "\<And>x. writing l x \<noteq> 0 \<longleftrightarrow> (\<exists>p \<in> set gs. holds_w p x \<noteq> 0)"
    and r: "\<And>x. reading l x \<noteq> 0 \<longleftrightarrow> (\<exists>p \<in> set gs. holds_r p x \<noteq> 0)"
    unfolding consistent_def by (simp_all add: list_all_iff held_by)
  have next_blocked: "lock_step a l = None" if "a # q \<in> set gs" for a q
    using can_step [OF that refl] stuck by blast
  have no_unlock: "Unlock x # q \<notin> set gs" for x q
  proof
    assume at: "Unlock x # q \<in> set gs"
    then have "writing l x \<noteq> 0" unfolding w by (rule rev_bexI) simp
    with next_blocked [OF at] show False by simp
  qed
  have no_runlock: "RUnlock x # q \<notin> set gs" for x q
  proof
    assume at: "RUnlock x # q \<in> set gs"
    then have "reading l x \<noteq> 0" unfolding r by (rule rev_bexI) simp
    with next_blocked [OF at] show False by simp
  qed
  have unread: "reading l x = 0" for x
  proof (cases x)
    case (MethodMutex key)
    then show ?thesis using r [of x] ord no_runlock ordered_holds(4) by metis
  qed (use r [of x] ord ordered_holds(2) in metis)
  have no_acquire: "Acquire x # q \<notin> set gs" for x q
  proof
    assume at: "Acquire x # q \<in> set gs"
    then have "writing l x \<noteq> 0" unfolding w by (rule rev_bexI) (rule ordered_acquires [OF ord [OF at]])
    with next_blocked [OF at] unread show False by simp
  qed
  have "writing l InvocationsMutex = 0"
    using w [of InvocationsMutex] ord no_unlock no_acquire ordered_holds(1) by metis
  then have no_record: "Announce InvocationsMutex # q \<notin> set gs" for q
    using next_blocked [of "Announce InvocationsMutex" q] by auto
  have unwritten: "writing l (MethodMutex key) = 0" for key
    using w [of "MethodMutex key"] ord no_unlock no_acquire no_record ordered_holds(3) [of _ key] by metis
  from ord [OF assms(2)] show False
  proof (cases rule: ordered.cases)
    case idle
    from assms(3) obtain a q where p: "p = a # q" by (cases p) auto
    with idle between_next [of a q] obtain key where "a = Announce (MethodMutex key) \<or> a = RLock (MethodMutex key)" by blast
    with next_blocked [of a q] assms(2) p unwritten show ?thesis by auto
  qed (use assms(2) no_unlock no_record no_runlock no_acquire in auto)
qed

text \<open>Any number of goroutines, each using methods but \<^verbatim>\<open>Invocations\<close>: somebody can always go on.\<close>

lemma consistent_reachable:
  assumes "go_step\<^sup>*\<^sup>* (gs, free_locks) c" and "list_all between gs"
  shows "consistent c"
  using assms(1)
proof (induction rule: rtranclp_induct)
  case base
  show ?case
    by (rule consistent_start) (use assms(2) in \<open>auto simp: list_all_iff intro: ordered.intros\<close>)
qed (rule consistent_step)

lemma not_deadlocked: "consistent c \<Longrightarrow> \<not> deadlocked c"
  using consistent_progress [of "fst c" "snd c"] by (auto simp: deadlocked_def)

section \<open>With Invocations two goroutines can block each other\<close>

text \<open>The second of two goroutines takes mutexes nobody writes.\<close>

lemma second_reads:
  assumes "\<And>key. key \<in> set keys \<Longrightarrow> writing l (MethodMutex key) = 0"
  shows "\<exists>l'. go_step\<^sup>*\<^sup>* ([p, map (\<lambda>k. RLock (MethodMutex k)) keys @ q], l) ([p, q], l') \<and>
    writing l' = writing l \<and> (\<forall>x. reading l x \<le> reading l' x)"
  using assms
proof (induction keys arbitrary: l)
  case (Cons key keys)
  let ?l = "l\<lparr>reading := (reading l)(MethodMutex key := reading l (MethodMutex key) + 1)\<rparr>"
  have "go_step ([p, map (\<lambda>k. RLock (MethodMutex k)) (key # keys) @ q], l) ([p, map (\<lambda>k. RLock (MethodMutex k)) keys @ q], ?l)"
    using go_step.one [of 1 "[p, map (\<lambda>k. RLock (MethodMutex k)) (key # keys) @ q]" "RLock (MethodMutex key)"] Cons.prems
    by simp
  moreover have "\<exists>l'. go_step\<^sup>*\<^sup>* ([p, map (\<lambda>k. RLock (MethodMutex k)) keys @ q], ?l) ([p, q], l') \<and>
      writing l' = writing ?l \<and> (\<forall>x. reading ?l x \<le> reading l' x)"
    by (rule Cons.IH) (use Cons.prems in simp)
  then obtain l' where "go_step\<^sup>*\<^sup>* ([p, map (\<lambda>k. RLock (MethodMutex k)) keys @ q], ?l) ([p, q], l')"
    and "writing l' = writing l" and more: "\<And>x. reading ?l x \<le> reading l' x" by auto
  moreover have "reading l x \<le> reading l' x" for x using more [of x] by (auto split: if_splits)
  ultimately show ?case by (blast intro: converse_rtranclp_into_rtranclp)
qed auto

text \<open>
  The method is called and holds its mutex; the invocations are read and their reader gets as far as that
  mutex; the method then announces itself on the mutex of the invocations, which it never acquires.
\<close>

lemma call_against_Invocations:
  assumes "key \<in> set fake_methods"
  shows "\<exists>c. go_step\<^sup>*\<^sup>* ([call_locks key, Invocations_locks], free_locks) c \<and> deadlocked c"
proof -
  from split_list_first [OF assms] obtain pre post where methods: "fake_methods = pre @ key # post"
    and new: "key \<notin> set pre" by blast
  define p where "p = [Acquire InvocationsMutex, Unlock InvocationsMutex, Unlock (MethodMutex key)]"
  define r where "r = map (\<lambda>k. RUnlock (MethodMutex k)) (rev fake_methods) @ [RUnlock InvocationsMutex]"
  define q where "q = RLock (MethodMutex key) # map (\<lambda>k. RLock (MethodMutex k)) post @ r"
  define l1 where "l1 = free_locks\<lparr>writing := (writing free_locks)(MethodMutex key := 1)\<rparr>"
  define l2 where "l2 = l1\<lparr>reading := (reading l1)(InvocationsMutex := 1)\<rparr>"
  let ?p = "Announce InvocationsMutex # p"
  have locks: "Invocations_locks = RLock InvocationsMutex # map (\<lambda>k. RLock (MethodMutex k)) pre @ q"
    by (simp add: Invocations_locks_def q_def r_def methods)
  have "go_step ([call_locks key, Invocations_locks], free_locks) ([Acquire (MethodMutex key) # ?p, Invocations_locks], l1)"
    using go_step.one [of 0 "[call_locks key, Invocations_locks]" "Announce (MethodMutex key)"
        "Acquire (MethodMutex key) # ?p" free_locks l1]
    by (simp add: call_locks_def p_def l1_def free_locks_def)
  moreover have "go_step ([Acquire (MethodMutex key) # ?p, Invocations_locks], l1) ([?p, Invocations_locks], l1)"
    using go_step.one [of 0 "[Acquire (MethodMutex key) # ?p, Invocations_locks]" "Acquire (MethodMutex key)" ?p l1 l1]
    by (simp add: l1_def free_locks_def)
  moreover have "go_step ([?p, Invocations_locks], l1) ([?p, map (\<lambda>k. RLock (MethodMutex k)) pre @ q], l2)"
    using go_step.one [of 1 "[?p, Invocations_locks]" "RLock InvocationsMutex" _ l1 l2]
    by (simp add: locks l1_def l2_def free_locks_def)
  moreover have unwritten: "writing l2 (MethodMutex k) = 0" if "k \<in> set pre" for k
    using that new by (auto simp: l2_def l1_def free_locks_def)
  moreover obtain l3 where "go_step\<^sup>*\<^sup>* ([?p, map (\<lambda>k. RLock (MethodMutex k)) pre @ q], l2) ([?p, q], l3)"
    and w: "writing l3 = writing l2" and more: "\<And>x. reading l2 x \<le> reading l3 x"
    using second_reads [OF unwritten, where p = ?p] by blast
  moreover define l4 where "l4 = l3\<lparr>writing := (writing l3)(InvocationsMutex := 1)\<rparr>"
  moreover have "go_step ([?p, q], l3) ([p, q], l4)"
    using go_step.one [of 0 "[?p, q]" "Announce InvocationsMutex" p l3 l4] w
    by (simp add: l4_def l2_def l1_def free_locks_def)
  moreover have "deadlocked ([p, q], l4)"
  proof -
    have "reading l4 InvocationsMutex \<noteq> 0" using more [of InvocationsMutex] by (simp add: l4_def l2_def)
    moreover have "writing l4 (MethodMutex key) \<noteq> 0" by (simp add: l4_def w l2_def l1_def)
    ultimately have "\<not> go_step ([p, q], l4) c" for c
      by (auto elim!: go_stepE simp: p_def q_def nth_Cons' split: if_splits)
    then show ?thesis by (simp add: deadlocked_def p_def)
  qed
  ultimately show ?thesis by (meson converse_rtranclp_into_rtranclp rtranclp.rtrancl_into_rtrancl)
qed

end
