(* ===== verification/Lifecycle.thy ===== *)
theory Lifecycle
  imports Reconcile
begin

text \<open>
  The controller over its whole life. The work queue calls the two handlers one at a time, in any order
  and for any names; between two calls the cluster, the databases and the surroundings of the process
  change in any way; and the process can be started again. \<open>bookkeeping\<close> is the invariant of the
  controller's own maps and of the gauge that reports on them; it holds in every reachable state.

  Most parts of the handlers leave the maps alone; that they do is \<open>stable\<close>, by the rules of the
  combinators.
\<close>

section \<open>Steps\<close>

inductive operator_step ::
  "('k, 'd, 'h) Controller \<Rightarrow> ('k, 'd, 'h) sys \<Rightarrow> ('k, 'd, 'h) sys \<Rightarrow> bool" for c where
  handle_database: "ReconcileManagedDatabase c req s = Ret r t \<Longrightarrow> operator_step c s t"
| handle_migration: "ReconcileDatabaseMigration c req s = Ret r t \<Longrightarrow> operator_step c s t"
| surroundings: "operator_step c s (s\<lparr>kube := k, dbs := d, host := h\<rparr>)"
| restart: "operator_step c s (initial_sys k d h)"

definition bookkeeping :: "('k, 'd, 'h) sys \<Rightarrow> bool" where
  "bookkeeping s \<longleftrightarrow> finite (databaseLinks s) \<and> ManagedDatabases s = card (databaseLinks s) \<and>
     dom (databaseMetricsCollectors s) \<subseteq> databaseLinks s"

section \<open>Parts that leave the maps alone\<close>

definition same_books :: "('k, 'd, 'h) sys \<Rightarrow> ('k, 'd, 'h) sys \<Rightarrow> bool" where
  "same_books s t \<longleftrightarrow> databaseLinks t = databaseLinks s \<and> ManagedDatabases t = ManagedDatabases s \<and>
     databaseMetricsCollectors t = databaseMetricsCollectors s"

lemma same_books_refl [simp]: "same_books s s"
  by (simp add: same_books_def)

lemma books_on [stable_rules]: "stable (same_books s) (on_kube m1)" "stable (same_books s) (on_dbs m2)"
    "stable (same_books s) (on_host m3)"
  by (auto simp: stable_def wp_simps same_books_def intro!: wpp_any)

lemma books_counters [stable_rules]:
  "stable (same_books s) (go_modify (\<lambda>s. s\<lparr>MigrationJobsSpawned := n1 s\<rparr>))"
  "stable (same_books s) (go_modify (\<lambda>s. s\<lparr>CredentialsCreated := n2 s\<rparr>))"
  "stable (same_books s) (go_modify (\<lambda>s. s\<lparr>CredentialsRevoked := n3 s\<rparr>))"
  by (auto simp: stable_def wp_simps same_books_def)

lemma books_credentials [stable_rules]: "stable (same_books s) (reconcileCredentialsForVersion c ctx admin)"
  unfolding reconcileCredentialsForVersion_def listAndReconcileUsers_def reconcileUsers_def
    removeUnneededSecrets_def removeUsers_def removeUser_def addUsers_def addUser_def randPassword_def Let_def
  by (intro stable_rules)

lemma books_checkJobs [stable_rules]: "stable (same_books s) (checkJobs c jobs needed)"
  by (induction jobs arbitrary: needed) (auto intro!: stable_rules)

lemma books_jobs [stable_rules]: "stable (same_books s) (reconcileMigrationJob c ctx)"
  unfolding reconcileMigrationJob_def startNeeded_def startMigration_def by (intro stable_rules)

lemma books_ends [stable_rules]: "stable (same_books s) (fail c db err)" "stable (same_books s) (finish c db)"
  unfolding fail_def finish_def by (intro stable_rules)+

lemma books_reconcileWithAdmin [stable_rules]: "stable (same_books s) (reconcileWithAdmin c admin db)"
  unfolding reconcileWithAdmin_def reconcileVersion_def currentVersionMigration_def reconcileContext_def
    checkHints_def runMigrationJob_def
  by (intro stable_rules)

lemma books_unblockAll [stable_rules]: "stable (same_books s) (unblockAll c items)"
  by (induction items) (auto intro!: stable_rules)

lemma books_migration [stable_rules]: "stable (same_books s) (ReconcileDatabaseMigration c req)"
  unfolding ReconcileDatabaseMigration_def by (intro stable_rules)

section \<open>The invariant\<close>

lemma books_wlp:
  assumes "stable (same_books s) m" and "\<And>a t. same_books s t \<Longrightarrow> Q a t"
  shows "wlp m Q s"
  by (rule wpp_mono [OF stableD [OF assms(1)]]) (auto intro: assms(2))

lemma bookkeeping_cong: "same_books s t \<Longrightarrow> bookkeeping t \<longleftrightarrow> bookkeeping s"
  by (simp add: same_books_def bookkeeping_def)

lemma dropCollector_books:
  "wlp (dropCollector c link) (\<lambda>_ t. databaseLinks t = databaseLinks s \<and> ManagedDatabases t = ManagedDatabases s \<and>
     databaseMetricsCollectors t = (databaseMetricsCollectors s)(link := None)) s"
proof (cases "databaseMetricsCollectors s link")
  case None
  then show ?thesis by (auto simp: dropCollector_def wp_simps)
next
  case (Some collector)
  have "stable (same_books s) (go_bind (on_host (go_call (registry_Unregister c collector)))
      (\<lambda>_. on_dbs (collector_Close collector)))" by (intro stable_rules)
  from books_wlp [OF this, where Q = "\<lambda>_. same_books s"] Some show ?thesis
    unfolding dropCollector_def wpp_bind
    by (auto simp: wp_simps same_books_def elim!: wpp_mono split: prod.splits)
qed

lemma reconcileMetricsCollectors_books:
  assumes "bookkeeping s" and "SelfLink db \<in> databaseLinks s"
  shows "wlp (reconcileMetricsCollectors c admin db) (\<lambda>_. bookkeeping) s"
  unfolding reconcileMetricsCollectors_def wpp_bind Let_def
  by (rule wpp_mono [OF dropCollector_books])
     (use assms in \<open>auto simp: wp_simps bookkeeping_def split: prod.splits sum.splits\<close>)

lemma connectAndReconcile_books:
  assumes "bookkeeping s" and "SelfLink db \<in> databaseLinks s"
  shows "wlp (connectAndReconcile c db dsn) (\<lambda>_. bookkeeping) s"
proof -
  have rest: "wlp m (\<lambda>_. bookkeeping) t" if "stable (same_books t) m" and "bookkeeping t"
    for m :: "(('a, 'b, 'c) sys, Result \<times> go_error option) go" and t
    by (rule books_wlp [OF that(1)]) (use that(2) bookkeeping_cong in blast)
  have tail: "wlp (go_check (on_dbs (initializeAdminConnection c dsn (MigrationEngine (Spec db))))
      (\<lambda>err. fail c db err) (\<lambda>admin. reconcileWithAdmin c admin db)) (\<lambda>_. bookkeeping) u"
    if "bookkeeping u" for u
    by (rule rest [OF _ that]) (intro stable_rules)
  show ?thesis unfolding connectAndReconcile_def wpp_check
  proof (rule books_wlp [OF books_on(2)], goal_cases)
    case (1 r t)
    with assms have t: "bookkeeping t" "SelfLink db \<in> databaseLinks t"
      by (simp_all add: bookkeeping_cong) (simp add: same_books_def)
    show ?case
    proof (cases r)
      case (Inr metricsAdmin)
      show ?thesis unfolding Inr sum.case
        by (rule wpp_mono [OF reconcileMetricsCollectors_books [OF t]])
           (auto simp: rest stable_rules tail [unfolded wpp_check] split: sum.split_asm sum.split)
    qed (use t in \<open>simp add: rest stable_rules\<close>)
  qed
qed

lemma ReconcileManagedDatabase_books:
  assumes "bookkeeping s"
  shows "wlp (ReconcileManagedDatabase c req) (\<lambda>_. bookkeeping) s"
proof -
  have gone: "wlp (databaseNotFound c db) (\<lambda>_. bookkeeping) t" if "bookkeeping t" for db t
    unfolding databaseNotFound_def wpp_bind wpp_modify
    by (rule wpp_mono [OF dropCollector_books]) (use that in \<open>auto simp: wp_simps bookkeeping_def\<close>)
  have found: "wlp (reconcileFound c db) (\<lambda>_. bookkeeping) t" if "bookkeeping t" for db t
  proof -
    let ?t = "t\<lparr>databaseLinks := insert (SelfLink db) (databaseLinks t),
      ManagedDatabases := card (insert (SelfLink db) (databaseLinks t))\<rparr>"
    from that have "bookkeeping ?t" by (auto simp: bookkeeping_def)
    then have "bookkeeping (?t\<lparr>kube := k\<rparr>)" for k by (simp add: bookkeeping_def)
    then show ?thesis unfolding reconcileFound_def
      by (auto simp: wp_simps connectAndReconcile_books fail_def Let_def stable_rules bookkeeping_def
          intro!: wpp_any split: prod.split sum.split)
  qed
  have "bookkeeping (s\<lparr>kube := k\<rparr>)" for k using assms by (simp add: bookkeeping_def)
  then show ?thesis unfolding ReconcileManagedDatabase_def wpp_bind wpp_on_kube wpp_call
    by (auto simp: gone found split: prod.split option.split
        intro!: books_wlp [OF books_ends(1)] simp: bookkeeping_cong)
qed

lemma operator_step_books:
  assumes "operator_step c s t" and "bookkeeping s"
  shows "bookkeeping t"
  using assms
proof (induction rule: operator_step.induct)
  case (handle_database req s r t)
  with wlp_RetD [OF ReconcileManagedDatabase_books] show ?case by blast
next
  case (handle_migration req s r t)
  from wlp_RetD [OF books_wlp [OF books_migration, where Q = "\<lambda>_. same_books s" and s = s]] handle_migration
  have "same_books s t" by blast
  with handle_migration show ?case by (simp add: bookkeeping_cong)
qed (simp_all add: bookkeeping_def initial_sys_def)

lemma reachable_books:
  assumes "(operator_step c)\<^sup>*\<^sup>* (initial_sys k d h) t"
  shows "bookkeeping t"
  using assms
proof (induction rule: rtranclp_induct)
  case base
  show ?case by (simp add: bookkeeping_def initial_sys_def)
qed (rule operator_step_books)

end
