(* ===== verification/Spec2Isabelle.thy ===== *)
theory Spec2Isabelle
  imports RefCluster ApiCopies FakeLocks Lifecycle
begin

text \<open>
  A verification of the DBA operator (\<^verbatim>\<open>src/\<close>): a Kubernetes controller that migrates databases and
  manages the credentials of their users.

  \<^bold>\<open>The program.\<close> A ManagedDatabase names a database and the schema version it should be at, a
  DatabaseMigration describes how to get to a version from the one before it. The controller
  (\<^verbatim>\<open>controllers/\<close>) is called by a work queue with the name of an object that changed. For a
  ManagedDatabase it opens an administration connection (\<^verbatim>\<open>pkg/dbadmin\<close>, for MySQL
  \<^verbatim>\<open>pkg/dbadmin/mysqladmin\<close>), replaces the metrics collector of the database, asks for the schema
  version, follows the chain of migrations back from the desired version to find the one to run next,
  brings the database accounts and the secrets in line with the versions that are in use, has the
  hints of the next migration checked (\<^verbatim>\<open>pkg/hints\<close>), and creates the job that runs it. Errors are
  classified as temporary (retried), as caused by a migration (the database gets a label and waits for
  that migration to change), or other. For a DatabaseMigration it takes that label off again.

  \<^bold>\<open>How it is modelled.\<close> \<^verbatim>\<open>Prelude\<close>: a Go function with effects is a function from its state to a
  returned value, a panic or no return; sequencing, \<^verbatim>\<open>defer\<close>, the error idiom and loops are
  combinators, and weakest preconditions (\<open>wp\<close>: it returns and the postcondition holds; \<open>always\<close>: a
  property of every state in which it stops) are their calculus. Code that is not in the repository (the
  Kubernetes client, the Prometheus registry, sqlx and the MySQL server, the URL and random number
  libraries) is a parameter: a record of functions on an arbitrary state. What the theorems rely on of
  it is stated as named hypotheses on that parameter.

  \<^item> \<^verbatim>\<open>GoErrors\<close>: error values and their classification (\<^verbatim>\<open>pkg/xerrors\<close>, \<^verbatim>\<open>mysqladmin/errors.go\<close>,
    \<^verbatim>\<open>controllers/errors.go\<close>); locale \<open>error_chain\<close>, interpreted on \<open>errors_As\<close>.
  \<^item> \<^verbatim>\<open>ApiTypes\<close>: the custom resources (\<^verbatim>\<open>api/v1alpha1\<close>) and the Kubernetes objects used.
  \<^item> \<^verbatim>\<open>DbAdmin\<close>: the administration interface, opening a connection, alembic; locale
    \<open>credential_admin\<close>, what the controller relies on to manage accounts.
  \<^item> \<^verbatim>\<open>Kube\<close>, \<^verbatim>\<open>Secrets\<close>, \<^verbatim>\<open>Jobs\<close>, \<^verbatim>\<open>Metrics\<close>, \<^verbatim>\<open>Controller\<close>: the client, \<^verbatim>\<open>secrets.go\<close>, \<^verbatim>\<open>jobs.go\<close>,
    \<^verbatim>\<open>metrics.go\<close>, the controller object, its state \<open>sys\<close> and \<^verbatim>\<open>handleError\<close>.
  \<^item> \<^verbatim>\<open>Versions\<close>, \<^verbatim>\<open>Credentials\<close>, \<^verbatim>\<open>MigrationJobs\<close>, \<^verbatim>\<open>Reconcile\<close>: the parts of
    \<^verbatim>\<open>manageddatabase_controller.go\<close>. The version loop has no bound in the source and is a partial
    function whose undefinedness is the outcome \<open>Hang\<close>. Locales \<open>operator_admin\<close> and \<open>operator_db\<close> extend
    the contract to what the handlers need; the handlers are proved once, inside them.
  \<^item> \<^verbatim>\<open>MySQLAdmin\<close>: the MySQL implementation, down to the statement texts. \<^verbatim>\<open>SqlServer\<close>: the documented
    behaviour of a MySQL server as hypotheses on statement texts (user variables, \<^verbatim>\<open>CONCAT\<close>,
    \<^verbatim>\<open>QUOTE\<close>, prepared statements, account statements, \<^verbatim>\<open>LIKE\<close>), what \<^verbatim>\<open>indirectSubstitute\<close> executes,
    and the interpretation of \<open>credential_admin\<close> and \<open>operator_admin\<close>. \<^verbatim>\<open>MySQLOperator\<close>: the
    interpretation of \<open>operator_db\<close>.
  \<^item> \<^verbatim>\<open>Hints\<close>: the hints engine.
  \<^item> \<^verbatim>\<open>Lifecycle\<close>: the controller over its whole life, as a step relation of handler calls, changes of the
    surroundings and restarts, with the invariant of its books.
  \<^item> \<^verbatim>\<open>Progress\<close>: whole runs of the ManagedDatabase handler: that a read-only database gets no job, and what
    a run that ends without complaints has done to the jobs and the accounts.
  \<^item> \<^verbatim>\<open>Startup\<close>: the static metrics, \<^verbatim>\<open>SetupWithManager\<close> and \<^verbatim>\<open>main.go\<close> with the parsing of flags.
  \<^item> \<^verbatim>\<open>DeepCopy\<close>, \<^verbatim>\<open>ApiCopies\<close>: the generated copy functions (\<^verbatim>\<open>zz_generated.deepcopy.go\<close>) over an explicit
    store of memory. Locale \<open>deep_copy\<close> is the contract of a copy function; pointers, slices, maps and
    structs keep it; it is interpreted for every type, in locale \<open>api_copies\<close> for the types that contain
    types of the Kubernetes libraries.
  \<^item> \<^verbatim>\<open>Fakes\<close>, \<^verbatim>\<open>FakeLocks\<close>: the generated test doubles (\<^verbatim>\<open>pkg/dbadmin/dbadminfakes\<close>), what they record and
    answer, and their mutexes under several goroutines.
  \<^item> \<^verbatim>\<open>SqlReference\<close>, \<^verbatim>\<open>RefCluster\<close>: a small executable MySQL server and API server that satisfy the
    hypotheses, and a controller and a process on top of them, in which the witnesses live.

  \<^bold>\<open>What is shown.\<close> This theory states the properties. C1 is the whole handler on MySQL: wherever it stops, no
  account that is not its own has been touched, and it returns under the conditions C31 and C33 show to be
  needed. C2 to C6 are the main parts against their specifications: accounts, the statements sent to the
  server, jobs, the choice of the next migration and when that search ends. C7 and C8 are what a whole run
  without complaints leaves behind: the one job that brings the database a step closer to its desired version,
  and exactly the wanted accounts. C9 to C13: what is in use stays, running again is harmless, read-only
  databases stay as they are. C14 is the invariant of the controller over all its reachable states. C15 to
  C18: blocked databases are woken up, errors are classified, reported and recorded. C19 to C27: hints, the job,
  questions to the database, metrics, passwords. C28 to C30: copies are independent of what they copy, test
  doubles keep a true record and do not block each other. C31 to C39 are consequences the code does not intend:
  each is proved of the model as the code stands.

  \<^bold>\<open>What is assumed.\<close> One handler runs at a time, and nothing else changes the database accounts while
  it runs; the random identifiers of two successive draws differ; a MySQL statement that reports an
  error changes no account; the DSN in the secret of a database leads to one server and database (\<open>dials\<close>,
  for that DSN only); the API server keeps the laws on jobs, secrets and ManagedDatabases that are named
  definitions (\<open>job_api\<close>, \<open>jobs_apart\<close>, \<open>secret_api\<close>, \<open>db_api\<close>, \<open>status_law\<close>, \<open>update_law\<close>, \<open>serves\<close>), any of its calls
  may fail; the copy functions of the Kubernetes types copy deeply. Time, logging and the Go scheduler are not
  modelled (but for the mutexes of the test doubles, which follow \<^verbatim>\<open>sync.RWMutex\<close> with its waiting writers),
  and neither are database connections as resources: \<^verbatim>\<open>Close\<close> is called where the code calls it, but no theorem
  counts connections. A number is kept at its width where the code computes with it (\<^verbatim>\<open>uint64\<close> table sizes and
  thresholds, \<^verbatim>\<open>uint16\<close> MySQL error numbers). A \<^verbatim>\<open>float64\<close> is only passed on. There is no fuel: the version
  loop, the only loop without a bound, is a partial function.

  \<^bold>\<open>What is not modelled.\<close> Scheme registration (\<^verbatim>\<open>groupversion_info.go\<close>, the \<^verbatim>\<open>init\<close> functions of the API types
  and of \<^verbatim>\<open>main.go\<close>), which only fills a table of the library; \<^verbatim>\<open>tools.go\<close>, which has no code; and stubs of
  the test doubles that call the double again.
\<close>

section \<open>The handler from end to end\<close>

text \<open>
  C1. One run of \<^verbatim>\<open>ReconcileManagedDatabase\<close> against a MySQL server is safe for the accounts of the server:
  wherever the run stops, by returning or by a panic, every account that the operator's own listing does not
  report is still there, and every new account is named after a version. This holds for every outcome of every
  call, every migration engine and every chain of migrations, given that the DSN in the secret of this database
  leads to that server. The run returns, without a panic, when the object names the alembic engine, the
  migrations of its namespace can be read and the chain from its desired version ends.
\<close>

theorem reconcile_accounts:
  fixes s :: "('k, 'd, 'h) sys"
  assumes "mysql_ok (alembic_admin h dbName) V (dbs s)" and "collectors_framed (mysql_ok (alembic_admin h dbName) V) (mysql_users V) s"
    and "fair_iteration c" and "initializeAdminConnection c = dbInitializer lib (mysql_init Map.empty)"
    and "\<And>db dsn. reads_dsn c req (kube s) db dsn \<Longrightarrow> dials lib dsn h dbName V"
  shows "always (ReconcileManagedDatabase c req) (\<lambda>t. mysql_ok (alembic_admin h dbName) V (dbs t) \<and>
      accounts_safe mysql_listed (mysql_users V (dbs s)) (mysql_users V (dbs t))) s \<and>
    (can_return c req (kube s) \<longrightarrow> wp (ReconcileManagedDatabase c req) (\<lambda>_ _. True) s)"
proof -
  let ?ok = "mysql_ok (alembic_admin h dbName) V" and ?adm = "mysql_DbAdmin (alembic_admin h dbName)"
  let ?P = "accounts_safe mysql_listed (mysql_users V (dbs s))"
  have opens: "connected b ?ok (mysql_users V) ?adm c dsn (MigrationEngine (Spec db))"
    if "reads_dsn c req (kube s) db dsn" and "b \<or> can_return c req (kube s)" for b db dsn
    by (rule mysql_connected [OF assms(5) [OF that(1)] _ assms(4)])
       (use that in \<open>force simp: reads_dsn_def can_return_def\<close>)
  have safe: "mysql_db.safe V (alembic_admin h dbName) b ?P (ReconcileManagedDatabase c req) s"
    if "b \<or> can_return c req (kube s)" for b
    by (rule mysql_db.ReconcileManagedDatabase_inv [OF _ assms(2,3) that opens [OF _ that] accounts_safe_respected])
       (use assms(1) in \<open>simp add: accounts_safe_refl\<close>)
  have "wp (ReconcileManagedDatabase c req) (\<lambda>_ _. True) s" if "can_return c req (kube s)"
    by (rule wpp_mono [OF safe [of False]]) (use that in auto)
  with safe [of True] show ?thesis by simp
qed

theorem reconcile_accounts_witness:
  "always (ReconcileManagedDatabase (ref_controller ex_migs) (name_of ''ns'' ''db'')) (\<lambda>t.
      mysql_ok ex_admin ref_view (dbs t) \<and>
      accounts_safe mysql_listed (mysql_users ref_view ex_server) (mysql_users ref_view (dbs t))) ex_sys \<and>
    wp (ReconcileManagedDatabase (ref_controller ex_migs) (name_of ''ns'' ''db'')) (\<lambda>_ _. True) ex_sys"
proof -
  have "collectors_framed (mysql_ok ex_admin ref_view) (mysql_users ref_view) ex_sys"
    by (simp add: collectors_framed_def ex_sys_def initial_sys_def)
  with reconcile_accounts [of ref_handle "''app''" ref_view ex_sys "ref_controller ex_migs" ref_lib
      "name_of ''ns'' ''db''"] show ?thesis by (simp add: ex_ok ref_dials ex_can_return)
qed

section \<open>Credentials\<close>

text \<open>
  C2. \<^verbatim>\<open>reconcileCredentialsForVersion\<close> on MySQL implements its specification \<open>credentials_post\<close>: it
  returns; accounts that are not the operator's and accounts that are wanted survive; nothing but
  wanted accounts appears; a read-only database is not touched; and after success the operator's
  accounts are exactly those of the wanted versions.
\<close>

theorem credentials_refinement:
  fixes s :: "('k, 'd, 'h) sys"
  assumes "fair_iteration c" and "mysql_ok mdba V (dbs s)"
  shows "wp (reconcileCredentialsForVersion c ctx (mysql_DbAdmin mdba)) (\<lambda>r t. mysql_ok mdba V (dbs t) \<and>
    credentials_post mysql_listed ctx (mysql_users V (dbs s)) r (mysql_users V (dbs t))) s"
  using mysql_operator.reconcileCredentials_spec [OF assms] .

theorem credentials_refinement_witness:
  "wp (reconcileCredentialsForVersion (ref_controller ex_migs) ex_ctx (mysql_DbAdmin ex_admin))
     (\<lambda>r t. mysql_ok ex_admin ref_view (dbs t) \<and>
        credentials_post mysql_listed ex_ctx (mysql_users ref_view ex_server) r (mysql_users ref_view (dbs t))) ex_sys"
  using credentials_refinement [of "ref_controller ex_migs" ex_admin ref_view ex_sys ex_ctx]
  by (simp add: ex_ok)

text \<open>
  C3. What \<^verbatim>\<open>indirectSubstitute\<close> executes: the statement that results from the format by putting in
  every argument, those marked as quoted as string literals of the server's own \<^verbatim>\<open>QUOTE\<close>. On success
  the accounts change by exactly the effect of that statement; after an error either by it or not at
  all. No argument, whatever it contains, makes the server run anything else.
\<close>

theorem indirect_statement:
  assumes "session_laws (handle mdba) V" and "length (split_format format) = Suc (length args)"
    and "list_all plain_literal (split_format format)"
    and "distinct (map (block V) [draws V d..<draws V d + length args])"
  shows "wp (indirectSubstitute mdba format args) (\<lambda>r d'.
     let after = effect V (sprintf format (map (sql_text V) args)) (accounts V d) in
     case r of Inl e \<Rightarrow> accounts V d' = accounts V d \<or> accounts V d' = after
             | Inr _ \<Rightarrow> accounts V d' = after) d"
  by (rule wpp_mono [OF indirectSubstitute_spec [OF assms]])
     (auto simp: ran_def Let_def split: sum.splits)

theorem indirect_statement_witness:
  "wp (indirectSubstitute ex_admin ''DROP USER %s'' [quoted ''x' OR '1'='1'']) (\<lambda>r d'.
     let after = effect ref_view (sprintf ''DROP USER %s'' (map (sql_text ref_view) [quoted ''x' OR '1'='1'']))
       (accounts ref_view ex_server) in
     case r of Inl e \<Rightarrow> accounts ref_view d' = accounts ref_view ex_server \<or> accounts ref_view d' = after
             | Inr _ \<Rightarrow> accounts ref_view d' = after) ex_server"
  by (rule indirect_statement)
     (use ref_mysql_server in \<open>simp_all add: mysql_server_def alembic_admin_def plain_literal_def\<close>)

section \<open>Migration jobs\<close>

text \<open>
  C4. \<^verbatim>\<open>reconcileMigrationJob\<close> implements its specification: it returns; jobs of other databases are
  left alone; nothing but a job for the next migration is created; after success the database has
  exactly one job, for the next migration, or none when there is no next migration; and a job is
  spawned at most once, never for a read-only database and never when there is one already.
\<close>

theorem job_reconciliation:
  fixes s :: "('k, 'd, 'h) sys"
  assumes "job_api (Client c) jobs"
  shows "wp (reconcileMigrationJob c ctx) (\<lambda>r t. jobs_post ctx (jobs (kube s)) r (jobs (kube t)) \<and>
    spawn_post ctx (jobs (kube s)) (MigrationJobsSpawned s) (MigrationJobsSpawned t)) s"
  by (rule wpp_mono [OF reconcileMigrationJob_spec [OF assms]]) (auto simp: migration_job_post_def)

theorem job_reconciliation_witness:
  "wp (reconcileMigrationJob (ref_controller ex_migs) ex_ctx) (\<lambda>r t.
     jobs_post ex_ctx (set (cl_jobs (kube ex_sys))) r (set (cl_jobs (kube t))) \<and>
     spawn_post ex_ctx (set (cl_jobs (kube ex_sys))) (MigrationJobsSpawned ex_sys) (MigrationJobsSpawned t)) ex_sys"
  by (rule job_reconciliation [where jobs = "\<lambda>k. set (cl_jobs k)"]) (simp add: ref_job_api)

text \<open>
  C5. Finding the migration to run: when the current version lies on the chain of predecessors of the
  desired version, the loop returns the one migration on that chain whose predecessor is the current
  version, the next step towards the desired version.
\<close>

theorem next_migration:
  assumes "serves cl ns mig" and "version_path mig cur desired" and "desired \<noteq> cur"
  shows "\<exists>m k'. migrationToRun cl ns desired cur k = Ret (Inr (Some m)) k' \<and>
    prev_of m = cur \<and> runs_next mig cur desired m \<and> (\<forall>m'. runs_next mig cur desired m' \<longrightarrow> m' = m)"
proof -
  from findMigration_path [OF assms] obtain m k' where m: "runs_next mig cur desired m"
    and "findMigration cl ns desired cur desired None k = Some (Inr (Some m), k')" by blast
  then have "migrationToRun cl ns desired cur k = Ret (Inr (Some m)) k'" by (simp add: migrationToRun_def)
  moreover have "\<forall>m'. runs_next mig cur desired m' \<longrightarrow> m' = m" using runs_next_unique [OF _ m] by blast
  ultimately show ?thesis using m runs_next_prev [OF m] by blast
qed

theorem next_migration_witness:
  "\<exists>m k'. migrationToRun (ref_client ex_migs) ''ns'' ''v3'' ''v1'' ex_cluster = Ret (Inr (Some m)) k' \<and>
    prev_of m = ''v1'' \<and> runs_next (ref_migration ex_migs ''ns'') ''v1'' ''v3'' m \<and>
    (\<forall>m'. runs_next (ref_migration ex_migs ''ns'') ''v1'' ''v3'' m' \<longrightarrow> m' = m)"
proof (rule next_migration [OF ref_serves])
  have v2: "version_path (ref_migration ex_migs ''ns'') ''v1'' ''v2''"
    by (rule one_back [where m = "ex_migration ''v2'' ''v1''"])
       (simp_all add: ex_find version_path.at_current)
  show "version_path (ref_migration ex_migs ''ns'') ''v1'' ''v3''"
    by (rule one_back [where m = "ex_migration ''v3'' ''v2''"]) (simp_all add: ex_find v2)
qed simp

text \<open>
  C6. The loop has no bound of its own. It returns exactly when the chain of predecessors ends: at the
  current version, at an empty predecessor, or at a migration that is missing.
\<close>

theorem version_loop_ends:
  assumes "serves cl ns mig"
  shows "(\<exists>r k'. migrationToRun cl ns desired cur k = Ret r k') \<longleftrightarrow> chain_ends mig cur desired"
proof
  assume "\<exists>r k'. migrationToRun cl ns desired cur k = Ret r k'"
  then obtain r where "findMigration cl ns desired cur desired None k = Some r"
    by (auto simp: migrationToRun_def split: option.splits)
  with findMigration_returned_ends [OF this, of mig] assms show "chain_ends mig cur desired" by simp
next
  assume "chain_ends mig cur desired"
  from findMigration_ends [OF assms this] obtain r where
    "findMigration cl ns desired cur desired None k = Some r" by blast
  then show "\<exists>r k'. migrationToRun cl ns desired cur k = Ret r k'"
    by (cases r) (auto simp: migrationToRun_def)
qed

theorem version_loop_ends_witness:
  "(\<exists>r k'. migrationToRun (ref_client ex_migs) ''ns'' ''v3'' ''v1'' ex_cluster = Ret r k') \<longleftrightarrow>
   chain_ends (ref_migration ex_migs ''ns'') ''v1'' ''v3''"
  by (rule version_loop_ends [OF ref_serves])

text \<open>
  C7. A run without complaints makes progress: when \<^verbatim>\<open>ReconcileManagedDatabase\<close> returns success and the
  stored object afterwards has neither errors nor the label of a blocking migration, then the version in its
  status lies on the chain of the desired version. At the desired version no job of the database is left.
  Before it there is exactly one, for the next migration on the chain, and the version that migration is named
  after is one step closer to the desired one. This holds for every administration interface.
\<close>

theorem clean_run_progress:
  fixes s :: "('k, 'd, 'h) sys"
  assumes "job_api (Client c) jobs" and "jobs_apart (Client c) jobs"
    and "status_law (Client c) view" and "update_law (Client c) view"
    and "Get_ManagedDatabase (Client c) req zero_ManagedDatabase (kube s) = ((None, db), k')" and "db_key db = req"
    and "serves (Client c) (Namespace db) mig" and "\<And>v m. mig v = Some m \<Longrightarrow> Name m = v"
    and "ReconcileManagedDatabase c req s = Ret r t" and "clean_run view req r (kube t)"
  shows "\<exists>y. view (kube t) req = Some y \<and>
    (if CurrentVersion (Status y) = DesiredSchemaVersion (Spec db) then jobs_of db (jobs (kube t)) = {}
     else \<exists>m n j. version_dist mig (CurrentVersion (Status y)) (DesiredSchemaVersion (Spec db)) (Suc n) \<and>
       runs_next mig (CurrentVersion (Status y)) (DesiredSchemaVersion (Spec db)) m \<and>
       version_dist mig (Name m) (DesiredSchemaVersion (Spec db)) n \<and>
       jobs_of db (jobs (kube t)) = {j} \<and> migration_uid j = UID m)"
proof -
  from wlp_RetD [OF clean_run_in_step [OF assms(1,3,4,2,5-8)] assms(9)] assms(10)
  have "in_step view jobs mig db (kube t)" by blast
  then obtain y nxt where y: "view (kube t) req = Some y" and jobs: "jobs_for db (jobs (kube t)) nxt"
    and nxt: "chosen mig (CurrentVersion (Status y)) (DesiredSchemaVersion (Spec db)) nxt"
    using assms(6) by (auto simp: in_step_def)
  have "nxt \<noteq> None" if "CurrentVersion (Status y) \<noteq> DesiredSchemaVersion (Spec db)"
    using nxt that by (cases nxt) (simp_all add: chosen_def)
  moreover have "nxt = None" if "CurrentVersion (Status y) = DesiredSchemaVersion (Spec db)"
    using nxt that by (cases nxt) (auto simp: chosen_def elim: version_dist_SucE)
  ultimately show ?thesis using y jobs nxt
    by (cases nxt) (simp_all add: jobs_for_def chosen_def, blast)
qed

theorem clean_run_progress_witness:
  "\<exists>r t. ReconcileManagedDatabase (ref_controller ex_migs) (name_of ''ns'' ''db'') ex_settled = Ret r t \<and>
    clean_run ref_dbs (name_of ''ns'' ''db'') r (kube t) \<and>
    (\<exists>y. ref_dbs (kube t) (name_of ''ns'' ''db'') = Some y \<and>
    (if CurrentVersion (Status y) = ''v3'' then jobs_of ex_db (set (cl_jobs (kube t))) = {}
     else \<exists>m n j. version_dist (ref_migration ex_migs ''ns'') (CurrentVersion (Status y)) ''v3'' (Suc n) \<and>
       runs_next (ref_migration ex_migs ''ns'') (CurrentVersion (Status y)) ''v3'' m \<and>
       version_dist (ref_migration ex_migs ''ns'') (Name m) ''v3'' n \<and>
       jobs_of ex_db (set (cl_jobs (kube t))) = {j} \<and> migration_uid j = UID m))"
proof -
  obtain r t where run: "ReconcileManagedDatabase (ref_controller ex_migs) (name_of ''ns'' ''db'') ex_settled = Ret r t"
    and clean: "clean_run ref_dbs (name_of ''ns'' ''db'') r (kube t)" using wp_returns [OF settled_clean] by blast
  from clean_run_progress [of "ref_controller ex_migs" "\<lambda>k. set (cl_jobs k)" ref_dbs _ ex_settled ex_db _ "ref_migration ex_migs ''ns''",
      unfolded ref_controller_simps, OF ref_job_api ref_jobs_apart ref_status_law ref_update_law ex_settled_read(1,2)
      ex_settled_read(4) ex_names [where ns = "''ns''"] run clean, unfolded ex_settled_read(3)]
    run clean show ?thesis by blast
qed

text \<open>
  C8. After a run without complaints against a MySQL server the accounts the operator takes for its own are
  exactly those it wants at the version the database is at: the account of that version, that of the version
  before it when the database is at its desired version, and none for an empty database.
\<close>

theorem clean_run_accounts:
  fixes s :: "('k, 'd, 'h) sys"
  assumes "mysql_ok (alembic_admin h dbName) V (dbs s)" and "collectors_framed (mysql_ok (alembic_admin h dbName) V) (mysql_users V) s"
    and "fair_iteration c" and "initializeAdminConnection c = dbInitializer lib (mysql_init Map.empty)"
    and "\<And>db dsn. reads_dsn c req (kube s) db dsn \<Longrightarrow> dials lib dsn h dbName V"
    and "status_law (Client c) view" and "update_law (Client c) view"
    and "Get_ManagedDatabase (Client c) req zero_ManagedDatabase (kube s) = ((None, db), k')" and "db_key db = req"
    and "MigrationEngine (Spec db) = ''alembic''"
    and "serves (Client c) (Namespace db) mig" and "\<And>v m. mig v = Some m \<Longrightarrow> Name m = v"
    and "ReconcileManagedDatabase c req s = Ret r t" and "clean_run view req r (kube t)"
  shows "\<exists>y. view (kube t) req = Some y \<and> {u \<in> mysql_users V (dbs t). mysql_listed u} =
    migrationDBUsername ` wanted_versions mig (CurrentVersion (Status y)) (DesiredSchemaVersion (Spec db))"
proof -
  have "wlp (ReconcileManagedDatabase c req) (owned (mysql_users V) mysql_listed view mig req (DesiredSchemaVersion (Spec db))) s"
    by (rule mysql_db.ReconcileManagedDatabase_owned [OF assms(1,2,6,7,3,8,9,11,12) mysql_connected [OF assms(5) _ assms(4)]])
       (simp_all add: assms(10))
  from wlp_RetD [OF this assms(13)] assms(14) obtain y where "view (kube t) req = Some y"
    and own: "{u \<in> mysql_users V (dbs t). mysql_listed u} = {u \<in> migrationDBUsername `
      wanted_versions mig (CurrentVersion (Status y)) (DesiredSchemaVersion (Spec db)). mysql_listed u}"
    unfolding owned_def by blast
  moreover have "mysql_listed (migrationDBUsername v)" for v
    by (rule prefix_mysql_listed) (simp add: DBUsernamePrefix_def)
  ultimately show ?thesis by auto
qed

theorem clean_run_accounts_witness:
  "\<exists>r t. ReconcileManagedDatabase (ref_controller ex_migs) (name_of ''ns'' ''db'') ex_settled = Ret r t \<and>
    clean_run ref_dbs (name_of ''ns'' ''db'') r (kube t) \<and>
    (\<exists>y. ref_dbs (kube t) (name_of ''ns'' ''db'') = Some y \<and> {u \<in> mysql_users ref_view (dbs t). mysql_listed u} =
      migrationDBUsername ` wanted_versions (ref_migration ex_migs ''ns'') (CurrentVersion (Status y)) ''v3'')"
proof -
  obtain r t where run: "ReconcileManagedDatabase (ref_controller ex_migs) (name_of ''ns'' ''db'') ex_settled = Ret r t"
    and clean: "clean_run ref_dbs (name_of ''ns'' ''db'') r (kube t)" using wp_returns [OF settled_clean] by blast
  have framed: "collectors_framed (mysql_ok ex_admin ref_view) (mysql_users ref_view) ex_settled"
    by (simp add: collectors_framed_def ex_settled_def ex_sys_def initial_sys_def)
  from clean_run_accounts [of ref_handle "''app''" ref_view ex_settled "ref_controller ex_migs" ref_lib _ ref_dbs ex_db _
      "ref_migration ex_migs ''ns''", unfolded ref_controller_simps, OF ex_settled_ok framed ref_controller_simps(3) refl ref_dials ref_status_law
      ref_update_law ex_settled_read(1,2,5,4) ex_names [where ns = "''ns''"] run clean, unfolded ex_settled_read(3)]
    run clean show ?thesis by blast
qed

section \<open>What is in use stays\<close>

text \<open>
  C9. \<^verbatim>\<open>VerifyUnusedAndDeleteCredentials\<close> on MySQL never removes an account with active sessions: it
  returns an error and the accounts are what they were.
\<close>

theorem used_credentials_kept:
  assumes "mysql_ok mdba V d" and "0 < processes V d u"
  shows "wp (mysql_VerifyUnusedAndDeleteCredentials mdba u)
    (\<lambda>r d'. mysql_users V d' = mysql_users V d \<and> (\<exists>e. r = Inl e)) d"
proof -
  obtain r d1 where run: "db_Get_int (handle mdba)
      ''SELECT COUNT(*) FROM information_schema.processlist WHERE user = ?'' [u] d = (r, d1)" by force
  with assms(1) have "quiet V d d1 r" and count: "r = Inr n \<Longrightarrow> n = processes V d u" for n
    unfolding mysql_ok_def mysql_server_def count_law_def by blast+
  then have "mysql_users V d1 = mysql_users V d" by (simp add: quiet_def mysql_users_def)
  with run count assms(2) show ?thesis
    by (cases r) (simp_all add: mysql_VerifyUnusedAndDeleteCredentials_def wp_simps)
qed

theorem used_credentials_kept_witness:
  "wp (mysql_VerifyUnusedAndDeleteCredentials ex_admin ''app'')
    (\<lambda>r d'. mysql_users ref_view d' = mysql_users ref_view ex_server \<and> (\<exists>e. r = Inl e)) ex_server"
  by (rule used_credentials_kept [OF ex_ok]) (simp add: ref_view_def ex_server_def)

text \<open>
  C10. A secret of a version that is still wanted is never taken away by
  \<^verbatim>\<open>reconcileCredentialsForVersion\<close>, however the run ends and whatever the administration interface
  does.
\<close>

theorem wanted_secret_kept:
  fixes s :: "('k, 'd, 'h) sys"
  assumes "secret_api (Client c) (Namespace (mc_db ctx)) secrets" and "fair_iteration c"
  shows "always (reconcileCredentialsForVersion c ctx admin)
    (\<lambda>t. secrets (kube s) \<inter> set (desiredSecretNames ctx) \<subseteq> secrets (kube t)) s"
  by (rule reconcileCredentials_secrets [OF assms])

theorem wanted_secret_kept_witness:
  "always (reconcileCredentialsForVersion (ref_controller ex_migs) ex_ctx (mysql_DbAdmin ex_admin))
    (\<lambda>t. ref_secret_names ''ns'' (kube ex_sys) \<inter> set (desiredSecretNames ex_ctx)
       \<subseteq> ref_secret_names ''ns'' (kube t)) ex_sys"
  by (rule wanted_secret_kept) (use ref_secret_api [of ex_migs "''ns''"] in
      \<open>simp_all add: ex_ctx_def ex_db_def\<close>)

text \<open>
  C11. A secret that a pod of the namespace uses, through a volume or the environment of a container,
  is not deleted: \<^verbatim>\<open>deleteSecretIfUnused\<close> reports a pod that uses it and changes nothing after listing
  the pods.
\<close>

theorem used_secret_kept:
  assumes "List_Pods cl ns k = (Inr pods, k')" and "pod \<in> set pods" and "references pod secret"
  shows "\<exists>user. user \<in> set pods \<and> references user secret \<and> deleteSecretIfUnused cl ns secret k =
     Ret (Inl (Errorf ''Secret %s is used in pod %s'' [secret, Pod_String cl user])) k'"
  using deleteSecretIfUnused_used [OF assms] by blast

theorem used_secret_kept_witness:
  "\<exists>user. user \<in> set [ex_pod] \<and> references user ''db-v0'' \<and>
     deleteSecretIfUnused (ref_client ex_migs) ''ns'' ''db-v0'' ex_pods =
     Ret (Inl (Errorf ''Secret %s is used in pod %s'' [''db-v0'', Pod_String (ref_client ex_migs) user])) ex_pods"
  by (rule used_secret_kept [where pod = ex_pod])
     (simp_all add: ref_client_def ex_pods_def ex_pod_def references_code container_uses_def
       envFrom_uses_def ex_env_def)

section \<open>Running again\<close>

text \<open>
  C12. After a successful run of \<^verbatim>\<open>reconcileMigrationJob\<close> a second run, on the same database and with
  the same next migration, spawns no further job.
\<close>

theorem jobs_settled:
  fixes s t :: "('k, 'd, 'h) sys"
  assumes "job_api (Client c) jobs" and "reconcileMigrationJob c ctx s = Ret (Inr ()) t"
  shows "wp (reconcileMigrationJob c ctx) (\<lambda>r u. MigrationJobsSpawned u = MigrationJobsSpawned t) t"
proof -
  from wp_RetD [OF reconcileMigrationJob_spec [OF assms(1)] assms(2)]
  have "jobs_post ctx (jobs (kube s)) (Inr ()) (jobs (kube t))" by (simp add: migration_job_post_def)
  then have found: "\<exists>j \<in> jobs_of (mc_db ctx) (jobs (kube t)). migration_uid j = UID m"
    if "nextVersion ctx = Some m" for m
    using that by (auto simp: jobs_post_def)
  show ?thesis
    by (rule wpp_mono [OF reconcileMigrationJob_spec [OF assms(1)]])
       (use found in \<open>auto simp: migration_job_post_def spawn_post_def\<close>)
qed

theorem jobs_settled_witness:
  "\<exists>t. reconcileMigrationJob (ref_controller ex_migs) ex_ctx ex_sys = Ret (Inr ()) t \<and>
     wp (reconcileMigrationJob (ref_controller ex_migs) ex_ctx)
       (\<lambda>r u. MigrationJobsSpawned u = MigrationJobsSpawned t) t"
proof -
  have "\<exists>t. reconcileMigrationJob (ref_controller ex_migs) ex_ctx ex_sys = Ret (Inr ()) t"
    by (simp add: reconcileMigrationJob_def on_kube_def go_defs ref_client_def ex_cluster_def ex_ctx_def
        neededJobsRunning_def startNeeded_def ex_db_def startMigration_def zero_ManagedDatabase_def)
  then show ?thesis using jobs_settled [of "ref_controller ex_migs" "\<lambda>k. set (cl_jobs k)"]
    by (auto simp: ref_job_api)
qed

text \<open>
  C13. A read-only database stays as it is: wherever a run of \<^verbatim>\<open>ReconcileManagedDatabase\<close> for it stops, the
  accounts of the MySQL server are what they were and no job has been created in the cluster.
\<close>

theorem read_only_untouched:
  fixes s :: "('k, 'd, 'h) sys"
  assumes "mysql_ok (alembic_admin h dbName) V (dbs s)" and "collectors_framed (mysql_ok (alembic_admin h dbName) V) (mysql_users V) s"
    and "fair_iteration c" and "initializeAdminConnection c = dbInitializer lib (mysql_init Map.empty)"
    and "\<And>db dsn. reads_dsn c req (kube s) db dsn \<Longrightarrow> dials lib dsn h dbName V"
    and "job_api (Client c) jobs" and "jobs_apart (Client c) jobs"
    and "\<And>db k'. Get_ManagedDatabase (Client c) req zero_ManagedDatabase (kube s) = ((None, db), k') \<Longrightarrow> ReadOnly (Spec db)"
  shows "always (ReconcileManagedDatabase c req) (\<lambda>t. mysql_users V (dbs t) = mysql_users V (dbs s) \<and>
    jobs (kube t) \<subseteq> jobs (kube s)) s"
proof -
  have "mysql_db.safe V (alembic_admin h dbName) True (\<lambda>U. U = mysql_users V (dbs s)) (ReconcileManagedDatabase c req) s"
    by (rule mysql_db.ReconcileManagedDatabase_inv [OF _ assms(2,3) _ mysql_connected [OF assms(5) _ assms(4)]
        read_only_respected [OF assms(8)]]) (use assms(1) in simp_all)
  from wpp_conj [OF this read_only_jobs [OF assms(7,6,8)]] show ?thesis
    by (rule wpp_mono) auto
qed

theorem read_only_untouched_witness:
  "always (ReconcileManagedDatabase (ref_controller ex_migs) (name_of ''ns'' ''db'')) (\<lambda>t.
     mysql_users ref_view (dbs t) = mysql_users ref_view ex_server \<and>
     set (cl_jobs (kube t)) \<subseteq> set (cl_jobs ex_ro_cluster)) (ex_sys\<lparr>kube := ex_ro_cluster\<rparr>)"
proof -
  let ?s = "ex_sys\<lparr>kube := ex_ro_cluster\<rparr>"
  have "collectors_framed (mysql_ok ex_admin ref_view) (mysql_users ref_view) ?s"
    by (simp add: collectors_framed_def ex_sys_def initial_sys_def)
  moreover have "ReadOnly (Spec db)"
    if "Get_ManagedDatabase (ref_client ex_migs) (name_of ''ns'' ''db'') zero_ManagedDatabase (kube ?s) = ((None, db), k')" for db k'
    using that by (auto simp: ref_client_def ex_ro_cluster_def ex_db_def keyed_def)
  ultimately show ?thesis
    using read_only_untouched [of ref_handle "''app''" ref_view ?s "ref_controller ex_migs" ref_lib
        "name_of ''ns'' ''db''" "\<lambda>k. set (cl_jobs k)"]
    by (simp add: ex_ok ref_dials ref_job_api ref_jobs_apart)
qed

section \<open>The controller's books\<close>

text \<open>
  C14. In every state the controller can reach, by any calls of its handlers in any order, any changes of
  the cluster, the databases and the surroundings between them, and restarts, the gauge of managed
  databases is the number of links the controller keeps, and every metrics collector it keeps belongs to
  one of those links.
\<close>

theorem reachable_bookkeeping:
  assumes "(operator_step c)\<^sup>*\<^sup>* (initial_sys k d h) s"
  shows "finite (databaseLinks s) \<and> ManagedDatabases s = card (databaseLinks s) \<and>
    dom (databaseMetricsCollectors s) \<subseteq> databaseLinks s"
  using reachable_books [OF assms] by (simp add: bookkeeping_def)

theorem reachable_bookkeeping_witness:
  "\<exists>s. ReconcileManagedDatabase (ref_controller ex_migs) (name_of ''ns'' ''gone'') (initial_sys ex_cluster ex_server ()) =
      Ret (zero_Result, None) s \<and> finite (databaseLinks s) \<and> ManagedDatabases s = card (databaseLinks s) \<and>
    dom (databaseMetricsCollectors s) \<subseteq> databaseLinks s"
proof -
  have "\<exists>s. ReconcileManagedDatabase (ref_controller ex_migs) (name_of ''ns'' ''gone'') (initial_sys ex_cluster ex_server ()) =
      Ret (zero_Result, None) s"
    by (simp add: ReconcileManagedDatabase_def on_kube_def go_defs ref_client_def ex_cluster_def ex_db_def keyed_def
        not_found_def databaseNotFound_def dropCollector_def initial_sys_def zero_ManagedDatabase_def)
  then obtain s where run: "ReconcileManagedDatabase (ref_controller ex_migs) (name_of ''ns'' ''gone'')
      (initial_sys ex_cluster ex_server ()) = Ret (zero_Result, None) s" by blast
  with reachable_bookkeeping [OF r_into_rtranclp [where r = "operator_step (ref_controller ex_migs)", OF handle_database [OF run]]] show ?thesis by blast
qed

section \<open>Errors\<close>

text \<open>
  C15. \<^verbatim>\<open>ReconcileDatabaseMigration\<close> wakes up what a migration blocks. It returns. When the databases with the
  label of the migration could be listed, a success means that no ManagedDatabase of the namespace carries the
  label any more with which \<^verbatim>\<open>handleError\<close> marks databases blocked by that migration, and a failure asks to
  be run again. When they could not be listed, which is only logged, the run succeeds and wakes nothing up.
\<close>

theorem migration_unblocks:
  fixes s :: "('k, 'd, 'h) sys"
  assumes "db_api (Client c) view"
    and "List_ManagedDatabases (Client c) (nn_Namespace req)
      [(BlockedByMigrationLabelKey, migrationLabelValue req)] (kube s) = ((listed, items), k')"
    and "listed \<noteq> None \<Longrightarrow> items = []"
  shows "wp (ReconcileDatabaseMigration c req) (\<lambda>(res, e) t.
    if listed = None then (if e = None then res = zero_Result \<and> blocked_on view req (kube t) = {} else res = requeueAfterDelay)
    else res = zero_Result \<and> e = None \<and> t = s\<lparr>kube := k'\<rparr>) s"
proof (cases listed)
  case None
  with ReconcileDatabaseMigration_listed [OF assms(1)] assms(2)
  have "wp (ReconcileDatabaseMigration c req) (\<lambda>r t. unblock_post view req r (kube t)) s" by blast
  with None show ?thesis by (auto simp: unblock_post_def split_beta elim!: wpp_mono split: if_splits)
next
  case (Some e)
  with assms(2,3) have "ReconcileDatabaseMigration c req s = Ret (zero_Result, None) (s\<lparr>kube := k'\<rparr>)"
    by (intro ReconcileDatabaseMigration_unlisted) simp
  with Some show ?thesis by (simp add: wpp_def)
qed

theorem migration_unblocks_witness:
  "wp (ReconcileDatabaseMigration (ref_controller ex_migs) (name_of ''ns'' ''v2'')) (\<lambda>(res, e) t.
     if e = None then res = zero_Result \<and> blocked_on ref_dbs (name_of ''ns'' ''v2'') (kube t) = {} else res = requeueAfterDelay)
     (ex_sys\<lparr>kube := ex_blocked\<rparr>)"
proof -
  let ?s = "ex_sys\<lparr>kube := ex_blocked\<rparr>"
  have "\<exists>items k'. List_ManagedDatabases (Client (ref_controller ex_migs)) (nn_Namespace (name_of ''ns'' ''v2''))
      [(BlockedByMigrationLabelKey, migrationLabelValue (name_of ''ns'' ''v2''))] (kube ?s) = ((None, items), k')"
    by (simp add: ref_client_def)
  then obtain items k' where list: "List_ManagedDatabases (Client (ref_controller ex_migs))
      (nn_Namespace (name_of ''ns'' ''v2''))
      [(BlockedByMigrationLabelKey, migrationLabelValue (name_of ''ns'' ''v2''))] (kube ?s) = ((None, items), k')"
    by blast
  from migration_unblocks [OF _ list, of ref_dbs] show ?thesis by (simp add: ref_db_api)
qed

text \<open>
  C16. How \<^verbatim>\<open>handleError\<close> ends. Either the API server refused one of its writes, and the error of that write
  is returned. Or the error is returned to the work queue with a delayed retry if it is temporary, and the run
  counts as done otherwise; the stored object carries the label of the migration that blocks it, if the error
  names one and is not temporary; and the error stands in the stored status, after the errors that were there.
  When a migration blocks, the last part needs that the update that sets the label hands back the errors it was
  given, since the object it hands back is the one that is written to the status.
\<close>

theorem error_outcome:
  assumes "status_law cl view" and "update_law cl view" and "Labels db \<noteq> None"
  shows "wp (handleError cl db err) (\<lambda>r k'. (\<exists>e. r = (zero_Result, Some e) \<and> refused cl e) \<or>
     (r = (if is_temporary err then (requeueAfterDelay, Some err) else (zero_Result, None)) \<and>
      (\<exists>y. view k' (db_key db) = Some y \<and>
        (\<forall>n. \<not> is_temporary err \<and> blocking_migration err = Some n \<longrightarrow>
           has_label BlockedByMigrationLabelKey (migrationLabelValue n) y) \<and>
        (is_temporary err \<or> blocking_migration err = None \<or> echoes cl \<longrightarrow>
           Errors (Status y) = Errors (Status db) @ [\<lparr>Message = Error err, Temporary = is_temporary err\<rparr>])))) k"
  by (rule wpp_mono [OF handleError_reported [OF assms]])
     (auto simp: reported_def recorded_def blocks_def split: if_splits)

theorem error_outcome_witness:
  "wp (handleError (ref_client ex_migs) (ex_db\<lparr>Labels := Some Map.empty\<rparr>) (temporaryError ''busy''))
    (\<lambda>r k'. (\<exists>e. r = (zero_Result, Some e) \<and> refused (ref_client ex_migs) e) \<or>
     (r = (requeueAfterDelay, Some (temporaryError ''busy'')) \<and>
      (\<exists>y. ref_dbs k' (name_of ''ns'' ''db'') = Some y \<and> Errors (Status y) = [\<lparr>Message = ''busy'', Temporary = True\<rparr>])))
    ex_cluster"
  by (rule wpp_mono [OF error_outcome [OF ref_status_law ref_update_law]])
     (auto simp: ex_db_def zero_ManagedDatabase_def)

text \<open>
  C17. A missing migration blocks the database under its own name: when \<^verbatim>\<open>loadMigration\<close> fails, the error
  names the migration that could not be read, under any context added later, and the label value made
  from that name can be read back, so the label a database gets is the one
  \<^verbatim>\<open>ReconcileDatabaseMigration\<close> looks for when that migration appears.
\<close>

theorem missing_migration_blocks:
  assumes "loadMigration cl ns v k = (Inl err, k')" and "CHR ''.'' \<notin> set ns"
  shows "blocking_migration (with_context ms err) = Some (name_of ns v) \<and>
    parse_label (migrationLabelValue (name_of ns v)) = name_of ns v"
  using assms parse_label_roundtrip [of "name_of ns v"]
  by (auto simp: loadMigration_def Let_def split: prod.splits sum.splits)

theorem missing_migration_blocks_witness:
  "\<exists>err. loadMigration (ref_client []) ''ns'' ''v1'' ex_cluster = (Inl err, ex_cluster) \<and>
     blocking_migration (with_context [''a''] err) = Some (name_of ''ns'' ''v1'') \<and>
     parse_label (migrationLabelValue (name_of ''ns'' ''v1'')) = name_of ''ns'' ''v1''"
proof -
  have "\<exists>err. loadMigration (ref_client []) ''ns'' ''v1'' ex_cluster = (Inl err, ex_cluster)"
    by (simp add: loadMigration_def ref_client_def)
  then obtain err where run: "loadMigration (ref_client []) ''ns'' ''v1'' ex_cluster = (Inl err, ex_cluster)"
    by blast
  from missing_migration_blocks [OF run, of "[''a'']"] run show ?thesis by auto
qed

text \<open>
  C18. Which MySQL errors are retried: an error of the server is temporary exactly when its number is in
  the table \<^verbatim>\<open>retryableErrors\<close>, whatever context is wrapped around it on either side of \<^verbatim>\<open>wrap\<close>; and
  such an error never blocks on a migration.
\<close>

theorem retry_classification:
  "(is_temporary (with_context outer (wrappedMySQLError (with_context inner (MySQLError n msg)))) \<longleftrightarrow>
      n \<in> set retryableErrors) \<and>
   blocking_migration (with_context outer (wrappedMySQLError (with_context inner (MySQLError n msg)))) = None"
proof -
  have "errors_As as_MySQLError (with_context inner (MySQLError n msg)) = Some n"
    by (simp add: errors_As_context)
  moreover have "\<not> retryableSentinel (with_context inner (MySQLError n msg))"
    by (cases inner) simp_all
  ultimately show ?thesis by (simp add: wrappedMySQLError_Temporary_def)
qed

section \<open>Hints\<close>

text \<open>
  C19. \<^verbatim>\<open>ProcessHints\<close> holds a migration back exactly when one of its hints is risky: it returns without
  an error, and the list of errors is empty exactly when no hint adds a column to a large table or
  without a default where one is needed, makes a column with nulls non-nullable, creates a full-text index on a
  large table, or names an unknown operation. The administration interface need only answer for the tables it
  is asked about. Hints about unique indexes are the subject of C36.
\<close>

theorem hints_exact:
  assumes "\<And>xs. distinct xs \<Longrightarrow> set (order xs) = set xs"
    and "lower_camel f" and "answers admin d sizes nulls" and "list_all checked_hint hs"
  shows "\<exists>es. ProcessHints order (NewHintsEngine f admin thr) hs d = Ret (Inr es) d \<and>
    (es = [] \<longleftrightarrow> \<not> list_ex (risky thr sizes nulls) hs)"
  by (rule ProcessHints_risky [OF assms])

theorem hints_exact_witness:
  "\<exists>es. ProcessHints (\<lambda>xs. xs) (NewHintsEngine ref_camel (mysql_DbAdmin stat_admin) 5)
      [ex_hint ''addColumn'', ex_hint ''alterColumn''] ex_server = Ret (Inr es) ex_server \<and>
    (es = [] \<longleftrightarrow> \<not> list_ex (risky 5 (\<lambda>t. if t = ''t'' then 7 else 0) (\<lambda>t col. True))
       [ex_hint ''addColumn'', ex_hint ''alterColumn''])"
  by (rule hints_exact [OF _ ref_lower_camel stat_answers]) (simp_all add: checked_hint_def ex_hint_def)

section \<open>The migration job\<close>

text \<open>
  C20. The job built for a migration follows the migration container protocol: it runs the migration's
  container once and without retries, with the connection string taken from the database's secret and
  the job, database and migration names and the gateway in its environment, and it carries the labels
  by which the controller finds it again.
\<close>

theorem container_protocol:
  "p_RestartPolicy (job_Template (constructJobForMigration db m)) = ''Never'' \<and>
   job_BackoffLimit (constructJobForMigration db m) = Some 0 \<and>
   Labels (constructJobForMigration db m) = Some (getStandardLabels db m) \<and>
   migration_uid (constructJobForMigration db m) = UID m \<and>
   (\<exists>c. p_Containers (job_Template (constructJobForMigration db m)) = [c] \<and>
      c_Image c = c_Image (MigrationContainerSpec (mig_Spec m)) \<and>
      c_Command c = c_Command (MigrationContainerSpec (mig_Spec m)) \<and>
      c_Env c = c_Env (MigrationContainerSpec (mig_Spec m)) @
       [\<lparr>e_Name = ''DBA_OP_CONNECTION_STRING'', e_Value = [],
         e_ValueFrom = Some \<lparr>SecretKeyRef = Some \<lparr>sk_Name = DSNSecret (Connection (Spec db)),
           sk_Key = ''dsn'', sk_Optional = Some False\<rparr>\<rparr>\<rparr>,
        env_value ''DBA_OP_JOB_ID'' (Name db @ ''-'' @ Name m),
        env_value ''DBA_OP_PROMETHEUS_PUSH_GATEWAY_ADDR'' ''prom-pushgateway:9091'',
        env_value ''DBA_OP_LABEL_DATABASE'' (Name db),
        env_value ''DBA_OP_LABEL_MIGRATION'' (Name m)])"
  using constructJob_frame [of db m] constructJob_env [of db m]
  by (auto simp: constructJob_once migration_uid_def job_container_def)

section \<open>Questions to the database\<close>

text \<open>
  C21. \<^verbatim>\<open>GetTableSizeEstimates\<close> answers for every table it is asked about: with the number the server
  reports, or with zero when it reports none. Other tables have an entry only when the server reports
  them.
\<close>

theorem table_sizes:
  assumes "ts \<noteq> []"
    and "sqlx_In (handle mdba)
      ''SELECT TABLE_NAME, TABLE_ROWS FROM INFORMATION_SCHEMA.TABLES WHERE TABLE_NAME IN (?);'' [Slice ts]
      = Inr (q, as)"
    and "db_Select_tables (handle mdba) (db_Rebind (handle mdba) q) as d = (Inr rows, d')"
  shows "mysql_GetTableSizeEstimates mdba ts d = Ret (Inr (\<lambda>t. case row_value rows t of
    Some v \<Rightarrow> Some v | None \<Rightarrow> if t \<in> set ts then Some 0 else None)) d'"
  by (rule mysql_sizes_result [OF assms])

theorem table_sizes_witness:
  "mysql_GetTableSizeEstimates stat_admin [''t'', ''other''] ex_server = Ret (Inr (\<lambda>t. case row_value ex_rows t of
    Some v \<Rightarrow> Some v | None \<Rightarrow> if t \<in> set [''t'', ''other''] then Some 0 else None)) ex_server"
  by (rule table_sizes) simp_all

text \<open>
  C22. When \<^verbatim>\<open>GetNextIDs\<close> knows the next identifiers of all tables. It succeeds exactly when the server
  reports as many rows as tables were asked for, and then answers with the last value reported for each table.
  The query names the tables but not the schema, so a table is reported once per schema that has it: the answer
  covers all tables exactly when no table is reported twice, and otherwise a success hides a missing table.
\<close>

theorem next_ids_complete:
  assumes "ts \<noteq> []" and "distinct ts"
    and "sqlx_In (handle mdba)
      ''SELECT TABLE_NAME, AUTO_INCREMENT FROM INFORMATION_SCHEMA.TABLES WHERE TABLE_NAME IN (?);'' [Slice ts]
      = Inr (q, as)"
    and "db_Select_tables (handle mdba) (db_Rebind (handle mdba) q) as d = (Inr rows, d')"
    and "tr_TableName ` set rows \<subseteq> set ts"
  shows "((\<exists>ids. mysql_GetNextIDs mdba ts d = Ret (Inr ids) d') \<longleftrightarrow> length rows = length ts) \<and>
    (\<forall>ids. mysql_GetNextIDs mdba ts d = Ret (Inr ids) d' \<longrightarrow> ids = row_value rows \<and>
       (dom ids = set ts \<longleftrightarrow> distinct (map tr_TableName rows)))"
proof -
  have run: "mysql_GetNextIDs mdba ts d = Ret (if length rows = length ts then Inr (row_value rows)
      else Inl (Errorf ''Unable to load table nextIDs for all tables, expected %d, got %d''
        [show_nat (length ts), show_nat (length rows)])) d'"
    using assms(1,3,4) by (simp add: mysql_GetNextIDs_def go_defs update_results_empty)
  have "dom (row_value rows) = set ts \<longleftrightarrow> distinct (map tr_TableName rows)" if "length rows = length ts"
    by (rule row_value_complete [OF assms(2,5) that])
  with run show ?thesis by simp
qed

theorem next_ids_complete_witness:
  "(\<exists>ids. mysql_GetNextIDs twice_admin [''t'', ''other''] ex_server = Ret (Inr ids) ex_server \<and>
     dom ids \<noteq> set [''t'', ''other''])"
proof -
  have "length (ex_rows @ ex_rows) = length [''t'', ''other'']" "\<not> distinct (map tr_TableName (ex_rows @ ex_rows))"
    "tr_TableName ` set (ex_rows @ ex_rows) \<subseteq> set [''t'', ''other'']" by (simp_all add: ex_rows_def)
  with next_ids_complete [of "[''t'', ''other'']" twice_admin _ _ ex_server "ex_rows @ ex_rows" ex_server]
  show ?thesis by (simp del: append.simps) metis
qed

text \<open>
  C23. A unique constraint passes the check of \<^verbatim>\<open>ConstraintWillFail\<close>, without a look at the data, as soon
  as the table has a unique index over exactly the same columns.
\<close>

theorem unique_constraint_covered:
  assumes "db_Select_indexes (handle mdba) ''SHOW INDEX FROM `?` WHERE Non_unique = 0;'' [t] d = (Inr rows, d')"
    and "k \<in> KeyName ` set rows" and "index_columns rows k = set columns"
  shows "mysql_ConstraintWillFail mdba t UniqueConstraint columns d = Ret (Inr False) d'"
proof -
  have "list_ex (\<lambda>(key, existing). existing = set columns) (columnsByIndex rows)"
    using assms(2,3) by (auto simp: unique_shortcut_iff)
  with assms(1) show ?thesis
    by (simp add: mysql_ConstraintWillFail_def UniqueConstraint_def NotNullConstraint_def go_defs)
qed

theorem unique_constraint_covered_witness:
  "mysql_ConstraintWillFail stat_admin ''t'' UniqueConstraint [''c''] ex_server = Ret (Inr False) ex_server"
  by (rule unique_constraint_covered [where k = "''c_uniq''" and rows = ex_index])
     (force simp: ex_index_def index_columns_def image_iff)+

text \<open>
  C24. An administration interface is only built for a complete DSN: one that parses, with a user, a
  password, a database name and a registered driver.
\<close>

theorem complete_dsn:
  assumes "Open lib engines dsn eng d = Ret (Inr adm) d'"
  shows "\<exists>parsed handle d1 initFunc. dburl_Parse lib dsn = Inr parsed \<and> url_Username parsed \<noteq> [] \<and>
     url_Password parsed \<noteq> None \<and> 1 < length (url_Path parsed) \<and>
     dburl_Open lib dsn d = (Inr handle, d1) \<and> engines (url_Driver parsed) = Some initFunc \<and>
     initFunc handle (drop 1 (url_Path parsed)) eng d1 = Ret (Inr adm) d'"
  by (rule Open_Inr [OF assms])

theorem complete_dsn_witness:
  "\<exists>parsed handle d1 initFunc. dburl_Parse ref_lib ''dsn'' = Inr parsed \<and> url_Username parsed \<noteq> [] \<and>
     url_Password parsed \<noteq> None \<and> 1 < length (url_Path parsed) \<and>
     dburl_Open ref_lib ''dsn'' ex_server = (Inr handle, d1) \<and>
     mysql_init Map.empty (url_Driver parsed) = Some initFunc \<and>
     initFunc handle (drop 1 (url_Path parsed)) (Some alembic_CreateMigrationEngine) d1 =
       Ret (Inr (mysql_DbAdmin ex_admin)) ex_server"
  by (rule complete_dsn)
     (simp add: Open_def ref_lib_def mysql_init_def Register_def driverName_def CreateMySQLAdmin_def
       alembic_admin_def go_defs)

section \<open>Metrics\<close>

text \<open>
  C25. A collector only sends metrics it has described, in every run that returns.
\<close>

theorem collected_described:
  assumes "Collect visit bad dmc d = Ret evs d'"
  shows "event_desc ` set evs \<subseteq> set (Describe visit dmc)"
  by (rule Collect_described [OF assms])

theorem collected_described_witness:
  "\<exists>evs. Collect (\<lambda>xs. xs) (\<lambda>_ _. False) (NewDatabaseMetricsCollector (mysql_DbAdmin stat_admin) ''db''
       (Some \<lparr>TableEstimatedSize = Some [\<lparr>TableName = ''t''\<rparr>], TableNextID = None, SQLQuery = None\<rparr>)) ex_server
       = Ret evs ex_server \<and>
     event_desc ` set evs \<subseteq> set (Describe (\<lambda>xs. xs) (NewDatabaseMetricsCollector (mysql_DbAdmin stat_admin) ''db''
       (Some \<lparr>TableEstimatedSize = Some [\<lparr>TableName = ''t''\<rparr>], TableNextID = None, SQLQuery = None\<rparr>)))"
proof -
  let ?dmc = "NewDatabaseMetricsCollector (mysql_DbAdmin stat_admin) ''db''
       (Some \<lparr>TableEstimatedSize = Some [\<lparr>TableName = ''t''\<rparr>], TableNextID = None, SQLQuery = None\<rparr>)"
  have "\<exists>evs. Collect (\<lambda>xs. xs) (\<lambda>_ _. False) ?dmc ex_server = Ret evs ex_server"
    by (simp add: Collect_def NewDatabaseMetricsCollector_def mysql_DbAdmin_def go_defs opt_list_def
        mysql_GetTableSizeEstimates_def mysql_GetNextIDs_def sendResult_def
        MustNewConstMetric_def Let_def)
  then obtain evs where run: "Collect (\<lambda>xs. xs) (\<lambda>_ _. False) ?dmc ex_server = Ret evs ex_server" by blast
  from run collected_described [OF run] show ?thesis by blast
qed

text \<open>
  C26. What a collection sends for the configured tables: it asks for exactly these tables, and for each of
  them it sends one gauge, described by the metric's own name with the database and that table as labels,
  whose value is the number found for that table, or zero. After an error it sends nothing for them.
\<close>

theorem collector_tables:
  assumes "fair_visit visit"
    and "Collect visit bad (NewDatabaseMetricsCollector db dbName (Some ms)) d = Ret evs d'"
  shows "\<exists>r1 r2 d1 d2 rows ids queries.
    GetTableSizeEstimates db (map TableName (opt_list (TableEstimatedSize ms))) d = Ret r1 d1 \<and>
    GetNextIDs db (map TableName (opt_list (TableNextID ms))) d1 = Ret r2 d2 \<and>
    evs = rows @ ids @ queries \<and>
    sent_for ''database_table_rows_estimate'' ''Estimate of the number of rows in the specified table''
      dbName (opt_list (TableEstimatedSize ms)) r1 rows \<and>
    sent_for ''database_table_next_id'' ''The next id which will be assigned to a new row in the table''
      dbName (opt_list (TableNextID ms)) r2 ids"
  by (rule Collect_tables [OF assms])

theorem collector_tables_witness:
  "\<exists>evs r2 d2 rows ids queries. Collect (\<lambda>xs. xs) (\<lambda>_ _. False) (NewDatabaseMetricsCollector (mysql_DbAdmin stat_admin) ''db''
      (Some \<lparr>TableEstimatedSize = Some [\<lparr>TableName = ''t''\<rparr>], TableNextID = None, SQLQuery = None\<rparr>)) ex_server
      = Ret evs ex_server \<and> evs = rows @ ids @ queries \<and>
    sent_for ''database_table_rows_estimate'' ''Estimate of the number of rows in the specified table''
      ''db'' [\<lparr>TableName = ''t''\<rparr>] (Inr [''t'' \<mapsto> 7]) rows \<and>
    mysql_GetNextIDs stat_admin [] ex_server = Ret r2 d2 \<and>
    sent_for ''database_table_next_id'' ''The next id which will be assigned to a new row in the table'' ''db'' [] r2 ids"
proof -
  let ?ms = "\<lparr>TableEstimatedSize = Some [\<lparr>TableName = ''t''\<rparr>], TableNextID = None, SQLQuery = None\<rparr>"
  have "\<exists>evs. Collect (\<lambda>xs. xs) (\<lambda>_ _. False) (NewDatabaseMetricsCollector (mysql_DbAdmin stat_admin) ''db'' (Some ?ms))
      ex_server = Ret evs ex_server"
    by (simp add: Collect_def NewDatabaseMetricsCollector_def mysql_DbAdmin_def go_defs opt_list_def
        mysql_GetTableSizeEstimates_def mysql_GetNextIDs_def sendResult_def
        MustNewConstMetric_def Let_def)
  then obtain evs where run: "Collect (\<lambda>xs. xs) (\<lambda>_ _. False)
      (NewDatabaseMetricsCollector (mysql_DbAdmin stat_admin) ''db'' (Some ?ms)) ex_server = Ret evs ex_server" by blast
  have sizes: "mysql_GetTableSizeEstimates stat_admin [''t''] ex_server = Ret (Inr [''t'' \<mapsto> 7]) ex_server"
    by (simp add: mysql_GetTableSizeEstimates_def go_defs update_results_def ex_rows_def)
  have "fair_visit (\<lambda>xs. xs)" by (simp add: fair_visit_def)
  from collector_tables [OF this run] run sizes show ?thesis
    by (fastforce simp: mysql_DbAdmin_def opt_list_def)
qed

section \<open>Passwords\<close>

text \<open>
  C27. A generated password consists of 32 hexadecimal digits, and different random bytes give different
  passwords.
\<close>

theorem passwords:
  assumes "rand_Read c 16 (host s) = (Inr bs, h)" and "rand_Read c 16 (host s') = (Inr bs', h')"
    and "length bs = 16"
  shows "\<exists>pw pw'. randPassword c s = Ret (Inr pw) (s\<lparr>host := h\<rparr>) \<and>
    randPassword c s' = Ret (Inr pw') (s'\<lparr>host := h'\<rparr>) \<and>
    length pw = 32 \<and> set pw \<subseteq> set hex_digits \<and> (pw = pw' \<longleftrightarrow> bs = bs')"
  using assms set_hex [of bs]
  by (simp add: randPassword_def on_host_def go_defs hex_inj)

theorem passwords_witness:
  "\<exists>pw pw'. randPassword (ref_controller ex_migs) ex_sys = Ret (Inr pw) (ex_sys\<lparr>host := ()\<rparr>) \<and>
    randPassword (ref_controller ex_migs) ex_sys = Ret (Inr pw') (ex_sys\<lparr>host := ()\<rparr>) \<and>
    length pw = 32 \<and> set pw \<subseteq> set hex_digits \<and>
    (pw = pw' \<longleftrightarrow> (replicate 16 0 :: 8 word list) = replicate 16 0)"
  by (rule passwords)
     (simp_all add: ref_controller_def NewManagedDatabaseController_def ex_sys_def initial_sys_def)

section \<open>Copies\<close>

text \<open>
  C28. \<^verbatim>\<open>DeepCopyObject\<close> of a list of managed databases, given that the library's own types are copied deeply:
  it returns; the copy stands for the same value; and it is independent of the original: whatever is
  written to memory of the original afterwards leaves the copy as it is, and whatever is written to
  memory of the copy leaves the original as it is.
\<close>

theorem copies_independent:
  assumes "api_copies L W" and "store_ok H" and "view_pointer K_DbList (view_DbList W) H p = Some v"
  shows "wp (ManagedDatabaseList_DeepCopyObject L p) (\<lambda>obj H'. \<exists>q. obj = map_option Object_ManagedDatabaseList q \<and>
     view_pointer K_DbList (view_DbList W) H' q = Some v \<and>
     (\<forall>H''. same_at (- refs_pointer K_DbList (refs_DbList W) H p) H' H'' \<longrightarrow>
        view_pointer K_DbList (view_DbList W) H'' q = Some v) \<and>
     (\<forall>H''. same_at (- refs_pointer K_DbList (refs_DbList W) H' q) H' H'' \<longrightarrow>
        view_pointer K_DbList (view_DbList W) H'' p = Some v)) H"
  unfolding ManagedDatabaseList_DeepCopyObject_def
  by (rule wp_object [OF deep_copy.independent [OF api_copies.db_list_pointer [OF assms(1)] assms(2,3)]])

theorem copies_independent_witness:
  "\<exists>v. view_pointer K_DbList (view_DbList ref_readings) ex_memory (Some 6) = Some (Some v) \<and>
   wp (ManagedDatabaseList_DeepCopyObject ref_machinery (Some 6)) (\<lambda>obj H'. \<exists>q. obj = map_option Object_ManagedDatabaseList q \<and>
     view_pointer K_DbList (view_DbList ref_readings) H' q = Some (Some v) \<and>
     (\<forall>H''. same_at (- refs_pointer K_DbList (refs_DbList ref_readings) ex_memory (Some 6)) H' H'' \<longrightarrow>
        view_pointer K_DbList (view_DbList ref_readings) H'' q = Some (Some v)) \<and>
     (\<forall>H''. same_at (- refs_pointer K_DbList (refs_DbList ref_readings) H' q) H' H'' \<longrightarrow>
        view_pointer K_DbList (view_DbList ref_readings) H'' (Some 6) = Some (Some v))) ex_memory"
  using copies_independent [OF ref_copies.api_copies_axioms ex_memory_ok ex_memory_dbs] ex_memory_dbs by blast

section \<open>Test doubles\<close>

text \<open>
  C29. The fake administration interface keeps a true record: whatever calls are made on a new fake, whatever
  answers are set in between and whatever its stubs do, \<^verbatim>\<open>Invocations\<close> has for every method exactly the
  arguments the method has recorded, in the order of the calls, and nothing else.
\<close>

theorem fake_invocations_exact:
  assumes "fake_step\<^sup>*\<^sup>* (new_FakeDbAdmin, w) s"
  shows "FakeDbAdmin_Invocations (fst s) = logged (fst s)"
  using assms
proof (induction rule: rtranclp_induct)
  case base
  show ?case
    by (simp add: FakeDbAdmin_Invocations_def new_FakeDbAdmin_def logged_def call_logs_def new_method_def fun_eq_iff)
qed (simp add: FakeDbAdmin_Invocations_def fake_invocations_logged)

theorem fake_invocations_exact_witness:
  "\<exists>s. FakeDbAdmin_WriteCredentials ''u'' ''p'' (new_FakeDbAdmin, ()) = Ret None s \<and>
     FakeDbAdmin_Invocations (fst s) = logged (fst s) \<and>
     logged (fst s) ''WriteCredentials'' = Some [[AnyString ''u'', AnyString ''p'']]"
proof -
  have "\<exists>s. FakeDbAdmin_WriteCredentials ''u'' ''p'' (new_FakeDbAdmin, ()) = Ret None s \<and>
     logged (fst s) ''WriteCredentials'' = Some [[AnyString ''u'', AnyString ''p'']]"
    by (simp add: FakeDbAdmin_WriteCredentials_def fake_call_def go_defs answer_def new_FakeDbAdmin_def
        new_method_def record_args_def logged_def call_logs_def)
  then obtain s where run: "FakeDbAdmin_WriteCredentials ''u'' ''p'' (new_FakeDbAdmin, ()) = Ret None s"
    and log: "logged (fst s) ''WriteCredentials'' = Some [[AnyString ''u'', AnyString ''p'']]" by blast
  have "fake_step (new_FakeDbAdmin, ()) s"
    by (rule call_WriteCredentials [of "''u''" "''p''"]) (use run in \<open>auto simp: ends_def\<close>)
  from run log fake_invocations_exact [OF r_into_rtranclp [where r = fake_step, OF this]] show ?thesis by blast
qed

text \<open>
  C30. Goroutines that share a fake and use any of its methods but \<^verbatim>\<open>Invocations\<close>, one after the other and in
  any number, never block each other for good: in every state they can reach, one of them can go on, or
  all are done.
\<close>

theorem fakes_progress:
  assumes "go_step\<^sup>*\<^sup>* (gs, free_locks) c" and "list_all between gs"
  shows "\<not> deadlocked c"
  by (rule not_deadlocked [OF consistent_reachable [OF assms]])

theorem fakes_progress_witness:
  "\<not> deadlocked ([call_locks ''Close'', set_locks ''Close'' @ get_locks ''Close''], free_locks)"
proof (rule fakes_progress)
  have "between (get_locks ''Close'')" using before_get [OF between.finished] by simp
  then have "between (set_locks ''Close'' @ get_locks ''Close'')" by (rule before_set)
  moreover have "between (call_locks ''Close'')" using before_call [OF between.finished] by simp
  ultimately show "list_all between [call_locks ''Close'', set_locks ''Close'' @ get_locks ''Close'']" by simp
qed simp

section \<open>Where the code does something else than it means to\<close>

text \<open>
  C31. On a cycle of predecessors that does not contain the current version the handler never returns:
  reconciling such a database occupies the worker for good.
\<close>

theorem cyclic_chain_hangs:
  assumes "serves (Client c) (Namespace db) mig" and "DesiredSchemaVersion (Spec db) \<in> C"
    and "\<And>u. u \<in> C \<Longrightarrow> u \<noteq> cur \<and> u \<noteq> [] \<and> (\<exists>m. mig u = Some m \<and> prev_of m \<in> C)"
  shows "reconcileVersion c admin db cur s = Hang"
proof -
  have "\<not> chain_ends mig cur (DesiredSchemaVersion (Spec db))"
    by (rule closed_chain_not_ends [OF assms(3,2)])
  then have "findMigration (Client c) (Namespace db) (DesiredSchemaVersion (Spec db)) cur
      (DesiredSchemaVersion (Spec db)) None (kube s) = None"
    using findMigration_returned_ends assms(1) by (metis not_Some_eq)
  then show ?thesis by (simp add: reconcileVersion_def on_kube_def migrationToRun_def go_defs)
qed

theorem cyclic_chain_hangs_witness:
  "reconcileVersion (ref_controller [ex_migration ''v3'' ''v3'']) (mysql_DbAdmin ex_admin) ex_db ''v1'' ex_sys = Hang"
  by (rule cyclic_chain_hangs [where C = "{''v3''}" and mig = "ref_migration [ex_migration ''v3'' ''v3''] ''ns''"])
     (use ref_serves [of "[ex_migration ''v3'' ''v3'']" "''ns''"] in
       \<open>simp_all add: ex_db_def ref_migration_def ex_migration_def keyed_def\<close>)

text \<open>
  C32. When a ManagedDatabase has been deleted, the controller forgets nothing about it. The read that
  reports that the object is gone leaves the local object empty, so the link used for cleaning up is
  the empty one: the links and collectors stay, and the gauge is set to the old number.
\<close>

theorem stale_database_link:
  assumes "Get_ManagedDatabase (Client c) req zero_ManagedDatabase (kube s) = ((Some e, zero_ManagedDatabase), k')"
    and "IsNotFound e" and "[] \<notin> databaseLinks s" and "databaseMetricsCollectors s [] = None"
  shows "ReconcileManagedDatabase c req s = Ret (zero_Result, None)
    (s\<lparr>kube := k', ManagedDatabases := card (databaseLinks s)\<rparr>)"
  by (rule databaseNotFound_stale [OF assms])

theorem stale_database_link_witness:
  "ReconcileManagedDatabase (ref_controller ex_migs) (name_of ''ns'' ''gone'') (ex_sys\<lparr>databaseLinks := {''/gone''}\<rparr>) =
    Ret (zero_Result, None) (ex_sys\<lparr>databaseLinks := {''/gone''}, kube := ex_cluster, ManagedDatabases := 1\<rparr>)"
  using stale_database_link [of "ref_controller ex_migs" "name_of ''ns'' ''gone''"
      "ex_sys\<lparr>databaseLinks := {''/gone''}\<rparr>" not_found ex_cluster]
  by (simp add: ref_client_def ex_cluster_def ex_db_def keyed_def not_found_def ex_sys_def initial_sys_def)

text \<open>
  C33. A migration engine other than alembic is not refused: the connection is opened with a nil engine,
  and asking for the schema version panics.
\<close>

theorem unknown_engine_panics:
  assumes "eng \<noteq> ''alembic''" and "dbInitializer lib (mysql_init Map.empty) dsn eng d = Ret (Inr adm) d1"
  shows "\<exists>p. GetSchemaVersion adm d2 = Panic p d2"
proof -
  from assms have "Open lib (mysql_init Map.empty) dsn None d = Ret (Inr adm) d1"
    by (simp add: dbInitializer_def)
  from Open_Inr [OF this] obtain parsed :: ParsedURL and h d' initFunc where "mysql_init Map.empty (url_Driver parsed) = Some initFunc"
    and "initFunc h (drop 1 (url_Path parsed)) None d' = Ret (Inr adm) d1"
    by blast
  then have "adm = mysql_DbAdmin \<lparr>handle = h, database = drop 1 (url_Path parsed), engine = None\<rparr>"
    by (auto simp: mysql_init_def Register_def CreateMySQLAdmin_def go_defs split: if_splits)
  then show ?thesis
    by (simp add: mysql_DbAdmin_def mysql_GetSchemaVersion_def go_deref_def go_defs)
qed

theorem unknown_engine_panics_witness:
  "\<exists>adm. dbInitializer ref_lib (mysql_init Map.empty) ''dsn'' ''flyway'' ex_server = Ret (Inr adm) ex_server \<and>
     (\<exists>p. GetSchemaVersion adm ex_server = Panic p ex_server)"
proof -
  have "\<exists>adm. dbInitializer ref_lib (mysql_init Map.empty) ''dsn'' ''flyway'' ex_server = Ret (Inr adm) ex_server"
    by (simp add: dbInitializer_def Open_def ref_lib_def mysql_init_def Register_def driverName_def
        CreateMySQLAdmin_def go_defs)
  then obtain adm where run:
    "dbInitializer ref_lib (mysql_init Map.empty) ''dsn'' ''flyway'' ex_server = Ret (Inr adm) ex_server" by blast
  have "''flyway'' \<noteq> ''alembic''" by simp
  from run unknown_engine_panics [OF this run] show ?thesis by blast
qed

text \<open>
  C34. Which accounts the operator takes for its own: the underscore of the prefix \<^verbatim>\<open>dba_\<close> is a wildcard
  of \<^verbatim>\<open>LIKE\<close>, so \<^verbatim>\<open>ListUsernames\<close> returns every account whose name starts with \<^verbatim>\<open>dba\<close> and goes on. An
  account \<^verbatim>\<open>dbadmin\<close>, which does not have the prefix, is among them, and a successful reconciliation of the
  credentials leaves none.
\<close>

theorem listed_accounts:
  fixes s :: "('k, 'd, 'h) sys"
  assumes "fair_iteration c" and "mysql_ok mdba V (dbs s)"
  shows "wp (mysql_ListUsernames mdba DBUsernamePrefix) (\<lambda>r _. \<forall>us. r = Inr us \<longrightarrow>
      set us = {u \<in> mysql_users V (dbs s). \<exists>x rest. u = ''dba'' @ x # rest}) (dbs s) \<and>
    \<not> prefix DBUsernamePrefix ''dbadmin'' \<and>
    wp (reconcileCredentialsForVersion c ctx (mysql_DbAdmin mdba)) (\<lambda>r t.
      r = Inr () \<longrightarrow> ''dbadmin'' \<notin> mysql_users V (dbs t)) s"
proof (intro conjI)
  show "wp (mysql_ListUsernames mdba DBUsernamePrefix) (\<lambda>r _. \<forall>us. r = Inr us \<longrightarrow>
      set us = {u \<in> mysql_users V (dbs s). \<exists>x rest. u = ''dba'' @ x # rest}) (dbs s)"
  proof (rule wpp_mono [OF mysql_List_spec [OF assms(2)]], goal_cases)
    case (1 r d')
    then show ?case by (cases r) (simp_all only: sum.case mysql_listed_iff sum.simps simp_thms)
  qed simp_all
  show no: "\<not> prefix DBUsernamePrefix ''dbadmin''" by (simp add: DBUsernamePrefix_def)
  have listed: "mysql_listed ''dbadmin''" by (simp add: mysql_listed_iff)
  from no have "''dbadmin'' \<notin> set (desiredUsernames ctx)" using desiredUsernames_prefix by blast
  with listed show "wp (reconcileCredentialsForVersion c ctx (mysql_DbAdmin mdba)) (\<lambda>r t.
      r = Inr () \<longrightarrow> ''dbadmin'' \<notin> mysql_users V (dbs t)) s"
    by (intro wpp_mono [OF mysql_operator.reconcileCredentials_spec [OF assms]]) (auto simp: credentials_post_def)
qed

theorem listed_accounts_witness:
  "''dbadmin'' \<in> mysql_users ref_view ex_shared_server \<and>
   wp (mysql_ListUsernames ex_admin DBUsernamePrefix) (\<lambda>r _. \<forall>us. r = Inr us \<longrightarrow>
      set us = {u \<in> mysql_users ref_view ex_shared_server. \<exists>x rest. u = ''dba'' @ x # rest}) ex_shared_server \<and>
    \<not> prefix DBUsernamePrefix ''dbadmin'' \<and>
    wp (reconcileCredentialsForVersion (ref_controller ex_migs) ex_ctx (mysql_DbAdmin ex_admin)) (\<lambda>r t.
      r = Inr () \<longrightarrow> ''dbadmin'' \<notin> mysql_users ref_view (dbs t))
      (ex_sys\<lparr>dbs := ex_shared_server\<rparr>)"
  using listed_accounts [of "ref_controller ex_migs" ex_admin ref_view "ex_sys\<lparr>dbs := ex_shared_server\<rparr>" ex_ctx]
  by (simp add: ex_shared_ok) (simp add: mysql_users_def ref_view_def ex_shared_server_def ex_server_def)

text \<open>
  C35. When the hints of a migration cannot be checked, and the reason is not temporary, the database is blocked
  under a name made of the namespace of the migration and the name of the database: unless a write is refused,
  the stored object carries that label. Unless migration and database are called the same, this is not the
  label of the migration, so the database is not among those a change to the migration wakes up.
\<close>

theorem hints_error_label:
  fixes s :: "('k, 'd, 'h) sys"
  assumes "hintsEnabled ctx = Some (m, thr)"
    and "ProcessHints (iterate c) (NewHintsEngine (strcase_ToLowerCamel c) admin thr)
      (SchemaHints (mig_Spec m)) (dbs s) = Ret (Inl err) d'" and "\<not> is_temporary err"
    and "Name (mc_db ctx) \<noteq> Name m" and "CHR ''.'' \<notin> set (Namespace m)" and "Namespace m = Namespace (mc_db ctx)"
    and "Labels (mc_db ctx) \<noteq> None" and "db_api (Client c) view" and "status_law (Client c) view"
  shows "wp (checkHints c ctx admin) (\<lambda>r t. (\<exists>e. r = (zero_Result, Some e) \<and> refused (Client c) e) \<or>
     (r = (zero_Result, None) \<and>
      db_key (mc_db ctx) \<in> blocked_on view (name_of (Namespace m) (Name (mc_db ctx))) (kube t) \<and>
      db_key (mc_db ctx) \<notin> blocked_on view (name_of (Namespace m) (Name m)) (kube t))) s"
proof -
  let ?db = "mc_db ctx" and ?n = "name_of (Namespace m) (Name (mc_db ctx))"
  let ?e = "newMigrationErrorf ?n ''Migration contains an error: %w'' [] err"
  from assms(8) have update: "update_law (Client c) view" and keyed: "\<And>k n y. view k n = Some y \<Longrightarrow> db_key y = n"
    unfolding db_api_def by blast+
  have run: "checkHints c ctx admin s = fail c ?db ?e (s\<lparr>dbs := d'\<rparr>)"
    using assms(1,2) by (simp add: checkHints_def on_dbs_def go_defs)
  have blocked: "db_key ?db \<in> blocked_on view ?n k \<and> db_key ?db \<notin> blocked_on view (name_of (Namespace m) (Name m)) k"
    if "view k (db_key ?db) = Some y" "has_label BlockedByMigrationLabelKey (migrationLabelValue ?n) y" for k y
  proof -
    have "migrationLabelValue ?n \<noteq> migrationLabelValue (name_of (Namespace m) (Name m))"
      using assms(4,5) by (simp add: migrationLabelValue_eq)
    with that keyed [OF that(1)] assms(6) show ?thesis
      by (auto simp: blocked_on_def has_label_def split: option.splits)
  qed
  have "wp (fail c ?db ?e) (\<lambda>r t. (\<exists>e. r = (zero_Result, Some e) \<and> refused (Client c) e) \<or>
     (r = (zero_Result, None) \<and> db_key ?db \<in> blocked_on view ?n (kube t) \<and>
      db_key ?db \<notin> blocked_on view (name_of (Namespace m) (Name m)) (kube t))) (s\<lparr>dbs := d'\<rparr>)"
    unfolding fail_def wpp_on_kube
    by (rule wpp_mono [OF handleError_reported [OF assms(9) update assms(7)]])
       (use assms(3) blocked in \<open>auto simp: reported_def blocks_def\<close>)
  with run show ?thesis by (simp add: wpp_def)
qed

theorem hints_error_label_witness:
  "wp (checkHints (ref_controller ex_migs) ex_hint_ctx (mysql_DbAdmin stat_admin)) (\<lambda>r t.
     (\<exists>e. r = (zero_Result, Some e) \<and> refused (ref_client ex_migs) e) \<or>
     (r = (zero_Result, None) \<and>
      name_of ''ns'' ''db'' \<in> blocked_on ref_dbs (name_of ''ns'' ''db'') (kube t) \<and>
      name_of ''ns'' ''db'' \<notin> blocked_on ref_dbs (name_of ''ns'' ''v2'') (kube t))) ex_sys"
proof -
  let ?m = "(ex_migration ''v2'' ''v1'')\<lparr>mig_Spec := (mig_Spec (ex_migration ''v2'' ''v1''))\<lparr>
       SchemaHints := [(ex_hint ''createIndex'')\<lparr>hint_IndexType := ''btree''\<rparr>]\<rparr>\<rparr>"
  have enabled: "hintsEnabled ex_hint_ctx = Some (?m, 5)"
    by (simp add: hintsEnabled_def ex_hint_ctx_def)
  have run: "ProcessHints (iterate (ref_controller ex_migs))
      (NewHintsEngine (strcase_ToLowerCamel (ref_controller ex_migs)) (mysql_DbAdmin stat_admin) 5)
      (SchemaHints (mig_Spec ?m)) (dbs ex_sys) = Ret (Inl (Errorf ''Unknown index type: %s'' [''btree''])) ex_server"
    by (simp add: ProcessHints_def go_defs mysql_DbAdmin_def mysql_GetTableSizeEstimates_def NewHintsEngine_def
        ref_controller_def NewManagedDatabaseController_def processors_def ref_camel_def ex_hint_def CreateIndex_def
        tableNamesList_def set_of_def set_Add_def Let_def)
  from hints_error_label [OF enabled run, of ref_dbs] show ?thesis
    by (simp add: ref_db_api ref_status_law) (simp add: ex_hint_ctx_def ex_ctx_def ex_db_def ex_migration_def)
qed

text \<open>
  C36. A unique index hint never benefits from an existing unique index. The slice of column names the
  engine passes on starts with empty names, one per column, and no index has a column without a name;
  so although the table has a unique index over exactly the columns of the hint, the data is
  searched, and any row the search returns is reported as a violation.
\<close>

theorem covered_index_reported:
  assumes "hint_IndexType hint = ''unique''" and "Columns hint \<noteq> []"
    and "db_Select_indexes (handle mdba) ''SHOW INDEX FROM `?` WHERE Non_unique = 0;'' [TableName hint] d = (Inr rows, d1)"
    and "[] \<notin> ColumnName ` set rows" and "k \<in> KeyName ` set rows"
    and "index_columns rows k = col_Name ` set (Columns hint)"
    and "sqlx_In (handle mdba) ''SELECT COUNT(*) FROM `?` GROUP BY ? HAVING COUNT(*) > 1 LIMIT 1;''
      [Scalar (TableName hint), Slice (replicate (length (Columns hint)) [] @ map col_Name (Columns hint))] = Inr (q, as)"
    and "db_SliceScan (handle mdba) (db_Rebind (handle mdba) q) as d1 = (None, d2)"
  shows "CreateIndex (mysql_DbAdmin mdba) hint large d = Ret (Inr [newMigrationErrorF addUniqueIndexWillFail
    [TableName hint, show_strings (replicate (length (Columns hint)) [] @ map col_Name (Columns hint))]]) d2"
proof -
  let ?cols = "replicate (length (Columns hint)) [] @ map col_Name (Columns hint)"
  from assms(2) have "[] \<in> set ?cols" by (cases "Columns hint") auto
  moreover have "[] \<notin> index_columns rows k'" for k' using assms(4) by (auto simp: index_columns_def)
  ultimately have "index_columns rows k' \<noteq> set ?cols" for k' by metis
  then have "\<not> list_ex (\<lambda>(key, existing). existing = set ?cols) (columnsByIndex rows)"
    by (simp add: unique_shortcut_iff)
  with assms(1,3,7,8) show ?thesis
    by (simp add: CreateIndex_def Let_def mysql_DbAdmin_def mysql_ConstraintWillFail_def go_defs
        UniqueConstraint_def NotNullConstraint_def row_exists_def)
qed

theorem covered_index_reported_witness:
  "CreateIndex (mysql_DbAdmin stat_admin) (ex_hint ''createIndex'') False ex_server =
    Ret (Inr [newMigrationErrorF addUniqueIndexWillFail [TableName (ex_hint ''createIndex''),
      show_strings (replicate (length (Columns (ex_hint ''createIndex''))) [] @
        map col_Name (Columns (ex_hint ''createIndex'')))]]) ex_server"
  by (rule covered_index_reported [where k = "''c_uniq''" and rows = ex_index and mdba = stat_admin])
     (force simp: ex_hint_def ex_index_def index_columns_def image_iff)+

text \<open>
  C37. A secret that was lost, or that could not be written when its account was created, is never
  written again: once the accounts are the wanted ones, reconciling changes nothing, whichever secrets
  exist.
\<close>

theorem missing_secret_not_repaired:
  assumes "set existing = set (desiredUsernames ctx)" and "\<not> ReadOnly (Spec (mc_db ctx))"
    and "fair_iteration c"
  shows "reconcileUsers c ctx admin existingSecrets existing s = Ret (Inr ()) s"
  by (rule reconcileUsers_settled [OF assms])

theorem missing_secret_not_repaired_witness:
  "reconcileUsers (ref_controller ex_migs) ex_ctx (mysql_DbAdmin ex_admin) [] [''dba_v1''] ex_sys = Ret (Inr ()) ex_sys \<and>
   desiredSecretNames ex_ctx = [''db-v1'']"
proof
  have wanted: "desiredUsernames ex_ctx = [''dba_v1'']"
    by (simp add: desiredUsernames_def desiredVersionNames_def ex_ctx_def ex_migration_def set_of_def set_Add_def)
  show "reconcileUsers (ref_controller ex_migs) ex_ctx (mysql_DbAdmin ex_admin) [] [''dba_v1''] ex_sys = Ret (Inr ()) ex_sys"
    by (rule missing_secret_not_repaired) (simp_all add: wanted, simp add: ex_ctx_def ex_db_def zero_ManagedDatabase_def)
  show "desiredSecretNames ex_ctx = [''db-v1'']"
    by (simp add: desiredSecretNames_def desiredVersionNames_def ex_ctx_def ex_migration_def ex_db_def
        set_of_def set_Add_def)
qed

text \<open>
  C38. A fake can deadlock: a goroutine that calls any of its methods and one that asks for the invocations
  take the same two mutexes in opposite order, and can reach a state in which neither can go on.
\<close>

theorem fake_deadlock:
  assumes "key \<in> set fake_methods"
  shows "\<exists>c. go_step\<^sup>*\<^sup>* ([call_locks key, Invocations_locks], free_locks) c \<and> deadlocked c"
  by (rule call_against_Invocations [OF assms])

theorem fake_deadlock_witness:
  "\<exists>c. go_step\<^sup>*\<^sup>* ([call_locks ''ListUsernames'', Invocations_locks], free_locks) c \<and> deadlocked c"
  by (rule fake_deadlock) (simp add: fake_methods_def)

text \<open>
  C39. The command line flags of the operator cannot be used. They are defined after the command line has
  been parsed for the first time. So every command line that would set one of them, had they been defined
  before, wherever the flag stands, ends the process with code 2, as does every command line that begins with one
  of the arguments of the shipped deployment; and every process that gets past the flags runs with the default
  options.
\<close>

theorem flags_without_effect:
  assumes "dom own_flags \<inter> dom (imported_flags env) = {}"
  shows "(main env args = go_return (Some 2) \<or>
      main env args = runManager env \<lparr>MetricsBindAddress = '':8080'', LeaderElection = False\<rparr>) \<and>
    (\<forall>vals rest. flag_Parse (imported_flags env ++ own_flags) Map.empty args = Inr (vals, rest) \<and>
       dom vals \<inter> dom own_flags \<noteq> {} \<longrightarrow> main env args = go_return (Some 2)) \<and>
    main env (''--enable-leader-election'' # args) = go_return (Some 2) \<and>
    main env (''--metrics-addr=127.0.0.1:8080'' # args) = go_return (Some 2)"
proof (intro conjI allI impI)
  show "main env args = go_return (Some 2) \<or>
      main env args = runManager env \<lparr>MetricsBindAddress = '':8080'', LeaderElection = False\<rparr>"
    by (rule main_defaults [OF assms])
  show "main env args = go_return (Some 2)"
    if "flag_Parse (imported_flags env ++ own_flags) Map.empty args = Inr (vals, rest) \<and>
      dom vals \<inter> dom own_flags \<noteq> {}" for vals rest
    using that main_refuses_set [OF assms, of args vals rest] by blast
  show "main env (''--enable-leader-election'' # args) = go_return (Some 2)"
    by (rule main_refuses [OF _ _ assms, where name = "''enable-leader-election''" and v = None])
       (simp_all add: flag_name_def split_value_def own_flags_def)
  show "main env (''--metrics-addr=127.0.0.1:8080'' # args) = go_return (Some 2)"
    by (rule main_refuses [OF _ _ assms, where name = "''metrics-addr''" and v = "Some ''127.0.0.1:8080''"])
       (simp_all add: flag_name_def split_value_def own_flags_def)
qed

theorem flags_without_effect_witness:
  "main ex_process [''--kubeconfig'', ''f'', ''-metrics-addr'', '':9090''] = go_return (Some 2) \<and>
    main ex_process [''--enable-leader-election''] = go_return (Some 2) \<and>
    main ex_process [''--metrics-addr=127.0.0.1:8080''] = go_return (Some 2) \<and>
    main ex_process [] 0 = Ret None 7"
proof -
  have "main ex_process [] 0 = Ret None 7"
    by (simp add: main_def flag_Parse.simps ex_process_def own_flags_def runManager_def ref_manager_def
        SetupWithManager_def registerMetrics_def getAllMetrics_def go_defs Let_def)
  moreover have disjoint: "dom own_flags \<inter> dom (imported_flags ex_process) = {}"
    by (simp add: own_flags_def ex_process_def)
  moreover have "flag_Parse (imported_flags ex_process ++ own_flags) Map.empty
      [''--kubeconfig'', ''f'', ''-metrics-addr'', '':9090''] = Inr ([''kubeconfig'' \<mapsto> ''f'', ''metrics-addr'' \<mapsto> '':9090''], [])"
    by (simp add: flag_Parse.simps ex_process_def own_flags_def flag_name_def split_value_def parseValue_def)
  moreover have "dom [''kubeconfig'' \<mapsto> ''f'', ''metrics-addr'' \<mapsto> '':9090''] \<inter> dom own_flags \<noteq> {}"
    by (auto simp: own_flags_def)
  ultimately show ?thesis using flags_without_effect [OF disjoint] by blast
qed

end
